(* ===== verification/Prelude.thy ===== *)
theory Prelude
  imports Main "HOL-Library.State_Monad"
begin

text \<open>
  Shared vocabulary of the development: Go's error values, the gRPC status codes, and the
  small program logic for code that talks to its environment.

  A Go \<open>error\<close> that may be nil is an \<open>error option\<close>; a pair \<open>(value, error)\<close> of which
  the value is meaningless on error is an \<open>error + 'a\<close>. Messages keep the constant part of
  the format string; data interpolated with \<open>%v\<close>, \<open>%q\<close>, \<open>%d\<close> is dropped, an error wrapped
  with \<open>%w\<close> is kept, since \<open>errors.Is\<close> looks through it.
\<close>

section \<open>Go errors\<close>

datatype sentinel =
    ErrNotExist | ErrExist | ErrShortWrite
  | ErrProcessOwnership | ErrSystemdQuery
  | ErrStartingCredentialsRequired | ErrStartingCleanupRequired
  | ErrActiveMountUnhealthy | EBUSY

datatype code =
    OK | InvalidArgument | NotFound | AlreadyExists | PermissionDenied
  | FailedPrecondition | Unimplemented | Internal | Unavailable | Unknown

datatype error =
    Sentinel sentinel
  | Errorf string
  | Wrap string error
  | Joined "error list"
  | Status code string

fun errors_Is :: "error \<Rightarrow> sentinel \<Rightarrow> bool" where
  "errors_Is (Sentinel s) t = (s = t)"
| "errors_Is (Errorf m) t = False"
| "errors_Is (Wrap m e) t = errors_Is e t"
| "errors_Is (Joined es) t = list_ex (\<lambda>e. errors_Is e t) es"
| "errors_Is (Status c m) t = False"

text \<open>\<open>status.Code\<close>: nil is OK, an error without a status is Unknown.\<close>

fun status_of :: "error \<Rightarrow> code" where
  "status_of (Status c m) = c"
| "status_of (Wrap m e) = status_of e"
| "status_of e = Unknown"

definition status_Code :: "error option \<Rightarrow> code" where
  "status_Code e = (case e of None \<Rightarrow> OK | Some e \<Rightarrow> status_of e)"

text \<open>\<open>errors.Join\<close>: nil when nothing is joined.\<close>

definition errors_Join :: "error list \<Rightarrow> error option" where
  "errors_Join es = (if es = [] then None else Some (Joined es))"

definition err_list :: "error option \<Rightarrow> error list" where
  "err_list e = (case e of None \<Rightarrow> [] | Some e \<Rightarrow> [e])"

lemma errors_Join_None [simp]: "errors_Join es = None \<longleftrightarrow> es = []"
  by (simp add: errors_Join_def)

lemma err_list_Nil [simp]: "err_list e = [] \<longleftrightarrow> e = None"
  by (simp add: err_list_def split: option.splits)

lemma err_list_simps [simp]: "err_list None = []" "err_list (Some e) = [e]"
  by (simp_all add: err_list_def)

section \<open>Sequencing of fallible pure code\<close>

text \<open>
  \<open>if err != nil { return err }\<close> after a pure call. \<open>check\<close> is the guard form.
\<close>

definition ebind :: "'e + 'a \<Rightarrow> ('a \<Rightarrow> 'e + 'b) \<Rightarrow> 'e + 'b" where
  "ebind r f = (case r of Inl e \<Rightarrow> Inl e | Inr x \<Rightarrow> f x)"

definition echeck :: "'e option \<Rightarrow> 'e + 'b \<Rightarrow> 'e + 'b" where
  "echeck r k = (case r of Some e \<Rightarrow> Inl e | None \<Rightarrow> k)"

definition err_of :: "'e + 'a \<Rightarrow> 'e option" where
  "err_of r = (case r of Inl e \<Rightarrow> Some e | Inr x \<Rightarrow> None)"

text \<open>A list of guards in the order the code tests them: the first that fails is returned.\<close>

fun first_error :: "'e option list \<Rightarrow> 'e option" where
  "first_error [] = None"
| "first_error (None # rs) = first_error rs"
| "first_error (Some e # rs) = Some e"

definition fail_if :: "bool \<Rightarrow> 'e \<Rightarrow> 'e option" where
  "fail_if b e = (if b then Some e else None)"

lemma first_error_None: "first_error rs = None \<longleftrightarrow> (\<forall>r\<in>set rs. r = None)"
  by (induction rs rule: first_error.induct) auto

lemma first_error_Cons_None [simp]: "first_error (r # rs) = None \<longleftrightarrow> r = None \<and> first_error rs = None"
  by (cases r) auto

lemma fail_if_None [simp]: "fail_if b e = None \<longleftrightarrow> \<not> b"
  by (simp add: fail_if_def)

lemma fail_if_simps [simp]: "fail_if True e = Some e" "fail_if False e = None"
  by (simp_all add: fail_if_def)

lemma ebind_Inr [simp]: "ebind r f = Inr y \<longleftrightarrow> (\<exists>x. r = Inr x \<and> f x = Inr y)"
  by (cases r) (auto simp: ebind_def)

lemma ebind_simps [simp]: "ebind (Inl e) f = Inl e" "ebind (Inr x) f = f x"
  by (simp_all add: ebind_def)

lemma echeck_Inr [simp]: "echeck r k = Inr y \<longleftrightarrow> r = None \<and> k = Inr y"
  by (cases r) (auto simp: echeck_def)

lemma echeck_simps [simp]: "echeck None k = k" "echeck (Some e) k = Inl e"
  by (simp_all add: echeck_def)

lemma err_of_None [simp]: "err_of r = None \<longleftrightarrow> (\<exists>x. r = Inr x)"
  by (cases r) (auto simp: err_of_def)

lemma err_of_simps [simp]: "err_of (Inl e) = Some e" "err_of (Inr x) = None"
  by (simp_all add: err_of_def)

section \<open>A logic for programs that emit events\<close>

text \<open>
  Effectful code runs in the state monad over the history of its interactions with the
  environment, newest event first. Code only ever extends the history; \<open>emits m \<Phi>\<close> says
  that every run of \<open>m\<close>, from any history, extends it by events \<open>new\<close> and returns a value
  \<open>a\<close> such that \<open>\<Phi> a new\<close> holds. The postcondition does not see the history before the
  run, because the environment may answer differently after different histories.
\<close>

definition emits :: "('e list, 'a) state \<Rightarrow> ('a \<Rightarrow> 'e list \<Rightarrow> bool) \<Rightarrow> bool" where
  "emits m \<Phi> \<longleftrightarrow>
     (\<forall>tr. \<exists>new. snd (run_state m tr) = new @ tr \<and> \<Phi> (fst (run_state m tr)) new)"

named_theorems emits_intro "postconditions of the primitives, for the program logic"

lemma emits_conseq: "emits m \<Phi> \<Longrightarrow> (\<And>a new. \<Phi> a new \<Longrightarrow> \<Psi> a new) \<Longrightarrow> emits m \<Psi>"
  unfolding emits_def by metis

lemma emits_return: "\<Phi> a [] \<Longrightarrow> emits (State_Monad.return a) \<Phi>"
  by (simp add: emits_def State_Monad.return_def)

lemma emits_bind:
  assumes m: "emits m \<Phi>"
    and f: "\<And>a. emits (f a) (\<Psi> a)"
    and c: "\<And>a n1 b n2. \<Phi> a n1 \<Longrightarrow> \<Psi> a b n2 \<Longrightarrow> \<Omega> b (n2 @ n1)"
  shows "emits (State_Monad.bind m f) \<Omega>"
  unfolding emits_def
proof
  fix tr
  obtain a tr1 where r1: "run_state m tr = (a, tr1)" by force
  from m r1 obtain n1 where n1: "tr1 = n1 @ tr" "\<Phi> a n1"
    unfolding emits_def by (metis fst_conv snd_conv)
  obtain b tr2 where r2: "run_state (f a) tr1 = (b, tr2)" by force
  from f [of a] r2 obtain n2 where n2: "tr2 = n2 @ tr1" "\<Psi> a b n2"
    unfolding emits_def by (metis fst_conv snd_conv)
  show "\<exists>new. snd (run_state (State_Monad.bind m f) tr) = new @ tr \<and>
      \<Omega> (fst (run_state (State_Monad.bind m f) tr)) new"
    using r1 r2 n1 n2 c by (auto simp: State_Monad.bind_def intro!: exI [of _ "n2 @ n1"])
qed

lemma emits_bind_pre:
  assumes "emits m \<Phi>" and "\<And>a n1. \<Phi> a n1 \<Longrightarrow> emits (f a) (\<lambda>b n2. \<Omega> b (n2 @ n1))"
  shows "emits (State_Monad.bind m f) \<Omega>"
  unfolding emits_def
proof
  fix tr
  obtain a tr1 where r1: "run_state m tr = (a, tr1)" by force
  from assms(1) r1 obtain n1 where n1: "tr1 = n1 @ tr" "\<Phi> a n1"
    unfolding emits_def by (metis fst_conv snd_conv)
  obtain b tr2 where r2: "run_state (f a) tr1 = (b, tr2)" by force
  from assms(2) [OF n1(2)] r2 obtain n2 where n2: "tr2 = n2 @ tr1" "\<Omega> b (n2 @ n1)"
    unfolding emits_def by (metis fst_conv snd_conv)
  show "\<exists>new. snd (run_state (State_Monad.bind m f) tr) = new @ tr \<and>
      \<Omega> (fst (run_state (State_Monad.bind m f) tr)) new"
    using r1 r2 n1 n2 by (auto simp: State_Monad.bind_def intro!: exI [of _ "n2 @ n1"])
qed

lemma emits_bindI: "emits m (\<lambda>a n1. emits (f a) (\<lambda>b n2. \<Omega> b (n2 @ n1))) \<Longrightarrow>
    emits (State_Monad.bind m f) \<Omega>"
  by (rule emits_bind_pre)

lemma emits_run: "emits m \<Phi> \<Longrightarrow> run_state m tr = (a, tr') \<Longrightarrow> \<exists>new. tr' = new @ tr \<and> \<Phi> a new"
  unfolding emits_def by (metis fst_conv snd_conv)

lemma emits_ran: "emits m \<Phi> \<Longrightarrow> run_state m tr = (a, new @ tr) \<Longrightarrow> \<Phi> a new"
  by (drule emits_run) auto

text \<open>Every event the program emits satisfies \<open>A\<close>.\<close>

definition emits_only :: "('e \<Rightarrow> bool) \<Rightarrow> ('e list, 'a) state \<Rightarrow> bool" where
  "emits_only A m \<longleftrightarrow> emits m (\<lambda>_ new. \<forall>e\<in>set new. A e)"

lemma emits_only_return [emits_intro]: "emits_only A (State_Monad.return a)"
  by (simp add: emits_only_def emits_return)

lemma emits_only_bind [emits_intro]:
  "emits_only A m \<Longrightarrow> (\<And>a. emits_only A (f a)) \<Longrightarrow> emits_only A (State_Monad.bind m f)"
  unfolding emits_only_def
  by (rule emits_bind [where \<Phi> = "\<lambda>_ new. \<forall>e\<in>set new. A e"
      and \<Psi> = "\<lambda>_ _ new. \<forall>e\<in>set new. A e"]) auto

lemma emits_only_mono: "emits_only A m \<Longrightarrow> (\<And>e. A e \<Longrightarrow> B e) \<Longrightarrow> emits_only B m"
  unfolding emits_only_def by (erule emits_conseq) auto

lemma emits_only_if [emits_intro]:
  "(b \<Longrightarrow> emits_only A m) \<Longrightarrow> (\<not> b \<Longrightarrow> emits_only A n) \<Longrightarrow> emits_only A (if b then m else n)"
  by simp

lemma emits_only_sum [emits_intro]:
  "(\<And>x. emits_only A (f x)) \<Longrightarrow> (\<And>y. emits_only A (g y)) \<Longrightarrow>
   emits_only A (case r of Inl x \<Rightarrow> f x | Inr y \<Rightarrow> g y)"
  by (cases r) auto

lemma emits_only_option [emits_intro]:
  "emits_only A m \<Longrightarrow> (\<And>y. emits_only A (g y)) \<Longrightarrow>
   emits_only A (case r of None \<Rightarrow> m | Some y \<Rightarrow> g y)"
  by (cases r) auto

lemma emits_only_prod [emits_intro]:
  "(\<And>x y. emits_only A (f x y)) \<Longrightarrow> emits_only A (case p of (x, y) \<Rightarrow> f x y)"
  by (cases p) auto

lemma emits_only_let [emits_intro]: "emits_only A (f x) \<Longrightarrow> emits_only A (let y = x in f y)"
  by simp

text \<open>
  Write-ahead order on a newest-first list: every event satisfying \<open>B\<close> has an earlier event
  satisfying \<open>A\<close>.
\<close>

fun preceded_by :: "('e \<Rightarrow> bool) \<Rightarrow> ('e \<Rightarrow> bool) \<Rightarrow> 'e list \<Rightarrow> bool" where
  "preceded_by A B [] = True"
| "preceded_by A B (e # earlier) =
     ((B e \<longrightarrow> list_ex A earlier) \<and> preceded_by A B earlier)"

lemma preceded_by_no: "(\<forall>e\<in>set new. \<not> B e) \<Longrightarrow> preceded_by A B new"
  by (induction new) auto

lemma preceded_by_append:
  "preceded_by A B n1 \<Longrightarrow> preceded_by A B n2 \<or> list_ex A n1 \<Longrightarrow> preceded_by A B (n2 @ n1)"
  by (induction n2) (auto simp: list_ex_iff)

lemma preceded_by_split:
  "preceded_by A B (later @ e # earlier) \<Longrightarrow> B e \<Longrightarrow> \<exists>a\<in>set earlier. A a"
  by (induction later) (auto simp: list_ex_iff)

text \<open>
  Guarded actions on a newest-first list: \<open>G e h\<close> holds of every event \<open>e\<close> and the history
  \<open>h\<close> before it.
\<close>

fun guarded :: "('e \<Rightarrow> 'e list \<Rightarrow> bool) \<Rightarrow> 'e list \<Rightarrow> bool" where
  "guarded G [] = True"
| "guarded G (e # earlier) = (G e earlier \<and> guarded G earlier)"

lemma guarded_append [simp]:
  "guarded G (n2 @ n1) \<longleftrightarrow> guarded (\<lambda>e h. G e (h @ n1)) n2 \<and> guarded G n1"
  by (induction n2) auto

lemma guarded_free: "\<forall>e\<in>set n. \<forall>h. G e h \<Longrightarrow> guarded G n"
  by (induction n) auto

lemma guarded_split: "guarded G (later @ e # earlier) \<Longrightarrow> G e earlier"
  by simp

lemma guarded_mono: "guarded G n \<Longrightarrow> (\<And>e h. G e h \<Longrightarrow> G' e h) \<Longrightarrow> guarded G' n"
  by (induction n) auto

end
