(* ===== verification/GoStrings.thy ===== *)
theory GoStrings
  imports Prelude
begin

text \<open>
  The functions of Go's \<open>strings\<close> and \<open>strconv\<close> packages the driver uses, over byte
  strings: a Go string is a \<^typ>\<open>string\<close> whose characters are its bytes. White space is
  Unicode's, recognised on the UTF-8 bytes (the encoding is self-synchronising, so a
  white-space rune is found by its byte sequence).
\<close>

type_synonym bytes = string

section \<open>Prefixes, suffixes, cutting\<close>

definition HasPrefix :: "string \<Rightarrow> string \<Rightarrow> bool" where
  "HasPrefix s p \<longleftrightarrow> take (length p) s = p"

definition HasSuffix :: "string \<Rightarrow> string \<Rightarrow> bool" where
  "HasSuffix s p \<longleftrightarrow> length p \<le> length s \<and> drop (length s - length p) s = p"

definition TrimPrefix :: "string \<Rightarrow> string \<Rightarrow> string" where
  "TrimPrefix s p = (if HasPrefix s p then drop (length p) s else s)"

definition TrimSuffix :: "string \<Rightarrow> string \<Rightarrow> string" where
  "TrimSuffix s p = (if HasSuffix s p then take (length s - length p) s else s)"

definition TrimLeft :: "string \<Rightarrow> string \<Rightarrow> string" where
  "TrimLeft s chars = dropWhile (\<lambda>c. c \<in> set chars) s"

definition TrimRight :: "string \<Rightarrow> string \<Rightarrow> string" where
  "TrimRight s chars = rev (dropWhile (\<lambda>c. c \<in> set chars) (rev s))"

definition Trim :: "string \<Rightarrow> string \<Rightarrow> string" where
  "Trim s chars = TrimRight (TrimLeft s chars) chars"

fun strContains :: "string \<Rightarrow> string \<Rightarrow> bool" where
  "strContains [] sub = (sub = [])"
| "strContains (c # s) sub = (HasPrefix (c # s) sub \<or> strContains s sub)"

fun IndexByte :: "string \<Rightarrow> char \<Rightarrow> nat option" where
  "IndexByte [] b = None"
| "IndexByte (c # s) b = (if c = b then Some 0 else map_option Suc (IndexByte s b))"

fun Cut :: "string \<Rightarrow> char \<Rightarrow> (string \<times> string) option" where
  "Cut [] b = None"
| "Cut (c # s) b = (if c = b then Some ([], s) else map_option (\<lambda>(l, r). (c # l, r)) (Cut s b))"

lemma HasPrefix_append [simp]: "HasPrefix (p @ s) p"
  by (simp add: HasPrefix_def)

lemma HasPrefixE: "HasPrefix s p \<Longrightarrow> (\<And>r. s = p @ r \<Longrightarrow> thesis) \<Longrightarrow> thesis"
  unfolding HasPrefix_def by (metis append_take_drop_id)

lemma HasPrefix_iff: "HasPrefix s p \<longleftrightarrow> (\<exists>r. s = p @ r)"
  by (auto elim: HasPrefixE)

lemma HasPrefix_Cons [simp]: "HasPrefix (c # s) [d] \<longleftrightarrow> c = d" "\<not> HasPrefix [] [d]"
  by (auto simp: HasPrefix_def)

lemma HasSuffix_iff: "HasSuffix s p \<longleftrightarrow> (\<exists>r. s = r @ p)"
  unfolding HasSuffix_def
  by (metis append_eq_conv_conj append_take_drop_id diff_le_self le_add2 length_append
      length_drop length_take min.absorb2 add_diff_cancel_right')

lemma HasSuffix_append [simp]: "HasSuffix (s @ p) p"
  by (auto simp: HasSuffix_iff)

lemma TrimPrefix_append [simp]: "TrimPrefix (p @ s) p = s"
  by (simp add: TrimPrefix_def)

lemma Cut_append: "b \<notin> set l \<Longrightarrow> Cut (l @ b # r) b = Some (l, r)"
  by (induction l) auto

lemma Cut_Some: "Cut s b = Some (l, r) \<Longrightarrow> s = l @ b # r \<and> b \<notin> set l"
  by (induction s arbitrary: l) (auto split: if_splits)

lemma Cut_None [simp]: "Cut s b = None \<longleftrightarrow> b \<notin> set s"
  by (induction s) auto

lemma IndexByte_Some: "IndexByte s b = Some i \<Longrightarrow> i < length s \<and> s ! i = b \<and> b \<notin> set (take i s)"
  by (induction s arbitrary: i) (auto split: if_splits)

lemma IndexByte_None [simp]: "IndexByte s b = None \<longleftrightarrow> b \<notin> set s"
  by (induction s) auto

lemma IndexByte_append: "b \<notin> set l \<Longrightarrow> IndexByte (l @ b # r) b = Some (length l)"
  by (induction l) auto

section \<open>Split and Join\<close>

fun Split :: "char \<Rightarrow> string \<Rightarrow> string list" where
  "Split b [] = [[]]"
| "Split b (c # s) =
     (if c = b then [] # Split b s
      else (case Split b s of [] \<Rightarrow> [[c]] | p # ps \<Rightarrow> (c # p) # ps))"

fun Join :: "string list \<Rightarrow> string \<Rightarrow> string" where
  "Join [] sep = []"
| "Join [x] sep = x"
| "Join (x # y # xs) sep = x @ sep @ Join (y # xs) sep"

lemma Split_nonempty [simp]: "Split b s \<noteq> []"
  by (induction s) (auto split: list.splits)

lemma Join_Cons: "xs \<noteq> [] \<Longrightarrow> Join (x # xs) sep = x @ sep @ Join xs sep"
  by (cases xs) auto

lemma Join_Split: "Join (Split b s) [b] = s"
proof (induction s)
  case Nil
  then show ?case by simp
next
  case (Cons c s)
  obtain p ps where "Split b s = p # ps" using Split_nonempty by (meson neq_Nil_conv)
  with Cons show ?case by (cases ps) auto
qed

lemma Split_parts: "p \<in> set (Split b s) \<Longrightarrow> b \<notin> set p"
  by (induction s arbitrary: p) (auto split: list.splits if_splits)

lemma Split_noop: "b \<notin> set s \<Longrightarrow> Split b s = [s]"
  by (induction s) auto

lemma Split_append: "b \<notin> set p \<Longrightarrow> Split b (p @ b # s) = p # Split b s"
  by (induction p) auto

lemma Split_Join: "xs \<noteq> [] \<Longrightarrow> \<forall>x\<in>set xs. b \<notin> set x \<Longrightarrow> Split b (Join xs [b]) = xs"
  by (induction xs "[b]" rule: Join.induct) (auto simp: Split_noop Split_append)

lemma set_Split: "p \<in> set (Split b s) \<Longrightarrow> set p \<subseteq> set s"
  by (induction s arbitrary: p) (fastforce split: list.splits if_splits)+

lemma set_Join: "set (Join xs sep) \<subseteq> \<Union> (set ` set xs) \<union> set sep"
  by (induction xs sep rule: Join.induct) auto

section \<open>White space\<close>

definition spaceRunes :: "string list" where
  "spaceRunes =
     [[CHR 0x20], [CHR 0x09], [CHR 0x0A], [CHR 0x0B], [CHR 0x0C], [CHR 0x0D],
      [CHR 0xC2, CHR 0x85], [CHR 0xC2, CHR 0xA0], [CHR 0xE1, CHR 0x9A, CHR 0x80]]
     @ map (\<lambda>b. [CHR 0xE2, CHR 0x80, b])
        [CHR 0x80, CHR 0x81, CHR 0x82, CHR 0x83, CHR 0x84, CHR 0x85, CHR 0x86, CHR 0x87,
         CHR 0x88, CHR 0x89, CHR 0x8A, CHR 0xA8, CHR 0xA9, CHR 0xAF]
     @ [[CHR 0xE2, CHR 0x81, CHR 0x9F], [CHR 0xE3, CHR 0x80, CHR 0x80]]"

text \<open>The number of bytes of the rune of \<open>runes\<close> that \<open>s\<close> starts with; 0 if there is none.\<close>

definition runeLen :: "string list \<Rightarrow> string \<Rightarrow> nat" where
  "runeLen runes s =
     (case find (\<lambda>r. r \<noteq> [] \<and> HasPrefix s r) runes of None \<Rightarrow> 0 | Some r \<Rightarrow> length r)"

lemma runeLen_le: "runeLen runes s \<le> length s"
  by (auto simp: runeLen_def HasPrefix_iff find_Some_iff split: option.splits)

lemma runeLen_Nil [simp]: "runeLen runes [] = 0"
  using runeLen_le [of runes "[]"] by simp

lemma runeLen_0: "runeLen runes s = 0 \<longleftrightarrow> (\<forall>r\<in>set runes. r \<noteq> [] \<longrightarrow> \<not> HasPrefix s r)"
  by (auto simp: runeLen_def find_None_iff find_Some_iff split: option.splits)

function stripRunes :: "string list \<Rightarrow> string \<Rightarrow> string" where
  "stripRunes runes s =
     (let n = runeLen runes s in if n = 0 then s else stripRunes runes (drop n s))"
  by pat_completeness auto
termination
proof (relation "measure (\<lambda>(runes, s). length s)", goal_cases)
  case (2 runes s n)
  then have "s \<noteq> []" by (metis runeLen_Nil)
  with 2 show ?case by simp
qed simp

declare stripRunes.simps [simp del]

definition TrimSpace :: "string \<Rightarrow> string" where
  "TrimSpace s =
     rev (stripRunes (map rev spaceRunes) (rev (stripRunes spaceRunes s)))"

lemma stripRunes_suffix: "\<exists>p. s = p @ stripRunes runes s"
proof (induction runes s rule: stripRunes.induct)
  case (1 runes s)
  show ?case
  proof (cases "runeLen runes s = 0")
    case True
    then show ?thesis by (simp add: stripRunes.simps [of runes s])
  next
    case False
    with 1 obtain p where "drop (runeLen runes s) s = p @ stripRunes runes s"
      by (auto simp: stripRunes.simps [of runes s] Let_def)
    then show ?thesis by (metis append.assoc append_take_drop_id)
  qed
qed

lemma runeLen_stripRunes [simp]: "runeLen runes (stripRunes runes s) = 0"
proof (induction runes s rule: stripRunes.induct)
  case (1 runes s)
  then show ?case
    by (cases "runeLen runes s = 0") (auto simp: stripRunes.simps [of runes s] Let_def)
qed

lemma stripRunes_noop: "runeLen runes s = 0 \<Longrightarrow> stripRunes runes s = s"
  by (simp add: stripRunes.simps [of runes s])

lemma runeLen_prefix: "runeLen runes (p @ q) = 0 \<Longrightarrow> runeLen runes p = 0"
  by (auto simp: runeLen_0 HasPrefix_iff)

definition noSpaceEnds :: "string \<Rightarrow> bool" where
  "noSpaceEnds s \<longleftrightarrow> runeLen spaceRunes s = 0 \<and> runeLen (map rev spaceRunes) (rev s) = 0"

lemma TrimSpace_noop: "noSpaceEnds s \<Longrightarrow> TrimSpace s = s"
  by (simp add: TrimSpace_def noSpaceEnds_def stripRunes_noop)

lemma noSpaceEnds_TrimSpace: "noSpaceEnds (TrimSpace s)"
proof -
  let ?l = "stripRunes spaceRunes s"
  obtain q where "rev ?l = q @ stripRunes (map rev spaceRunes) (rev ?l)"
    using stripRunes_suffix by blast
  then have "?l = TrimSpace s @ rev q"
    by (metis TrimSpace_def rev_append rev_rev_ident)
  then have "runeLen spaceRunes (TrimSpace s) = 0"
    by (metis runeLen_prefix runeLen_stripRunes)
  then show ?thesis by (simp add: noSpaceEnds_def TrimSpace_def)
qed

lemma TrimSpace_idem [simp]: "TrimSpace (TrimSpace s) = TrimSpace s"
  by (simp add: TrimSpace_noop noSpaceEnds_TrimSpace)

lemma TrimSpace_iff: "TrimSpace s = s \<longleftrightarrow> noSpaceEnds s"
  by (metis TrimSpace_noop noSpaceEnds_TrimSpace)

lemma set_TrimSpace: "set (TrimSpace s) \<subseteq> set s"
proof -
  obtain p where "s = p @ stripRunes spaceRunes s" using stripRunes_suffix by blast
  moreover obtain q where "rev (stripRunes spaceRunes s) =
      q @ stripRunes (map rev spaceRunes) (rev (stripRunes spaceRunes s))"
    using stripRunes_suffix by blast
  ultimately show ?thesis
    unfolding TrimSpace_def by (metis Un_iff set_append set_rev subsetI)
qed

lemma TrimSpace_Nil [simp]: "TrimSpace [] = []"
  by (simp add: TrimSpace_noop noSpaceEnds_def)

text \<open>Visible ASCII at both ends is enough for \<open>TrimSpace\<close> to leave a string alone.\<close>

definition visibleASCII :: "char \<Rightarrow> bool" where
  "visibleASCII c \<longleftrightarrow> (33::nat) \<le> of_char c \<and> of_char c < (127::nat)"

lemma runeLen_visible:
  assumes "visibleASCII c"
  shows "runeLen spaceRunes (c # s) = 0" and "runeLen (map rev spaceRunes) (c # s) = 0"
  using assms by (auto simp: runeLen_0 spaceRunes_def HasPrefix_iff visibleASCII_def)

lemma noSpaceEnds_visible:
  "s = [] \<or> (visibleASCII (hd s) \<and> visibleASCII (last s)) \<Longrightarrow> noSpaceEnds s"
proof (cases "s = []")
  case False
  assume "s = [] \<or> (visibleASCII (hd s) \<and> visibleASCII (last s))"
  moreover from False have "rev s = last s # rev (butlast s)"
    by (metis append_butlast_last_id rev_eq_Cons_iff rev_rev_ident)
  moreover from False have "s = hd s # tl s" by simp
  ultimately show ?thesis using False by (metis noSpaceEnds_def runeLen_visible)
qed (simp add: noSpaceEnds_def)

lemma TrimSpace_visible: "\<forall>c\<in>set s. visibleASCII c \<Longrightarrow> TrimSpace s = s"
  by (intro TrimSpace_noop noSpaceEnds_visible) auto

text \<open>\<open>strings.Fields\<close>: maximal runs of bytes between white-space runes.\<close>

function fieldsAux :: "string \<Rightarrow> string \<Rightarrow> string list" where
  "fieldsAux cur [] = (if cur = [] then [] else [rev cur])"
| "fieldsAux cur (c # s) =
     (let n = runeLen spaceRunes (c # s)
      in if n = 0 then fieldsAux (c # cur) s
         else (if cur = [] then [] else [rev cur]) @ fieldsAux [] (drop n (c # s)))"
  by pat_completeness auto
termination
  by (relation "measure (\<lambda>(cur, s). length s)") auto

definition Fields :: "string \<Rightarrow> string list" where
  "Fields s = fieldsAux [] s"

text \<open>
  \<open>strings.ToLower\<close>, exact on ASCII. Of the other runes only two have an ASCII lower case
  (KELVIN SIGN and LATIN CAPITAL I WITH DOT); the callers compare the result with ASCII
  text, so the remaining non-ASCII runes, whose lower case is not ASCII, stay as they are.
\<close>

definition lowerByte :: "char \<Rightarrow> char" where
  "lowerByte c = (if (65::nat) \<le> of_char c \<and> of_char c \<le> (90::nat)
                  then char_of (of_char c + (32::nat)) else c)"

function ToLower :: "string \<Rightarrow> string" where
  "ToLower s =
     (if s = [] then []
      else if HasPrefix s [CHR 0xE2, CHR 0x84, CHR 0xAA] then CHR ''k'' # ToLower (drop 3 s)
      else if HasPrefix s [CHR 0xC4, CHR 0xB0] then CHR ''i'' # ToLower (drop 2 s)
      else lowerByte (hd s) # ToLower (tl s))"
  by pat_completeness auto
termination by (relation "measure length") auto

declare ToLower.simps [simp del]

section \<open>Decimal numbers\<close>

definition isDigit :: "char \<Rightarrow> bool" where
  "isDigit c \<longleftrightarrow> (48::nat) \<le> of_char c \<and> of_char c \<le> (57::nat)"

definition digitVal :: "char \<Rightarrow> nat" where
  "digitVal c = of_char c - 48"

definition decVal :: "string \<Rightarrow> nat" where
  "decVal s = foldl (\<lambda>n c. 10 * n + digitVal c) 0 s"

definition ParseUint :: "nat \<Rightarrow> string \<Rightarrow> nat option" where
  "ParseUint bits s =
     (if s = [] \<or> \<not> list_all isDigit s \<or> 2 ^ bits \<le> decVal s then None else Some (decVal s))"

fun FormatUint :: "nat \<Rightarrow> string" where
  "FormatUint n =
     (if n < 10 then [char_of (48 + n)] else FormatUint (n div 10) @ [char_of (48 + n mod 10)])"

declare FormatUint.simps [simp del]

definition ParseInt :: "nat \<Rightarrow> string \<Rightarrow> int option" where
  "ParseInt bits s =
     (let neg = HasPrefix s ''-''; rest = (if neg \<or> HasPrefix s ''+'' then tl s else s)
      in case ParseUint 64 rest of
           None \<Rightarrow> None
         | Some n \<Rightarrow>
             if neg then (if 2 ^ (bits - 1) < n then None else Some (- int n))
             else if 2 ^ (bits - 1) \<le> n then None else Some (int n))"

definition FormatInt :: "int \<Rightarrow> string" where
  "FormatInt i = (if i < 0 then CHR ''-'' # FormatUint (nat (- i)) else FormatUint (nat i))"

lemma digit_char: "n < 10 \<Longrightarrow> isDigit (char_of (48 + n)) \<and> digitVal (char_of (48 + n)) = n"
  by (simp add: isDigit_def digitVal_def)

lemma FormatUint_digits: "list_all isDigit (FormatUint n)"
proof (induction n rule: FormatUint.induct)
  case (1 n)
  then show ?case using digit_char [of n] digit_char [of "n mod 10"]
    by (subst FormatUint.simps) auto
qed

lemma FormatUint_nonempty [simp]: "FormatUint n \<noteq> []"
  by (subst FormatUint.simps) simp

lemma decVal_snoc: "decVal (s @ [c]) = 10 * decVal s + digitVal c"
  by (simp add: decVal_def)

lemma decVal_FormatUint [simp]: "decVal (FormatUint n) = n"
proof (induction n rule: FormatUint.induct)
  case (1 n)
  show ?case
  proof (cases "n < 10")
    case True
    then show ?thesis using digit_char [of n]
      by (subst FormatUint.simps) (simp add: decVal_def)
  next
    case False
    with 1 digit_char [of "n mod 10"] show ?thesis
      by (subst FormatUint.simps) (simp add: decVal_snoc)
  qed
qed

lemma ParseUint_FormatUint: "n < 2 ^ bits \<Longrightarrow> ParseUint bits (FormatUint n) = Some n"
  by (simp add: ParseUint_def FormatUint_digits)

lemma FormatUint_ascii: "c \<in> set (FormatUint n) \<Longrightarrow> isDigit c"
  using FormatUint_digits by (auto simp: list_all_iff)

lemma isDigit_visible: "isDigit c \<Longrightarrow> visibleASCII c"
  by (auto simp: isDigit_def visibleASCII_def)

lemma TrimSpace_FormatUint [simp]: "TrimSpace (FormatUint n) = FormatUint n"
  by (intro TrimSpace_visible ballI isDigit_visible FormatUint_ascii)

lemma ParseInt_FormatInt:
  assumes "0 \<le> i" and "i < 2 ^ (bits - 1)" and "bits \<le> 64"
  shows "ParseInt bits (FormatInt i) = Some i"
proof -
  have "nat i < 2 ^ (bits - 1)" using assms by (simp add: nat_less_iff)
  moreover have "(2::nat) ^ (bits - 1) \<le> 2 ^ 64" using assms(3) by (intro power_increasing) auto
  ultimately have p: "ParseUint 64 (FormatUint (nat i)) = Some (nat i)"
    by (intro ParseUint_FormatUint) (rule less_le_trans)
  obtain c s where cs: "FormatUint (nat i) = c # s" by (meson FormatUint_nonempty neq_Nil_conv)
  then have "isDigit c" using FormatUint_ascii by (metis list.set_intros(1))
  then have "c \<noteq> CHR ''-''" "c \<noteq> CHR ''+''" by (auto simp: isDigit_def)
  with p cs assms \<open>nat i < 2 ^ (bits - 1)\<close> show ?thesis
    by (simp add: ParseInt_def FormatInt_def)
qed

section \<open>Hexadecimal\<close>

definition isLowerHex :: "char \<Rightarrow> bool" where
  "isLowerHex c \<longleftrightarrow> isDigit c \<or> (97::nat) \<le> of_char c \<and> of_char c \<le> (102::nat)"

text \<open>The anchored pattern \<open>^[0-9a-f]{n}$\<close>.\<close>

definition hexDigits :: "nat \<Rightarrow> string \<Rightarrow> bool" where
  "hexDigits n s \<longleftrightarrow> length s = n \<and> list_all isLowerHex s"

lemma isLowerHex_visible: "isLowerHex c \<Longrightarrow> visibleASCII c"
  by (auto simp: isLowerHex_def isDigit_def visibleASCII_def)

lemma hexDigits_take: "hexDigits n s \<Longrightarrow> m \<le> n \<Longrightarrow> hexDigits m (take m s)"
  by (auto simp: hexDigits_def list_all_iff dest: in_set_takeD)

end
