(* ===== verification/GoPath.thy ===== *)
theory GoPath
  imports GoStrings
begin

text \<open>
  Go's \<open>path\<close> package and the Unix \<open>path/filepath\<close> functions the driver uses. On Unix both
  packages clean, join and split paths alike.
\<close>

section \<open>Clean\<close>

text \<open>
  \<open>Clean\<close> on the components of a path, as a stack with the last kept component first:
  empty and \<open>.\<close> components vanish, \<open>..\<close> removes the component before it, is dropped at the
  root, and stays at the front of a relative path.
\<close>

fun cleanStep :: "bool \<Rightarrow> string list \<Rightarrow> string \<Rightarrow> string list" where
  "cleanStep rooted stack e =
     (if e = [] \<or> e = ''.'' then stack
      else if e = ''..'' then
        (case stack of
           [] \<Rightarrow> if rooted then [] else [''..'']
         | prev # below \<Rightarrow> if prev = ''..'' then ''..'' # stack else below)
      else e # stack)"

definition IsAbs :: "string \<Rightarrow> bool" where
  "IsAbs p \<longleftrightarrow> HasPrefix p ''/''"

definition pathComps :: "string \<Rightarrow> string list" where
  "pathComps p = rev (foldl (cleanStep (IsAbs p)) [] (Split (CHR ''/'') p))"

definition Clean :: "string \<Rightarrow> string" where
  "Clean p =
     (if IsAbs p then CHR ''/'' # Join (pathComps p) ''/''
      else if pathComps p = [] then ''.''
      else Join (pathComps p) ''/'')"

definition path_Join :: "string list \<Rightarrow> string" where
  "path_Join es =
     (case dropWhile (\<lambda>e. e = []) es of [] \<Rightarrow> [] | e # rest \<Rightarrow> Clean (Join (e # rest) ''/''))"

definition path_Dir :: "string \<Rightarrow> string" where
  "path_Dir p = Clean (rev (dropWhile (\<lambda>c. c \<noteq> CHR ''/'') (rev p)))"

definition path_Base :: "string \<Rightarrow> string" where
  "path_Base p =
     (if p = [] then ''.''
      else let q = TrimRight p ''/'' in
        if q = [] then ''/''
        else rev (takeWhile (\<lambda>c. c \<noteq> CHR ''/'') (rev q)))"

text \<open>\<open>filepath.Rel\<close> of two absolute paths, on their components.\<close>

fun relComps :: "string list \<Rightarrow> string list \<Rightarrow> string list" where
  "relComps (b # bs) (t # ts) =
     (if b = t then relComps bs ts else replicate (length (b # bs)) ''..'' @ t # ts)"
| "relComps bs ts = replicate (length bs) ''..'' @ ts"

definition Rel :: "string \<Rightarrow> string \<Rightarrow> string" where
  "Rel base target =
     (let cs = relComps (pathComps base) (pathComps target)
      in if cs = [] then ''.'' else Join cs ''/'')"

section \<open>Normal components of an absolute path\<close>

definition goodComp :: "string \<Rightarrow> bool" where
  "goodComp c \<longleftrightarrow> c \<noteq> [] \<and> c \<noteq> ''.'' \<and> c \<noteq> ''..'' \<and> CHR ''/'' \<notin> set c"

lemma IsAbs_Cons [simp]: "IsAbs (c # s) \<longleftrightarrow> c = CHR ''/''" "\<not> IsAbs []"
  by (simp_all add: IsAbs_def)

lemma IsAbsE: "IsAbs p \<Longrightarrow> (\<And>s. p = CHR ''/'' # s \<Longrightarrow> thesis) \<Longrightarrow> thesis"
  by (cases p) auto

lemma clean_fold_good:
  "\<forall>c\<in>set es. CHR ''/'' \<notin> set c \<Longrightarrow> \<forall>c\<in>set st. goodComp c \<Longrightarrow>
   \<forall>c\<in>set (foldl (cleanStep True) st es). goodComp c"
proof (induction es arbitrary: st)
  case Nil
  then show ?case by simp
next
  case (Cons e es)
  have "\<forall>c\<in>set (cleanStep True st e). goodComp c"
    using Cons.prems by (auto simp: goodComp_def split: list.splits if_splits)
  with Cons show ?case by simp
qed

lemma pathComps_good: "IsAbs p \<Longrightarrow> c \<in> set (pathComps p) \<Longrightarrow> goodComp c"
  using clean_fold_good [of "Split (CHR ''/'') p" "[]"] Split_parts
  by (auto simp: pathComps_def)

lemma clean_fold_id:
  "\<forall>c\<in>set es. goodComp c \<Longrightarrow> foldl (cleanStep True) st es = rev es @ st"
  by (induction es arbitrary: st) (auto simp: goodComp_def)

lemma pathComps_of_comps:
  assumes "\<forall>c\<in>set cs. goodComp c"
  shows "pathComps (CHR ''/'' # Join cs ''/'') = cs"
proof (cases "cs = []")
  case True
  then show ?thesis by (simp add: pathComps_def)
next
  case False
  have "Split (CHR ''/'') (CHR ''/'' # Join cs ''/'') = [] # cs"
    using False assms by (simp add: Split_Join goodComp_def)
  then show ?thesis using assms by (simp add: pathComps_def clean_fold_id)
qed

lemma IsAbs_Clean [simp]: "IsAbs p \<Longrightarrow> IsAbs (Clean p)"
  by (simp add: Clean_def)

lemma pathComps_Clean [simp]: "IsAbs p \<Longrightarrow> pathComps (Clean p) = pathComps p"
  using pathComps_good by (simp add: Clean_def pathComps_of_comps)

lemma Clean_Clean: "IsAbs p \<Longrightarrow> Clean (Clean p) = Clean p"
  by (metis Clean_def IsAbs_Clean pathComps_Clean)

lemma Clean_eq_iff: "IsAbs p \<Longrightarrow> IsAbs q \<Longrightarrow> Clean p = Clean q \<longleftrightarrow> pathComps p = pathComps q"
  by (metis Clean_def pathComps_Clean)

lemma Clean_of_comps: "\<forall>c\<in>set cs. goodComp c \<Longrightarrow>
    Clean (CHR ''/'' # Join cs ''/'') = CHR ''/'' # Join cs ''/''"
  by (simp add: Clean_def pathComps_of_comps)

section \<open>Clean absolute paths and one more component\<close>

definition cleanAbs :: "string \<Rightarrow> bool" where
  "cleanAbs p \<longleftrightarrow> IsAbs p \<and> Clean p = p"

lemma cleanAbsE:
  assumes "cleanAbs p"
  obtains cs where "p = CHR ''/'' # Join cs ''/''" "\<forall>c\<in>set cs. goodComp c" "pathComps p = cs"
  using assms pathComps_good unfolding cleanAbs_def by (metis Clean_def)

lemma cleanAbs_comps: "\<forall>c\<in>set cs. goodComp c \<Longrightarrow> cleanAbs (CHR ''/'' # Join cs ''/'')"
  by (simp add: cleanAbs_def Clean_of_comps)

lemma cleanAbs_Clean: "IsAbs p \<Longrightarrow> cleanAbs (Clean p)"
  by (simp add: cleanAbs_def Clean_Clean)

lemma Join_snoc: "cs \<noteq> [] \<Longrightarrow> Join (cs @ [c]) sep = Join cs sep @ sep @ c"
proof (induction cs)
  case (Cons a cs)
  then show ?case by (cases "cs = []") (simp_all add: Join_Cons)
qed simp

lemma child_path:
  assumes "cleanAbs p" and "p \<noteq> ''/''" and "goodComp c"
  shows "cleanAbs (p @ ''/'' @ c)" and "pathComps (p @ ''/'' @ c) = pathComps p @ [c]"
proof -
  obtain cs where p: "p = CHR ''/'' # Join cs ''/''" and good: "\<forall>c\<in>set cs. goodComp c"
    and cs: "pathComps p = cs" using assms(1) by (rule cleanAbsE)
  with assms(2) have "cs \<noteq> []" by auto
  then have eq: "p @ ''/'' @ c = CHR ''/'' # Join (cs @ [c]) ''/''"
    by (simp add: p Join_snoc)
  have "\<forall>d\<in>set (cs @ [c]). goodComp d" using good assms(3) by simp
  then show "cleanAbs (p @ ''/'' @ c)" and "pathComps (p @ ''/'' @ c) = pathComps p @ [c]"
    unfolding eq cs by (rule cleanAbs_comps, rule pathComps_of_comps)
qed

lemma path_Join_child:
  assumes "cleanAbs p" and "p \<noteq> ''/''" and "goodComp c"
  shows "path_Join [p, c] = p @ ''/'' @ c"
proof -
  have "p \<noteq> []" using assms(1) by (auto simp: cleanAbs_def)
  moreover have "Clean (p @ ''/'' @ c) = p @ ''/'' @ c"
    using child_path(1) [OF assms] by (simp add: cleanAbs_def)
  ultimately show ?thesis by (simp add: path_Join_def)
qed

lemma path_Base_child:
  assumes "goodComp c"
  shows "path_Base (p @ ''/'' @ c) = c"
proof -
  have c: "c \<noteq> []" "CHR ''/'' \<notin> set c" using assms by (auto simp: goodComp_def)
  obtain d ds where d: "rev c = d # ds" using c(1) by (metis rev_is_Nil_conv neq_Nil_conv)
  then have "d \<noteq> CHR ''/''" using c(2) by (metis list.set_intros(1) set_rev)
  then have "TrimRight (p @ ''/'' @ c) ''/'' = p @ ''/'' @ c"
    using d by (simp add: TrimRight_def)
  moreover have "takeWhile (\<lambda>x. x \<noteq> CHR ''/'') (rev (p @ ''/'' @ c)) = rev c"
    using c(2) by (simp add: takeWhile_append)
  ultimately show ?thesis using c(1) by (simp add: path_Base_def Let_def)
qed

lemma path_Dir_child:
  assumes "cleanAbs p" and "goodComp c" and "p \<noteq> ''/''"
  shows "path_Dir (p @ ''/'' @ c) = p"
proof -
  have "dropWhile (\<lambda>x. x \<noteq> CHR ''/'') (rev (p @ ''/'' @ c)) = CHR ''/'' # rev p"
    using assms(2) by (simp add: goodComp_def dropWhile_append)
  then have "path_Dir (p @ ''/'' @ c) = Clean (p @ ''/'')" by (simp add: path_Dir_def)
  also have "\<dots> = p"
  proof -
    obtain cs where p: "p = CHR ''/'' # Join cs ''/''" and good: "\<forall>c\<in>set cs. goodComp c"
      using assms(1) by (rule cleanAbsE)
    with assms(3) have ne: "cs \<noteq> []" by auto
    have "p @ ''/'' = CHR ''/'' # Join (cs @ [[]]) ''/''" by (simp add: p Join_snoc ne)
    moreover have "Split (CHR ''/'') (CHR ''/'' # Join (cs @ [[]]) ''/'') = [] # cs @ [[]]"
      using good ne by (simp add: Split_Join goodComp_def)
    ultimately have "pathComps (p @ ''/'') = cs"
      using good by (simp add: pathComps_def clean_fold_id)
    then show ?thesis using assms(1) by (simp add: Clean_def p cleanAbs_def)
  qed
  finally show ?thesis .
qed

section \<open>Containment\<close>

lemma relComps_good:
  "\<forall>c\<in>set ts. goodComp c \<Longrightarrow>
   (relComps bs ts = [] \<longleftrightarrow> ts = bs) \<and>
   (\<exists>cs. ts = bs @ cs \<and> relComps bs ts = cs \<or>
      (\<nexists>cs. ts = bs @ cs) \<and> relComps bs ts = ''..'' # cs)"
proof (induction ts arbitrary: bs)
  case Nil
  then show ?case by (cases bs) auto
next
  case (Cons t ts)
  then show ?case by (cases bs) auto
qed

end
