(* ===== verification/MountInfo.thy ===== *)
theory MountInfo
  imports GoPath
begin

text \<open>
  \<open>internal/driver/mountinfo.go\<close> and the mount table reader of \<open>mount_linux.go\<close>: the parser
  of \<open>/proc/self/mountinfo\<close> that the state machine observes mounts with, and the older
  \<open>isMountPoint\<close>, each with its own decoder of the kernel's octal escapes. The kernel's
  encoder (\<open>seq_path\<close> with the escape set space, tab, newline, backslash) is the reference
  both decoders are compared with.
\<close>

section \<open>mountinfo.go\<close>

record mountPointObservation =
  Mounted :: bool
  Readonly :: bool

definition noObservation :: mountPointObservation where
  "noObservation = \<lparr>Mounted = False, Readonly = False\<rparr>"

text \<open>
  A \<open>strings.Replacer\<close>: at each position the first old string that matches is replaced and
  the scan goes on behind it. The table is \<open>mountInfoUnescaper\<close>'s.
\<close>

definition mountInfoTable :: "(string \<times> string) list" where
  "mountInfoTable = [(CHR 0x5C # ''040'', '' ''), (CHR 0x5C # ''011'', [CHR 0x09]),
                     (CHR 0x5C # ''012'', [CHR 0x0A]), (CHR 0x5C # ''134'', [CHR 0x00])]"

function replaceAll :: "(string \<times> string) list \<Rightarrow> string \<Rightarrow> string" where
  "replaceAll table [] = []"
| "replaceAll table (c # s) =
     (case find (\<lambda>(old, new). old \<noteq> [] \<and> HasPrefix (c # s) old) table of
        None \<Rightarrow> c # replaceAll table s
      | Some (old, new) \<Rightarrow> new @ replaceAll table (drop (length old) (c # s)))"
  by pat_completeness auto
termination
  by (relation "measure (\<lambda>(table, s). length s)") (auto simp: find_Some_iff)

definition mountInfoUnescaper :: "string \<Rightarrow> string" where
  "mountInfoUnescaper = replaceAll mountInfoTable"

definition unescapeMountInfoField :: "string \<Rightarrow> error + string" where
  "unescapeMountInfoField value =
     (let decoded = mountInfoUnescaper value in
      if CHR 0x5C \<in> set decoded then Inl (Errorf ''unsupported or truncated escape'')
      else Inr (map (\<lambda>c. if c = CHR 0x00 then CHR 0x5C else c) decoded))"

fun parseMountLines :: "string \<Rightarrow> mountPointObservation \<Rightarrow> string list \<Rightarrow> error + mountPointObservation" where
  "parseMountLines target observation [] = Inr observation"
| "parseMountLines target observation (line # rest) =
     (let fields = Fields line in
      if length fields < 5 then parseMountLines target observation rest
      else case unescapeMountInfoField (fields ! 4) of
        Inl e \<Rightarrow> Inl (Wrap ''decode mountpoint'' e)
      | Inr mountPoint \<Rightarrow>
          if Clean mountPoint \<noteq> target then parseMountLines target observation rest
          else if Mounted observation then Inl (Errorf ''multiple mountinfo records for target'')
          else if length fields < 6 then Inl (Errorf ''mountinfo record for target has no mount options'')
          else
            let options = '','' @ fields ! 5 @ '','';
                readonly = strContains options '',ro,'';
                writable = strContains options '',rw,''
            in if readonly = writable
               then Inl (Errorf ''mountinfo record for target has ambiguous readonly mode'')
               else parseMountLines target \<lparr>Mounted = True, Readonly = readonly\<rparr> rest)"

definition parseMountPointObservation :: "bytes \<Rightarrow> string \<Rightarrow> error + mountPointObservation" where
  "parseMountPointObservation body target =
     parseMountLines (Clean target) noObservation (Split (CHR 0x0A) body)"

section \<open>mount_linux.go\<close>

text \<open>\<open>strconv.ParseInt(octal, 8, 32)\<close> of a three-byte string.\<close>

definition isOctal :: "char \<Rightarrow> bool" where
  "isOctal c \<longleftrightarrow> (48::nat) \<le> of_char c \<and> of_char c \<le> (55::nat)"

definition octVal :: "string \<Rightarrow> nat" where
  "octVal s = foldl (\<lambda>n c. 8 * n + digitVal c) 0 s"

definition ParseOctal :: "string \<Rightarrow> int option" where
  "ParseOctal s =
     (let neg = HasPrefix s ''-''; rest = (if neg \<or> HasPrefix s ''+'' then tl s else s)
      in if rest = [] \<or> \<not> list_all isOctal rest then None
         else Some (if neg then - int (octVal rest) else int (octVal rest)))"

text \<open>\<open>string(rune(v))\<close> for the values three octal digits can have; a negative rune encodes
  as U+FFFD.\<close>

definition runeString :: "int \<Rightarrow> string" where
  "runeString v =
     (if v < 0 then [CHR 0xEF, CHR 0xBF, CHR 0xBD]
      else if v < 128 then [char_of (nat v)]
      else [char_of (192 + nat v div 64), char_of (128 + nat v mod 64)])"

lemma length_runeString: "length (runeString v) \<le> 3"
  by (simp add: runeString_def)

function unescapeMountInfo :: "string \<Rightarrow> string" where
  "unescapeMountInfo s =
     (case IndexByte s (CHR 0x5C) of
        None \<Rightarrow> s
      | Some idx \<Rightarrow>
          if length s \<le> idx + 3 then s
          else case ParseOctal (take 3 (drop (idx + 1) s)) of
            None \<Rightarrow> s
          | Some v \<Rightarrow> unescapeMountInfo (take idx s @ runeString v @ drop (idx + 4) s))"
  by pat_completeness auto
termination
proof (relation "measure length", goal_cases)
  case (2 s idx v)
  then have "idx + 3 < length s" by simp
  with length_runeString [of v] show ?case by simp
qed simp

declare unescapeMountInfo.simps [simp del]

text \<open>\<open>isMountPoint\<close> on the contents of \<open>/proc/self/mountinfo\<close>.\<close>

definition isMountPointIn :: "bytes \<Rightarrow> string \<Rightarrow> bool" where
  "isMountPointIn body target0 =
     (let target = Clean target0
      in list_ex (\<lambda>line. let fields = Fields line in
                    5 \<le> length fields \<and> unescapeMountInfo (fields ! 4) = target)
           (Split (CHR 0x0A) body))"

section \<open>The kernel's encoder\<close>

definition escapeByte :: "char \<Rightarrow> string" where
  "escapeByte c =
     (if c = CHR '' '' then CHR 0x5C # ''040'' else if c = CHR 0x09 then CHR 0x5C # ''011''
      else if c = CHR 0x0A then CHR 0x5C # ''012'' else if c = CHR 0x5C then CHR 0x5C # ''134''
      else [c])"

definition kernelEscape :: "string \<Rightarrow> string" where
  "kernelEscape s = concat (map escapeByte s)"

lemma kernelEscape_simps [simp]:
  "kernelEscape [] = []" "kernelEscape (c # s) = escapeByte c @ kernelEscape s"
  by (simp_all add: kernelEscape_def)

lemma replaceAll_escapeByte:
  "replaceAll mountInfoTable (escapeByte c @ s)
   = (if c = CHR 0x5C then CHR 0x00 else c) # replaceAll mountInfoTable s"
proof (cases "c \<in> {CHR '' '', CHR 0x09, CHR 0x0A, CHR 0x5C}")
  case True
  then show ?thesis
    by (auto simp: escapeByte_def mountInfoTable_def HasPrefix_def)
next
  case False
  then have "\<not> HasPrefix (c # s) (CHR 0x5C # r)" for r by (auto simp: HasPrefix_def)
  with False show ?thesis by (simp add: escapeByte_def mountInfoTable_def)
qed

lemma mountInfoUnescaper_escape:
  "mountInfoUnescaper (kernelEscape s) = map (\<lambda>c. if c = CHR 0x5C then CHR 0x00 else c) s"
  by (induction s) (simp_all add: mountInfoUnescaper_def replaceAll_escapeByte)

lemma unescapeMountInfoField_escape:
  assumes "CHR 0x00 \<notin> set s"
  shows "unescapeMountInfoField (kernelEscape s) = Inr s"
proof -
  have "CHR 0x5C \<notin> set (map (\<lambda>c. if c = CHR 0x5C then CHR 0x00 else c) s)" by auto
  moreover have "map (\<lambda>c. if c = CHR 0x00 then CHR 0x5C else c)
      (map (\<lambda>c. if c = CHR 0x5C then CHR 0x00 else c) s) = s"
    using assms by (induction s) auto
  ultimately show ?thesis by (simp add: unescapeMountInfoField_def mountInfoUnescaper_escape)
qed

lemma unescapeMountInfo_plain: "CHR 0x5C \<notin> set s \<Longrightarrow> unescapeMountInfo s = s"
  by (subst unescapeMountInfo.simps) (simp add: IndexByte_None [THEN iffD2])

lemma unescapeMountInfo_step:
  assumes "CHR 0x5C \<notin> set p" and "ParseOctal [a, b, c] = Some v"
  shows "unescapeMountInfo (p @ CHR 0x5C # a # b # c # s) = unescapeMountInfo (p @ runeString v @ s)"
  using assms by (subst unescapeMountInfo.simps) (simp add: IndexByte_append)

lemma unescapeMountInfo_escape_aux:
  "CHR 0x5C \<notin> set p \<Longrightarrow> CHR 0x5C \<notin> set s \<Longrightarrow> unescapeMountInfo (p @ kernelEscape s) = p @ s"
proof (induction s arbitrary: p)
  case Nil
  then show ?case by (simp add: unescapeMountInfo_plain)
next
  case (Cons c s)
  have oct: "ParseOctal ''040'' = Some 32" "ParseOctal ''011'' = Some 9" "ParseOctal ''012'' = Some 10"
    by code_simp+
  have rs: "runeString 32 = '' ''" "runeString 9 = [CHR 0x09]" "runeString 10 = [CHR 0x0A]"
    by code_simp+
  have "unescapeMountInfo (p @ escapeByte c @ kernelEscape s) = unescapeMountInfo ((p @ [c]) @ kernelEscape s)"
    using Cons.prems oct rs unescapeMountInfo_step [OF Cons.prems(1)]
    by (auto simp: escapeByte_def)
  with Cons.IH [of "p @ [c]"] Cons.prems show ?case by simp
qed

section \<open>Parsing a rendered table\<close>

lemma fieldsAux_visible:
  "\<forall>c\<in>set f. visibleASCII c \<Longrightarrow> fieldsAux cur (f @ s) = fieldsAux (rev f @ cur) s"
  by (induction f arbitrary: cur) (simp_all add: runeLen_visible)

definition mountField :: "string \<Rightarrow> bool" where
  "mountField f \<longleftrightarrow> f \<noteq> [] \<and> list_all visibleASCII f"

lemma runeLen_blank [simp]: "runeLen spaceRunes (CHR '' '' # s) = 1"
  by (simp add: runeLen_def spaceRunes_def HasPrefix_def)

lemma Fields_Join: "\<forall>f\<in>set fs. mountField f \<Longrightarrow> Fields (Join fs '' '') = fs"
proof (induction fs)
  case Nil
  then show ?case by (simp add: Fields_def)
next
  case (Cons f fs)
  then have vis: "\<forall>c\<in>set f. visibleASCII c" and ne: "f \<noteq> []"
    by (simp_all add: mountField_def list_all_iff)
  show ?case
  proof (cases "fs = []")
    case True
    then show ?thesis using fieldsAux_visible [OF vis, of "[]" "[]"] ne by (simp add: Fields_def)
  next
    case False
    then have "Fields (Join (f # fs) '' '') = f # Fields (Join fs '' '')"
      using fieldsAux_visible [OF vis, of "[]" "'' '' @ Join fs '' ''"] ne
      by (simp add: Fields_def Join_Cons)
    with Cons show ?thesis by simp
  qed
qed

text \<open>A record of the mount table, with the fields the parser looks at.\<close>

record mountRecord =
  precedingFields :: "string list"
  mountPath :: string
  writableMount :: bool
  moreOptions :: "string list"
  followingFields :: "string list"

definition recordOptions :: "mountRecord \<Rightarrow> string" where
  "recordOptions r = Join ((if writableMount r then ''rw'' else ''ro'') # moreOptions r) '',''"

definition recordLine :: "mountRecord \<Rightarrow> string" where
  "recordLine r = Join (precedingFields r @ [kernelEscape (mountPath r), recordOptions r] @ followingFields r) '' ''"

definition validRecord :: "mountRecord \<Rightarrow> bool" where
  "validRecord r \<longleftrightarrow> length (precedingFields r) = 4 \<and> list_all mountField (precedingFields r) \<and> list_all mountField (followingFields r)
     \<and> mountPath r \<noteq> [] \<and> list_all visibleASCII (filter (\<lambda>c. c \<notin> set '' '' \<union> {CHR 0x09, CHR 0x0A}) (mountPath r))
     \<and> list_all mountField (moreOptions r)
     \<and> list_all (\<lambda>opt. CHR '','' \<notin> set opt \<and> opt \<noteq> ''ro'' \<and> opt \<noteq> ''rw'') (moreOptions r)"

definition renderTable :: "mountRecord list \<Rightarrow> bytes" where
  "renderTable rs = Join (map recordLine rs) [CHR 0x0A]"

lemma escapeByte_visible:
  "visibleASCII c \<or> c \<in> {CHR '' '', CHR 0x09, CHR 0x0A} \<Longrightarrow> \<forall>x\<in>set (escapeByte c). visibleASCII x"
  by (auto simp: escapeByte_def visibleASCII_def)

lemma kernelEscape_field:
  assumes "s \<noteq> []" and "\<And>c. c \<in> set s \<Longrightarrow> visibleASCII c \<or> c \<in> {CHR '' '', CHR 0x09, CHR 0x0A}"
  shows "mountField (kernelEscape s)"
proof -
  have "list_all visibleASCII (kernelEscape s)"
    using assms(2) escapeByte_visible by (fastforce simp: kernelEscape_def list_all_iff)
  moreover have "kernelEscape s \<noteq> []" using assms(1) by (cases s) (simp_all add: escapeByte_def)
  ultimately show ?thesis by (simp add: mountField_def)
qed


lemma strContains_skip: "b \<notin> set p \<Longrightarrow> strContains (p @ s) (b # q) = strContains s (b # q)"
  by (induction p) (auto simp: HasPrefix_def)

lemma comma_boundary:
  "CHR '','' \<notin> set o1 \<Longrightarrow> CHR '','' \<notin> set x \<Longrightarrow> HasPrefix (o1 @ CHR '','' # s) (x @ '','') \<longleftrightarrow> o1 = x"
proof (induction o1 arbitrary: x)
  case Nil
  then show ?case by (cases x) (auto simp: HasPrefix_def)
next
  case (Cons c o1)
  then show ?case by (cases x) (auto simp: HasPrefix_def)
qed

definition commaEnclosed :: "string list \<Rightarrow> string" where
  "commaEnclosed opts = concat (map (\<lambda>opt. CHR '','' # opt) opts) @ '',''"

lemma commaEnclosed_Join: "opts \<noteq> [] \<Longrightarrow> '','' @ Join opts '','' @ '','' = commaEnclosed opts"
proof (induction opts)
  case (Cons x opts)
  then show ?case by (cases "opts = []") (simp_all add: commaEnclosed_def Join_Cons)
qed simp

lemma strContains_option:
  assumes "\<forall>opt\<in>set opts. CHR '','' \<notin> set opt" and "CHR '','' \<notin> set x" and "x \<noteq> []"
  shows "strContains (commaEnclosed opts) ('','' @ x @ '','') \<longleftrightarrow> x \<in> set opts"
  using assms(1)
proof (induction opts)
  case Nil
  then show ?case using assms(2,3) by (cases x) (simp_all add: commaEnclosed_def HasPrefix_def)
next
  case (Cons y opts)
  obtain t where t: "commaEnclosed opts = CHR '','' # t" by (cases opts) (simp_all add: commaEnclosed_def)
  have split: "commaEnclosed (y # opts) = CHR '','' # y @ commaEnclosed opts" by (simp add: commaEnclosed_def)
  have "strContains (y @ commaEnclosed opts) ('','' @ x @ '','') = strContains (commaEnclosed opts) ('','' @ x @ '','')"
    using Cons.prems strContains_skip [of "CHR '',''" y] by simp
  moreover have "HasPrefix (CHR '','' # y @ commaEnclosed opts) ('','' @ x @ '','') \<longleftrightarrow> y = x"
    using comma_boundary [of y x t] Cons.prems assms(2) by (simp add: t HasPrefix_iff)
  ultimately show ?case using Cons by (auto simp: split)
qed

lemma recordOptions_mode:
  assumes "validRecord r"
  shows "strContains ('','' @ recordOptions r @ '','') '',ro,'' \<longleftrightarrow> \<not> writableMount r"
    and "strContains ('','' @ recordOptions r @ '','') '',rw,'' \<longleftrightarrow> writableMount r"
proof -
  let ?opts = "(if writableMount r then ''rw'' else ''ro'') # moreOptions r"
  have c: "\<forall>opt\<in>set ?opts. CHR '','' \<notin> set opt" using assms by (auto simp: validRecord_def list_all_iff)
  have m: "''ro'' \<notin> set (moreOptions r)" "''rw'' \<notin> set (moreOptions r)"
    using assms by (auto simp: validRecord_def list_all_iff)
  have e: "'','' @ recordOptions r @ '','' = commaEnclosed ?opts"
    unfolding recordOptions_def by (rule commaEnclosed_Join) simp
  show "strContains ('','' @ recordOptions r @ '','') '',ro,'' \<longleftrightarrow> \<not> writableMount r"
    using strContains_option [OF c, of "''ro''"] m unfolding e by auto
  show "strContains ('','' @ recordOptions r @ '','') '',rw,'' \<longleftrightarrow> writableMount r"
    using strContains_option [OF c, of "''rw''"] m unfolding e by auto
qed

lemma Join_comma_visible: "\<forall>f\<in>set fs. mountField f \<Longrightarrow> c \<in> set (Join fs '','') \<Longrightarrow> visibleASCII c"
  using set_Join [of fs "'',''"] by (fastforce simp: mountField_def list_all_iff visibleASCII_def)

lemma recordLine_fields:
  assumes "validRecord r"
  shows "Fields (recordLine r) = precedingFields r @ [kernelEscape (mountPath r), recordOptions r] @ followingFields r"
    and "CHR 0x0A \<notin> set (recordLine r)" and "CHR 0x00 \<notin> set (mountPath r)"
proof -
  have mp: "visibleASCII c \<or> c \<in> {CHR '' '', CHR 0x09, CHR 0x0A}" if "c \<in> set (mountPath r)" for c
    using assms that by (auto simp: validRecord_def list_all_iff)
  then have k: "mountField (kernelEscape (mountPath r))"
    using assms by (intro kernelEscape_field) (auto simp: validRecord_def)
  have "\<forall>f\<in>set ((if writableMount r then ''rw'' else ''ro'') # moreOptions r). mountField f"
    using assms by (auto simp: validRecord_def list_all_iff mountField_def visibleASCII_def)
  then have "\<forall>c\<in>set (recordOptions r). visibleASCII c"
    unfolding recordOptions_def by (metis Join_comma_visible)
  moreover have "recordOptions r \<noteq> []" by (cases "moreOptions r") (simp_all add: recordOptions_def)
  ultimately have all: "\<forall>f\<in>set (precedingFields r @ [kernelEscape (mountPath r), recordOptions r] @ followingFields r). mountField f"
    using assms k by (auto simp: validRecord_def list_all_iff mountField_def)
  then show "Fields (recordLine r) = precedingFields r @ [kernelEscape (mountPath r), recordOptions r] @ followingFields r"
    unfolding recordLine_def by (rule Fields_Join)
  have "c \<in> set (recordLine r) \<Longrightarrow> visibleASCII c \<or> c = CHR '' ''" for c
    using all set_Join [of "precedingFields r @ [kernelEscape (mountPath r), recordOptions r] @ followingFields r" "'' ''"]
    unfolding recordLine_def by (fastforce simp: mountField_def list_all_iff)
  moreover have "\<not> (visibleASCII (CHR 0x0A) \<or> CHR 0x0A = CHR '' '')" by (simp add: visibleASCII_def)
  ultimately show "CHR 0x0A \<notin> set (recordLine r)" by blast
  have "\<not> (visibleASCII (CHR 0x00) \<or> CHR 0x00 \<in> {CHR '' '', CHR 0x09, CHR 0x0A})" by (simp add: visibleASCII_def)
  then show "CHR 0x00 \<notin> set (mountPath r)" using mp by blast
qed

lemma parseMountLines_step:
  assumes "validRecord r"
  shows "parseMountLines target obs (recordLine r # rest) =
    (if Clean (mountPath r) \<noteq> target then parseMountLines target obs rest
     else if Mounted obs then Inl (Errorf ''multiple mountinfo records for target'')
     else parseMountLines target \<lparr>Mounted = True, Readonly = \<not> writableMount r\<rparr> rest)"
proof -
  have len: "length (precedingFields r) = 4" using assms by (simp add: validRecord_def)
  have nth: "Fields (recordLine r) ! 4 = kernelEscape (mountPath r)"
    "Fields (recordLine r) ! 5 = recordOptions r" "6 \<le> length (Fields (recordLine r))"
    using recordLine_fields(1) [OF assms] len by (simp_all add: nth_append)
  then show ?thesis
    using unescapeMountInfoField_escape [OF recordLine_fields(3) [OF assms]] recordOptions_mode [OF assms]
    by (simp add: Let_def)
qed

lemma parseMountLines_render:
  "\<forall>r\<in>set rs. validRecord r \<Longrightarrow>
   parseMountLines target obs (map recordLine rs) =
     (case filter (\<lambda>r. Clean (mountPath r) = target) rs of
        [] \<Rightarrow> Inr obs
      | r # hits \<Rightarrow>
          if Mounted obs \<or> hits \<noteq> [] then Inl (Errorf ''multiple mountinfo records for target'')
          else Inr \<lparr>Mounted = True, Readonly = \<not> writableMount r\<rparr>)"
proof (induction rs arbitrary: obs)
  case (Cons r rs)
  then show ?case
    by (cases "Clean (mountPath r) = target")
      (auto simp: parseMountLines_step simp del: parseMountLines.simps(2) split: list.splits)
qed simp

section \<open>Properties\<close>

text \<open>
  C38: on a mount table as the kernel writes it, the observation of a target is exactly the
  record whose mount point is the target: not mounted when there is none, mounted with the
  record's read-only flag when there is one, and an error when there are several.
\<close>

theorem parseMountPointObservation_table:
  assumes "\<forall>r\<in>set rs. validRecord r"
  shows "parseMountPointObservation (renderTable rs) target =
    (case filter (\<lambda>r. Clean (mountPath r) = Clean target) rs of
       [] \<Rightarrow> Inr \<lparr>Mounted = False, Readonly = False\<rparr>
     | [r] \<Rightarrow> Inr \<lparr>Mounted = True, Readonly = \<not> writableMount r\<rparr>
     | _ \<Rightarrow> Inl (Errorf ''multiple mountinfo records for target''))"
proof (cases "rs = []")
  case True
  then show ?thesis
    by (simp add: parseMountPointObservation_def renderTable_def Fields_def noObservation_def)
next
  case False
  have "Split (CHR 0x0A) (renderTable rs) = map recordLine rs"
    unfolding renderTable_def using False assms recordLine_fields(2) by (intro Split_Join) auto
  then show ?thesis
    using parseMountLines_render [OF assms, of "Clean target" noObservation]
    by (simp add: parseMountPointObservation_def noObservation_def split: list.splits)
qed

theorem parseMountPointObservation_table_witness:
  "parseMountPointObservation
     (renderTable [\<lparr>precedingFields = [''36'', ''35'', ''0:42'', ''/''], mountPath = ''/mnt/my vol'',
                    writableMount = False, moreOptions = [''nosuid''], followingFields = [''-'', ''fuse'']\<rparr>])
     ''/mnt/my vol/'' = Inr \<lparr>Mounted = True, Readonly = True\<rparr>"
proof -
  let ?r = "\<lparr>precedingFields = [''36'', ''35'', ''0:42'', ''/''], mountPath = ''/mnt/my vol'',
                    writableMount = False, moreOptions = [''nosuid''], followingFields = [''-'', ''fuse'']\<rparr>"
  have "\<forall>r\<in>set [?r]. validRecord r" by code_simp
  moreover have "Clean (mountPath ?r) = Clean ''/mnt/my vol/''" by code_simp
  ultimately show ?thesis
    using parseMountPointObservation_table [of "[?r]" "''/mnt/my vol/''"] by simp
qed

text \<open>
  C39: the decoder of the state machine inverts the kernel's encoder on every path; the older
  decoder of \<open>mount_linux.go\<close> does so only on paths without a backslash, since it scans a
  decoded backslash again: a directory really named \<open>a\040b\<close> is read as \<open>a b\<close>.
\<close>

theorem mountinfo_decoders:
  "(CHR 0x00 \<notin> set s \<longrightarrow> unescapeMountInfoField (kernelEscape s) = Inr s)
   \<and> (CHR 0x5C \<notin> set s \<longrightarrow> unescapeMountInfo (kernelEscape s) = s)
   \<and> unescapeMountInfo (kernelEscape (''/a'' @ CHR 0x5C # ''040b'')) = ''/a b''"
proof (intro conjI impI)
  show "unescapeMountInfo (kernelEscape (''/a'' @ CHR 0x5C # ''040b'')) = ''/a b''" by code_simp
qed (use unescapeMountInfoField_escape unescapeMountInfo_escape_aux [of "[]"] in auto)

theorem mountinfo_decoders_witness:
  "unescapeMountInfoField (kernelEscape ''/a b'') = Inr ''/a b'' \<and> unescapeMountInfo (kernelEscape ''/a b'') = ''/a b''"
  using mountinfo_decoders [of "''/a b''"] by simp

end
