(* ===== verification/Sha256.thy ===== *)
theory Sha256
  imports GoPath "HOL-Library.Word"
begin

text \<open>
  Go's \<open>crypto/sha256\<close> and \<open>encoding/hex\<close>: the FIPS 180-4 function on 32-bit words, so that
  the identifiers the driver derives from digests (volume ids, unit names, socket paths,
  content-addressed binary names) are computed by the model as by the code.
\<close>

unbundle bit_operations_syntax

type_synonym u32 = "32 word"

text \<open>
  The round constants and the initial state are the first 32 fraction bits of the cube roots of
  the first 64 primes and of the square roots of the first eight. The fractions of each eight
  primes are written as one number, most significant word first.
\<close>

definition sha_words :: "nat \<Rightarrow> u32 list" where
  "sha_words n = map (\<lambda>i. of_nat (n div 2 ^ (32 * (7 - i)))) [0..<8]"

definition sha_K :: "u32 list" where
  "sha_K =
     concat (map sha_words
       [30096801393348216066150629019870812290309360323781106575265595564879196741333,
        97713120620179494144499103281924613306042110463305289320944720749041786024308,
        103401920683909419998851524181533271946883635397041953977501677781292093638874,
        68861658772555408896596136419381318492474255818336515412281723562876104943975,
        17963606715593734070427349205146226040797208549161445967624525721797980728453,
        73613754823269020308648057256331568713340424865447195723827797591398097264752,
        11598916766551240033718509305487668940866266266688101202651802137680944197619,
        52721853222120111415677519898561140723485011632831808137931159571523964074226])"

definition sha_H0 :: "u32 list" where
  "sha_H0 =
     sha_words 47962653771679561900652889051773562940742041696833059450490514104358170316057"

definition sha_rotr :: "nat \<Rightarrow> u32 \<Rightarrow> u32" where
  "sha_rotr n x = drop_bit n x OR push_bit (32 - n) x"

definition sha_Ch :: "u32 \<Rightarrow> u32 \<Rightarrow> u32 \<Rightarrow> u32" where
  "sha_Ch x y z = (x AND y) XOR (NOT x AND z)"

definition sha_Maj :: "u32 \<Rightarrow> u32 \<Rightarrow> u32 \<Rightarrow> u32" where
  "sha_Maj x y z = (x AND y) XOR (x AND z) XOR (y AND z)"

definition sha_S0 :: "u32 \<Rightarrow> u32" where
  "sha_S0 x = sha_rotr 2 x XOR sha_rotr 13 x XOR sha_rotr 22 x"

definition sha_S1 :: "u32 \<Rightarrow> u32" where
  "sha_S1 x = sha_rotr 6 x XOR sha_rotr 11 x XOR sha_rotr 25 x"

definition sha_s0 :: "u32 \<Rightarrow> u32" where
  "sha_s0 x = sha_rotr 7 x XOR sha_rotr 18 x XOR drop_bit 3 x"

definition sha_s1 :: "u32 \<Rightarrow> u32" where
  "sha_s1 x = sha_rotr 17 x XOR sha_rotr 19 x XOR drop_bit 10 x"

text \<open>The message schedule keeps the last sixteen words, newest first.\<close>

fun sha_schedule :: "nat \<Rightarrow> u32 list \<Rightarrow> u32 list" where
  "sha_schedule 0 ws = ws"
| "sha_schedule (Suc n) ws =
     sha_schedule n ((sha_s1 (ws ! 1) + ws ! 6 + sha_s0 (ws ! 14) + ws ! 15) # ws)"

fun sha_round :: "u32 list \<Rightarrow> u32 \<times> u32 \<Rightarrow> u32 list" where
  "sha_round [a, b, c, d, e, f, g, h] (k, w) =
     (let t1 = h + sha_S1 e + sha_Ch e f g + k + w;
          t2 = sha_S0 a + sha_Maj a b c
      in [t1 + t2, a, b, c, d + t1, e, f, g])"
| "sha_round st kw = st"

definition sha_compress :: "u32 list \<Rightarrow> u32 list \<Rightarrow> u32 list" where
  "sha_compress hs block =
     map2 (+) hs (foldl sha_round hs (zip sha_K (rev (sha_schedule 48 (rev block)))))"

definition sha_word :: "nat list \<Rightarrow> u32" where
  "sha_word bs = foldl (\<lambda>w b. 256 * w + of_nat b) 0 bs"

fun sha_chunks :: "nat \<Rightarrow> nat \<Rightarrow> 'a list \<Rightarrow> 'a list list" where
  "sha_chunks 0 n xs = []"
| "sha_chunks (Suc k) n xs = take n xs # sha_chunks k n (drop n xs)"

definition sha_bigEndian :: "nat \<Rightarrow> nat \<Rightarrow> nat list" where
  "sha_bigEndian k n = map (\<lambda>i. n div 256 ^ i mod 256) (rev [0..<k])"

definition sha_pad :: "nat list \<Rightarrow> nat list" where
  "sha_pad m =
     m @ [128] @ replicate ((119 - length m mod 64) mod 64) 0
       @ sha_bigEndian 8 (8 * length m)"

definition sha_digest :: "nat list \<Rightarrow> u32 list" where
  "sha_digest m =
     (let p = sha_pad m
      in foldl (\<lambda>hs block. sha_compress hs (map sha_word (sha_chunks 16 4 block)))
           sha_H0 (sha_chunks (length p div 64) 64 p))"

text \<open>\<open>hex.EncodeToString\<close> of the digest, and of its first eight bytes.\<close>

definition hexDigit :: "nat \<Rightarrow> char" where
  "hexDigit n = ''0123456789abcdef'' ! (n mod 16)"

definition sha_hexWord :: "u32 \<Rightarrow> string" where
  "sha_hexWord w = map (\<lambda>i. hexDigit (unat (drop_bit (4 * i) w))) (rev [0..<8])"

definition sha256hex :: "string \<Rightarrow> string" where
  "sha256hex s = concat (map sha_hexWord (sha_digest (map of_char s)))"

definition truncatedSHA256 :: "string \<Rightarrow> string" where
  "truncatedSHA256 value = take 16 (sha256hex value)"

section \<open>Shape of a digest\<close>

lemma length_sha_round [simp]: "length (sha_round st kw) = length st"
  by (induction st kw rule: sha_round.induct) (simp_all add: Let_def)

lemma length_foldl_sha_round [simp]: "length (foldl sha_round st kws) = length st"
  by (induction kws arbitrary: st) auto

lemma length_sha_compress [simp]: "length (sha_compress hs b) = length hs"
  by (simp add: sha_compress_def)

lemma length_foldl_compress [simp]:
  "length (foldl (\<lambda>hs b. sha_compress hs (f b)) hs bs) = length hs"
  by (induction bs arbitrary: hs) auto

lemma length_sha_digest [simp]: "length (sha_digest m) = 8"
  by (simp add: sha_digest_def Let_def sha_H0_def sha_words_def)

lemma hexDigit_hex [simp]: "isLowerHex (hexDigit n)"
proof -
  have "n mod 16 < length ''0123456789abcdef''" by simp
  then have "hexDigit n \<in> set ''0123456789abcdef''"
    unfolding hexDigit_def by (rule nth_mem)
  moreover have "\<forall>c\<in>set ''0123456789abcdef''. isLowerHex c"
    by (simp add: isLowerHex_def isDigit_def)
  ultimately show ?thesis by blast
qed

lemma sha256hex_hex [simp]: "hexDigits 64 (sha256hex s)"
proof -
  have "length (concat (map sha_hexWord ws)) = 8 * length ws" for ws
    by (induction ws) (simp_all add: sha_hexWord_def)
  moreover have "list_all isLowerHex (concat (map sha_hexWord ws))" for ws
    by (induction ws) (auto simp: sha_hexWord_def list_all_iff)
  ultimately show ?thesis by (simp add: hexDigits_def sha256hex_def)
qed

lemma truncatedSHA256_hex [simp]: "hexDigits 16 (truncatedSHA256 s)"
  using hexDigits_take [OF sha256hex_hex, of 16] by (simp add: truncatedSHA256_def)

lemma take_sha256hex_hex: "n \<le> 64 \<Longrightarrow> hexDigits n (take n (sha256hex s))"
  by (rule hexDigits_take [OF sha256hex_hex])

end
