(* ===== verification/Paths.thy ===== *)
theory Paths
  imports Sha256
begin

text \<open>
  \<open>internal/driver/path.go\<close>: canonical Drive9 remote paths, the guards that keep volume roots
  away from the CSI metadata, sanitised file names and request paths; and the volume ids,
  index and marker paths of \<open>driver.go\<close>, which are derived from them.
\<close>

section \<open>Constants of driver.go and node_recovery.go\<close>

definition defaultRemoteRoot :: string where "defaultRemoteRoot = ''/''"
definition workspaceRootVolumeIDPrefix :: string where
  "workspaceRootVolumeIDPrefix = ''drive9-root-''"
definition allowedVolumeRoot :: string where "allowedVolumeRoot = ''/k8s''"
definition metadataRoot :: string where "metadataRoot = ''/k8s/.drive9-csi/volumes''"
definition nameIndexRoot :: string where "nameIndexRoot = ''/k8s/.drive9-csi/volumes/by-name''"
definition markerFileName :: string where "markerFileName = ''.drive9-csi-volume.json''"

section \<open>Remote paths\<close>

definition dotSegment :: "string \<Rightarrow> bool" where
  "dotSegment part \<longleftrightarrow> part = ''.'' \<or> part = ''..''"

definition normalizeRemotePath :: "string \<Rightarrow> error + string" where
  "normalizeRemotePath raw0 =
     (let raw1 = TrimSpace raw0 in
      if raw1 = [] then Inl (Errorf ''path is empty'')
      else
        let raw2 = (if HasPrefix raw1 '':'' then TrimPrefix raw1 '':'' else raw1);
            raw3 = (if \<not> HasPrefix raw2 ''/'' then ''/'' @ raw2 else raw2)
        in if CHR 0x00 \<in> set raw3 then Inl (Errorf ''path contains NUL'')
           else if list_ex dotSegment (Split (CHR ''/'') (Trim raw3 ''/''))
             then Inl (Errorf ''unsafe path segment'')
           else
             let cleaned = Clean raw3;
                 raw4 = (if cleaned = ''.'' then ''/'' else cleaned)
             in if list_ex dotSegment (filter (\<lambda>p. p \<noteq> []) (Split (CHR ''/'') (Trim raw4 ''/'')))
                then Inl (Errorf ''unsafe path segment'')
                else Inr raw4)"

definition validateRemoteRoot :: "string \<Rightarrow> error option" where
  "validateRemoteRoot raw = err_of (normalizeRemotePath raw)"

definition pathIsOrUnder :: "string \<Rightarrow> string \<Rightarrow> bool" where
  "pathIsOrUnder child parent =
     (let child = Clean child; parent = Clean parent
      in child = parent \<or> HasPrefix child (TrimRight parent ''/'' @ ''/''))"

definition normalizeMountRoot :: "string \<Rightarrow> error + string" where
  "normalizeMountRoot raw =
     ebind (normalizeRemotePath raw) (\<lambda>remoteRoot.
       let metadataBase = path_Dir metadataRoot in
       if pathIsOrUnder remoteRoot metadataBase
       then Inl (Errorf ''mount root must not be under CSI metadata root'')
       else Inr remoteRoot)"

definition validateMountRoot :: "string \<Rightarrow> error option" where
  "validateMountRoot raw = err_of (normalizeMountRoot raw)"

definition validateVolumeRoot :: "string \<Rightarrow> error option" where
  "validateVolumeRoot raw =
     (case normalizeRemotePath raw of
        Inl e \<Rightarrow> Some e
      | Inr remoteRoot \<Rightarrow>
          if remoteRoot = ''/'' then Some (Errorf ''volume root must not be /'')
          else if \<not> pathIsOrUnder remoteRoot allowedVolumeRoot
            then Some (Errorf ''volume root must be under /k8s'')
          else if pathIsOrUnder remoteRoot metadataRoot \<or> pathIsOrUnder metadataRoot remoteRoot
            then Some (Errorf ''volume root must not overlap CSI metadata root'')
          else None)"

definition validateVolumePrefix :: "string \<Rightarrow> error option" where
  "validateVolumePrefix raw =
     (case normalizeRemotePath raw of
        Inl e \<Rightarrow> Some e
      | Inr prefix \<Rightarrow>
          if prefix = ''/'' then Some (Errorf ''prefix must not be /'')
          else if \<not> pathIsOrUnder prefix allowedVolumeRoot
            then Some (Errorf ''prefix must be under /k8s'')
          else if pathIsOrUnder prefix metadataRoot \<or> pathIsOrUnder metadataRoot prefix
            then Some (Errorf ''prefix must not overlap CSI metadata root'')
          else None)"

definition validateSafeDeleteRoot :: "string \<Rightarrow> error option" where
  "validateSafeDeleteRoot raw = validateVolumeRoot raw"

section \<open>Sanitised names\<close>

text \<open>The complement of \<open>unsafeNameChars\<close>, \<open>[A-Za-z0-9._-]\<close>.\<close>

definition safeNameChar :: "char \<Rightarrow> bool" where
  "safeNameChar c \<longleftrightarrow>
     isDigit c \<or> ((65::nat) \<le> of_char c \<and> of_char c \<le> (90::nat))
     \<or> ((97::nat) \<le> of_char c \<and> of_char c \<le> (122::nat))
     \<or> c = CHR ''.'' \<or> c = CHR ''_'' \<or> c = CHR ''-''"

text \<open>\<open>unsafeNameChars.ReplaceAllString(name, "-")\<close>: one dash for each maximal unsafe run.\<close>

fun replaceUnsafe :: "bool \<Rightarrow> string \<Rightarrow> string" where
  "replaceUnsafe inRun [] = []"
| "replaceUnsafe inRun (c # s) =
     (if safeNameChar c then c # replaceUnsafe False s
      else if inRun then replaceUnsafe True s
      else CHR ''-'' # replaceUnsafe True s)"

definition safeFileName :: "string \<Rightarrow> string" where
  "safeFileName name0 =
     (let name = Trim (replaceUnsafe False (TrimSpace name0)) ''-.''
      in if 80 < length name then Trim (take 80 name) ''-.'' else name)"

definition buildRemoteRoot :: "string \<Rightarrow> string \<Rightarrow> error + string" where
  "buildRemoteRoot prefix0 volumeName =
     ebind (normalizeRemotePath prefix0) (\<lambda>prefix.
       if prefix = ''/'' then Inl (Errorf ''remoteRootPrefix must not be /'')
       else case validateVolumePrefix prefix of
         Some e \<Rightarrow> Inl e
       | None \<Rightarrow>
           let base0 = safeFileName volumeName;
               base = (if base0 = [] then ''volume'' else base0);
               suffix = take 12 (sha256hex volumeName);
               root = path_Join [prefix, base @ ''-'' @ suffix]
           in normalizeRemotePath root)"

section \<open>Request paths\<close>

text \<open>\<open>url.PathEscape\<close> keeps the unreserved characters and \<open>$&+:=@\<close>.\<close>

definition pathSegmentSafe :: "char \<Rightarrow> bool" where
  "pathSegmentSafe c \<longleftrightarrow>
     isDigit c \<or> ((65::nat) \<le> of_char c \<and> of_char c \<le> (90::nat))
     \<or> ((97::nat) \<le> of_char c \<and> of_char c \<le> (122::nat)) \<or> c \<in> set ''-_.~$&+:=@''"

definition upperHexDigit :: "nat \<Rightarrow> char" where
  "upperHexDigit n = ''0123456789ABCDEF'' ! (n mod 16)"

definition percentByte :: "char \<Rightarrow> string" where
  "percentByte c = [CHR ''%'', upperHexDigit (of_char c div 16), upperHexDigit (of_char c)]"

definition PathEscape :: "string \<Rightarrow> string" where
  "PathEscape s = concat (map (\<lambda>c. if pathSegmentSafe c then [c] else percentByte c) s)"

definition encodeDrive9FSPath :: "string \<Rightarrow> error + string" where
  "encodeDrive9FSPath remotePath =
     ebind (normalizeRemotePath remotePath) (\<lambda>normalized.
       if normalized = ''/'' then Inr ''/v1/fs/''
       else Inr (''/v1/fs/''
              @ Join (map PathEscape (Split (CHR ''/'') (TrimPrefix normalized ''/''))) ''/''))"

section \<open>Volume ids and metadata paths (driver.go)\<close>

definition volumeIDForRemoteRoot :: "string \<Rightarrow> string" where
  "volumeIDForRemoteRoot remoteRoot = ''drive9-'' @ take 32 (sha256hex remoteRoot)"

definition volumeIDForWorkspaceRoot :: "string \<Rightarrow> string \<Rightarrow> string" where
  "volumeIDForWorkspaceRoot name remoteRoot =
     (let normalizedRoot = (case normalizeRemotePath remoteRoot of
                              Inl e \<Rightarrow> TrimSpace remoteRoot | Inr r \<Rightarrow> r)
      in workspaceRootVolumeIDPrefix
           @ take 32 (sha256hex (TrimSpace name @ [CHR 0x00] @ normalizedRoot)))"

text \<open>\<open>hex.DecodeString\<close> succeeds on an even number of digits of either case.\<close>

definition isHexDigit :: "char \<Rightarrow> bool" where
  "isHexDigit c \<longleftrightarrow> isLowerHex c \<or> ((65::nat) \<le> of_char c \<and> of_char c \<le> (70::nat))"

definition isWorkspaceRootVolumeID :: "string \<Rightarrow> bool" where
  "isWorkspaceRootVolumeID volumeID =
     (let suffix = TrimPrefix volumeID workspaceRootVolumeIDPrefix
      in if suffix = volumeID \<or> length suffix \<noteq> 32 then False else list_all isHexDigit suffix)"

definition markerPath :: "string \<Rightarrow> string" where
  "markerPath remoteRoot =
     (if remoteRoot = ''/'' then ''/'' @ markerFileName
      else TrimRight remoteRoot ''/'' @ ''/'' @ markerFileName)"

definition indexPath :: "string \<Rightarrow> string" where
  "indexPath volumeID = path_Join [metadataRoot, safeFileName volumeID @ ''.json'']"

definition nameIndexPath :: "string \<Rightarrow> string" where
  "nameIndexPath name =
     (let base0 = safeFileName name; base = (if base0 = [] then ''volume'' else base0)
      in path_Join [nameIndexRoot, base @ ''-'' @ take 16 (sha256hex (TrimSpace name)) @ ''.json''])"

text \<open>\<open>volumeIDPattern\<close> of host_process.go: \<open>^(?:drive9|drive9-root)-[0-9a-f]{32}$\<close>.\<close>

definition volumeIDPattern :: "string \<Rightarrow> bool" where
  "volumeIDPattern s \<longleftrightarrow>
     (HasPrefix s ''drive9-'' \<and> hexDigits 32 (drop 7 s))
     \<or> (HasPrefix s ''drive9-root-'' \<and> hexDigits 32 (drop 12 s))"

section \<open>Canonical remote paths\<close>

text \<open>What a normalised path looks like: absolute, cleaned, and without NUL.\<close>

definition canonicalRemote :: "string \<Rightarrow> bool" where
  "canonicalRemote p \<longleftrightarrow> cleanAbs p \<and> CHR 0x00 \<notin> set p"

lemma set_Clean: "IsAbs p \<Longrightarrow> set (Clean p) \<subseteq> set p"
proof -
  assume "IsAbs p"
  have "set (foldl (cleanStep r) st es) \<subseteq> set st \<union> set es \<union> {''..''}" for r st es
  proof (induction es arbitrary: st)
    case (Cons e es)
    have "set (cleanStep r st e) \<subseteq> set st \<union> {e} \<union> {''..''}" by (auto split: list.splits)
    with Cons [of "cleanStep r st e"] show ?case
      by (auto simp del: cleanStep.simps)
  qed auto
  then have "set (pathComps p) \<subseteq> set (Split (CHR ''/'') p) \<union> {''..''}"
    unfolding pathComps_def by (metis Un_empty_left empty_set set_rev)
  moreover have "''..'' \<notin> set (pathComps p)"
    using pathComps_good [OF \<open>IsAbs p\<close>] by (auto simp: goodComp_def)
  ultimately have "set (pathComps p) \<subseteq> set (Split (CHR ''/'') p)" by blast
  then have "set (Join (pathComps p) ''/'') \<subseteq> set p \<union> {CHR ''/''}"
    using set_Join [of "pathComps p" "''/''"] set_Split by fastforce
  moreover have "CHR ''/'' \<in> set p" using \<open>IsAbs p\<close> by (auto elim: IsAbsE)
  ultimately show ?thesis using \<open>IsAbs p\<close> by (auto simp: Clean_def)
qed

lemma normalizeRemotePath_Inr:
  assumes "normalizeRemotePath raw = Inr r"
  shows "canonicalRemote r"
proof -
  let ?t = "TrimSpace raw"
  let ?r2 = "if HasPrefix ?t '':'' then TrimPrefix ?t '':'' else ?t"
  let ?r3 = "if \<not> HasPrefix ?r2 ''/'' then ''/'' @ ?r2 else ?r2"
  have abs: "IsAbs ?r3" by (auto simp: IsAbs_def)
  then have "Clean ?r3 \<noteq> ''.''" using IsAbs_Clean by fastforce
  with assms have "r = Clean ?r3" "CHR 0x00 \<notin> set ?r3"
    unfolding normalizeRemotePath_def Let_def by (auto split: if_splits)
  with abs show ?thesis
    using set_Clean [OF abs] by (auto simp: canonicalRemote_def cleanAbs_Clean)
qed

lemma canonicalRemote_abs [simp]: "canonicalRemote p \<Longrightarrow> IsAbs p"
  by (simp add: canonicalRemote_def cleanAbs_def)

lemma canonicalRemote_cleanAbs: "canonicalRemote p \<Longrightarrow> cleanAbs p"
  by (simp add: canonicalRemote_def)

lemma TrimRight_last: "s \<noteq> [] \<Longrightarrow> last s \<notin> set chars \<Longrightarrow> TrimRight s chars = s"
  by (cases s rule: rev_cases) (auto simp: TrimRight_def)

lemma TrimLeft_hd: "s \<noteq> [] \<Longrightarrow> hd s \<notin> set chars \<Longrightarrow> TrimLeft s chars = s"
  by (cases s) (auto simp: TrimLeft_def)

lemma Join_ends:
  assumes "cs \<noteq> []" and "\<forall>c\<in>set cs. goodComp c"
  shows "Join cs ''/'' \<noteq> []" and "hd (Join cs ''/'') \<noteq> CHR ''/''" and "last (Join cs ''/'') \<noteq> CHR ''/''"
proof -
  obtain b c where bc: "cs = b @ [c]" using assms(1) by (cases cs rule: rev_cases) auto
  obtain d ds where d: "cs = d # ds" using assms(1) by (cases cs) auto
  have "goodComp c" "goodComp d" using assms(2) bc d by (metis in_set_conv_decomp, metis list.set_intros(1))
  then have gc: "c \<noteq> []" "CHR ''/'' \<notin> set c" and gd: "d \<noteq> []" "CHR ''/'' \<notin> set d"
    by (simp_all add: goodComp_def)
  have "\<exists>us. Join cs ''/'' = us @ c"
    unfolding bc by (cases "b = []") (simp_all add: Join_snoc)
  then obtain us where us: "Join cs ''/'' = us @ c" ..
  have "\<exists>vs. Join cs ''/'' = d @ vs"
    unfolding d by (cases "ds = []") (simp_all add: Join_Cons)
  then obtain vs where vs: "Join cs ''/'' = d @ vs" ..
  show "Join cs ''/'' \<noteq> []" using us gc by simp
  have "hd (Join cs ''/'') \<in> set d" unfolding vs using gd by simp
  then show "hd (Join cs ''/'') \<noteq> CHR ''/''" using gd(2) by auto
  have "last (Join cs ''/'') \<in> set c" unfolding us using gc by simp
  then show "last (Join cs ''/'') \<noteq> CHR ''/''" using gc(2) by auto
qed

lemma TrimRight_cleanAbs: "cleanAbs p \<Longrightarrow> p \<noteq> ''/'' \<Longrightarrow> TrimRight p ''/'' = p"
proof -
  assume "cleanAbs p" "p \<noteq> ''/''"
  then obtain cs where p: "p = CHR ''/'' # Join cs ''/''" and "\<forall>c\<in>set cs. goodComp c"
    by (auto elim!: cleanAbsE)
  moreover from this \<open>p \<noteq> ''/''\<close> have "cs \<noteq> []" by auto
  ultimately have "last p \<noteq> CHR ''/''" using Join_ends [of cs] by simp
  then show ?thesis by (intro TrimRight_last) (simp_all add: p)
qed

lemma Trim_cleanAbs:
  assumes "\<forall>c\<in>set cs. goodComp c"
  shows "Trim (CHR ''/'' # Join cs ''/'') ''/'' = Join cs ''/''"
proof (cases "cs = []")
  case True
  then show ?thesis by (simp add: Trim_def TrimLeft_def TrimRight_def)
next
  case False
  note ends = Join_ends [OF False assms]
  have "TrimLeft (CHR ''/'' # Join cs ''/'') ''/'' = TrimLeft (Join cs ''/'') ''/''"
    by (simp add: TrimLeft_def)
  then show ?thesis using ends by (simp add: Trim_def TrimLeft_hd TrimRight_last)
qed

lemma canonical_dotfree:
  assumes "cleanAbs p"
  shows "\<not> list_ex dotSegment (Split (CHR ''/'') (Trim p ''/''))"
proof -
  obtain cs where p: "p = CHR ''/'' # Join cs ''/''" and good: "\<forall>c\<in>set cs. goodComp c"
    using assms by (rule cleanAbsE)
  have "set (Split (CHR ''/'') (Join cs ''/'')) \<subseteq> insert [] (set cs)"
    using good by (cases "cs = []") (auto simp: Split_Join goodComp_def)
  then show ?thesis using good
    by (fastforce simp: p Trim_cleanAbs list_ex_iff dotSegment_def goodComp_def)
qed

text \<open>
  A canonical path is a fixed point exactly when it does not end in white space: cleaning can
  expose white space that the initial trim did not see.
\<close>

lemma normalizeRemotePath_canonical:
  assumes "canonicalRemote p" and "noSpaceEnds p"
  shows "normalizeRemotePath p = Inr p"
proof -
  have abs: "IsAbs p" and clean: "Clean p = p" and nul: "CHR 0x00 \<notin> set p"
    using assms(1) by (auto simp: canonicalRemote_def cleanAbs_def)
  obtain s where s: "p = CHR ''/'' # s" using abs by (rule IsAbsE)
  have nd: "\<not> list_ex dotSegment (Split (CHR ''/'') (Trim p ''/''))"
    using assms(1) by (intro canonical_dotfree) (simp add: canonicalRemote_def)
  moreover have "\<not> list_ex dotSegment (filter (\<lambda>q. q \<noteq> []) (Split (CHR ''/'') (Trim p ''/'')))"
    using nd by (auto simp: list_ex_iff)
  moreover have "\<not> HasPrefix p '':''" "HasPrefix p ''/''" "p \<noteq> ''.''" "p \<noteq> []" by (simp_all add: s)
  ultimately show ?thesis
    using nul clean assms(2) by (simp add: normalizeRemotePath_def TrimSpace_noop)
qed

lemma normalizeRemotePath_idem:
  "normalizeRemotePath raw = Inr r \<Longrightarrow> noSpaceEnds r \<Longrightarrow> normalizeRemotePath r = Inr r"
  by (simp add: normalizeRemotePath_Inr normalizeRemotePath_canonical)

section \<open>Containment of canonical paths\<close>

lemma Split_Join_append:
  "cs \<noteq> [] \<Longrightarrow> \<forall>c\<in>set cs. b \<notin> set c \<Longrightarrow> Split b (Join cs [b] @ b # s) = cs @ Split b s"
  by (induction cs "[b]" rule: Join.induct) (auto simp: Split_append)

lemma Join_append: "xs \<noteq> [] \<Longrightarrow> ys \<noteq> [] \<Longrightarrow> Join (xs @ ys) sep = Join xs sep @ sep @ Join ys sep"
proof (induction xs)
  case (Cons x xs)
  then show ?case by (cases "xs = []") (simp_all add: Join_Cons)
qed simp

lemma pathIsOrUnder_comps:
  assumes c: "cleanAbs c" and p: "cleanAbs p"
  shows "pathIsOrUnder c p \<longleftrightarrow> (\<exists>cs. pathComps c = pathComps p @ cs)"
proof -
  obtain cc where cc: "c = CHR ''/'' # Join cc ''/''" "\<forall>x\<in>set cc. goodComp x" "pathComps c = cc"
    using c by (rule cleanAbsE)
  obtain pc where pc: "p = CHR ''/'' # Join pc ''/''" "\<forall>x\<in>set pc. goodComp x" "pathComps p = pc"
    using p by (rule cleanAbsE)
  have cl: "Clean c = c" "Clean p = p" using c p by (auto simp: cleanAbs_def)
  show ?thesis
  proof (cases "pc = []")
    case True
    then show ?thesis using cl cc pc by (simp add: pathIsOrUnder_def TrimRight_def)
  next
    case False
    then have "p \<noteq> ''/''" using pc Join_ends by auto
    then have tr: "TrimRight p ''/'' = p" by (rule TrimRight_cleanAbs [OF p])
    have "pathIsOrUnder c p" if "cc = pc @ cs" for cs
    proof (cases "cs = []")
      case True
      then show ?thesis using that cc pc by (simp add: pathIsOrUnder_def)
    next
      case ne: False
      have "Join (pc @ cs) ''/'' = Join pc ''/'' @ ''/'' @ Join cs ''/''"
        using False ne by (rule Join_append)
      then show ?thesis using that cc pc cl tr
        by (simp add: pathIsOrUnder_def HasPrefix_iff)
    qed
    moreover have "\<exists>cs. cc = pc @ cs" if under: "pathIsOrUnder c p"
    proof -
      consider "c = p" | "HasPrefix c (p @ ''/'')"
        using under cl tr by (auto simp: pathIsOrUnder_def Let_def)
      then show ?thesis
      proof cases
        case 1
        then show ?thesis using cc pc by auto
      next
        case 2
        then obtain r where r: "Join cc ''/'' = Join pc ''/'' @ CHR ''/'' # r"
          using cc pc by (auto simp: HasPrefix_iff)
        then have "cc \<noteq> []" by auto
        then have "cc = Split (CHR ''/'') (Join cc ''/'')" using cc(2) by (simp add: Split_Join goodComp_def)
        also have "\<dots> = pc @ Split (CHR ''/'') r"
          unfolding r using pc(2) False by (intro Split_Join_append) (auto simp: goodComp_def)
        finally show ?thesis by blast
      qed
    qed
    ultimately show ?thesis using cc pc by auto
  qed
qed

lemma cleanAbs_constants [simp]:
  "cleanAbs metadataRoot" "cleanAbs nameIndexRoot" "cleanAbs allowedVolumeRoot" "cleanAbs ''/''"
  by (simp_all add: cleanAbs_def Clean_def pathComps_def metadataRoot_def nameIndexRoot_def
      allowedVolumeRoot_def)

lemma constants_not_root [simp]:
  "metadataRoot \<noteq> ''/''" "nameIndexRoot \<noteq> ''/''" "allowedVolumeRoot \<noteq> ''/''"
  by (simp_all add: metadataRoot_def nameIndexRoot_def allowedVolumeRoot_def)

lemma pathComps_constants:
  "pathComps metadataRoot = [''k8s'', ''.drive9-csi'', ''volumes'']"
  "pathComps nameIndexRoot = [''k8s'', ''.drive9-csi'', ''volumes'', ''by-name'']"
  "pathComps allowedVolumeRoot = [''k8s'']" "pathComps ''/'' = []"
  by (simp_all add: pathComps_def metadataRoot_def nameIndexRoot_def allowedVolumeRoot_def)

lemma validateVolumeRoot_None:
  "validateVolumeRoot raw = None \<longleftrightarrow>
    (\<exists>r. normalizeRemotePath raw = Inr r \<and> r \<noteq> ''/'' \<and> pathIsOrUnder r allowedVolumeRoot \<and>
         \<not> pathIsOrUnder r metadataRoot \<and> \<not> pathIsOrUnder metadataRoot r)"
  by (auto simp: validateVolumeRoot_def split: sum.splits)

lemma validateVolumePrefix_None:
  "validateVolumePrefix raw = None \<longleftrightarrow> validateVolumeRoot raw = None"
  by (auto simp: validateVolumeRoot_def validateVolumePrefix_def split: sum.splits)

section \<open>Sanitised names are safe path components\<close>

lemma safeNameChar_visible: "safeNameChar c \<Longrightarrow> visibleASCII c \<and> c \<noteq> CHR ''/''"
  by (auto simp: safeNameChar_def isDigit_def visibleASCII_def)

lemma replaceUnsafe_safe: "c \<in> set (replaceUnsafe b s) \<Longrightarrow> safeNameChar c"
  by (induction b s rule: replaceUnsafe.induct) (auto simp: safeNameChar_def split: if_splits)

lemma set_Trim: "set (Trim s chars) \<subseteq> set s"
  unfolding Trim_def TrimLeft_def TrimRight_def
  by (metis set_dropWhileD set_rev subsetI)

lemma Trim_ends: "Trim s chars \<noteq> [] \<Longrightarrow>
    hd (Trim s chars) \<notin> set chars \<and> last (Trim s chars) \<notin> set chars"
proof -
  assume ne: "Trim s chars \<noteq> []"
  let ?l = "TrimLeft s chars" and ?P = "\<lambda>c. c \<in> set chars"
  have tr: "Trim s chars = rev (dropWhile ?P (rev ?l))" by (simp add: Trim_def TrimRight_def)
  then have "last (Trim s chars) = hd (dropWhile ?P (rev ?l))" using ne by (simp add: last_rev)
  then have "last (Trim s chars) \<notin> set chars"
    using ne tr hd_dropWhile [of ?P "rev ?l"] by auto
  moreover have "\<exists>q. ?l = Trim s chars @ q"
    unfolding tr by (metis rev_append rev_rev_ident takeWhile_dropWhile_id)
  then have "hd ?l = hd (Trim s chars)" "?l \<noteq> []" using ne by auto
  then have "hd (Trim s chars) \<notin> set chars"
    unfolding TrimLeft_def by (metis (mono_tags, lifting) hd_dropWhile)
  ultimately show ?thesis by blast
qed

lemma length_Trim: "length (Trim s chars) \<le> length s"
  unfolding Trim_def TrimLeft_def TrimRight_def
  by (metis length_dropWhile_le length_rev order_trans)

definition safeName :: "string \<Rightarrow> bool" where
  "safeName s \<longleftrightarrow> length s \<le> 80 \<and> list_all safeNameChar s
     \<and> (s \<noteq> [] \<longrightarrow> hd s \<notin> set ''-.'' \<and> last s \<notin> set ''-.'')"

lemma safeFileName_safe: "safeName (safeFileName name)"
proof -
  let ?r = "replaceUnsafe False (TrimSpace name)" and ?t = "Trim (replaceUnsafe False (TrimSpace name)) ''-.''"
  have safe: "list_all safeNameChar ?t"
    using set_Trim [of ?r "''-.''"] replaceUnsafe_safe by (fastforce simp: list_all_iff)
  show ?thesis
  proof (cases "80 < length ?t")
    case True
    have "list_all safeNameChar (Trim (take 80 ?t) ''-.'')"
      using safe set_Trim [of "take 80 ?t" "''-.''"] set_take_subset [of 80 ?t]
      by (fastforce simp: list_all_iff)
    with True show ?thesis
      using length_Trim [of "take 80 ?t" "''-.''"] Trim_ends [of "take 80 ?t" "''-.''"]
      by (simp add: safeName_def safeFileName_def)
  next
    case False
    with safe show ?thesis using Trim_ends [of ?r "''-.''"]
      by (simp add: safeName_def safeFileName_def)
  qed
qed

lemma safe_goodComp:
  assumes "list_all safeNameChar s" and "s \<noteq> []" and "hd s \<noteq> CHR ''.''"
  shows "goodComp s"
  using assms safeNameChar_visible by (cases s) (auto simp: goodComp_def list_all_iff)

lemma isLowerHex_safe: "isLowerHex c \<Longrightarrow> safeNameChar c"
  by (auto simp: isLowerHex_def safeNameChar_def)

lemma hexDigits_safe: "hexDigits n s \<Longrightarrow> list_all safeNameChar s"
  by (auto simp: hexDigits_def list_all_iff isLowerHex_safe)

text \<open>The file name built from a sanitised base and a digest is one good path component.\<close>

lemma named_component:
  assumes "list_all safeNameChar tl'"
  shows "goodComp ((if safeFileName name = [] then ''volume'' else safeFileName name) @ CHR ''-'' # tl')"
proof -
  let ?b = "if safeFileName name = [] then ''volume'' else safeFileName name"
  have "list_all safeNameChar ?b" "?b \<noteq> []" "hd ?b \<noteq> CHR ''.''"
    using safeFileName_safe [of name] by (auto simp: safeName_def safeNameChar_def isDigit_def)
  with assms show ?thesis by (intro safe_goodComp) (auto simp: safeNameChar_def)
qed

section \<open>Derived paths\<close>

lemma nameIndexPath_child:
  obtains c where "goodComp c" and "nameIndexPath name = nameIndexRoot @ ''/'' @ c"
proof -
  let ?c = "(if safeFileName name = [] then ''volume'' else safeFileName name)
      @ CHR ''-'' # take 16 (sha256hex (TrimSpace name)) @ ''.json''"
  have "list_all safeNameChar (take 16 (sha256hex (TrimSpace name)) @ ''.json'')"
    using hexDigits_safe [OF take_sha256hex_hex [of 16 "TrimSpace name"]]
    by (simp add: safeNameChar_def)
  then have good: "goodComp ?c" by (rule named_component)
  moreover have "nameIndexPath name = path_Join [nameIndexRoot, ?c]"
    by (simp only: nameIndexPath_def Let_def append.simps)
  with path_Join_child [OF _ _ good, of nameIndexRoot]
  have "nameIndexPath name = nameIndexRoot @ ''/'' @ ?c" by simp
  ultimately show thesis by (rule that)
qed

lemma indexPath_child:
  obtains c where "goodComp c" and "indexPath v = metadataRoot @ ''/'' @ c"
proof -
  let ?c = "safeFileName v @ ''.json''"
  have "list_all safeNameChar ?c" using safeFileName_safe [of v]
    by (simp add: safeName_def safeNameChar_def)
  moreover have "?c \<noteq> ''.''" "?c \<noteq> ''..''" "?c \<noteq> []"
    by (cases "safeFileName v" rule: rev_cases; simp)+
  ultimately have good: "goodComp ?c"
    using safeNameChar_visible by (auto simp: goodComp_def list_all_iff)
  moreover from path_Join_child [OF _ _ good, of metadataRoot]
  have "indexPath v = metadataRoot @ ''/'' @ ?c" by (simp add: indexPath_def)
  ultimately show thesis by (rule that)
qed

lemma buildRemoteRoot_child:
  assumes "buildRemoteRoot p name = Inr root"
  obtains prefix c where "normalizeRemotePath p = Inr prefix" and "validateVolumeRoot prefix = None"
    and "goodComp c" and "\<forall>x\<in>set c. visibleASCII x" and "root = prefix @ ''/'' @ c"
    and "cleanAbs prefix" and "prefix \<noteq> ''/''" and "normalizeRemotePath (prefix @ ''/'' @ c) = Inr root"
proof -
  let ?c = "(if safeFileName name = [] then ''volume'' else safeFileName name)
      @ CHR ''-'' # take 12 (sha256hex name)"
  from assms obtain prefix where n: "normalizeRemotePath p = Inr prefix" and ne: "prefix \<noteq> ''/''"
    and v: "validateVolumeRoot prefix = None"
    and r: "normalizeRemotePath (path_Join [prefix, ?c]) = Inr root"
    by (auto simp: buildRemoteRoot_def Let_def validateVolumePrefix_None
        split: option.splits if_splits)
  have c: "cleanAbs prefix" using n normalizeRemotePath_Inr by (simp add: canonicalRemote_def)
  have hex: "list_all safeNameChar (take 12 (sha256hex name))"
    using hexDigits_safe [OF take_sha256hex_hex [of 12 name]] by simp
  then have good: "goodComp ?c" by (rule named_component)
  have vis: "\<forall>x\<in>set ?c. visibleASCII x"
    using hex safeFileName_safe [of name] safeNameChar_visible
    by (auto simp: safeName_def list_all_iff visibleASCII_def)
  have j: "path_Join [prefix, ?c] = prefix @ ''/'' @ ?c"
    by (rule path_Join_child [OF c ne good])
  have child: "cleanAbs (prefix @ ''/'' @ ?c)" by (rule child_path(1) [OF c ne good])
  have "\<not> visibleASCII (CHR 0x00)" by (simp add: visibleASCII_def)
  then have "CHR 0x00 \<notin> set ?c" using vis by blast
  then have canon: "canonicalRemote (prefix @ ''/'' @ ?c)"
    using child n normalizeRemotePath_Inr by (auto simp: canonicalRemote_def)
  have "noSpaceEnds (prefix @ ''/'' @ ?c)"
  proof (rule noSpaceEnds_visible, rule disjI2, rule conjI)
    obtain s where "prefix = CHR ''/'' # s" using c by (auto simp: cleanAbs_def elim: IsAbsE)
    then show "visibleASCII (hd (prefix @ ''/'' @ ?c))" by (simp add: visibleASCII_def)
    have "?c \<noteq> []" by simp
    then show "visibleASCII (last (prefix @ ''/'' @ ?c))" using vis
      by (metis append_is_Nil_conv last_appendR last_in_set)
  qed
  then have "normalizeRemotePath (prefix @ ''/'' @ ?c) = Inr (prefix @ ''/'' @ ?c)"
    by (rule normalizeRemotePath_canonical [OF canon])
  with r j have "root = prefix @ ''/'' @ ?c" by simp
  with n v good vis c ne j r show thesis by (intro that [of prefix ?c]) simp_all
qed

section \<open>Which remote roots a volume may have\<close>

lemma goodComp_snoc_comps:
  "cleanAbs p \<Longrightarrow> p \<noteq> ''/'' \<Longrightarrow> goodComp c \<Longrightarrow> pathComps (p @ CHR ''/'' # c) = pathComps p @ [c]"
  using child_path(2) [of p c] by simp

lemma buildRemoteRoot_total:
  assumes "normalizeRemotePath p = Inr prefix" and "prefix \<noteq> ''/''" and "validateVolumePrefix prefix = None"
  shows "\<exists>root. buildRemoteRoot p name = Inr root"
proof -
  let ?c = "(if safeFileName name = [] then ''volume'' else safeFileName name)
      @ CHR ''-'' # take 12 (sha256hex name)"
  have hex: "list_all safeNameChar (take 12 (sha256hex name))"
    using hexDigits_safe [OF take_sha256hex_hex [of 12 name]] by simp
  then have good: "goodComp ?c" by (rule named_component)
  have clean: "cleanAbs prefix" "canonicalRemote prefix"
    using assms(1) normalizeRemotePath_Inr by (auto simp: canonicalRemote_def)
  have j: "path_Join [prefix, ?c] = prefix @ ''/'' @ ?c"
    by (rule path_Join_child [OF clean(1) assms(2) good])
  have vis: "\<forall>x\<in>set ?c. visibleASCII x"
    using hex safeFileName_safe [of name] safeNameChar_visible
    by (auto simp: safeName_def list_all_iff visibleASCII_def)
  have "\<not> visibleASCII (CHR 0x00)" by (simp add: visibleASCII_def)
  then have "CHR 0x00 \<notin> set ?c" using vis by blast
  then have canon: "canonicalRemote (prefix @ ''/'' @ ?c)"
    using child_path(1) [OF clean(1) assms(2) good] clean(2) by (auto simp: canonicalRemote_def)
  have "noSpaceEnds (prefix @ ''/'' @ ?c)"
  proof (rule noSpaceEnds_visible, rule disjI2, rule conjI)
    obtain s where "prefix = CHR ''/'' # s" using clean(1) by (auto simp: cleanAbs_def elim: IsAbsE)
    then show "visibleASCII (hd (prefix @ ''/'' @ ?c))" by (simp add: visibleASCII_def)
    have "?c \<noteq> []" by simp
    then show "visibleASCII (last (prefix @ ''/'' @ ?c))" using vis
      by (metis append_is_Nil_conv last_appendR last_in_set)
  qed
  then have "normalizeRemotePath (prefix @ ''/'' @ ?c) = Inr (prefix @ ''/'' @ ?c)"
    by (rule normalizeRemotePath_canonical [OF canon])
  moreover have "path_Join [prefix, (if safeFileName name = [] then ''volume'' else safeFileName name)
      @ ''-'' @ take 12 (sha256hex name)] = prefix @ ''/'' @ ?c" using j by simp
  ultimately show ?thesis using assms unfolding buildRemoteRoot_def Let_def by simp
qed

lemma child_valid:
  assumes clean: "cleanAbs p" and ne: "p \<noteq> ''/''" and good: "goodComp c"
    and under: "pathIsOrUnder p allowedVolumeRoot" "\<not> pathIsOrUnder p metadataRoot"
      "\<not> pathIsOrUnder metadataRoot p"
    and fixed: "normalizeRemotePath (p @ ''/'' @ c) = Inr (p @ ''/'' @ c)"
  shows "validateVolumeRoot (p @ ''/'' @ c) = None"
proof -
  let ?root = "p @ ''/'' @ c"
  have u: "\<exists>cs. pathComps p = pathComps allowedVolumeRoot @ cs"
    "\<nexists>cs. pathComps p = pathComps metadataRoot @ cs" "\<nexists>cs. pathComps metadataRoot = pathComps p @ cs"
    using under clean by (simp_all only: pathIsOrUnder_comps cleanAbs_constants simp_thms)
  have rc: "pathComps ?root = pathComps p @ [c]" "cleanAbs ?root"
    using child_path [OF clean ne good] by simp_all
  have "pathIsOrUnder ?root allowedVolumeRoot" using u(1) rc by (auto simp: pathIsOrUnder_comps)
  moreover have "\<not> pathIsOrUnder ?root metadataRoot"
  proof
    assume "pathIsOrUnder ?root metadataRoot"
    then obtain cs where "pathComps p @ [c] = pathComps metadataRoot @ cs"
      using rc by (auto simp: pathIsOrUnder_comps)
    with u(2,3) show False by (cases cs rule: rev_cases) (simp, metis, auto)
  qed
  moreover have "\<not> pathIsOrUnder metadataRoot ?root"
    using u(3) rc by (auto simp: pathIsOrUnder_comps)
  moreover have "?root \<noteq> ''/''" using good by (cases p) (auto simp: goodComp_def)
  ultimately show ?thesis using fixed by (simp add: validateVolumeRoot_None)
qed

section \<open>Properties\<close>

text \<open>
  C33: every managed-directory root that CreateVolume builds from a prefix and a volume name,
  when the canonical prefix does not end in white space, is accepted as a volume root by
  NodeStageVolume and as a delete root by DeleteVolume, is a fixed point of normalisation, and
  has a well-formed directory-volume id.
\<close>

theorem buildRemoteRoot_valid:
  assumes "buildRemoteRoot prefix name = Inr root"
    and "normalizeRemotePath prefix = Inr p" and "noSpaceEnds p"
  shows "validateVolumeRoot root = None \<and> validateSafeDeleteRoot root = None
    \<and> normalizeRemotePath root = Inr root \<and> volumeIDPattern (volumeIDForRemoteRoot root)"
proof -
  obtain c where v: "validateVolumeRoot p = None" and good: "goodComp c"
    and root: "root = p @ ''/'' @ c" and clean: "cleanAbs p" and ne: "p \<noteq> ''/''"
    and nroot: "normalizeRemotePath (p @ ''/'' @ c) = Inr root"
    using buildRemoteRoot_child [OF assms(1)] assms(2) by (metis Inr_inject)
  have fixed: "normalizeRemotePath (p @ ''/'' @ c) = Inr (p @ ''/'' @ c)" using nroot root by simp
  have "normalizeRemotePath p = Inr p" using assms(2,3) by (rule normalizeRemotePath_idem)
  then have "validateVolumeRoot root = None" unfolding root
    using v by (intro child_valid clean ne good fixed) (auto simp: validateVolumeRoot_None)
  moreover have "volumeIDPattern (volumeIDForRemoteRoot root)"
    using take_sha256hex_hex [of 32 root]
    by (simp add: volumeIDPattern_def volumeIDForRemoteRoot_def HasPrefix_def)
  ultimately show ?thesis using fixed root by (simp add: validateSafeDeleteRoot_def)
qed


theorem buildRemoteRoot_valid_witness:
  "\<exists>root. buildRemoteRoot ''/k8s/team'' ''data'' = Inr root
     \<and> validateVolumeRoot root = None \<and> validateSafeDeleteRoot root = None
     \<and> normalizeRemotePath root = Inr root \<and> volumeIDPattern (volumeIDForRemoteRoot root)"
proof -
  have n: "normalizeRemotePath ''/k8s/team'' = Inr ''/k8s/team''" by code_simp
  have "validateVolumePrefix ''/k8s/team'' = None" by code_simp
  with n obtain root where r: "buildRemoteRoot ''/k8s/team'' ''data'' = Inr root"
    using buildRemoteRoot_total [of "''/k8s/team''" "''/k8s/team''" "''data''"] by auto
  moreover have "noSpaceEnds ''/k8s/team''" by code_simp
  ultimately show ?thesis using buildRemoteRoot_valid [OF r n] by blast
qed

text \<open>
  C37: normalisation is idempotent on results without white space at their ends, but not in
  general: a trailing separator hides white space from the initial trim, and cleaning exposes it.
\<close>

theorem normalizeRemotePath_fixed_points:
  "(\<forall>raw r. normalizeRemotePath raw = Inr r \<longrightarrow> noSpaceEnds r \<longrightarrow> normalizeRemotePath r = Inr r)
   \<and> normalizeRemotePath ''/foo /'' = Inr ''/foo '' \<and> normalizeRemotePath ''/foo '' = Inr ''/foo''"
proof (intro conjI allI impI)
  show "normalizeRemotePath ''/foo /'' = Inr ''/foo ''" by code_simp
  show "normalizeRemotePath ''/foo '' = Inr ''/foo''" by code_simp
qed (rule normalizeRemotePath_idem)

theorem normalizeRemotePath_fixed_points_witness:
  "normalizeRemotePath '':data/a/'' = Inr ''/data/a'' \<and> normalizeRemotePath ''/data/a'' = Inr ''/data/a''"
proof -
  have n: "normalizeRemotePath '':data/a/'' = Inr ''/data/a''" by code_simp
  moreover have "noSpaceEnds ''/data/a''" by code_simp
  ultimately show ?thesis using normalizeRemotePath_fixed_points by blast
qed

lemma isLowerHex_isHexDigit: "isLowerHex c \<Longrightarrow> isHexDigit c"
  by (simp add: isHexDigit_def)

text \<open>
  C34: the two kinds of volume id are both well formed and never confused: NodeStageVolume and
  DeleteVolume recognise every workspace-root id and no directory id as a workspace root.
\<close>

theorem volume_id_kinds:
  "volumeIDPattern (volumeIDForRemoteRoot root) \<and> \<not> isWorkspaceRootVolumeID (volumeIDForRemoteRoot root)
   \<and> volumeIDPattern (volumeIDForWorkspaceRoot name root)
   \<and> isWorkspaceRootVolumeID (volumeIDForWorkspaceRoot name root)
   \<and> volumeIDForWorkspaceRoot name root \<noteq> volumeIDForRemoteRoot root'"
proof -
  have hex: "hexDigits 32 (take 32 (sha256hex s))" for s by (rule take_sha256hex_hex) simp
  have dir: "volumeIDPattern (volumeIDForRemoteRoot r)" for r
    using hex [of r] by (simp add: volumeIDPattern_def volumeIDForRemoteRoot_def HasPrefix_def)
  have notws: "\<not> isWorkspaceRootVolumeID (volumeIDForRemoteRoot r)" for r
  proof -
    have "\<not> isLowerHex (CHR ''r'')" by (simp add: isLowerHex_def isDigit_def)
    then have "\<not> HasPrefix (take 32 (sha256hex r)) ''root-''"
      using hex [of r] by (auto simp: HasPrefix_iff hexDigits_def)
    then have "\<not> HasPrefix (volumeIDForRemoteRoot r) workspaceRootVolumeIDPrefix"
      by (simp add: HasPrefix_iff volumeIDForRemoteRoot_def workspaceRootVolumeIDPrefix_def)
    then show ?thesis by (simp add: isWorkspaceRootVolumeID_def TrimPrefix_def)
  qed
  obtain s where s: "volumeIDForWorkspaceRoot name root = workspaceRootVolumeIDPrefix @ take 32 (sha256hex s)"
    by (auto simp: volumeIDForWorkspaceRoot_def Let_def)
  have "volumeIDPattern (volumeIDForWorkspaceRoot name root)" using hex [of s]
    by (simp add: s volumeIDPattern_def workspaceRootVolumeIDPrefix_def HasPrefix_def)
  moreover have "isWorkspaceRootVolumeID (volumeIDForWorkspaceRoot name root)"
    using hex [of s] unfolding s
    by (simp add: isWorkspaceRootVolumeID_def workspaceRootVolumeIDPrefix_def TrimPrefix_def HasPrefix_def
        hexDigits_def list_all_iff isLowerHex_isHexDigit)
  ultimately show ?thesis using dir notws by metis
qed

text \<open>
  C35: index files never lie inside a volume root: an index or name-index path is not at or
  under any root that NodeStageVolume and DeleteVolume accept, and no root contains the
  metadata directory; index and name-index files have different paths.
\<close>

theorem metadata_separated:
  assumes "normalizeRemotePath root = Inr root" and "validateVolumeRoot root = None"
  shows "\<not> pathIsOrUnder (indexPath v) root \<and> \<not> pathIsOrUnder (nameIndexPath name) root
    \<and> \<not> pathIsOrUnder root (indexPath v) \<and> \<not> pathIsOrUnder root (nameIndexPath name)
    \<and> indexPath v \<noteq> nameIndexPath name"
proof -
  have clean: "cleanAbs root" using assms(1) normalizeRemotePath_Inr by (simp add: canonicalRemote_def)
  have sep: "\<nexists>cs. pathComps root = pathComps metadataRoot @ cs"
    "\<nexists>cs. pathComps metadataRoot = pathComps root @ cs"
    using assms clean by (auto simp: validateVolumeRoot_None pathIsOrUnder_comps)
  obtain c where c: "goodComp c" "indexPath v = metadataRoot @ ''/'' @ c" by (rule indexPath_child)
  obtain d where d: "goodComp d" "nameIndexPath name = nameIndexRoot @ ''/'' @ d" by (rule nameIndexPath_child)
  have ic: "cleanAbs (indexPath v)" "pathComps (indexPath v) = pathComps metadataRoot @ [c]"
    using child_path [OF cleanAbs_constants(1) constants_not_root(1) c(1)] c(2) by simp_all
  have nc: "cleanAbs (nameIndexPath name)"
    "pathComps (nameIndexPath name) = pathComps metadataRoot @ [''by-name'', d]"
    using child_path [OF cleanAbs_constants(2) constants_not_root(2) d(1)] d(2)
    by (simp_all add: pathComps_constants)
  have incomparable: "pathComps metadataRoot @ xs \<noteq> pathComps root @ ys" for xs ys
    using sep by (metis append_eq_append_conv2)
  have "\<not> pathIsOrUnder (indexPath v) root" "\<not> pathIsOrUnder (nameIndexPath name) root"
    using incomparable clean ic nc by (auto simp only: pathIsOrUnder_comps)
  moreover have "\<not> pathIsOrUnder root (indexPath v)" "\<not> pathIsOrUnder root (nameIndexPath name)"
    using sep(1) clean ic nc by (auto simp: pathIsOrUnder_comps)
  moreover have "indexPath v \<noteq> nameIndexPath name" using ic(2) nc(2) by auto
  ultimately show ?thesis by blast
qed

theorem metadata_separated_witness:
  "\<not> pathIsOrUnder (indexPath ''drive9-0'') ''/k8s/a'' \<and> indexPath ''drive9-0'' \<noteq> nameIndexPath ''pvc-1''"
proof -
  have "normalizeRemotePath ''/k8s/a'' = Inr ''/k8s/a''" "validateVolumeRoot ''/k8s/a'' = None"
    by code_simp+
  then show ?thesis using metadata_separated [of "''/k8s/a''" "''drive9-0''" "''pvc-1''"] by blast
qed

text \<open>
  C36: a sanitised name has at most 80 bytes, all of them letters, digits, dot, underscore or
  dash, and neither starts nor ends with a dot or a dash; so no index, marker or state file
  name derived from user input can traverse directories.
\<close>

theorem safeFileName_sanitises:
  "length (safeFileName name) \<le> 80 \<and> list_all safeNameChar (safeFileName name)
   \<and> CHR ''/'' \<notin> set (safeFileName name)
   \<and> (safeFileName name = [] \<or> (hd (safeFileName name) \<notin> set ''-.'' \<and> last (safeFileName name) \<notin> set ''-.''))"
  using safeFileName_safe [of name] safeNameChar_visible
  by (auto simp: safeName_def list_all_iff)

end
