(* ===== verification/HostNames.thy ===== *)
theory HostNames
  imports Paths
begin

text \<open>
  The pure parts of \<open>internal/driver/host_process.go\<close>: the names a volume has on the host, the
  canonical staging target, and the parsers of \<open>/proc/<pid>/{stat,cmdline,cgroup}\<close>; with
  \<open>pathUnderRoot\<close> of \<open>node_recovery.go\<close>.
\<close>

section \<open>Constants and patterns\<close>

definition defaultKubeletRoot :: string where "defaultKubeletRoot = ''/var/lib/kubelet''"
definition hostRuntimeDir :: string where "hostRuntimeDir = ''/run/drive9-csi''"
definition hostProcRoot :: string where "hostProcRoot = ''/host-proc''"
definition hostBinaryDir :: string where "hostBinaryDir = ''/var/lib/drive9-csi/bin''"
definition hostLauncherPath :: string where
  "hostLauncherPath = ''/var/lib/drive9-csi/bin/drive9-csi-launcher''"
definition maxProcessStateLength :: nat where "maxProcessStateLength = 1048576"
definition drive9SupervisorComponent :: string where
  "drive9SupervisorComponent = ''drive9-fuse-supervisor''"
definition drive9SupervisorRole :: string where "drive9SupervisorRole = ''supervisor''"
definition drive9SupervisorMountKind :: string where "drive9SupervisorMountKind = ''fuse''"

definition attemptIDPattern :: "string \<Rightarrow> bool" where
  "attemptIDPattern s \<longleftrightarrow> hexDigits 32 s"

text \<open>\<open>^pre[0-9a-f]{n}post$\<close>.\<close>

definition hexNamed :: "string \<Rightarrow> nat \<Rightarrow> string \<Rightarrow> string \<Rightarrow> bool" where
  "hexNamed pre n post s \<longleftrightarrow>
     length s = length pre + n + length post \<and> HasPrefix s pre \<and> HasSuffix s post
     \<and> hexDigits n (take n (drop (length pre) s))"

definition systemdUnitPattern :: "string \<Rightarrow> bool" where
  "systemdUnitPattern = hexNamed ''drive9-mount-'' 16 ''.service''"

definition binaryNamePattern :: "string \<Rightarrow> bool" where
  "binaryNamePattern = hexNamed ''drive9-'' 64 ''''"

definition drive9ProcessStateNamePattern :: "string \<Rightarrow> bool" where
  "drive9ProcessStateNamePattern = hexNamed ''drive9-mount-'' 16 ''.pid''"

definition drive9ControlSocketNamePattern :: "string \<Rightarrow> bool" where
  "drive9ControlSocketNamePattern = hexNamed ''drive9-mount-'' 16 ''.sock''"

definition mountStartupFileNamePattern :: "string \<Rightarrow> bool" where
  "mountStartupFileNamePattern s \<longleftrightarrow>
     hexDigits 16 (take 16 s) \<and> take 1 (drop 16 s) = ''-'' \<and> hexDigits 32 (take 32 (drop 17 s))
     \<and> drop 49 s \<in> {''.env'', ''.args'', ''.env.tmp'', ''.args.tmp''}"

definition ownershipError :: "string \<Rightarrow> error" where
  "ownershipError message = Wrap message (Sentinel ErrProcessOwnership)"

section \<open>Names\<close>

record volumeHostNames =
  VolumeHash :: string
  names_SystemdUnit :: string
  names_EnvPath :: string
  names_ArgsPath :: string

record volumeUnitIdentity =
  unit_VolumeID :: string
  unit_StagingTarget :: string
  unit_SystemdUnit :: string

definition newVolumeHostNames :: "string \<Rightarrow> string \<Rightarrow> error + volumeHostNames" where
  "newVolumeHostNames volumeID attemptID =
     (if \<not> volumeIDPattern volumeID then Inl (Errorf ''invalid Drive9 volume ID'')
      else if \<not> attemptIDPattern attemptID then Inl (Errorf ''invalid mount attempt ID'')
      else
        let volumeHash = truncatedSHA256 volumeID
        in Inr \<lparr>VolumeHash = volumeHash,
                names_SystemdUnit = ''drive9-mount-'' @ volumeHash @ ''.service'',
                names_EnvPath = path_Join [hostRuntimeDir, volumeHash @ ''-'' @ attemptID @ ''.env''],
                names_ArgsPath = path_Join [hostRuntimeDir, volumeHash @ ''-'' @ attemptID @ ''.args'']\<rparr>)"

definition pathUnderRoot :: "string \<Rightarrow> string \<Rightarrow> bool" where
  "pathUnderRoot path0 root0 =
     (let path = Clean path0; root = Clean root0 in
      if \<not> IsAbs path \<or> \<not> IsAbs root then False
      else if path = root then True
      else let rel = Rel root path
           in rel \<noteq> ''.'' \<and> \<not> HasPrefix rel ''../'' \<and> rel \<noteq> ''..'')"

definition canonicalStagingTarget :: "string \<Rightarrow> error + string" where
  "canonicalStagingTarget stagingTarget =
     (let canonical = Clean stagingTarget in
      if \<not> IsAbs stagingTarget \<or> \<not> pathUnderRoot canonical defaultKubeletRoot
      then Inl (Errorf ''staging target is outside the kubelet root'')
      else Inr canonical)"

definition zeroAttempt :: string where
  "zeroAttempt = replicate 32 (CHR ''0'')"

definition validateVolumeUnitIdentity :: "string \<Rightarrow> string \<Rightarrow> volumeUnitIdentity \<Rightarrow> error option" where
  "validateVolumeUnitIdentity expectedVolume expectedStaging recorded =
     (case canonicalStagingTarget expectedStaging of
        Inl e \<Rightarrow> Some (ownershipError ''invalid expected staging target'')
      | Inr expectedTarget \<Rightarrow>
     (case newVolumeHostNames expectedVolume zeroAttempt of
        Inl e \<Rightarrow> Some (ownershipError ''invalid expected volume identity'')
      | Inr names \<Rightarrow>
     (case canonicalStagingTarget (unit_StagingTarget recorded) of
        Inl e \<Rightarrow> Some (ownershipError ''invalid recorded staging target'')
      | Inr recordedTarget \<Rightarrow>
          if unit_VolumeID recorded \<noteq> expectedVolume \<or> unit_StagingTarget recorded \<noteq> recordedTarget
             \<or> recordedTarget \<noteq> expectedTarget \<or> unit_SystemdUnit recorded \<noteq> names_SystemdUnit names
          then Some (ownershipError ''volume, staging target, or systemd unit does not match'')
          else None)))"

definition drive9ProcessStatePath :: "string \<Rightarrow> error + string" where
  "drive9ProcessStatePath stagingTarget =
     ebind (canonicalStagingTarget stagingTarget) (\<lambda>canonical.
       Inr (path_Join [hostRuntimeDir, ''drive9-mount-'' @ truncatedSHA256 canonical @ ''.pid'']))"

definition drive9ControlSocketPath :: "string \<Rightarrow> string \<Rightarrow> error + string" where
  "drive9ControlSocketPath stagingTarget effectiveUID =
     ebind (canonicalStagingTarget stagingTarget) (\<lambda>canonical.
       case ParseUint 32 effectiveUID of
         None \<Rightarrow> Inl (Errorf ''invalid effective UID'')
       | Some uid \<Rightarrow>
           if FormatUint uid \<noteq> effectiveUID then Inl (Errorf ''invalid effective UID'')
           else Inr (path_Join [hostRuntimeDir,
                  ''drive9-mount-'' @ truncatedSHA256 (effectiveUID @ [CHR 0x00] @ canonical) @ ''.sock'']))"

definition validateContentAddressedBinaryPath :: "string \<Rightarrow> error option" where
  "validateContentAddressedBinaryPath path =
     fail_if (\<not> IsAbs path \<or> Clean path \<noteq> path \<or> path_Dir path \<noteq> hostBinaryDir
              \<or> \<not> binaryNamePattern (path_Base path))
       (Errorf ''invalid content-addressed Drive9 binary path'')"

section \<open>/proc\<close>

text \<open>\<open>strings.Index(line, " (")\<close> and \<open>strings.LastIndex(line, ")")\<close>.\<close>

fun Index :: "string \<Rightarrow> string \<Rightarrow> nat option" where
  "Index [] sub = (if sub = [] then Some 0 else None)"
| "Index (c # s) sub = (if HasPrefix (c # s) sub then Some 0 else map_option Suc (Index s sub))"

definition LastIndexByte :: "string \<Rightarrow> char \<Rightarrow> nat option" where
  "LastIndexByte s b = map_option (\<lambda>i. length s - 1 - i) (IndexByte (rev s) b)"

definition parseHostProcStatStartTime :: "bytes \<Rightarrow> error + string" where
  "parseHostProcStatStartTime body =
     (let line = TrimSpace body in
      case (Index line '' ('', LastIndexByte line (CHR '')'')) of
        (Some open', Some close) \<Rightarrow>
          if open' = 0 \<or> close \<le> open' + 2 then Inl (Errorf ''malformed host proc stat'')
          else (case ParseUint 31 (take open' line) of
            None \<Rightarrow> Inl (Errorf ''malformed host proc stat PID'')
          | Some pid \<Rightarrow>
              if pid = 0 then Inl (Errorf ''malformed host proc stat PID'')
              else
                let fields = Fields (drop (close + 1) line) in
                if length fields < 20 then Inl (Errorf ''host proc stat has too few fields'')
                else
                  let startTime = fields ! 19 in
                  case ParseUint 64 startTime of
                    None \<Rightarrow> Inl (Errorf ''invalid host proc start time'')
                  | Some value \<Rightarrow>
                      if value = 0 \<or> FormatUint value \<noteq> startTime
                      then Inl (Errorf ''invalid host proc start time'')
                      else Inr startTime)
      | _ \<Rightarrow> Inl (Errorf ''malformed host proc stat''))"

definition parseHostProcCmdline :: "bytes \<Rightarrow> error + string list" where
  "parseHostProcCmdline body =
     (if length body < 2 \<or> last body \<noteq> CHR 0x00 then Inl (Errorf ''malformed host proc cmdline'')
      else
        let raw = Split (CHR 0x00) (butlast body)
        in if list_ex (\<lambda>arg. arg = []) raw
           then Inl (Errorf ''host proc cmdline contains an empty argument'')
           else Inr raw)"

definition cgroupLineHasUnit :: "string \<Rightarrow> string \<Rightarrow> bool" where
  "cgroupLineHasUnit unit line =
     (case Cut line (CHR '':'') of
        None \<Rightarrow> False
      | Some (l1, rest) \<Rightarrow>
          (case Cut rest (CHR '':'') of
             None \<Rightarrow> False
           | Some (l2, path) \<Rightarrow> list_ex (\<lambda>component. component = unit) (Split (CHR ''/'') path)))"

definition hostProcCgroupContainsUnit :: "bytes \<Rightarrow> string \<Rightarrow> bool" where
  "hostProcCgroupContainsUnit body unit =
     (if \<not> systemdUnitPattern unit then False
      else list_ex (cgroupLineHasUnit unit) (Split (CHR 0x0A) body))"

definition hostProcPIDPath :: "int \<Rightarrow> string \<Rightarrow> string" where
  "hostProcPIDPath pid leaf = path_Join [hostProcRoot, FormatInt pid, path_Base leaf]"

section \<open>Facts about the names\<close>

lemma goodComp_Join2:
  assumes "goodComp c" shows "path_Join [hostRuntimeDir, c] = hostRuntimeDir @ ''/'' @ c"
  by (rule path_Join_child [OF _ _ assms])
    (simp_all add: hostRuntimeDir_def cleanAbs_def Clean_def pathComps_def)

lemma hexNamed_good: "goodComp (''drive9-mount-'' @ truncatedSHA256 s @ post)" if "CHR ''/'' \<notin> set post"
proof -
  have "CHR ''/'' \<notin> set (truncatedSHA256 s)"
    using truncatedSHA256_hex [of s] by (auto simp: hexDigits_def list_all_iff isLowerHex_def isDigit_def)
  with that show ?thesis by (simp add: goodComp_def)
qed

lemma drive9ProcessStatePath_Inr:
  "canonicalStagingTarget t = Inr c \<Longrightarrow> drive9ProcessStatePath t =
     Inr (hostRuntimeDir @ ''/drive9-mount-'' @ truncatedSHA256 c @ ''.pid'')"
  using goodComp_Join2 [OF hexNamed_good [of "''.pid''" c]] by (simp add: drive9ProcessStatePath_def)

lemma ParseUint_0: "ParseUint 32 ''0'' = Some 0"
  by (simp add: ParseUint_def isDigit_def decVal_def digitVal_def)

lemma FormatUint_0: "FormatUint 0 = ''0''"
  by code_simp

lemma drive9ControlSocketPath_root:
  "canonicalStagingTarget t = Inr c \<Longrightarrow> drive9ControlSocketPath t ''0'' =
     Inr (hostRuntimeDir @ ''/drive9-mount-'' @ truncatedSHA256 (''0'' @ [CHR 0x00] @ c) @ ''.sock'')"
  using goodComp_Join2 [OF hexNamed_good [of "''.sock''" "''0'' @ [CHR 0x00] @ c"]]
  by (simp add: drive9ControlSocketPath_def ParseUint_0 FormatUint_0)

lemma newVolumeHostNames_Inr:
  "newVolumeHostNames v a = Inr n \<longleftrightarrow> volumeIDPattern v \<and> attemptIDPattern a \<and>
     n = \<lparr>VolumeHash = truncatedSHA256 v, names_SystemdUnit = ''drive9-mount-'' @ truncatedSHA256 v @ ''.service'',
          names_EnvPath = path_Join [hostRuntimeDir, truncatedSHA256 v @ ''-'' @ a @ ''.env''],
          names_ArgsPath = path_Join [hostRuntimeDir, truncatedSHA256 v @ ''-'' @ a @ ''.args'']\<rparr>"
  by (auto simp: newVolumeHostNames_def Let_def)

lemma attemptIDPattern_zero [simp]: "attemptIDPattern zeroAttempt"
  by (simp add: attemptIDPattern_def zeroAttempt_def hexDigits_def isLowerHex_def isDigit_def list_all_iff)

lemma systemdUnitPattern_unit [simp]: "systemdUnitPattern (''drive9-mount-'' @ truncatedSHA256 v @ ''.service'')"
proof -
  have l: "length (truncatedSHA256 v) = 16" using truncatedSHA256_hex [of v] by (simp add: hexDigits_def)
  have "HasSuffix ((''drive9-mount-'' @ truncatedSHA256 v) @ ''.service'') ''.service''" by (rule HasSuffix_append)
  moreover have "take 16 (drop (length ''drive9-mount-'') (''drive9-mount-'' @ truncatedSHA256 v @ ''.service''))
     = truncatedSHA256 v" using l by simp
  ultimately show ?thesis using l truncatedSHA256_hex [of v]
    unfolding systemdUnitPattern_def hexNamed_def by (simp add: HasPrefix_def)
qed

text \<open>
  The unit name depends on the volume id alone, the startup files on the volume id and the
  attempt: attempts of one volume share a unit and never share a startup file.
\<close>

lemma startup_name_good:
  assumes "attemptIDPattern a" and "CHR ''/'' \<notin> set ext"
  shows "goodComp (truncatedSHA256 v @ ''-'' @ a @ ext)"
proof -
  have "CHR ''/'' \<notin> set (truncatedSHA256 v)" "CHR ''/'' \<notin> set a"
    using truncatedSHA256_hex [of v] assms(1)
    by (auto simp: attemptIDPattern_def hexDigits_def list_all_iff isLowerHex_def isDigit_def)
  moreover have "16 \<le> length (truncatedSHA256 v)" using truncatedSHA256_hex [of v] by (simp add: hexDigits_def)
  moreover from this have "truncatedSHA256 v @ ''-'' @ a @ ext \<noteq> x" if "length x \<le> 2" for x using that by auto
  ultimately show ?thesis using assms(2) by (auto simp: goodComp_def)
qed

lemma startup_paths:
  assumes "newVolumeHostNames v a = Inr n"
  shows "names_EnvPath n = hostRuntimeDir @ ''/'' @ truncatedSHA256 v @ ''-'' @ a @ ''.env''"
    and "names_ArgsPath n = hostRuntimeDir @ ''/'' @ truncatedSHA256 v @ ''-'' @ a @ ''.args''"
proof -
  have a: "attemptIDPattern a" using assms by (simp add: newVolumeHostNames_Inr)
  show "names_EnvPath n = hostRuntimeDir @ ''/'' @ truncatedSHA256 v @ ''-'' @ a @ ''.env''"
    using assms goodComp_Join2 [OF startup_name_good [OF a, of "''.env''" v]] by (simp add: newVolumeHostNames_Inr)
  show "names_ArgsPath n = hostRuntimeDir @ ''/'' @ truncatedSHA256 v @ ''-'' @ a @ ''.args''"
    using assms goodComp_Join2 [OF startup_name_good [OF a, of "''.args''" v]] by (simp add: newVolumeHostNames_Inr)
qed

lemma startup_paths_inj:
  assumes "newVolumeHostNames v a = Inr n" and "newVolumeHostNames v a' = Inr n'" and "a \<noteq> a'"
  shows "names_EnvPath n \<noteq> names_EnvPath n' \<and> names_ArgsPath n \<noteq> names_ArgsPath n'
    \<and> names_EnvPath n \<noteq> names_ArgsPath n'"
proof -
  have "length a = 32" "length a' = 32"
    using assms by (simp_all add: newVolumeHostNames_Inr attemptIDPattern_def hexDigits_def)
  with assms(3) show ?thesis
    using startup_paths [OF assms(1)] startup_paths [OF assms(2)] by simp
qed

text \<open>Staging targets accepted by the driver are canonical and below the kubelet root.\<close>

lemma canonicalStagingTarget_Inr:
  assumes "canonicalStagingTarget t = Inr c"
  shows "c = Clean t" and "cleanAbs c" and "pathUnderRoot c defaultKubeletRoot"
    and "canonicalStagingTarget c = Inr c"
proof -
  have a: "IsAbs t" "c = Clean t" "pathUnderRoot c defaultKubeletRoot"
    using assms by (auto simp: canonicalStagingTarget_def Let_def split: if_splits)
  then show "c = Clean t" "cleanAbs c" "pathUnderRoot c defaultKubeletRoot" by (auto simp: cleanAbs_Clean)
  with a show "canonicalStagingTarget c = Inr c"
    by (simp add: canonicalStagingTarget_def Clean_Clean)
qed

lemma Clean_cleanAbs [simp]: "cleanAbs p \<Longrightarrow> Clean p = p"
  by (simp add: cleanAbs_def)

lemma pathUnderRoot_comps:
  assumes "cleanAbs p" and "cleanAbs r"
  shows "pathUnderRoot p r \<longleftrightarrow> (\<exists>cs. pathComps p = pathComps r @ cs)"
proof -
  obtain pc where pc: "p = CHR ''/'' # Join pc ''/''" "\<forall>x\<in>set pc. goodComp x" "pathComps p = pc"
    using assms(1) by (rule cleanAbsE)
  obtain rc where rc: "r = CHR ''/'' # Join rc ''/''" "\<forall>x\<in>set rc. goodComp x" "pathComps r = rc"
    using assms(2) by (rule cleanAbsE)
  have eq: "p = r \<longleftrightarrow> pc = rc" using pc(1,3) rc(1,3) by metis
  from relComps_good [OF pc(2), of rc] obtain cs where
    cs: "pc = rc @ cs \<and> relComps rc pc = cs \<or> (\<nexists>cs. pc = rc @ cs) \<and> relComps rc pc = ''..'' # cs"
    by blast
  have abs: "IsAbs p" "IsAbs r" using assms by (auto simp: cleanAbs_def)
  show ?thesis
  proof (cases "pc = rc")
    case True
    then have "p = r" using eq by simp
    then show ?thesis using assms abs True pc(3) rc(3) by (auto simp: pathUnderRoot_def)
  next
    case ne: False
    from cs show ?thesis
    proof
      assume "pc = rc @ cs \<and> relComps rc pc = cs"
      then have r: "relComps rc pc = cs" "pc = rc @ cs" by auto
      with ne have n: "cs \<noteq> []" by auto
      have good: "\<forall>x\<in>set cs. goodComp x" using pc(2) r(2) by auto
      have sp: "Split (CHR ''/'') (Join cs ''/'') = cs"
        using n good by (intro Split_Join) (auto simp: goodComp_def)
      have "Join cs ''/'' \<noteq> ''.''"
      proof
        assume "Join cs ''/'' = ''.''"
        with sp have "cs = [''.'']" by auto
        with good show False by (simp add: goodComp_def)
      qed
      moreover have "Join cs ''/'' \<noteq> ''..''"
      proof
        assume "Join cs ''/'' = ''..''"
        with sp have "cs = [''..'']" by auto
        with good show False by (simp add: goodComp_def)
      qed
      moreover have "\<not> HasPrefix (Join cs ''/'') ''../''"
      proof
        assume "HasPrefix (Join cs ''/'') ''../''"
        then obtain q where "Join cs ''/'' = ''../'' @ q" by (rule HasPrefixE)
        with sp have "cs = Split (CHR ''/'') (''../'' @ q)" by simp
        then have "''..'' \<in> set cs" by (simp split: list.splits)
        with good show False by (auto simp: goodComp_def)
      qed
      ultimately have "pathUnderRoot p r"
        unfolding pathUnderRoot_def Rel_def Let_def Clean_cleanAbs [OF assms(1)] Clean_cleanAbs [OF assms(2)]
        using r(1) n abs by (simp only: pc(3) rc(3) simp_thms if_False if_True split: if_split)
      then show ?thesis unfolding pc(3) rc(3) using r(2) by blast
    next
      assume "(\<nexists>cs. pc = rc @ cs) \<and> relComps rc pc = ''..'' # cs"
      then have r: "\<nexists>cs. pc = rc @ cs" "relComps rc pc = ''..'' # cs" by auto
      have "Join (''..'' # cs) ''/'' = ''..'' \<or> HasPrefix (Join (''..'' # cs) ''/'') ''../''"
        by (cases cs) (simp_all add: HasPrefix_def)
      then have "\<not> pathUnderRoot p r"
        unfolding pathUnderRoot_def Rel_def Let_def Clean_cleanAbs [OF assms(1)] Clean_cleanAbs [OF assms(2)]
        using r(2) abs ne eq by (simp only: pc(3) rc(3) simp_thms if_False if_True list.distinct split: if_split) blast
      then show ?thesis unfolding pc(3) rc(3) using r(1) by blast
    qed
  qed
qed

end
