(* ===== verification/GoTime.thy ===== *)
theory GoTime
  imports GoPath
begin

text \<open>
  The part of Go's \<open>time\<close> package the durable state uses: UTC instants, their
  \<open>RFC3339Nano\<close> rendering and \<open>parseCanonicalStateTime\<close> of \<open>mount_state.go\<close>. An instant is
  the number of nanoseconds since 0000-01-01T00:00:00Z in the proleptic Gregorian calendar.
\<close>

type_synonym time = nat
type_synonym duration = int

abbreviation nanosecond :: nat where "nanosecond \<equiv> 1"
abbreviation second_ns :: nat where "second_ns \<equiv> 1000000000"

section \<open>Calendar\<close>

definition leapYear :: "nat \<Rightarrow> bool" where
  "leapYear y \<longleftrightarrow> y mod 4 = 0 \<and> (y mod 100 \<noteq> 0 \<or> y mod 400 = 0)"

definition yearLen :: "nat \<Rightarrow> nat" where
  "yearLen y = (if leapYear y then 366 else 365)"

definition monthLens :: "nat \<Rightarrow> nat list" where
  "monthLens y = [31, if leapYear y then 29 else 28, 31, 30, 31, 30, 31, 31, 30, 31, 30, 31]"

fun daysBeforeYear :: "nat \<Rightarrow> nat" where
  "daysBeforeYear 0 = 0"
| "daysBeforeYear (Suc y) = daysBeforeYear y + yearLen y"

function yearAndDay :: "nat \<Rightarrow> nat \<Rightarrow> nat \<times> nat" where
  "yearAndDay y d = (if d < yearLen y then (y, d) else yearAndDay (Suc y) (d - yearLen y))"
  by pat_completeness auto
termination
  by (relation "measure snd") (auto simp: yearLen_def)

declare yearAndDay.simps [simp del]

fun monthAndDay :: "nat list \<Rightarrow> nat \<Rightarrow> nat \<times> nat" where
  "monthAndDay [] d = (1, d + 1)"
| "monthAndDay (l # ls) d =
     (if d < l then (1, d + 1) else (let (m, k) = monthAndDay ls (d - l) in (m + 1, k)))"

definition dayOfDate :: "nat \<Rightarrow> nat \<Rightarrow> nat \<Rightarrow> nat" where
  "dayOfDate y m d = daysBeforeYear y + sum_list (take (m - 1) (monthLens y)) + (d - 1)"

section \<open>RFC3339Nano\<close>

definition pad :: "nat \<Rightarrow> nat \<Rightarrow> string" where
  "pad w n = replicate (w - length (FormatUint n)) (CHR ''0'') @ FormatUint n"

definition fracText :: "nat \<Rightarrow> string" where
  "fracText ns = (if ns = 0 then [] else CHR ''.'' # TrimRight (pad 9 ns) ''0'')"

definition formatTime :: "time \<Rightarrow> string" where
  "formatTime t =
     (let secs = t div second_ns; sod = secs mod 86400;
          (y, yd) = yearAndDay 0 (secs div 86400); (m, d) = monthAndDay (monthLens y) yd
      in pad 4 y @ ''-'' @ pad 2 m @ ''-'' @ pad 2 d @ ''T''
         @ pad 2 (sod div 3600) @ '':'' @ pad 2 (sod div 60 mod 60) @ '':'' @ pad 2 (sod mod 60)
         @ fracText (t mod second_ns) @ ''Z'')"

definition getNum :: "nat \<Rightarrow> string \<Rightarrow> (nat \<times> string) option" where
  "getNum w s =
     (if length (take w s) = w \<and> list_all isDigit (take w s)
      then Some (decVal (take w s), drop w s) else None)"

definition getLit :: "char \<Rightarrow> string \<Rightarrow> string option" where
  "getLit c s = (if HasPrefix s [c] then Some (tl s) else None)"

definition getFrac :: "string \<Rightarrow> (nat \<times> string) option" where
  "getFrac s =
     (if HasPrefix s ''.'' then
        (let ds = takeWhile isDigit (tl s); k = length ds
         in if 1 \<le> k \<and> k \<le> 9 then Some (decVal ds * 10 ^ (9 - k), drop k (tl s)) else None)
      else Some (0, s))"

text \<open>\<open>time.Parse(time.RFC3339Nano, value)\<close> on the canonical layout in UTC.\<close>

definition parseTime :: "string \<Rightarrow> time option" where
  "parseTime s =
     do {
       (y, s) \<leftarrow> getNum 4 s; s \<leftarrow> getLit (CHR ''-'') s;
       (m, s) \<leftarrow> getNum 2 s; s \<leftarrow> getLit (CHR ''-'') s;
       (d, s) \<leftarrow> getNum 2 s; s \<leftarrow> getLit (CHR ''T'') s;
       (hh, s) \<leftarrow> getNum 2 s; s \<leftarrow> getLit (CHR '':'') s;
       (mm, s) \<leftarrow> getNum 2 s; s \<leftarrow> getLit (CHR '':'') s;
       (ss, s) \<leftarrow> getNum 2 s;
       (ns, s) \<leftarrow> getFrac s;
       s \<leftarrow> getLit (CHR ''Z'') s;
       if s = [] \<and> 1 \<le> m \<and> m \<le> 12 \<and> 1 \<le> d \<and> d \<le> monthLens y ! (m - 1)
          \<and> hh < 24 \<and> mm < 60 \<and> ss < 60
       then Some ((dayOfDate y m d * 86400 + hh * 3600 + mm * 60 + ss) * second_ns + ns)
       else None
     }"

text \<open>
  \<open>parseCanonicalStateTime\<close>: the value must be exactly what \<open>Format\<close> renders for the parsed
  instant. \<open>time.Parse\<close> accepts further spellings (other offsets, one-digit hours, more than
  nine fraction digits); none of them survives the comparison, so the canonical layout is all
  that \<open>parseTime\<close> needs to read.
\<close>

definition parseCanonicalStateTime :: "string \<Rightarrow> error + time" where
  "parseCanonicalStateTime value =
     (case parseTime value of
        None \<Rightarrow> Inl (Errorf ''cannot parse time'')
      | Some t \<Rightarrow>
          if value \<noteq> formatTime t then Inl (Errorf ''timestamp is not canonical UTC'') else Inr t)"

section \<open>Formatting and parsing are inverse\<close>

lemma yearLen_pos [simp]: "0 < yearLen y"
  by (simp add: yearLen_def)

lemma yearAndDay_correct:
  "yearAndDay y d = (y', r) \<Longrightarrow> daysBeforeYear y' + r = daysBeforeYear y + d \<and> r < yearLen y' \<and> y \<le> y'"
proof (induction y d rule: yearAndDay.induct)
  case (1 y d)
  show ?case
  proof (cases "d < yearLen y")
    case True
    with 1 show ?thesis by (simp add: yearAndDay.simps [of y d])
  next
    case False
    with 1 show ?thesis by (fastforce simp: yearAndDay.simps [of y d])
  qed
qed

lemma monthAndDay_correct:
  "monthAndDay ls d = (m, k) \<Longrightarrow> d < sum_list ls \<Longrightarrow>
   1 \<le> m \<and> m \<le> length ls \<and> 1 \<le> k \<and> k \<le> ls ! (m - 1) \<and> sum_list (take (m - 1) ls) + (k - 1) = d"
proof (induction ls d arbitrary: m k rule: monthAndDay.induct)
  case (1 d)
  then show ?case by simp
next
  case (2 l ls d)
  show ?case
  proof (cases "d < l")
    case True
    with 2 show ?thesis by auto
  next
    case False
    then obtain m' where m': "monthAndDay ls (d - l) = (m', k)" "m = m' + 1"
      using "2.prems" by (auto split: prod.splits)
    moreover have "d - l < sum_list ls" using "2.prems" False by simp
    ultimately have "1 \<le> m' \<and> m' \<le> length ls \<and> 1 \<le> k \<and> k \<le> ls ! (m' - 1) \<and>
        sum_list (take (m' - 1) ls) + (k - 1) = d - l"
      using "2.IH" [OF False m'(1)] by blast
    with m' False show ?thesis by (cases m') auto
  qed
qed

lemma length_monthLens: "length (monthLens y) = 12"
  by (simp add: monthLens_def)

lemma sum_monthLens: "sum_list (monthLens y) = yearLen y"
  by (simp add: monthLens_def yearLen_def)

lemma decVal_zeros: "decVal (replicate k (CHR ''0'') @ s) = decVal s"
  by (induction k) (simp_all add: decVal_def digitVal_def)

lemma decVal_append_zeros: "decVal (s @ replicate k (CHR ''0'')) = decVal s * 10 ^ k"
proof (induction k)
  case 0
  then show ?case by simp
next
  case (Suc k)
  have "s @ replicate (Suc k) (CHR ''0'') = (s @ replicate k (CHR ''0'')) @ [CHR ''0'']"
    by (simp add: replicate_append_same)
  then have "decVal (s @ replicate (Suc k) (CHR ''0'')) = 10 * decVal (s @ replicate k (CHR ''0''))"
    by (simp only: decVal_snoc) (simp add: digitVal_def)
  with Suc show ?case by simp
qed

lemma length_FormatUint: "n < 10 ^ w \<Longrightarrow> 0 < w \<Longrightarrow> length (FormatUint n) \<le> w"
proof (induction w arbitrary: n)
  case 0
  then show ?case by simp
next
  case (Suc v)
  show ?case
  proof (cases "n < 10")
    case True
    then show ?thesis by (subst FormatUint.simps) simp
  next
    case False
    have "n div 10 < 10 ^ v" using Suc.prems(1) by simp
    moreover from this False have "0 < v" by (cases v) auto
    ultimately have "length (FormatUint (n div 10)) \<le> v" by (rule Suc.IH)
    with False show ?thesis by (subst FormatUint.simps) simp
  qed
qed

lemma isDigit_zero [simp]: "isDigit (CHR ''0'')"
  by (simp add: isDigit_def)

lemma getNum_pad [simp]:
  assumes "n < 10 ^ w" and "0 < w"
  shows "getNum w (pad w n @ s) = Some (n, s)"
proof -
  have "length (pad w n) = w" using length_FormatUint [OF assms] by (simp add: pad_def)
  moreover have "list_all isDigit (pad w n)"
    using FormatUint_digits [of n] by (auto simp: pad_def list_all_iff)
  ultimately show ?thesis by (simp add: getNum_def) (simp add: pad_def decVal_zeros)
qed

lemma getLit_Cons [simp]: "getLit c (c # s) = Some s"
  by (simp add: getLit_def)

lemma TrimRight_zeros: "\<exists>k. s = TrimRight s ''0'' @ replicate k (CHR ''0'')"
proof -
  let ?k = "length (takeWhile (\<lambda>x. x = CHR ''0'') (rev s))"
  have "takeWhile (\<lambda>x. x = CHR ''0'') (rev s) = replicate ?k (CHR ''0'')"
    by (rule replicate_eqI) (auto dest: set_takeWhileD)
  then have "rev (rev s) = rev (replicate ?k (CHR ''0'') @ dropWhile (\<lambda>x. x = CHR ''0'') (rev s))"
    by (metis takeWhile_dropWhile_id)
  then have "s = TrimRight s ''0'' @ replicate ?k (CHR ''0'')"
    by (simp add: TrimRight_def)
  then show ?thesis by blast
qed

lemma getFrac_fracText:
  assumes "ns < second_ns"
  shows "getFrac (fracText ns @ ''Z'' @ s) = Some (ns, ''Z'' @ s)"
proof (cases "ns = 0")
  case True
  then show ?thesis by (simp add: getFrac_def fracText_def HasPrefix_def)
next
  case False
  let ?ds = "TrimRight (pad 9 ns) ''0''"
  have len: "length (pad 9 ns) = 9" and dig: "list_all isDigit (pad 9 ns)"
    and val: "decVal (pad 9 ns) = ns"
    using length_FormatUint [of ns 9] assms FormatUint_digits [of ns]
    by (auto simp: pad_def decVal_zeros list_all_iff)
  obtain k where k: "pad 9 ns = ?ds @ replicate k (CHR ''0'')" using TrimRight_zeros by blast
  have n9: "length ?ds + k = 9" using k len by (metis length_append length_replicate)
  have v: "decVal ?ds * 10 ^ k = ns" using k val by (metis decVal_append_zeros)
  have "?ds \<noteq> []" using v False by (auto simp: decVal_def)
  moreover have digs: "list_all isDigit ?ds" using dig k by (metis list_all_append)
  moreover have "takeWhile isDigit (?ds @ CHR ''Z'' # s) = ?ds"
    using digs by (simp add: takeWhile_append list_all_iff isDigit_def)
  moreover have "9 - length ?ds = k" "length ?ds \<le> 9" using n9 by auto
  ultimately show ?thesis using False v
    by (auto simp: getFrac_def fracText_def HasPrefix_def Let_def Suc_le_eq)
qed

definition maxTime :: time where
  "maxTime = daysBeforeYear 10000 * 86400 * second_ns"

lemma daysBeforeYear_mono: "y \<le> y' \<Longrightarrow> daysBeforeYear y \<le> daysBeforeYear y'"
  by (induction y' rule: dec_induct) auto

lemma split_hms: "(n::nat) div 3600 * 3600 + n div 60 mod 60 * 60 + n mod 60 = n"
proof -
  have "n div 60 div 60 * 60 + n div 60 mod 60 = n div 60" by (rule div_mult_mod_eq)
  moreover have "n div 60 * 60 + n mod 60 = n" by (rule div_mult_mod_eq)
  moreover have "n div 3600 = n div 60 div 60" by (simp add: div_mult2_eq [symmetric])
  ultimately show ?thesis by linarith
qed

lemma regroup: "a + b + c = s \<Longrightarrow> d + s = q \<Longrightarrow> d + a + b + c = (q::nat)"
  by simp

lemma parseTime_text:
  assumes "y < 10 ^ 4" "1 \<le> m" "m \<le> 12" "1 \<le> d" "d \<le> monthLens y ! (m - 1)" "d < 10 ^ 2"
    and "hh < 24" "mm < 60" "ss < 60" "ns < second_ns"
  shows "parseTime (pad 4 y @ ''-'' @ pad 2 m @ ''-'' @ pad 2 d @ ''T''
      @ pad 2 hh @ '':'' @ pad 2 mm @ '':'' @ pad 2 ss @ fracText ns @ ''Z'') =
    Some ((dayOfDate y m d * 86400 + hh * 3600 + mm * 60 + ss) * second_ns + ns)"
proof -
  have "m < 10 ^ 2" "hh < 10 ^ 2" "mm < 10 ^ 2" "ss < 10 ^ 2" using assms by simp_all
  moreover have "getFrac (fracText ns @ ''Z'') = Some (ns, ''Z'')"
    using getFrac_fracText [of ns "[]"] assms(10) by simp
  ultimately show ?thesis using assms(1-9) by (simp add: parseTime_def)
qed

lemma parse_formatTime:
  assumes "t < maxTime"
  shows "parseTime (formatTime t) = Some t"
proof -
  let ?secs = "t div second_ns" and ?ns = "t mod second_ns"
  let ?day = "?secs div 86400" and ?sod = "?secs mod 86400"
  obtain y yd where y: "yearAndDay 0 ?day = (y, yd)" by force
  obtain m d where md: "monthAndDay (monthLens y) yd = (m, d)" by force
  have yc: "daysBeforeYear y + yd = ?day" "yd < yearLen y"
    using yearAndDay_correct [OF y] by auto
  have day: "?day < daysBeforeYear 10000"
    using assms unfolding maxTime_def by (intro less_mult_imp_div_less)
  have y4: "y < 10 ^ 4"
  proof (rule ccontr)
    assume "\<not> y < 10 ^ 4"
    then have "10000 \<le> y" by simp
    then have "daysBeforeYear 10000 \<le> daysBeforeYear y" by (rule daysBeforeYear_mono)
    with day yc(1) show False by linarith
  qed
  have mc: "1 \<le> m" "m \<le> 12" "1 \<le> d" "d \<le> monthLens y ! (m - 1)"
      "sum_list (take (m - 1) (monthLens y)) + (d - 1) = yd"
    using monthAndDay_correct [OF md] yc(2) by (simp_all add: sum_monthLens length_monthLens)
  have "monthLens y ! (m - 1) \<in> set (monthLens y)"
    using mc by (intro nth_mem) (simp add: monthLens_def)
  then have d31: "d \<le> 31" using mc(4) by (auto simp: monthLens_def split: if_splits)
  have doy: "dayOfDate y m d = ?day" using mc(5) yc(1) by (simp add: dayOfDate_def)
  have hms: "?sod div 3600 * 3600 + ?sod div 60 mod 60 * 60 + ?sod mod 60 = ?sod"
    by (rule split_hms)
  have bounds: "?sod div 3600 < 24" "?sod div 60 mod 60 < 60" "?sod mod 60 < 60"
    by (auto intro!: less_mult_imp_div_less)
  have total: "(?day * 86400 + ?sod div 3600 * 3600 + ?sod div 60 mod 60 * 60 + ?sod mod 60)
      * second_ns + ?ns = t"
    by (simp only: regroup [OF hms div_mult_mod_eq]) (rule div_mult_mod_eq)
  have "parseTime (formatTime t) =
      Some ((dayOfDate y m d * 86400 + ?sod div 3600 * 3600 + ?sod div 60 mod 60 * 60 + ?sod mod 60)
        * second_ns + ?ns)"
    unfolding formatTime_def Let_def y md prod.case
    using y4 mc d31 bounds by (intro parseTime_text) simp_all
  with doy total show ?thesis by simp
qed

lemma parseCanonical_formatTime:
  "t < maxTime \<Longrightarrow> parseCanonicalStateTime (formatTime t) = Inr t"
  by (simp add: parseCanonicalStateTime_def parse_formatTime)

lemma parseCanonical_Inr: "parseCanonicalStateTime v = Inr t \<Longrightarrow> v = formatTime t"
  by (auto simp: parseCanonicalStateTime_def split: option.splits if_splits)

end
