(* ===== verification/GoDuration.thy ===== *)
theory GoDuration
  imports GoTime "HOL-Library.Log_Nat"
begin

text \<open>
  \<open>time.ParseDuration\<close> and \<open>time.Duration.String\<close>. A duration is a signed 64-bit count of
  nanoseconds, kept as an integer with the parser's overflow checks written out. The parser
  converts a fraction through \<open>float64\<close>; the two roundings are the IEEE ones (53 significant
  bits, ties to even), so inexact fractions such as one tenth of a nanosecond come out as in
  the code.
\<close>

section \<open>float64 on positive rationals\<close>

text \<open>\<open>flRound n d\<close> is the mantissa and the binary exponent of the float nearest \<open>n / d\<close>.\<close>

definition flRound :: "nat \<Rightarrow> nat \<Rightarrow> nat \<times> int" where
  "flRound n d =
     (let s = 54 - (int (floorlog 2 n) - int (floorlog 2 d));
          n' = n * 2 ^ nat s; d' = d * 2 ^ nat (- s);
          q = n' div d'; k = floorlog 2 q - 53;
          m = q div 2 ^ k; r = q mod 2 ^ k; half = 2 ^ (k - 1)
      in (if half < r \<or> (r = half \<and> (n' mod d' \<noteq> 0 \<or> odd m)) then m + 1 else m, int k - s))"

definition flMul :: "nat \<times> int \<Rightarrow> nat \<times> int \<Rightarrow> nat \<times> int" where
  "flMul x y =
     (let e = snd x + snd y
      in flRound (fst x * fst y * 2 ^ nat e) (2 ^ nat (- e)))"

definition flTrunc :: "nat \<times> int \<Rightarrow> nat" where
  "flTrunc x = fst x * 2 ^ nat (snd x) div 2 ^ nat (- snd x)"

text \<open>\<open>uint64(float64(f) * (float64(unit) / scale))\<close> with \<open>scale\<close> a power of ten up to \<open>10^19\<close>.\<close>

definition fracNanos :: "nat \<Rightarrow> nat \<Rightarrow> nat \<Rightarrow> nat" where
  "fracNanos f unit scale =
     (if f = 0 then 0 else flTrunc (flMul (flRound f 1) (flRound unit scale)))"

section \<open>ParseDuration\<close>

definition unitMap :: "string \<rightharpoonup> nat" where
  "unitMap = map_of
     [(''ns'', 1), (''us'', 1000), ([CHR 0xC2, CHR 0xB5, CHR ''s''], 1000),
      ([CHR 0xCE, CHR 0xBC, CHR ''s''], 1000), (''ms'', 1000000), (''s'', 1000000000),
      (''m'', 60000000000), (''h'', 3600000000000)]"

fun leadingInt :: "nat \<Rightarrow> string \<Rightarrow> (nat \<times> string) option" where
  "leadingInt x [] = Some (x, [])"
| "leadingInt x (c # s) =
     (if \<not> isDigit c then Some (x, c # s)
      else if 2 ^ 63 div 10 < x then None
      else if 2 ^ 63 < 10 * x + digitVal c then None
      else leadingInt (10 * x + digitVal c) s)"

fun leadingFraction :: "nat \<Rightarrow> nat \<Rightarrow> bool \<Rightarrow> string \<Rightarrow> nat \<times> nat \<times> string" where
  "leadingFraction x scale overflow [] = (x, scale, [])"
| "leadingFraction x scale overflow (c # s) =
     (if \<not> isDigit c then (x, scale, c # s)
      else if overflow \<or> (2 ^ 63 - 1) div 10 < x \<or> 2 ^ 63 < 10 * x + digitVal c
        then leadingFraction x scale True s
      else leadingFraction (10 * x + digitVal c) (10 * scale) False s)"

text \<open>One \<open>value unit\<close> group; the result is its nanoseconds and the rest of the text.\<close>

definition durationGroup :: "string \<Rightarrow> (nat \<times> string) option" where
  "durationGroup s =
     (if s = [] \<or> \<not> (hd s = CHR ''.'' \<or> isDigit (hd s)) then None
      else case leadingInt 0 s of
        None \<Rightarrow> None
      | Some (v, s1) \<Rightarrow>
          let pre = (length s1 \<noteq> length s);
              (f, scale, s2) = (if HasPrefix s1 ''.'' then leadingFraction 0 1 False (tl s1) else (0, 1, s1));
              post = (HasPrefix s1 ''.'' \<and> length s2 \<noteq> length (tl s1));
              u = takeWhile (\<lambda>c. c \<noteq> CHR ''.'' \<and> \<not> isDigit c) s2;
              s3 = dropWhile (\<lambda>c. c \<noteq> CHR ''.'' \<and> \<not> isDigit c) s2
          in if \<not> pre \<and> \<not> post then None
             else if u = [] then None
             else case unitMap u of
               None \<Rightarrow> None
             | Some unit \<Rightarrow>
                 if 2 ^ 63 div unit < v then None
                 else let total = v * unit + fracNanos f unit scale
                      in if 0 < f \<and> 2 ^ 63 < total then None else Some (total, s3))"

fun durationGroups :: "nat \<Rightarrow> nat \<Rightarrow> string \<Rightarrow> nat option" where
  "durationGroups 0 d s = (if s = [] then Some d else None)"
| "durationGroups (Suc n) d s =
     (if s = [] then Some d
      else case durationGroup s of
        None \<Rightarrow> None
      | Some (v, s') \<Rightarrow> if 2 ^ 63 < d + v then None else durationGroups n (d + v) s')"

definition ParseDuration :: "string \<Rightarrow> duration option" where
  "ParseDuration s =
     (let neg = HasPrefix s ''-''; t = (if neg \<or> HasPrefix s ''+'' then tl s else s)
      in if t = ''0'' then Some 0
         else if t = [] then None
         else case durationGroups (length t) 0 t of
           None \<Rightarrow> None
         | Some d \<Rightarrow> if neg then Some (- int d) else if 2 ^ 63 - 1 < d then None else Some (int d))"

text \<open>
  Every group consumes at least one byte, so \<open>length t\<close> groups of fuel are always enough:
  more fuel never changes the answer.
\<close>

lemma leadingInt_length: "leadingInt x s = Some (v, t) \<Longrightarrow> length t \<le> length s"
  by (induction x s rule: leadingInt.induct) (auto split: if_splits)

lemma leadingFraction_length: "leadingFraction x sc ov s = (f, sc', t) \<Longrightarrow> length t \<le> length s"
  by (induction x sc ov s rule: leadingFraction.induct) (auto split: if_splits)

lemma takeWhile_dropWhile_shorter:
  "takeWhile P s \<noteq> [] \<Longrightarrow> length (dropWhile P s) < length s"
  by (cases s) (auto simp: length_dropWhile_le le_imp_less_Suc split: if_splits)

lemma durationGroup_shorter: "durationGroup s = Some (v, t) \<Longrightarrow> length t < length s"
proof -
  assume "durationGroup s = Some (v, t)"
  then obtain i s1 f sc s2 where s1: "leadingInt 0 s = Some (i, s1)"
    and s2: "(if HasPrefix s1 ''.'' then leadingFraction 0 1 False (tl s1) else (0, 1, s1)) = (f, sc, s2)"
    and t: "t = dropWhile (\<lambda>c. c \<noteq> CHR ''.'' \<and> \<not> isDigit c) s2"
      "takeWhile (\<lambda>c. c \<noteq> CHR ''.'' \<and> \<not> isDigit c) s2 \<noteq> []"
    by (auto simp: durationGroup_def Let_def split: if_splits option.splits prod.splits)
  have "length s2 \<le> length s1"
    using s2 leadingFraction_length [of 0 1 False "tl s1" f sc s2] by (cases s1) (auto split: if_splits)
  with leadingInt_length [OF s1] takeWhile_dropWhile_shorter [OF t(2)] t(1)
  show ?thesis by simp
qed

lemma durationGroups_fuel:
  "length s \<le> n \<Longrightarrow> n \<le> m \<Longrightarrow> durationGroups m d s = durationGroups n d s"
proof (induction n arbitrary: m d s)
  case 0
  then show ?case by (cases m) auto
next
  case (Suc n)
  then obtain m' where m: "m = Suc m'" "n \<le> m'" by (cases m) auto
  show ?case
  proof (cases "durationGroup s")
    case None
    with m show ?thesis by simp
  next
    case (Some p)
    obtain v t where p: "p = (v, t)" by force
    with Some Suc.prems have "length t \<le> n" using durationGroup_shorter [of s v t] by simp
    with Suc.IH [OF this m(2)] Some p m show ?thesis by simp
  qed
qed

section \<open>String\<close>

definition fmtFrac :: "nat \<Rightarrow> nat \<Rightarrow> string" where
  "fmtFrac prec n =
     (let t = TrimRight (pad prec n) ''0'' in if n = 0 then [] else CHR ''.'' # t)"

definition Duration_String :: "duration \<Rightarrow> string" where
  "Duration_String d =
     (let u = nat \<bar>d\<bar>; sign = (if d < 0 then ''-'' else [])
      in if u = 0 then ''0s''
         else sign @
          (if u < 1000 then FormatUint u @ ''ns''
           else if u < 1000000 then
             FormatUint (u div 1000) @ fmtFrac 3 (u mod 1000) @ [CHR 0xC2, CHR 0xB5, CHR ''s'']
           else if u < second_ns then FormatUint (u div 1000000) @ fmtFrac 6 (u mod 1000000) @ ''ms''
           else let secs = u div second_ns; mins = secs div 60; hours = mins div 60;
                    tail = fmtFrac 9 (u mod second_ns) @ ''s''
                in if mins = 0 then FormatUint secs @ tail
                   else if hours = 0 then FormatUint mins @ ''m'' @ FormatUint (secs mod 60) @ tail
                   else FormatUint hours @ ''h'' @ FormatUint (mins mod 60) @ ''m''
                        @ FormatUint (secs mod 60) @ tail))"

definition seconds :: "int \<Rightarrow> duration" where
  "seconds n = n * 1000000000"

definition milliseconds :: "int \<Rightarrow> duration" where
  "milliseconds n = n * 1000000"

end
