(* ===== verification/GoJson.thy ===== *)
theory GoJson
  imports GoStrings
begin

text \<open>
  UTF-8 as Go decodes it (\<open>unicode/utf8\<close>) and the encoder of \<open>encoding/json\<close> for strings and
  lists of strings, with its HTML escaping.
\<close>

section \<open>UTF-8\<close>

definition byteIn :: "nat \<Rightarrow> nat \<Rightarrow> char \<Rightarrow> bool" where
  "byteIn lo hi c \<longleftrightarrow> lo \<le> of_char c \<and> of_char c \<le> hi"

text \<open>The number of bytes of the valid rune a string starts with, 0 if there is none.\<close>

definition utf8Len :: "string \<Rightarrow> nat" where
  "utf8Len s =
     (case s of
        [] \<Rightarrow> 0
      | a # s1 \<Rightarrow>
        if byteIn 0 0x7F a then 1
        else case s1 of
          [] \<Rightarrow> 0
        | b # s2 \<Rightarrow>
          if byteIn 0xC2 0xDF a \<and> byteIn 0x80 0xBF b then 2
          else case s2 of
            [] \<Rightarrow> 0
          | c # s3 \<Rightarrow>
            if byteIn 0x80 0xBF c \<and>
               ((byteIn 0xE0 0xE0 a \<and> byteIn 0xA0 0xBF b) \<or> (byteIn 0xED 0xED a \<and> byteIn 0x80 0x9F b)
                \<or> ((byteIn 0xE1 0xEC a \<or> byteIn 0xEE 0xEF a) \<and> byteIn 0x80 0xBF b)) then 3
            else case s3 of
              [] \<Rightarrow> 0
            | d # s4 \<Rightarrow>
              if byteIn 0x80 0xBF c \<and> byteIn 0x80 0xBF d \<and>
                 ((byteIn 0xF0 0xF0 a \<and> byteIn 0x90 0xBF b) \<or> (byteIn 0xF4 0xF4 a \<and> byteIn 0x80 0x8F b)
                  \<or> (byteIn 0xF1 0xF3 a \<and> byteIn 0x80 0xBF b)) then 4
              else 0)"

function utf8_ValidString :: "string \<Rightarrow> bool" where
  "utf8_ValidString s =
     (if s = [] then True
      else let n = utf8Len s in if n = 0 then False else utf8_ValidString (drop n s))"
  by pat_completeness auto
termination by (relation "measure length") auto

declare utf8_ValidString.simps [simp del]

lemma utf8_ValidString_ascii: "list_all (byteIn 0 0x7F) s \<Longrightarrow> utf8_ValidString s"
  by (induction s) (simp_all add: utf8_ValidString.simps [of "c # s" for c s] utf8_ValidString.simps [of "[]"]
      utf8Len_def)

section \<open>JSON strings\<close>

definition lowerHexDigit :: "nat \<Rightarrow> char" where
  "lowerHexDigit n = ''0123456789abcdef'' ! (n mod 16)"

definition jsonSafe :: "char \<Rightarrow> bool" where
  "jsonSafe c \<longleftrightarrow> byteIn 0x20 0x7F c \<and> c \<noteq> CHR 0x22 \<and> c \<noteq> CHR 0x5C \<and> c \<notin> set ''<>&''"

definition jsonEscapeByte :: "char \<Rightarrow> string" where
  "jsonEscapeByte c =
     (if c = CHR 0x22 \<or> c = CHR 0x5C then [CHR 0x5C, c]
      else if c = CHR 0x08 then [CHR 0x5C, CHR ''b'']
      else if c = CHR 0x0C then [CHR 0x5C, CHR ''f'']
      else if c = CHR 0x0A then [CHR 0x5C, CHR ''n'']
      else if c = CHR 0x0D then [CHR 0x5C, CHR ''r'']
      else if c = CHR 0x09 then [CHR 0x5C, CHR ''t'']
      else CHR 0x5C # ''u00'' @ [lowerHexDigit (of_char c div 16), lowerHexDigit (of_char c)])"

function jsonChars :: "string \<Rightarrow> string" where
  "jsonChars [] = []"
| "jsonChars (c # s) =
     (if byteIn 0 0x7F c then (if jsonSafe c then [c] else jsonEscapeByte c) @ jsonChars s
      else let n = utf8Len (c # s) in
        if n = 0 then CHR 0x5C # ''ufffd'' @ jsonChars s
        else if take n (c # s) = [CHR 0xE2, CHR 0x80, CHR 0xA8]
          then CHR 0x5C # ''u2028'' @ jsonChars (drop n (c # s))
        else if take n (c # s) = [CHR 0xE2, CHR 0x80, CHR 0xA9]
          then CHR 0x5C # ''u2029'' @ jsonChars (drop n (c # s))
        else take n (c # s) @ jsonChars (drop n (c # s)))"
  by pat_completeness auto
termination by (relation "measure length") auto

definition jsonString :: "string \<Rightarrow> string" where
  "jsonString s = CHR 0x22 # jsonChars s @ [CHR 0x22]"

text \<open>\<open>json.Marshal\<close> of a non-nil \<open>[]string\<close>.\<close>

definition marshalStrings :: "string list \<Rightarrow> string" where
  "marshalStrings xs = ''['' @ Join (map jsonString xs) '','' @ '']''"

end
