(* ===== verification/MountParams.thy ===== *)
theory MountParams
  imports Paths GoDuration GoJson "HOL-Library.AList"
begin

text \<open>
  The mount parameters: \<open>mount_ttl.go\<close>, \<open>mount_perf.go\<close>, \<open>mount_gvisor.go\<close>,
  \<open>mount_tuning.go\<close>, \<open>mount_policy.go\<close>, \<open>mutable_parameters.go\<close>, the credential guards of
  \<open>mount_state.go\<close> and \<open>k8s_secret.go\<close>, and the argument vector of \<open>mount_args.go\<close>.

  A \<open>map[string]string\<close> is an association list with distinct keys; where the code ranges over
  a map the list order stands for Go's arbitrary order.
\<close>

type_synonym params = "(string \<times> string) list"

definition mapGet :: "params \<Rightarrow> string \<Rightarrow> string" where
  "mapGet m k = (case map_of m k of None \<Rightarrow> [] | Some v \<Rightarrow> v)"

lemma mapGet_simps [simp]: "mapGet [] k = []" "mapGet ((k', v) # m) k = (if k' = k then v else mapGet m k)"
  by (simp_all add: mapGet_def)

lemma mapGet_update [simp]: "mapGet (AList.update k v m) k' = (if k' = k then v else mapGet m k')"
  by (simp add: mapGet_def update_conv)

lemma map_of_update [simp]: "map_of (AList.update k v m) k' = (if k' = k then Some v else map_of m k')"
  by (simp add: update_conv)

section \<open>TTLs (mount_ttl.go)\<close>

definition paramAttrTTL :: string where "paramAttrTTL = ''attrTTL''"
definition paramEntryTTL :: string where "paramEntryTTL = ''entryTTL''"
definition paramDirTTL :: string where "paramDirTTL = ''dirTTL''"

definition defaultMountTTL :: duration where "defaultMountTTL = 30 * 1000000000"

record mountTTLs =
  AttrTTL :: string
  EntryTTL :: string
  DirTTL :: string

definition effectiveMountTTLValue :: "params \<Rightarrow> string \<Rightarrow> error + string" where
  "effectiveMountTTLValue values key =
     (case map_of values key of
        None \<Rightarrow> Inr (Duration_String defaultMountTTL)
      | Some raw0 \<Rightarrow>
          let raw = TrimSpace raw0 in
          if raw = [] then Inl (Status InvalidArgument (key @ '' must be a positive duration''))
          else case ParseDuration raw of
            None \<Rightarrow> Inl (Status InvalidArgument (key @ '': invalid duration''))
          | Some ttl \<Rightarrow>
              if ttl \<le> 0 then Inl (Status InvalidArgument (key @ '' must be a positive duration''))
              else Inr (Duration_String ttl))"

definition effectiveMountTTLs :: "params \<Rightarrow> error + mountTTLs" where
  "effectiveMountTTLs values =
     ebind (effectiveMountTTLValue values paramAttrTTL) (\<lambda>attrTTL.
     ebind (effectiveMountTTLValue values paramEntryTTL) (\<lambda>entryTTL.
     ebind (effectiveMountTTLValue values paramDirTTL) (\<lambda>dirTTL.
       Inr \<lparr>AttrTTL = attrTTL, EntryTTL = entryTTL, DirTTL = dirTTL\<rparr>)))"

definition mountTTLOrDefault :: "string \<Rightarrow> string" where
  "mountTTLOrDefault value =
     (if TrimSpace value = [] then Duration_String defaultMountTTL else TrimSpace value)"

definition mountTTLsOrDefault :: "string \<Rightarrow> string \<Rightarrow> string \<Rightarrow> mountTTLs" where
  "mountTTLsOrDefault attrTTL entryTTL dirTTL =
     \<lparr>AttrTTL = mountTTLOrDefault attrTTL, EntryTTL = mountTTLOrDefault entryTTL,
      DirTTL = mountTTLOrDefault dirTTL\<rparr>"

definition TTLs_addToVolumeContext :: "mountTTLs \<Rightarrow> params \<Rightarrow> params" where
  "TTLs_addToVolumeContext m ctx =
     AList.update paramDirTTL (DirTTL m)
       (AList.update paramEntryTTL (EntryTTL m) (AList.update paramAttrTTL (AttrTTL m) ctx))"

section \<open>Performance traces and gVisor (mount_perf.go, mount_gvisor.go)\<close>

definition paramPerfEnabled :: string where "paramPerfEnabled = ''perfEnabled''"
definition paramGVisorCompat :: string where "paramGVisorCompat = ''gvisorCompat''"

text \<open>\<open>mountPerf\<close> and \<open>mountGVisor\<close> have the single field \<open>Enabled\<close>.\<close>

record mountPerf = PerfEnabled :: bool
record mountGVisor = GVisorEnabled :: bool

definition effectiveMountPerfEnabled :: "params \<Rightarrow> error + bool" where
  "effectiveMountPerfEnabled values =
     (case map_of values paramPerfEnabled of
        None \<Rightarrow> Inr False
      | Some raw \<Rightarrow>
          if TrimSpace raw = ''true'' then Inr True
          else if TrimSpace raw = ''false'' then Inr False
          else Inl (Status InvalidArgument (paramPerfEnabled @ '' must be true or false'')))"

definition effectiveMountPerf :: "params \<Rightarrow> error + mountPerf" where
  "effectiveMountPerf values =
     ebind (effectiveMountPerfEnabled values) (\<lambda>enabled. Inr \<lparr>PerfEnabled = enabled\<rparr>)"

definition Perf_addToVolumeContext :: "mountPerf \<Rightarrow> params \<Rightarrow> params" where
  "Perf_addToVolumeContext m ctx =
     (if PerfEnabled m then AList.update paramPerfEnabled ''true'' ctx
      else AList.update paramPerfEnabled ''false'' ctx)"

definition effectiveMountGVisor :: "params \<Rightarrow> error + mountGVisor" where
  "effectiveMountGVisor values =
     (case map_of values paramGVisorCompat of
        None \<Rightarrow> Inr \<lparr>GVisorEnabled = False\<rparr>
      | Some raw \<Rightarrow>
          if TrimSpace raw = ''true'' then Inr \<lparr>GVisorEnabled = True\<rparr>
          else if TrimSpace raw = ''false'' then Inr \<lparr>GVisorEnabled = False\<rparr>
          else Inl (Status InvalidArgument (paramGVisorCompat @ '' must be true or false'')))"

definition GVisor_addToVolumeContext :: "mountGVisor \<Rightarrow> params \<Rightarrow> params" where
  "GVisor_addToVolumeContext m ctx =
     (if GVisorEnabled m then AList.update paramGVisorCompat ''true'' ctx
      else AList.update paramGVisorCompat ''false'' ctx)"

section \<open>Tuning (mount_tuning.go)\<close>

definition paramReaddirPrefetch :: string where "paramReaddirPrefetch = ''readdirPrefetch''"
definition paramReaddirPrefetchMaxFiles :: string where
  "paramReaddirPrefetchMaxFiles = ''readdirPrefetchMaxFiles''"
definition paramReaddirPrefetchMaxFileBytes :: string where
  "paramReaddirPrefetchMaxFileBytes = ''readdirPrefetchMaxFileBytes''"
definition paramReaddirPrefetchMaxBytes :: string where
  "paramReaddirPrefetchMaxBytes = ''readdirPrefetchMaxBytes''"
definition paramWritebackBatchWindow :: string where
  "paramWritebackBatchWindow = ''writebackBatchWindow''"

record mountTuning =
  ReaddirPrefetchGiven :: bool
  ReaddirPrefetch :: bool
  ReaddirPrefetchMaxFiles :: string
  ReaddirPrefetchMaxFileBytes :: string
  ReaddirPrefetchMaxBytes :: string
  WritebackBatchWindow :: string

text \<open>The result is the value and whether the parameter was given.\<close>

definition optionalBoolParam :: "params \<Rightarrow> string \<Rightarrow> error + (bool \<times> bool)" where
  "optionalBoolParam values key =
     (case map_of values key of
        None \<Rightarrow> Inr (False, False)
      | Some raw \<Rightarrow>
          if TrimSpace raw = ''true'' then Inr (True, True)
          else if TrimSpace raw = ''false'' then Inr (False, True)
          else Inl (Status InvalidArgument (key @ '' must be true or false'')))"

definition optionalPositiveIntParam :: "params \<Rightarrow> string \<Rightarrow> error + string" where
  "optionalPositiveIntParam values key =
     (case map_of values key of
        None \<Rightarrow> Inr []
      | Some raw0 \<Rightarrow>
          let raw = TrimSpace raw0 in
          if raw = [] then Inl (Status InvalidArgument (key @ '' must be a positive integer''))
          else case ParseInt 64 raw of
            None \<Rightarrow> Inl (Status InvalidArgument (key @ '': invalid integer''))
          | Some value \<Rightarrow>
              if value \<le> 0 then Inl (Status InvalidArgument (key @ '' must be a positive integer''))
              else Inr (FormatInt value))"

definition optionalPositiveDurationParam :: "params \<Rightarrow> string \<Rightarrow> error + string" where
  "optionalPositiveDurationParam values key =
     (case map_of values key of
        None \<Rightarrow> Inr []
      | Some raw0 \<Rightarrow>
          let raw = TrimSpace raw0 in
          if raw = [] then Inl (Status InvalidArgument (key @ '' must be a positive duration''))
          else case ParseDuration raw of
            None \<Rightarrow> Inl (Status InvalidArgument (key @ '': invalid duration''))
          | Some value \<Rightarrow>
              if value \<le> 0 then Inl (Status InvalidArgument (key @ '' must be a positive duration''))
              else Inr (Duration_String value))"

definition effectiveMountTuning :: "params \<Rightarrow> error + mountTuning" where
  "effectiveMountTuning values =
     ebind (optionalBoolParam values paramReaddirPrefetch) (\<lambda>(readdirPrefetch, given).
     ebind (optionalPositiveIntParam values paramReaddirPrefetchMaxFiles) (\<lambda>maxFiles.
     ebind (optionalPositiveIntParam values paramReaddirPrefetchMaxFileBytes) (\<lambda>maxFileBytes.
     ebind (optionalPositiveIntParam values paramReaddirPrefetchMaxBytes) (\<lambda>maxBytes.
     ebind (optionalPositiveDurationParam values paramWritebackBatchWindow) (\<lambda>window.
       Inr \<lparr>ReaddirPrefetchGiven = given, ReaddirPrefetch = readdirPrefetch,
            ReaddirPrefetchMaxFiles = maxFiles, ReaddirPrefetchMaxFileBytes = maxFileBytes,
            ReaddirPrefetchMaxBytes = maxBytes, WritebackBatchWindow = window\<rparr>)))))"

definition updateUnlessEmpty :: "string \<Rightarrow> string \<Rightarrow> params \<Rightarrow> params" where
  "updateUnlessEmpty key value ctx = (if value \<noteq> [] then AList.update key value ctx else ctx)"

definition Tuning_addToVolumeContext :: "mountTuning \<Rightarrow> params \<Rightarrow> params" where
  "Tuning_addToVolumeContext m ctx =
     updateUnlessEmpty paramWritebackBatchWindow (WritebackBatchWindow m)
     (updateUnlessEmpty paramReaddirPrefetchMaxBytes (ReaddirPrefetchMaxBytes m)
     (updateUnlessEmpty paramReaddirPrefetchMaxFileBytes (ReaddirPrefetchMaxFileBytes m)
     (updateUnlessEmpty paramReaddirPrefetchMaxFiles (ReaddirPrefetchMaxFiles m)
     (if ReaddirPrefetchGiven m
      then AList.update paramReaddirPrefetch (if ReaddirPrefetch m then ''true'' else ''false'') ctx
      else ctx))))"

section \<open>Credential guards\<close>

definition sensitiveKeys :: "string list" where
  "sensitiveKeys = [''api-key'', ''api_key'', ''apikey'', ''token'', ''access-token'', ''access_token'',
     ''password'', ''passwd'', ''secret'', ''credential'', ''authorization'', ''x-api-key'',
     ''drive9-api-key'', ''drive9_api_key'']"

definition sensitiveQueries :: "string list" where
  "sensitiveQueries = [''?token='', ''&token='', ''?api_key='', ''&api_key='', ''?api-key='', ''&api-key='']"

definition argumentMayContainCredential :: "string \<Rightarrow> bool" where
  "argumentMayContainCredential arg =
     (let lower = ToLower (TrimSpace arg) in
      if HasPrefix lower ''bearer '' \<or> strContains lower ''drive9_api_key_'' then True
      else
        let key0 = (case IndexByte lower (CHR ''='') of None \<Rightarrow> lower | Some separator \<Rightarrow> take separator lower);
            key = TrimLeft key0 ''-''
        in if list_ex (\<lambda>sensitive. key = sensitive \<or> HasSuffix key (''_'' @ sensitive)) sensitiveKeys then True
           else list_ex (\<lambda>queryKey. strContains lower queryKey) sensitiveQueries)"

definition credentialKeys :: "string list" where
  "credentialKeys = [''apiKey'', ''api_key'', ''DRIVE9_API_KEY'', ''server'', ''DRIVE9_SERVER'']"

definition validateNoAPIKeyInAttributes :: "params \<Rightarrow> error option" where
  "validateNoAPIKeyInAttributes attrs =
     (if list_ex (\<lambda>key. TrimSpace (mapGet attrs key) \<noteq> []) credentialKeys
      then Some (Errorf ''volumeAttributes must not contain credential key'') else None)"

section \<open>Path policy (mount_policy.go)\<close>

definition paramLocalOnlyPatterns :: string where "paramLocalOnlyPatterns = ''localOnlyPatterns''"
definition paramRemoteOnlyPatterns :: string where "paramRemoteOnlyPatterns = ''remoteOnlyPatterns''"
definition paramAppendLogPatterns :: string where "paramAppendLogPatterns = ''appendLogPatterns''"
definition paramProfile :: string where "paramProfile = ''profile''"
definition paramDurability :: string where "paramDurability = ''durability''"
definition maxMountStateLength :: nat where "maxMountStateLength = 1048576"
definition maxMountPathPolicyArgumentBytes :: nat where "maxMountPathPolicyArgumentBytes = 65536"
definition maxMountPathPolicyStateBytes :: nat where
  "maxMountPathPolicyStateBytes = maxMountStateLength div 4"

record mountPathPolicy =
  LocalOnlyPatterns :: "string list"
  RemoteOnlyPatterns :: "string list"
  AppendLogPatterns :: "string list"

definition profileFromParameters :: "params \<Rightarrow> string" where
  "profileFromParameters values = TrimSpace (mapGet values paramProfile)"

definition durabilityFromParameters :: "params \<Rightarrow> string" where
  "durabilityFromParameters values = TrimSpace (mapGet values paramDurability)"

definition addDurabilityToVolumeContext :: "params \<Rightarrow> string \<Rightarrow> params" where
  "addDurabilityToVolumeContext ctx durability =
     (if durability \<noteq> [] then AList.update paramDurability durability ctx else ctx)"

text \<open>The byte loop returns at the first offending byte.\<close>

definition patternByteError :: "char \<Rightarrow> error option" where
  "patternByteError value =
     (if value = CHR 0x00 then Some (Errorf ''pattern contains NUL character'')
      else if value = CHR 0x0A \<or> value = CHR 0x09 \<or> value = CHR 0x0D then None
      else if byteIn 0x01 0x1F value then Some (Errorf ''pattern contains control character'')
      else None)"

definition validateMountPolicyPattern :: "string \<Rightarrow> string \<Rightarrow> error option" where
  "validateMountPolicyPattern flagPrefix pattern =
     first_error
       [fail_if (\<not> utf8_ValidString pattern) (Errorf ''pattern contains invalid UTF-8''),
        first_error (map patternByteError pattern),
        fail_if (CHR 0x5C \<in> set pattern) (Errorf ''pattern contains backslash''),
        fail_if (list_ex (\<lambda>segment. segment = ''.'' \<or> segment = ''..'')
                   (Split (CHR ''/'') (Trim pattern ''/''))) (Errorf ''pattern contains dot segment''),
        fail_if (argumentMayContainCredential (flagPrefix @ pattern))
          (Errorf ''pattern may contain a credential'')]"

fun normalizePolicyLines :: "string \<Rightarrow> string \<Rightarrow> string list \<Rightarrow> string list \<Rightarrow> error + string list" where
  "normalizePolicyLines parameter flagPrefix patterns [] = Inr patterns"
| "normalizePolicyLines parameter flagPrefix patterns (line # rest) =
     (let pattern = TrimSpace line in
      if pattern = [] then normalizePolicyLines parameter flagPrefix patterns rest
      else case validateMountPolicyPattern flagPrefix pattern of
        Some e \<Rightarrow> Inl (Status InvalidArgument (parameter @ '': invalid path pattern''))
      | None \<Rightarrow>
          if pattern \<in> set patterns then normalizePolicyLines parameter flagPrefix patterns rest
          else normalizePolicyLines parameter flagPrefix (patterns @ [pattern]) rest)"

definition normalizeMountPolicyParameter :: "string \<Rightarrow> string \<Rightarrow> string \<Rightarrow> error + string list" where
  "normalizeMountPolicyParameter parameter flagPrefix raw =
     normalizePolicyLines parameter flagPrefix [] (Split (CHR 0x0A) raw)"

definition policyArgs :: "mountPathPolicy \<Rightarrow> string list" where
  "policyArgs policy =
     map (\<lambda>pattern. ''--local-only='' @ pattern) (LocalOnlyPatterns policy)
     @ map (\<lambda>pattern. ''--remote-only='' @ pattern) (RemoteOnlyPatterns policy)
     @ map (\<lambda>pattern. ''--append-log='' @ pattern) (AppendLogPatterns policy)"

definition validateMountPathPolicyContract :: "string \<Rightarrow> mountPathPolicy \<Rightarrow> error option" where
  "validateMountPathPolicyContract profile policy =
     (let routingPatterns = length (LocalOnlyPatterns policy) + length (RemoteOnlyPatterns policy) in
      if routingPatterns = 0 \<and> length (AppendLogPatterns policy) = 0 then None
      else if 0 < routingPatterns \<and> (profile = ''none'' \<or> profile = ''interactive'')
        then Some (Status InvalidArgument ''mount path policy requires an overlay profile'')
      else
        let args = policyArgs policy;
            encodedLength = sum_list (map (\<lambda>arg. length arg + 1) args)
        in if maxMountPathPolicyArgumentBytes < encodedLength
             then Some (Status InvalidArgument ''mount path policy is too large'')
           else if maxMountPathPolicyStateBytes < length (marshalStrings args)
             then Some (Status InvalidArgument ''mount path policy is too large'')
           else None)"

definition effectiveMountPathPolicy :: "params \<Rightarrow> error + mountPathPolicy" where
  "effectiveMountPathPolicy values =
     (if maxMountPathPolicyArgumentBytes
           < length (mapGet values paramLocalOnlyPatterns) + length (mapGet values paramRemoteOnlyPatterns)
             + length (mapGet values paramAppendLogPatterns)
      then Inl (Status InvalidArgument ''mount path policy is too large'')
      else
        ebind (normalizeMountPolicyParameter paramLocalOnlyPatterns ''--local-only=''
                 (mapGet values paramLocalOnlyPatterns)) (\<lambda>local.
        ebind (normalizeMountPolicyParameter paramRemoteOnlyPatterns ''--remote-only=''
                 (mapGet values paramRemoteOnlyPatterns)) (\<lambda>remote.
        ebind (normalizeMountPolicyParameter paramAppendLogPatterns ''--append-log=''
                 (mapGet values paramAppendLogPatterns)) (\<lambda>appendLog.
          let policy = \<lparr>LocalOnlyPatterns = local, RemoteOnlyPatterns = remote,
                        AppendLogPatterns = appendLog\<rparr>
          in echeck (validateMountPathPolicyContract (profileFromParameters values) policy)
               (Inr policy)))))"

definition Policy_addToVolumeContext :: "mountPathPolicy \<Rightarrow> params \<Rightarrow> params" where
  "Policy_addToVolumeContext m ctx =
     (let add = (\<lambda>key patterns ctx. if patterns \<noteq> [] then AList.update key (Join patterns [CHR 0x0A]) ctx else ctx)
      in add paramAppendLogPatterns (AppendLogPatterns m)
          (add paramRemoteOnlyPatterns (RemoteOnlyPatterns m)
            (add paramLocalOnlyPatterns (LocalOnlyPatterns m) ctx)))"

section \<open>Mutable parameters (mutable_parameters.go)\<close>

definition supportedMutableMountParameters :: "string list" where
  "supportedMutableMountParameters =
     [paramProfile, paramDurability, paramAttrTTL, paramEntryTTL, paramDirTTL, paramPerfEnabled,
      paramGVisorCompat, paramLocalOnlyPatterns, paramRemoteOnlyPatterns, paramAppendLogPatterns,
      paramReaddirPrefetch, paramReaddirPrefetchMaxFiles, paramReaddirPrefetchMaxFileBytes,
      paramReaddirPrefetchMaxBytes, paramWritebackBatchWindow]"

definition validateMutableMountParameters :: "params \<Rightarrow> error option" where
  "validateMutableMountParameters values =
     (case validateNoAPIKeyInAttributes values of
        Some e \<Rightarrow> Some (Status InvalidArgument ''volumeAttributes must not contain credential key'')
      | None \<Rightarrow>
          fail_if (list_ex (\<lambda>(key, v). key \<notin> set supportedMutableMountParameters) values)
            (Status InvalidArgument ''mutable parameter is not supported''))"

definition validateMutableMountParameterValues :: "params \<Rightarrow> error option" where
  "validateMutableMountParameterValues values =
     first_error
       [validateMutableMountParameters values, err_of (effectiveMountTTLs values),
        err_of (effectiveMountPerf values), err_of (effectiveMountGVisor values),
        err_of (effectiveMountPathPolicy values), err_of (effectiveMountTuning values)]"

definition effectiveCreateMountParameters :: "params \<Rightarrow> params \<Rightarrow> error + params" where
  "effectiveCreateMountParameters params0 mutable =
     echeck (validateMutableMountParameterValues mutable)
       (Inr (fold (\<lambda>(k, v) out. AList.update k v out) mutable
              (fold (\<lambda>(k, v) out. AList.update k v out) params0 [])))"

section \<open>Accepted policies\<close>

definition goodPolicy :: "mountPathPolicy \<Rightarrow> bool" where
  "goodPolicy policy \<longleftrightarrow>
     list_all (\<lambda>p. validateMountPolicyPattern ''--local-only='' p = None) (LocalOnlyPatterns policy)
     \<and> list_all (\<lambda>p. validateMountPolicyPattern ''--remote-only='' p = None) (RemoteOnlyPatterns policy)
     \<and> list_all (\<lambda>p. validateMountPolicyPattern ''--append-log='' p = None) (AppendLogPatterns policy)"

definition policyLine :: "string \<Rightarrow> string \<Rightarrow> bool" where
  "policyLine flag p \<longleftrightarrow> p \<noteq> '''' \<and> TrimSpace p = p \<and> CHR 0x0A \<notin> set p \<and> validateMountPolicyPattern flag p = None"

lemma normalizePolicyLines_Inr:
  "normalizePolicyLines parameter flag acc ls = Inr ps \<Longrightarrow> distinct acc \<Longrightarrow> list_all (policyLine flag) acc \<Longrightarrow>
   \<forall>l\<in>set ls. CHR 0x0A \<notin> set l \<Longrightarrow> distinct ps \<and> list_all (policyLine flag) ps"
proof (induction parameter flag acc ls rule: normalizePolicyLines.induct)
  case (2 parameter flag acc l ls)
  have nl: "CHR 0x0A \<notin> set (TrimSpace l)" using 2(7) set_TrimSpace [of l] by auto
  show ?case
  proof (cases "TrimSpace l = [] \<or> TrimSpace l \<in> set acc")
    case True
    then show ?thesis using 2 by (auto simp: Let_def split: option.splits if_splits)
  next
    case False
    then have v: "validateMountPolicyPattern flag (TrimSpace l) = None"
      using 2(4) by (auto simp: Let_def split: option.splits if_splits)
    then have "policyLine flag (TrimSpace l)" using False nl by (simp add: policyLine_def)
    then show ?thesis using False v 2 by (simp add: Let_def)
  qed
qed simp

lemma normalizePolicyLines_again:
  "list_all (policyLine flag) ls \<Longrightarrow> distinct (acc @ ls) \<Longrightarrow> normalizePolicyLines parameter flag acc ls = Inr (acc @ ls)"
  by (induction ls arbitrary: acc) (auto simp: policyLine_def Let_def)

lemma normalizeMountPolicyParameter_Inr:
  "normalizeMountPolicyParameter parameter flag raw = Inr ps \<Longrightarrow> distinct ps \<and> list_all (policyLine flag) ps"
  unfolding normalizeMountPolicyParameter_def
  by (rule normalizePolicyLines_Inr) (auto dest: Split_parts)

lemma normalizeMountPolicyParameter_Join:
  assumes "distinct ps" and "list_all (policyLine flag) ps"
  shows "normalizeMountPolicyParameter parameter flag (Join ps [CHR 0x0A]) = Inr ps"
proof (cases "ps = []")
  case True
  then show ?thesis by (simp add: normalizeMountPolicyParameter_def Let_def)
next
  case False
  have "Split (CHR 0x0A) (Join ps [CHR 0x0A]) = ps"
    using False assms(2) by (intro Split_Join) (auto simp: list_all_iff policyLine_def)
  then show ?thesis using normalizePolicyLines_again [OF assms(2), of "[]"] assms(1)
    by (simp add: normalizeMountPolicyParameter_def)
qed

lemma length_Join_newline: "ps \<noteq> [] \<Longrightarrow> length (Join ps [CHR 0x0A]) + 1 = sum_list (map (\<lambda>p. length p + 1) ps)"
proof (induction ps)
  case (Cons p ps)
  then show ?case by (cases "ps = []") (simp_all add: Join_Cons)
qed simp

lemma length_Join_le: "length (Join ps [CHR 0x0A]) \<le> sum_list (map (\<lambda>p. length (flag @ p) + 1) ps)"
proof (cases "ps = []")
  case False
  have "sum_list (map (\<lambda>p. length p + 1) ps) \<le> sum_list (map (\<lambda>p. length (flag @ p) + 1) ps)"
    by (rule sum_list_mono) simp
  with length_Join_newline [OF False] show ?thesis by linarith
qed simp

text \<open>The size limit on the parameters follows from the limit on the arguments built from them.\<close>

lemma policy_size:
  assumes "validateMountPathPolicyContract profile policy = None"
  shows "length (Join (LocalOnlyPatterns policy) [CHR 0x0A]) + length (Join (RemoteOnlyPatterns policy) [CHR 0x0A])
    + length (Join (AppendLogPatterns policy) [CHR 0x0A]) \<le> maxMountPathPolicyArgumentBytes"
proof (cases "LocalOnlyPatterns policy = [] \<and> RemoteOnlyPatterns policy = [] \<and> AppendLogPatterns policy = []")
  case False
  let ?sum = "\<lambda>flag ps. sum_list (map (\<lambda>p. length (flag @ p) + 1) ps)"
  have "sum_list (map (\<lambda>arg. length arg + 1) (policyArgs policy)) =
      ?sum ''--local-only='' (LocalOnlyPatterns policy) + ?sum ''--remote-only='' (RemoteOnlyPatterns policy)
      + ?sum ''--append-log='' (AppendLogPatterns policy)"
    unfolding policyArgs_def map_append map_map sum_list_append comp_def by simp
  moreover have "sum_list (map (\<lambda>arg. length arg + 1) (policyArgs policy)) \<le> maxMountPathPolicyArgumentBytes"
    using assms False by (simp add: validateMountPathPolicyContract_def Let_def split: if_splits)
  ultimately show ?thesis
    using length_Join_le [of "LocalOnlyPatterns policy" "''--local-only=''"]
      length_Join_le [of "RemoteOnlyPatterns policy" "''--remote-only=''"]
      length_Join_le [of "AppendLogPatterns policy" "''--append-log=''"] by linarith
qed simp

lemma effectiveMountPathPolicy_parts:
  assumes "effectiveMountPathPolicy values = Inr policy"
  shows "distinct (LocalOnlyPatterns policy) \<and> list_all (policyLine ''--local-only='') (LocalOnlyPatterns policy)"
    and "distinct (RemoteOnlyPatterns policy) \<and> list_all (policyLine ''--remote-only='') (RemoteOnlyPatterns policy)"
    and "distinct (AppendLogPatterns policy) \<and> list_all (policyLine ''--append-log='') (AppendLogPatterns policy)"
    and "validateMountPathPolicyContract (profileFromParameters values) policy = None"
  using assms normalizeMountPolicyParameter_Inr
  unfolding effectiveMountPathPolicy_def Let_def
  by (simp_all only: if_split ebind_Inr echeck_Inr split: if_splits) (fastforce dest: normalizeMountPolicyParameter_Inr)+

lemma policy_context_get:
  "mapGet (Policy_addToVolumeContext policy ctx) paramLocalOnlyPatterns =
     (if LocalOnlyPatterns policy = [] then mapGet ctx paramLocalOnlyPatterns else Join (LocalOnlyPatterns policy) [CHR 0x0A])"
  "mapGet (Policy_addToVolumeContext policy ctx) paramRemoteOnlyPatterns =
     (if RemoteOnlyPatterns policy = [] then mapGet ctx paramRemoteOnlyPatterns else Join (RemoteOnlyPatterns policy) [CHR 0x0A])"
  "mapGet (Policy_addToVolumeContext policy ctx) paramAppendLogPatterns =
     (if AppendLogPatterns policy = [] then mapGet ctx paramAppendLogPatterns else Join (AppendLogPatterns policy) [CHR 0x0A])"
  "mapGet (Policy_addToVolumeContext policy ctx) paramProfile = mapGet ctx paramProfile"
  by (simp_all add: Policy_addToVolumeContext_def Let_def paramLocalOnlyPatterns_def paramRemoteOnlyPatterns_def
      paramAppendLogPatterns_def paramProfile_def)

section \<open>Properties\<close>

text \<open>
  C32: an accepted path policy survives its way through the PV: the patterns that CreateVolume
  normalises and writes to the volume context are read back by NodeStageVolume as exactly the
  same policy, and every pattern is non-empty, trimmed, single-line, free of backslashes and dot
  segments, and carries no credential.
\<close>

theorem path_policy_roundtrip:
  assumes "effectiveMountPathPolicy values = Inr policy"
    and "profileFromParameters ctx = profileFromParameters values"
    and "\<forall>key\<in>set [paramLocalOnlyPatterns, paramRemoteOnlyPatterns, paramAppendLogPatterns]. mapGet ctx key = ''''"
  shows "effectiveMountPathPolicy (Policy_addToVolumeContext policy ctx) = Inr policy \<and> goodPolicy policy
    \<and> distinct (LocalOnlyPatterns policy) \<and> distinct (RemoteOnlyPatterns policy) \<and> distinct (AppendLogPatterns policy)"
proof -
  note parts = effectiveMountPathPolicy_parts [OF assms(1)]
  let ?ctx = "Policy_addToVolumeContext policy ctx"
  have get: "mapGet ?ctx paramLocalOnlyPatterns = Join (LocalOnlyPatterns policy) [CHR 0x0A]"
    "mapGet ?ctx paramRemoteOnlyPatterns = Join (RemoteOnlyPatterns policy) [CHR 0x0A]"
    "mapGet ?ctx paramAppendLogPatterns = Join (AppendLogPatterns policy) [CHR 0x0A]"
    using assms(3) by (simp_all add: policy_context_get)
  have prof: "profileFromParameters ?ctx = profileFromParameters values"
    using assms(2) by (simp add: profileFromParameters_def policy_context_get)
  have size: "\<not> maxMountPathPolicyArgumentBytes < length (mapGet ?ctx paramLocalOnlyPatterns)
      + length (mapGet ?ctx paramRemoteOnlyPatterns) + length (mapGet ?ctx paramAppendLogPatterns)"
    using policy_size [OF parts(4)] by (simp add: get)
  have "effectiveMountPathPolicy ?ctx = Inr policy"
    unfolding effectiveMountPathPolicy_def if_not_P [OF size] unfolding get prof
    using parts normalizeMountPolicyParameter_Join by (cases policy) (simp add: Let_def)
  moreover have "goodPolicy policy"
    using parts(1-3) unfolding goodPolicy_def by (auto simp: list_all_iff policyLine_def)
  ultimately show ?thesis using parts by blast
qed

theorem path_policy_roundtrip_witness:
  "effectiveMountPathPolicy (Policy_addToVolumeContext
      \<lparr>LocalOnlyPatterns = [''*.tmp'', ''build''], RemoteOnlyPatterns = [], AppendLogPatterns = [''*.log'']\<rparr> [])
    = Inr \<lparr>LocalOnlyPatterns = [''*.tmp'', ''build''], RemoteOnlyPatterns = [], AppendLogPatterns = [''*.log'']\<rparr>"
proof -
  let ?params = "[(paramLocalOnlyPatterns, '' *.tmp'' @ [CHR 0x0A] @ ''build'' @ [CHR 0x0A] @ ''*.tmp''),
      (paramAppendLogPatterns, ''*.log'')]"
  let ?policy = "\<lparr>LocalOnlyPatterns = [''*.tmp'', ''build''], RemoteOnlyPatterns = [], AppendLogPatterns = [''*.log'']\<rparr>"
  have get: "mapGet ?params paramLocalOnlyPatterns = '' *.tmp'' @ [CHR 0x0A] @ ''build'' @ [CHR 0x0A] @ ''*.tmp''"
    "mapGet ?params paramRemoteOnlyPatterns = ''''" "mapGet ?params paramAppendLogPatterns = ''*.log''"
    "profileFromParameters ?params = ''''"
    by code_simp+
  have n: "normalizeMountPolicyParameter paramLocalOnlyPatterns ''--local-only=''
        ('' *.tmp'' @ [CHR 0x0A] @ ''build'' @ [CHR 0x0A] @ ''*.tmp'') = Inr [''*.tmp'', ''build'']"
    "normalizeMountPolicyParameter paramRemoteOnlyPatterns ''--remote-only='' '''' = Inr []"
    "normalizeMountPolicyParameter paramAppendLogPatterns ''--append-log='' ''*.log'' = Inr [''*.log'']"
    by code_simp+
  have "length (marshalStrings (policyArgs ?policy)) = 64" by code_simp
  then have "validateMountPathPolicyContract '''' ?policy = None"
    by (simp add: validateMountPathPolicyContract_def maxMountPathPolicyArgumentBytes_def policyArgs_def
        maxMountPathPolicyStateBytes_def maxMountStateLength_def)
  then have "effectiveMountPathPolicy ?params = Inr ?policy"
    unfolding effectiveMountPathPolicy_def get n by (simp add: maxMountPathPolicyArgumentBytes_def)
  from path_policy_roundtrip [OF this, of "[]"] show ?thesis
    by (simp add: profileFromParameters_def paramProfile_def paramLocalOnlyPatterns_def paramAppendLogPatterns_def)
qed

end
