(* ===== verification/Lifecycles.thy ===== *)
theory Lifecycles
  imports Prelude
begin

text \<open>
  The shared shape of the durable records: a record does not exist, is written in an initial
  state, is rewritten by legal transitions, and is finally deleted. \<open>reaches ok s\<^sub>0 s\<close> says that a
  life that began with \<open>s\<^sub>0\<close> has come to \<open>s\<close>; the locale collects what every such machine
  promises, once for the mount states and once for the publish states.
\<close>

inductive reaches :: "('s option \<Rightarrow> 's \<Rightarrow> bool) \<Rightarrow> 's \<Rightarrow> 's \<Rightarrow> bool" for ok where
  born: "ok None s \<Longrightarrow> reaches ok s s"
| rewritten: "reaches ok s0 s \<Longrightarrow> ok (Some s) t \<Longrightarrow> reaches ok s0 t"

inductive_cases reachesE: "reaches ok s0 s"

locale record_lifecycle =
  fixes ok :: "'s option \<Rightarrow> 's \<Rightarrow> bool"
    and valid :: "'s \<Rightarrow> bool"
    and initial :: "'s \<Rightarrow> bool"
    and key :: "'s \<Rightarrow> 'k"
  assumes ok_valid: "ok c s \<Longrightarrow> valid s"
    and ok_initial: "ok None s \<Longrightarrow> initial s"
    and ok_key: "ok (Some s) t \<Longrightarrow> key t = key s"
begin

lemma reaches_valid: "reaches ok s0 s \<Longrightarrow> valid s"
  by (induction rule: reaches.induct) (auto dest: ok_valid)

lemma reaches_key: "reaches ok s0 s \<Longrightarrow> key s = key s0"
  by (induction rule: reaches.induct) (auto dest: ok_key)

lemma reaches_initial: "reaches ok s0 s \<Longrightarrow> initial s0 \<and> valid s0"
  by (induction rule: reaches.induct) (auto dest: ok_initial ok_valid)

end

text \<open>A machine with states that no write leaves: what remains is deletion.\<close>

locale terminating_lifecycle = record_lifecycle ok valid initial key
  for ok :: "'s option \<Rightarrow> 's \<Rightarrow> bool" and valid initial and key :: "'s \<Rightarrow> 'k" +
  fixes terminal :: "'s \<Rightarrow> bool"
  assumes ok_terminal: "ok (Some s) t \<Longrightarrow> terminal s \<Longrightarrow> t = s"
begin

lemma terminal_stuck: "(\<lambda>s t. ok (Some s) t)\<^sup>*\<^sup>* s t \<Longrightarrow> terminal s \<Longrightarrow> t = s"
  by (induction rule: rtranclp.induct) (auto dest: ok_terminal)

end

end
