(* ===== verification/MountState.thy ===== *)
theory MountState
  imports HostNames MountParams Lifecycles
begin

text \<open>
  The durable mount state of \<open>internal/driver/mount_state.go\<close>: the record, its validation in
  each phase, and the transitions a write may make. Phases, reasons and intents are strings
  in the code; every string other than the named ones is an \<open>other\<dots>\<close> value here (the empty
  string included, where it is not named).
\<close>

section \<open>The record\<close>

definition mountStateSchemaVersion :: int where "mountStateSchemaVersion = 2"
definition maxStartupTimeout :: duration where "maxStartupTimeout = 90 * 1000000000"

datatype mountStatePhase =
  mountStatePhaseStarting | mountStatePhaseActive | mountStatePhaseStopping | noPhase | otherPhase string

datatype mountStartReason =
  noReason | mountStartReasonStage | mountStartReasonRecovery | otherReason string

datatype mountStopIntent =
  noStopIntent | mountStopIntentUnstage | mountStopIntentRecovery | mountStopIntentCancelStart
| otherStopIntent string

record mountState =
  SchemaVersion :: int
  Phase :: mountStatePhase
  Reason :: mountStartReason
  AttemptID :: string
  VolumeID :: string
  RemoteRoot :: string
  StagingTarget :: string
  SystemdUnit :: string
  BinaryPath :: string
  FallbackBinaryPath :: string
  MountArgs :: "string list"
  FallbackMountArgs :: "string list"
  EnvPath :: string
  ArgsPath :: string
  CreatedAt :: string
  StartupDeadline :: string
  PID :: int
  PIDStartTime :: string
  ControlSocketPath :: string
  ProcessStatePath :: string
  StartedAt :: string
  StopAttemptID :: string
  StopIntent :: mountStopIntent
  StoppingAt :: string

definition noMountState :: mountState where
  "noMountState = \<lparr>SchemaVersion = 0, Phase = noPhase, Reason = noReason, AttemptID = '''', VolumeID = '''',
     RemoteRoot = '''', StagingTarget = '''', SystemdUnit = '''', BinaryPath = '''', FallbackBinaryPath = '''',
     MountArgs = [], FallbackMountArgs = [], EnvPath = '''', ArgsPath = '''', CreatedAt = '''',
     StartupDeadline = '''', PID = 0, PIDStartTime = '''', ControlSocketPath = '''', ProcessStatePath = '''',
     StartedAt = '''', StopAttemptID = '''', StopIntent = noStopIntent, StoppingAt = ''''\<rparr>"

section \<open>Mount arguments\<close>

definition directMountStrictFlag :: string where "directMountStrictFlag = ''--direct-mount-strict''"
definition superviseForegroundFlag :: string where "superviseForegroundFlag = ''--supervise-foreground''"

definition mountFlagArgument :: "string \<Rightarrow> string \<Rightarrow> bool" where
  "mountFlagArgument arg name =
     list_ex (\<lambda>p. arg = p \<or> HasPrefix arg (p @ ''='')) [''-'' @ name, ''--'' @ name]"

definition mountArgsUseDirectMountStrict :: "string list \<Rightarrow> bool" where
  "mountArgsUseDirectMountStrict args = (length (filter (\<lambda>arg. arg = directMountStrictFlag) args) = 1)"

fun superviseCount :: "nat \<Rightarrow> string list \<Rightarrow> nat option" where
  "superviseCount count [] = Some count"
| "superviseCount count (arg # args) =
     (if arg = superviseForegroundFlag then superviseCount (count + 1) args
      else if mountFlagArgument arg ''supervise-foreground'' \<or> mountFlagArgument arg ''foreground''
           \<or> mountFlagArgument arg ''supervised'' \<or> mountFlagArgument arg ''no-supervise'' then None
      else superviseCount count args)"

definition mountArgsUseInBinarySupervisor :: "string list \<Rightarrow> bool" where
  "mountArgsUseInBinarySupervisor args = (superviseCount 0 args = Some 1)"

definition mountArgError :: "string \<Rightarrow> error option" where
  "mountArgError arg =
     (if arg = '''' \<or> CHR 0x00 \<in> set arg then Some (Errorf ''mount argv contains an empty or NUL argument'')
      else if argumentMayContainCredential arg then Some (Errorf ''mount argv may contain a credential'')
      else None)"

definition validateMountStateArgs :: "string list \<Rightarrow> string \<Rightarrow> string \<Rightarrow> error option" where
  "validateMountStateArgs args remoteRoot stagingTarget =
     (if length args < 4 then Some (Errorf ''mount argv is incomplete'')
      else case first_error (map mountArgError args) of
        Some e \<Rightarrow> Some e
      | None \<Rightarrow>
          if args ! 0 \<noteq> ''mount'' \<or> \<not> mountArgsUseInBinarySupervisor args
          then Some (Errorf ''mount argv does not select the in-binary foreground supervisor'')
          else if args ! (length args - 2) \<noteq> '':'' @ remoteRoot \<or> args ! (length args - 1) \<noteq> stagingTarget
          then Some (Errorf ''mount argv paths do not match durable identity'')
          else None)"

section \<open>Validation\<close>

definition validatePIDStartTime :: "string \<Rightarrow> error option" where
  "validatePIDStartTime value =
     (case ParseUint 64 value of
        None \<Rightarrow> Some (Errorf ''mount state has invalid PID start time'')
      | Some startTime \<Rightarrow>
          fail_if (startTime = 0 \<or> FormatUint startTime \<noteq> value)
            (Errorf ''mount state has invalid PID start time''))"

definition validateActiveProcessIdentity :: "mountState \<Rightarrow> time \<Rightarrow> error option" where
  "validateActiveProcessIdentity state createdAt =
     first_error
       [fail_if (PID state \<le> 0) (Errorf ''mount state is missing process PID''),
        validatePIDStartTime (PIDStartTime state),
        fail_if (drive9ControlSocketPath (StagingTarget state) ''0'' \<noteq> Inr (ControlSocketPath state))
          (Errorf ''mount state has invalid control socket path''),
        fail_if (drive9ProcessStatePath (StagingTarget state) \<noteq> Inr (ProcessStatePath state))
          (Errorf ''mount state has invalid process-state path''),
        (case parseCanonicalStateTime (StartedAt state) of
           Inl e \<Rightarrow> Some (Errorf ''mount state has invalid verified start timestamp'')
         | Inr startedAt \<Rightarrow>
             fail_if (startedAt < createdAt) (Errorf ''mount state has invalid verified start timestamp''))]"

definition validateStartingMountState :: "mountState \<Rightarrow> volumeHostNames \<Rightarrow> time \<Rightarrow> error option" where
  "validateStartingMountState state names createdAt =
     first_error
       [fail_if (Reason state \<noteq> mountStartReasonStage \<and> Reason state \<noteq> mountStartReasonRecovery)
          (Errorf ''starting state has invalid reason''),
        fail_if (EnvPath state \<noteq> names_EnvPath names \<or> ArgsPath state \<noteq> names_ArgsPath names)
          (Errorf ''starting state artifact paths do not match attempt''),
        (case parseCanonicalStateTime (StartupDeadline state) of
           Inl e \<Rightarrow> Some (Errorf ''starting state has invalid immutable deadline'')
         | Inr deadline \<Rightarrow>
             fail_if (int deadline \<noteq> int createdAt + maxStartupTimeout)
               (Errorf ''starting state has invalid immutable deadline'')),
        fail_if (PID state \<noteq> 0 \<or> PIDStartTime state \<noteq> '''' \<or> ControlSocketPath state \<noteq> ''''
                 \<or> ProcessStatePath state \<noteq> '''' \<or> StartedAt state \<noteq> '''')
          (Errorf ''starting state contains active process identity''),
        fail_if (StopAttemptID state \<noteq> '''' \<or> StopIntent state \<noteq> noStopIntent \<or> StoppingAt state \<noteq> '''')
          (Errorf ''starting state contains stop intent''),
        fail_if (Reason state = mountStartReasonStage
                 \<and> (FallbackBinaryPath state \<noteq> '''' \<or> FallbackMountArgs state \<noteq> []))
          (Errorf ''stage attempt contains fallback state''),
        fail_if ((FallbackBinaryPath state = '''') \<noteq> (FallbackMountArgs state = []))
          (Errorf ''recovery fallback identity is incomplete''),
        (if FallbackBinaryPath state \<noteq> ''''
         then case validateContentAddressedBinaryPath (FallbackBinaryPath state) of
                Some e \<Rightarrow> Some (Wrap ''invalid fallback binary path'' e)
              | None \<Rightarrow>
                  (case validateMountStateArgs (FallbackMountArgs state) (RemoteRoot state) (StagingTarget state) of
                     Some e \<Rightarrow> Some (Wrap ''invalid fallback argv'' e) | None \<Rightarrow> None)
         else None)]"

definition validateActiveMountState :: "mountState \<Rightarrow> time \<Rightarrow> error option" where
  "validateActiveMountState state createdAt =
     first_error
       [fail_if (Reason state \<noteq> noReason \<or> StartupDeadline state \<noteq> '''' \<or> EnvPath state \<noteq> ''''
                 \<or> ArgsPath state \<noteq> '''' \<or> FallbackBinaryPath state \<noteq> '''' \<or> FallbackMountArgs state \<noteq> [])
          (Errorf ''active state contains starting-only fields''),
        fail_if (StopAttemptID state \<noteq> '''' \<or> StopIntent state \<noteq> noStopIntent \<or> StoppingAt state \<noteq> '''')
          (Errorf ''active state contains stop intent''),
        validateActiveProcessIdentity state createdAt]"

definition validateStoppingMountState :: "mountState \<Rightarrow> volumeHostNames \<Rightarrow> time \<Rightarrow> error option" where
  "validateStoppingMountState state names createdAt =
     first_error
       [fail_if (Reason state \<noteq> noReason \<or> StartupDeadline state \<noteq> '''' \<or> FallbackBinaryPath state \<noteq> ''''
                 \<or> FallbackMountArgs state \<noteq> [])
          (Errorf ''stopping state contains starting-only recovery fields''),
        fail_if (\<not> attemptIDPattern (StopAttemptID state)) (Errorf ''stopping state has invalid stop attempt ID''),
        fail_if (StopIntent state \<noteq> mountStopIntentUnstage \<and> StopIntent state \<noteq> mountStopIntentRecovery
                 \<and> StopIntent state \<noteq> mountStopIntentCancelStart)
          (Errorf ''stopping state has invalid stop intent''),
        (case parseCanonicalStateTime (StoppingAt state) of
           Inl e \<Rightarrow> Some (Errorf ''stopping state has invalid timestamp'')
         | Inr stoppingAt \<Rightarrow>
             fail_if (stoppingAt < createdAt) (Errorf ''stopping state has invalid timestamp'')),
        fail_if ((EnvPath state = '''') \<noteq> (ArgsPath state = ''''))
          (Errorf ''stopping state has incomplete startup artifact paths''),
        fail_if (EnvPath state \<noteq> ''''
                 \<and> (EnvPath state \<noteq> names_EnvPath names \<or> ArgsPath state \<noteq> names_ArgsPath names))
          (Errorf ''stopping state artifact paths do not match attempt''),
        (if PID state = 0
         then fail_if (PIDStartTime state \<noteq> '''' \<or> ControlSocketPath state \<noteq> '''' \<or> ProcessStatePath state \<noteq> ''''
                       \<or> StartedAt state \<noteq> '''')
                (Errorf ''stopping state has incomplete process identity'')
         else validateActiveProcessIdentity state createdAt)]"

definition knownPhase :: "mountStatePhase \<Rightarrow> bool" where
  "knownPhase p \<longleftrightarrow> p = mountStatePhaseStarting \<or> p = mountStatePhaseActive \<or> p = mountStatePhaseStopping"

definition validateMountState :: "mountState \<Rightarrow> error option" where
  "validateMountState state =
     (if SchemaVersion state \<noteq> mountStateSchemaVersion
        then Some (Errorf ''unsupported mount state schema version'')
      else if \<not> knownPhase (Phase state) then Some (Errorf ''invalid mount state phase'')
      else if \<not> attemptIDPattern (AttemptID state) then Some (Errorf ''invalid mount attempt ID'')
      else if \<not> volumeIDPattern (VolumeID state) then Some (Errorf ''invalid Drive9 volume ID'')
      else if normalizeRemotePath (RemoteRoot state) \<noteq> Inr (RemoteRoot state)
        then Some (Errorf ''invalid canonical remote root'')
      else if canonicalStagingTarget (StagingTarget state) \<noteq> Inr (StagingTarget state)
        then Some (Errorf ''invalid canonical staging target'')
      else case newVolumeHostNames (VolumeID state) (AttemptID state) of
        Inl e \<Rightarrow> Some (Errorf ''mount state systemd unit does not match volume'')
      | Inr names \<Rightarrow>
          if SystemdUnit state \<noteq> names_SystemdUnit names
            then Some (Errorf ''mount state systemd unit does not match volume'')
          else case validateContentAddressedBinaryPath (BinaryPath state) of
            Some e \<Rightarrow> Some (Wrap ''invalid mount state binary path'' e)
          | None \<Rightarrow>
          case validateMountStateArgs (MountArgs state) (RemoteRoot state) (StagingTarget state) of
            Some e \<Rightarrow> Some (Wrap ''invalid mount argv'' e)
          | None \<Rightarrow>
          case parseCanonicalStateTime (CreatedAt state) of
            Inl e \<Rightarrow> Some (Wrap ''invalid creation timestamp'' e)
          | Inr createdAt \<Rightarrow>
              (case Phase state of
                 mountStatePhaseStarting \<Rightarrow> validateStartingMountState state names createdAt
               | mountStatePhaseActive \<Rightarrow> validateActiveMountState state createdAt
               | mountStatePhaseStopping \<Rightarrow> validateStoppingMountState state names createdAt
               | _ \<Rightarrow> Some (Errorf ''invalid mount state phase'')))"

section \<open>Creation and the startup deadline\<close>

definition initializeStartingMountState :: "mountState \<Rightarrow> time \<Rightarrow> error + mountState" where
  "initializeStartingMountState candidate now =
     (if SchemaVersion candidate \<noteq> 0 \<or> Phase candidate \<noteq> noPhase \<or> CreatedAt candidate \<noteq> ''''
         \<or> StartupDeadline candidate \<noteq> ''''
      then Inl (Errorf ''starting state timestamps and phase must be initialized exactly once'')
      else
        let candidate' = candidate\<lparr>SchemaVersion := mountStateSchemaVersion, Phase := mountStatePhaseStarting,
              CreatedAt := formatTime now, StartupDeadline := formatTime (now + nat maxStartupTimeout)\<rparr>
        in echeck (validateMountState candidate') (Inr candidate'))"

text \<open>\<open>Time.Sub\<close> saturates at the ends of the 64-bit range.\<close>

definition time_Sub :: "time \<Rightarrow> time \<Rightarrow> duration" where
  "time_Sub t u = max (- (2 ^ 63)) (min (2 ^ 63 - 1) (int t - int u))"

definition remainingStartupTimeout :: "mountState \<Rightarrow> time \<Rightarrow> error + duration" where
  "remainingStartupTimeout state now =
     (if Phase state \<noteq> mountStatePhaseStarting then Inl (Errorf ''startup timeout requires starting state'')
      else case parseCanonicalStateTime (StartupDeadline state) of
        Inl e \<Rightarrow> Inl (Wrap ''invalid startup deadline'' e)
      | Inr deadline \<Rightarrow>
          let remaining = time_Sub deadline now in if remaining < 0 then Inr 0 else Inr remaining)"

section \<open>Transitions\<close>

text \<open>\<open>reflect.DeepEqual\<close> is equality of records; nil and empty argument lists are identified.\<close>

definition sameMountIdentity :: "mountState \<Rightarrow> mountState \<Rightarrow> bool" where
  "sameMountIdentity left right \<longleftrightarrow>
     VolumeID left = VolumeID right \<and> RemoteRoot left = RemoteRoot right
     \<and> StagingTarget left = StagingTarget right \<and> SystemdUnit left = SystemdUnit right"

definition validateStartingToStarting :: "mountState \<Rightarrow> mountState \<Rightarrow> error option" where
  "validateStartingToStarting current next =
     (if AttemptID current = AttemptID next
      then (if current = next then None else Some (Errorf ''starting attempt is immutable''))
      else fail_if
        (Reason current \<noteq> mountStartReasonRecovery \<or> Reason next \<noteq> mountStartReasonRecovery
         \<or> FallbackBinaryPath current = '''' \<or> BinaryPath next \<noteq> FallbackBinaryPath current
         \<or> MountArgs next \<noteq> FallbackMountArgs current \<or> FallbackBinaryPath next \<noteq> ''''
         \<or> FallbackMountArgs next \<noteq> [])
        (Errorf ''invalid desired-to-fallback candidate switch''))"

definition validateStartingToActive :: "mountState \<Rightarrow> mountState \<Rightarrow> error option" where
  "validateStartingToActive current next =
     fail_if
       (AttemptID next \<noteq> AttemptID current \<or> BinaryPath next \<noteq> BinaryPath current
        \<or> MountArgs next \<noteq> MountArgs current \<or> CreatedAt next \<noteq> CreatedAt current)
       (Errorf ''active promotion changed starting attempt identity'')"

definition validateStartingToStopping :: "mountState \<Rightarrow> mountState \<Rightarrow> error option" where
  "validateStartingToStopping current next =
     fail_if
       (AttemptID next \<noteq> AttemptID current \<or> BinaryPath next \<noteq> BinaryPath current
        \<or> MountArgs next \<noteq> MountArgs current \<or> CreatedAt next \<noteq> CreatedAt current
        \<or> EnvPath next \<noteq> EnvPath current \<or> ArgsPath next \<noteq> ArgsPath current)
       (Errorf ''stopping transition changed starting attempt identity'')"

definition validateActiveToRecovery :: "mountState \<Rightarrow> mountState \<Rightarrow> error option" where
  "validateActiveToRecovery current next =
     fail_if
       (Reason next \<noteq> mountStartReasonRecovery \<or> AttemptID next = AttemptID current
        \<or> FallbackBinaryPath next \<noteq> BinaryPath current \<or> FallbackMountArgs next \<noteq> MountArgs current)
       (Errorf ''active recovery did not preserve fallback identity'')"

definition validateActiveToStopping :: "mountState \<Rightarrow> mountState \<Rightarrow> error option" where
  "validateActiveToStopping current next =
     fail_if
       (AttemptID next \<noteq> AttemptID current \<or> BinaryPath next \<noteq> BinaryPath current
        \<or> MountArgs next \<noteq> MountArgs current \<or> CreatedAt next \<noteq> CreatedAt current
        \<or> ControlSocketPath next \<noteq> ControlSocketPath current
        \<or> ProcessStatePath next \<noteq> ProcessStatePath current \<or> StartedAt next \<noteq> StartedAt current)
       (Errorf ''stopping transition changed active process identity'')"

definition validateMountStateTransition :: "mountState option \<Rightarrow> mountState \<Rightarrow> error option" where
  "validateMountStateTransition current next =
     (case validateMountState next of
        Some e \<Rightarrow> Some e
      | None \<Rightarrow>
     (case current of
        None \<Rightarrow> fail_if (Phase next \<noteq> mountStatePhaseStarting)
                  (Errorf ''mount state may only begin in starting phase'')
      | Some current \<Rightarrow>
          if \<not> sameMountIdentity current next
            then Some (Errorf ''mount state transition changed volume identity'')
          else
            let illegal = Some (Errorf ''illegal mount state transition'') in
            (case Phase current of
               mountStatePhaseStarting \<Rightarrow>
                 (case Phase next of
                    mountStatePhaseStarting \<Rightarrow> validateStartingToStarting current next
                  | mountStatePhaseActive \<Rightarrow> validateStartingToActive current next
                  | mountStatePhaseStopping \<Rightarrow> validateStartingToStopping current next
                  | _ \<Rightarrow> illegal)
             | mountStatePhaseActive \<Rightarrow>
                 (case Phase next of
                    mountStatePhaseActive \<Rightarrow> if current = next then None else illegal
                  | mountStatePhaseStarting \<Rightarrow> validateActiveToRecovery current next
                  | mountStatePhaseStopping \<Rightarrow> validateActiveToStopping current next
                  | _ \<Rightarrow> illegal)
             | mountStatePhaseStopping \<Rightarrow>
                 if Phase next = mountStatePhaseStopping \<and> current = next then None else illegal
             | _ \<Rightarrow> illegal)))"

section \<open>What a valid state guarantees\<close>

lemma validateMountState_None:
  "validateMountState s = None \<longleftrightarrow>
     SchemaVersion s = mountStateSchemaVersion \<and> knownPhase (Phase s) \<and> attemptIDPattern (AttemptID s)
     \<and> volumeIDPattern (VolumeID s) \<and> normalizeRemotePath (RemoteRoot s) = Inr (RemoteRoot s)
     \<and> canonicalStagingTarget (StagingTarget s) = Inr (StagingTarget s)
     \<and> (\<exists>names createdAt. newVolumeHostNames (VolumeID s) (AttemptID s) = Inr names
          \<and> SystemdUnit s = names_SystemdUnit names
          \<and> validateContentAddressedBinaryPath (BinaryPath s) = None
          \<and> validateMountStateArgs (MountArgs s) (RemoteRoot s) (StagingTarget s) = None
          \<and> parseCanonicalStateTime (CreatedAt s) = Inr createdAt
          \<and> (Phase s = mountStatePhaseStarting \<longrightarrow> validateStartingMountState s names createdAt = None)
          \<and> (Phase s = mountStatePhaseActive \<longrightarrow> validateActiveMountState s createdAt = None)
          \<and> (Phase s = mountStatePhaseStopping \<longrightarrow> validateStoppingMountState s names createdAt = None))"
  by (auto simp: validateMountState_def knownPhase_def split: sum.splits option.splits mountStatePhase.splits)

lemma validMountState:
  assumes "validateMountState s = None"
  shows "volumeIDPattern (VolumeID s)" and "attemptIDPattern (AttemptID s)" and "knownPhase (Phase s)"
    and "canonicalStagingTarget (StagingTarget s) = Inr (StagingTarget s)"
    and "normalizeRemotePath (RemoteRoot s) = Inr (RemoteRoot s)"
    and "SystemdUnit s = ''drive9-mount-'' @ truncatedSHA256 (VolumeID s) @ ''.service''"
    and "systemdUnitPattern (SystemdUnit s)"
    and "validateContentAddressedBinaryPath (BinaryPath s) = None"
    and "validateMountStateArgs (MountArgs s) (RemoteRoot s) (StagingTarget s) = None"
    and "SchemaVersion s = mountStateSchemaVersion"
  using assms by (auto simp: validateMountState_None newVolumeHostNames_Inr simp del: append.simps)

lemma valid_starting:
  assumes "validateMountState s = None" and "Phase s = mountStatePhaseStarting"
  shows "\<exists>createdAt deadline. parseCanonicalStateTime (CreatedAt s) = Inr createdAt
    \<and> parseCanonicalStateTime (StartupDeadline s) = Inr deadline \<and> int deadline = int createdAt + maxStartupTimeout
    \<and> PID s = 0 \<and> StopIntent s = noStopIntent \<and> StopAttemptID s = ''''
    \<and> Reason s \<in> {mountStartReasonStage, mountStartReasonRecovery}
    \<and> (Reason s = mountStartReasonStage \<longrightarrow> FallbackBinaryPath s = '''')"
proof -
  obtain names createdAt where c: "parseCanonicalStateTime (CreatedAt s) = Inr createdAt"
    and v: "validateStartingMountState s names createdAt = None"
    using assms by (auto simp: validateMountState_None)
  from v obtain deadline where "parseCanonicalStateTime (StartupDeadline s) = Inr deadline"
    by (cases "parseCanonicalStateTime (StartupDeadline s)") (simp_all add: validateStartingMountState_def)
  with c v show ?thesis by (simp add: validateStartingMountState_def)
qed

lemma valid_active:
  assumes "validateMountState s = None" and "Phase s = mountStatePhaseActive"
  shows "0 < PID s" and "validatePIDStartTime (PIDStartTime s) = None"
    and "drive9ControlSocketPath (StagingTarget s) ''0'' = Inr (ControlSocketPath s)"
    and "drive9ProcessStatePath (StagingTarget s) = Inr (ProcessStatePath s)"
    and "EnvPath s = ''''" and "ArgsPath s = ''''"
  using assms
  by (auto simp: validateMountState_None validateActiveMountState_def validateActiveProcessIdentity_def)

lemma valid_stopping:
  assumes "validateMountState s = None" and "Phase s = mountStatePhaseStopping"
  shows "attemptIDPattern (StopAttemptID s)"
    and "StopIntent s \<in> {mountStopIntentUnstage, mountStopIntentRecovery, mountStopIntentCancelStart}"
    and "PID s \<noteq> 0 \<longrightarrow> 0 < PID s \<and> validatePIDStartTime (PIDStartTime s) = None"
    and "PID s = 0 \<longrightarrow> PIDStartTime s = ''''"
  using assms
  by (auto simp: validateMountState_None validateStoppingMountState_def validateActiveProcessIdentity_def)

section \<open>The transition system\<close>

definition mountWrite :: "mountState option \<Rightarrow> mountState \<Rightarrow> bool" where
  "mountWrite current next \<longleftrightarrow> validateMountStateTransition current next = None"

definition mountIdentity :: "mountState \<Rightarrow> string \<times> string \<times> string \<times> string" where
  "mountIdentity s = (VolumeID s, RemoteRoot s, StagingTarget s, SystemdUnit s)"

lemma sameMountIdentity_iff: "sameMountIdentity s t \<longleftrightarrow> mountIdentity t = mountIdentity s"
  by (auto simp: sameMountIdentity_def mountIdentity_def)

lemma mountWrite_None:
  "mountWrite None s \<longleftrightarrow> validateMountState s = None \<and> Phase s = mountStatePhaseStarting"
  by (auto simp: mountWrite_def validateMountStateTransition_def split: option.splits)

text \<open>The legal writes over an existing record, phase by phase.\<close>

lemma mountWrite_cases:
  assumes "mountWrite (Some s) t"
  obtains (unchanged) "t = s" "knownPhase (Phase s)"
  | (fallback) "Phase s = mountStatePhaseStarting" "Phase t = mountStatePhaseStarting" "AttemptID t \<noteq> AttemptID s"
      "Reason s = mountStartReasonRecovery" "Reason t = mountStartReasonRecovery"
      "FallbackBinaryPath s \<noteq> ''''" "BinaryPath t = FallbackBinaryPath s"
      "MountArgs t = FallbackMountArgs s" "FallbackBinaryPath t = ''''" "FallbackMountArgs t = []"
  | (promote) "Phase s = mountStatePhaseStarting" "Phase t = mountStatePhaseActive"
      "AttemptID t = AttemptID s" "BinaryPath t = BinaryPath s" "MountArgs t = MountArgs s" "CreatedAt t = CreatedAt s"
  | (stop) "Phase s \<in> {mountStatePhaseStarting, mountStatePhaseActive}" "Phase t = mountStatePhaseStopping"
      "AttemptID t = AttemptID s" "BinaryPath t = BinaryPath s" "MountArgs t = MountArgs s" "CreatedAt t = CreatedAt s"
  | (recover) "Phase s = mountStatePhaseActive" "Phase t = mountStatePhaseStarting" "AttemptID t \<noteq> AttemptID s"
      "Reason t = mountStartReasonRecovery" "FallbackBinaryPath t = BinaryPath s" "FallbackMountArgs t = MountArgs s"
proof -
  have id: "sameMountIdentity s t" and v: "validateMountState t = None"
    using assms by (auto simp: mountWrite_def validateMountStateTransition_def split: option.splits if_splits)
  note legal = assms [unfolded mountWrite_def validateMountStateTransition_def]
  have kt: "knownPhase (Phase t)" using v by (simp add: validateMountState_None)
  show thesis
  proof (cases "Phase s")
    case mountStatePhaseStarting
    from kt consider "Phase t = mountStatePhaseStarting" | "Phase t = mountStatePhaseActive"
      | "Phase t = mountStatePhaseStopping" by (auto simp: knownPhase_def)
    then show thesis
    proof cases
      case 1
      then have "validateStartingToStarting s t = None" using legal id v mountStatePhaseStarting by simp
      then have ss: "validateStartingToStarting s t = None" .
      show thesis
      proof (cases "AttemptID s = AttemptID t")
        case True
        then have "s = t" using ss by (simp add: validateStartingToStarting_def split: if_splits)
        then show thesis using mountStatePhaseStarting by (intro unchanged) (simp_all add: knownPhase_def)
      next
        case False
        then show thesis using 1 mountStatePhaseStarting ss
          by (intro fallback) (simp_all add: validateStartingToStarting_def)
      qed
    next
      case 2
      then have "validateStartingToActive s t = None" using legal id v mountStatePhaseStarting by simp
      then show thesis using 2 mountStatePhaseStarting by (intro promote) (simp_all add: validateStartingToActive_def)
    next
      case 3
      then have "validateStartingToStopping s t = None" using legal id v mountStatePhaseStarting by simp
      then show thesis using 3 mountStatePhaseStarting by (intro stop) (simp_all add: validateStartingToStopping_def)
    qed
  next
    case mountStatePhaseActive
    from kt consider "Phase t = mountStatePhaseStarting" | "Phase t = mountStatePhaseActive"
      | "Phase t = mountStatePhaseStopping" by (auto simp: knownPhase_def)
    then show thesis
    proof cases
      case 1
      then have "validateActiveToRecovery s t = None" using legal id v mountStatePhaseActive by simp
      then show thesis using 1 mountStatePhaseActive by (intro recover) (simp_all add: validateActiveToRecovery_def)
    next
      case 2
      then have "s = t" using legal id v mountStatePhaseActive by (simp split: if_splits)
      then show thesis using mountStatePhaseActive by (intro unchanged) (simp_all add: knownPhase_def)
    next
      case 3
      then have "validateActiveToStopping s t = None" using legal id v mountStatePhaseActive by simp
      then show thesis using 3 mountStatePhaseActive by (intro stop) (simp_all add: validateActiveToStopping_def)
    qed
  next
    case mountStatePhaseStopping
    then have "s = t" using legal id v by (simp split: if_splits)
    then show thesis using mountStatePhaseStopping by (intro unchanged) (simp_all add: knownPhase_def)
  qed (use legal id v in simp_all)
qed

lemma mountWrite_valid: "mountWrite c s \<Longrightarrow> validateMountState s = None"
  by (auto simp: mountWrite_def validateMountStateTransition_def split: option.splits)

lemma mountWrite_identity: "mountWrite (Some s) t \<Longrightarrow> mountIdentity t = mountIdentity s"
  by (auto simp: mountWrite_def validateMountStateTransition_def sameMountIdentity_iff
      split: option.splits if_splits)

lemma mountWrite_stopping: "mountWrite (Some s) t \<Longrightarrow> Phase s = mountStatePhaseStopping \<Longrightarrow> t = s"
  by (erule mountWrite_cases) auto

interpretation mount_lifecycle: terminating_lifecycle mountWrite "\<lambda>s. validateMountState s = None"
    "\<lambda>s. Phase s = mountStatePhaseStarting" mountIdentity "\<lambda>s. Phase s = mountStatePhaseStopping"
  by unfold_locales (auto simp: mountWrite_None mountWrite_identity mountWrite_stopping dest: mountWrite_valid)

section \<open>Properties\<close>

text \<open>
  C16: along any history of accepted writes a mount record stays valid, keeps the identity
  (volume, remote root, staging target, systemd unit) it was created with, was created in the
  starting phase, and once stopping is never rewritten again.
\<close>

theorem mount_state_lifecycle:
  assumes "reaches mountWrite s0 s"
  shows "validateMountState s = None \<and> Phase s0 = mountStatePhaseStarting
    \<and> mountIdentity s = mountIdentity s0
    \<and> (\<forall>t. Phase s = mountStatePhaseStopping \<longrightarrow> mountWrite (Some s) t \<longrightarrow> t = s)"
  using mount_lifecycle.reaches_valid [OF assms] mount_lifecycle.reaches_initial [OF assms]
    mount_lifecycle.reaches_key [OF assms] mountWrite_stopping by blast

text \<open>
  C23: within one attempt the executable, the argument vector and the creation time never
  change, and the attempt changes in two ways only: an active mount enters recovery, keeping its
  executable and arguments as the fallback, or a recovery attempt switches to that fallback.
\<close>

theorem mount_attempt_immutable:
  assumes "mountWrite (Some s) t"
  shows "(AttemptID t = AttemptID s \<longrightarrow>
            BinaryPath t = BinaryPath s \<and> MountArgs t = MountArgs s \<and> CreatedAt t = CreatedAt s)
    \<and> (AttemptID t \<noteq> AttemptID s \<longrightarrow> Phase t = mountStatePhaseStarting \<and> Reason t = mountStartReasonRecovery
        \<and> (Phase s = mountStatePhaseActive \<and> FallbackBinaryPath t = BinaryPath s \<and> FallbackMountArgs t = MountArgs s
           \<or> Phase s = mountStatePhaseStarting \<and> BinaryPath t = FallbackBinaryPath s
             \<and> MountArgs t = FallbackMountArgs s \<and> FallbackBinaryPath t = ''''))"
  using assms by (elim mountWrite_cases) auto

text \<open>
  C24: a recovery tries the desired executable, then at most once the one that was running: after
  an active mount entered recovery and switched to its fallback, the record runs the executable
  and arguments of the active mount, and no further write leaves that attempt in the starting
  phase.
\<close>

theorem recovery_falls_back_once:
  assumes "mountWrite (Some a) s" and "Phase a = mountStatePhaseActive" and "Phase s = mountStatePhaseStarting"
    and "mountWrite (Some s) f" and "Phase f = mountStatePhaseStarting" and "AttemptID f \<noteq> AttemptID s"
  shows "BinaryPath f = BinaryPath a \<and> MountArgs f = MountArgs a
    \<and> (\<forall>u. mountWrite (Some f) u \<longrightarrow> Phase u = mountStatePhaseStarting \<longrightarrow> u = f)"
proof -
  have a: "FallbackBinaryPath s = BinaryPath a" "FallbackMountArgs s = MountArgs a"
    using assms(1-3) by (auto elim: mountWrite_cases)
  have f: "BinaryPath f = FallbackBinaryPath s" "MountArgs f = FallbackMountArgs s" "FallbackBinaryPath f = ''''"
    using assms(3-6) by (auto elim: mountWrite_cases)
  have "u = f" if "mountWrite (Some f) u" "Phase u = mountStatePhaseStarting" for u
    using that(1) by (rule mountWrite_cases) (use f(3) that(2) assms(5) in auto)
  with a f show ?thesis by auto
qed

text \<open>
  C30: a record created by \<open>initializeStartingMountState\<close> is valid and may be written as the first
  state of a volume, and the time left for its startup, recomputed later from the record alone,
  is what remains of 90 seconds since its creation.
\<close>

theorem startup_deadline:
  assumes "initializeStartingMountState candidate now = Inr s"
    and "now + 90000000000 < maxTime" and "now \<le> later" and "later < maxTime"
  shows "validateMountState s = None \<and> mountWrite None s \<and> mountIdentity s = mountIdentity candidate
    \<and> remainingStartupTimeout s later = Inr (max 0 (90000000000 - (int later - int now)))"
proof -
  have v: "validateMountState s = None" and s: "s = candidate\<lparr>SchemaVersion := mountStateSchemaVersion,
      Phase := mountStatePhaseStarting, CreatedAt := formatTime now,
      StartupDeadline := formatTime (now + nat maxStartupTimeout)\<rparr>"
    using assms(1) by (auto simp: initializeStartingMountState_def Let_def split: if_splits)
  then have ph: "Phase s = mountStatePhaseStarting" "StartupDeadline s = formatTime (now + 90000000000)"
    by (simp_all add: maxStartupTimeout_def)
  have "parseCanonicalStateTime (StartupDeadline s) = Inr (now + 90000000000)"
    using ph(2) assms(2) by (simp add: parseCanonical_formatTime)
  with ph(1) have "remainingStartupTimeout s later =
      Inr (max 0 (max (- (2 ^ 63)) (min (2 ^ 63 - 1) (int (now + 90000000000) - int later))))"
    by (simp add: remainingStartupTimeout_def time_Sub_def)
  moreover have "max 0 (max (- (2 ^ 63)) (min (2 ^ 63 - 1) (int (now + 90000000000) - int later)))
      = max 0 (90000000000 - (int later - int now))"
    using assms(3) by simp
  moreover have "mountIdentity s = mountIdentity candidate" by (simp add: s mountIdentity_def)
  ultimately show ?thesis using v ph(1) by (simp add: mountWrite_None)
qed

section \<open>A concrete life of a mount\<close>

text \<open>
  Example states for the witnesses: a stage attempt, its promotion, a recovery with another
  executable, and the switch to the fallback. Digests stay symbolic.
\<close>

definition exVolume :: string where "exVolume = ''drive9-'' @ replicate 32 (CHR ''a'')"
definition exAttempt :: "char \<Rightarrow> string" where "exAttempt c = replicate 32 c"
definition exBinary :: "char \<Rightarrow> string" where "exBinary c = ''/var/lib/drive9-csi/bin/drive9-'' @ replicate 64 c"
definition exTarget :: string where "exTarget = ''/var/lib/kubelet/plugins/stage''"
definition exArgs :: "string list" where
  "exArgs = [''mount'', ''--supervise-foreground'', ''--mode=fuse'', '':/k8s/a'', exTarget]"

definition exNames :: "char \<Rightarrow> volumeHostNames" where
  "exNames c = \<lparr>VolumeHash = truncatedSHA256 exVolume,
     names_SystemdUnit = ''drive9-mount-'' @ truncatedSHA256 exVolume @ ''.service'',
     names_EnvPath = path_Join [hostRuntimeDir, truncatedSHA256 exVolume @ ''-'' @ exAttempt c @ ''.env''],
     names_ArgsPath = path_Join [hostRuntimeDir, truncatedSHA256 exVolume @ ''-'' @ exAttempt c @ ''.args'']\<rparr>"

definition exCandidate :: mountState where
  "exCandidate = noMountState\<lparr>Reason := mountStartReasonStage, AttemptID := exAttempt (CHR ''1''),
     VolumeID := exVolume, RemoteRoot := ''/k8s/a'', StagingTarget := exTarget,
     SystemdUnit := names_SystemdUnit (exNames (CHR ''1'')), BinaryPath := exBinary (CHR ''b''),
     MountArgs := exArgs, EnvPath := names_EnvPath (exNames (CHR ''1'')),
     ArgsPath := names_ArgsPath (exNames (CHR ''1''))\<rparr>"

definition exStarting :: mountState where
  "exStarting = exCandidate\<lparr>SchemaVersion := 2, Phase := mountStatePhaseStarting,
     CreatedAt := formatTime 0, StartupDeadline := formatTime 90000000000\<rparr>"

definition exActive :: mountState where
  "exActive = exStarting\<lparr>Phase := mountStatePhaseActive, Reason := noReason, StartupDeadline := '''',
     EnvPath := '''', ArgsPath := '''', PID := 7, PIDStartTime := ''9'',
     ControlSocketPath := hostRuntimeDir @ ''/drive9-mount-'' @ truncatedSHA256 (''0'' @ [CHR 0x00] @ exTarget) @ ''.sock'',
     ProcessStatePath := hostRuntimeDir @ ''/drive9-mount-'' @ truncatedSHA256 exTarget @ ''.pid'',
     StartedAt := formatTime 0\<rparr>"

definition exRecovery :: mountState where
  "exRecovery = exStarting\<lparr>Reason := mountStartReasonRecovery, AttemptID := exAttempt (CHR ''2''),
     BinaryPath := exBinary (CHR ''c''), FallbackBinaryPath := exBinary (CHR ''b''),
     FallbackMountArgs := exArgs, EnvPath := names_EnvPath (exNames (CHR ''2'')),
     ArgsPath := names_ArgsPath (exNames (CHR ''2''))\<rparr>"

definition exFallback :: mountState where
  "exFallback = exStarting\<lparr>Reason := mountStartReasonRecovery, AttemptID := exAttempt (CHR ''3''),
     EnvPath := names_EnvPath (exNames (CHR ''3'')), ArgsPath := names_ArgsPath (exNames (CHR ''3''))\<rparr>"

lemma ex_parts:
  "volumeIDPattern exVolume" "attemptIDPattern (exAttempt (CHR ''1''))" "attemptIDPattern (exAttempt (CHR ''2''))"
  "attemptIDPattern (exAttempt (CHR ''3''))"
  "normalizeRemotePath ''/k8s/a'' = Inr ''/k8s/a''" "canonicalStagingTarget exTarget = Inr exTarget"
  "validateContentAddressedBinaryPath (exBinary (CHR ''b'')) = None"
  "validateContentAddressedBinaryPath (exBinary (CHR ''c'')) = None"
  "validateMountStateArgs exArgs ''/k8s/a'' exTarget = None"
  "exAttempt (CHR ''1'') \<noteq> exAttempt (CHR ''2'')" "exAttempt (CHR ''2'') \<noteq> exAttempt (CHR ''3'')"
  "exBinary (CHR ''b'') \<noteq> ''''" "exArgs \<noteq> []"
  by code_simp+

lemma ex_start_time [simp]: "validatePIDStartTime ''9'' = None"
proof -
  have "FormatUint 9 = ''9''" by code_simp
  then show ?thesis
    by (simp add: validatePIDStartTime_def ParseUint_def isDigit_def decVal_def digitVal_def)
qed

lemma exNames_Inr: "attemptIDPattern (exAttempt c) \<Longrightarrow> newVolumeHostNames exVolume (exAttempt c) = Inr (exNames c)"
  using ex_parts(1) by (simp add: newVolumeHostNames_Inr exNames_def del: append.simps)

lemma exNames_unit [simp]: "names_SystemdUnit (exNames c) = ''drive9-mount-'' @ truncatedSHA256 exVolume @ ''.service''"
  by (simp add: exNames_def)

lemma maxTime_large: "31622400000000000 \<le> maxTime"
proof -
  have "daysBeforeYear 1 \<le> daysBeforeYear 10000" by (rule daysBeforeYear_mono) simp
  then have "366 \<le> daysBeforeYear 10000" by (simp add: yearLen_def leapYear_def)
  then have "366 * 86400 * second_ns \<le> maxTime" unfolding maxTime_def by (intro mult_le_mono) simp_all
  then show ?thesis by simp
qed

lemma ex_times [simp]:
  "parseCanonicalStateTime (formatTime 0) = Inr 0"
  "parseCanonicalStateTime (formatTime 90000000000) = Inr 90000000000"
  using maxTime_large by (intro parseCanonical_formatTime; simp)+

lemma exStarting_valid: "validateMountState exStarting = None"
  using ex_parts exNames_Inr [of "CHR ''1''"]
  by (simp add: validateMountState_def exStarting_def exCandidate_def noMountState_def knownPhase_def
      mountStateSchemaVersion_def validateStartingMountState_def maxStartupTimeout_def del: append.simps)

lemma exActive_valid: "validateMountState exActive = None"
  using ex_parts exNames_Inr [of "CHR ''1''"] drive9ControlSocketPath_root [OF ex_parts(6)]
    drive9ProcessStatePath_Inr [OF ex_parts(6)]
  by (simp add: validateMountState_def exActive_def exStarting_def exCandidate_def noMountState_def knownPhase_def
      mountStateSchemaVersion_def validateActiveMountState_def validateActiveProcessIdentity_def
      maxStartupTimeout_def del: append.simps)

lemma exRecovery_valid: "validateMountState exRecovery = None"
  using ex_parts exNames_Inr [of "CHR ''2''"]
  by (simp add: validateMountState_def exRecovery_def exStarting_def exCandidate_def noMountState_def knownPhase_def
      mountStateSchemaVersion_def validateStartingMountState_def maxStartupTimeout_def del: append.simps)

lemma exFallback_valid: "validateMountState exFallback = None"
  using ex_parts exNames_Inr [of "CHR ''3''"]
  by (simp add: validateMountState_def exFallback_def exStarting_def exCandidate_def noMountState_def knownPhase_def
      mountStateSchemaVersion_def validateStartingMountState_def maxStartupTimeout_def del: append.simps)

lemmas ex_defs = exActive_def exRecovery_def exFallback_def exStarting_def exCandidate_def noMountState_def

lemma ex_writes:
  "mountWrite None exStarting" "mountWrite (Some exStarting) exActive" "mountWrite (Some exActive) exRecovery"
  "mountWrite (Some exRecovery) exFallback"
  using exStarting_valid exActive_valid exRecovery_valid exFallback_valid ex_parts
  unfolding mountWrite_def validateMountStateTransition_def
  by (simp_all add: sameMountIdentity_def validateStartingToActive_def validateActiveToRecovery_def
      validateStartingToStarting_def ex_defs del: append.simps)

lemma ex_phases:
  "Phase exStarting = mountStatePhaseStarting" "Phase exActive = mountStatePhaseActive"
  "Phase exRecovery = mountStatePhaseStarting" "Phase exFallback = mountStatePhaseStarting"
  "AttemptID exFallback \<noteq> AttemptID exRecovery" "AttemptID exRecovery \<noteq> AttemptID exActive"
  using ex_parts by (simp_all add: ex_defs)

theorem mount_state_lifecycle_witness:
  "reaches mountWrite exStarting exFallback \<and> validateMountState exFallback = None
   \<and> mountIdentity exFallback = mountIdentity exStarting"
proof -
  have r: "reaches mountWrite exStarting exFallback" using ex_writes by (blast intro: reaches.intros)
  then show ?thesis using mount_state_lifecycle [OF r] by blast
qed

theorem mount_attempt_immutable_witness:
  "mountWrite (Some exActive) exRecovery \<and> FallbackBinaryPath exRecovery = BinaryPath exActive"
  using mount_attempt_immutable [OF ex_writes(3)] ex_writes(3) ex_phases by auto

theorem recovery_falls_back_once_witness:
  "mountWrite (Some exRecovery) exFallback \<and> BinaryPath exFallback = BinaryPath exActive"
  using recovery_falls_back_once [OF ex_writes(3) ex_phases(2,3) ex_writes(4) ex_phases(4,5)] ex_writes(4) by blast

theorem startup_deadline_witness:
  "initializeStartingMountState exCandidate 0 = Inr exStarting
   \<and> remainingStartupTimeout exStarting 30000000000 = Inr 60000000000"
proof -
  have i: "initializeStartingMountState exCandidate 0 = Inr exStarting"
    using exStarting_valid
    by (simp add: initializeStartingMountState_def exStarting_def exCandidate_def noMountState_def
        mountStateSchemaVersion_def maxStartupTimeout_def del: append.simps)
  then show ?thesis using startup_deadline [OF i, of 30000000000] maxTime_large by simp
qed

end
