(* ===== verification/HostRuntime.thy ===== *)
theory HostRuntime
  imports MountState MountInfo "HOL-Library.Monad_Syntax"
begin

text \<open>
  \<open>internal/driver/host_runtime.go\<close>: the interface between the driver and its host. Every call
  is an event of the history, with its arguments and the answer; the answers come from an
  environment that may choose them freely after every history. So a fact proved for all
  environments holds for every host, whatever fails; a fact about successful runs names what it
  needs of the environment.
\<close>

section \<open>Values\<close>

datatype fileKind = Regular | Directory | Symlink | Socket | OtherKind

record fileInfo =
  fi_kind :: fileKind
  fi_perm :: nat
  fi_size :: int

record dirEntry =
  de_name :: string
  de_kind :: fileKind

definition IsRegular :: "fileInfo \<Rightarrow> bool" where "IsRegular info \<longleftrightarrow> fi_kind info = Regular"
definition IsDir :: "dirEntry \<Rightarrow> bool" where "IsDir e \<longleftrightarrow> de_kind e = Directory"

record hostCommand =
  cmd_Path :: string
  cmd_Args :: "string list"
  cmd_Env :: "string list"

record hostCommandResult =
  cmd_Stdout :: bytes
  cmd_Stderr :: bytes
  cmd_ExitCode :: int

datatype openFlag = O_RDONLY | O_WRONLY_CREATE_EXCL

text \<open>File modes are written in octal in the code.\<close>

abbreviation perm600 :: nat where "perm600 \<equiv> 384"
abbreviation perm700 :: nat where "perm700 \<equiv> 448"
abbreviation perm755 :: nat where "perm755 \<equiv> 493"

section \<open>Records kept outside the driver\<close>

text \<open>The process state the Drive9 supervisor publishes (host_process.go).\<close>

record drive9ProcessState =
  ps_PID :: int
  ps_CreationTime :: nat
  ps_Component :: string
  ps_MountKind :: string
  ps_MountPoint :: string
  ps_ControlSocket :: string
  ps_Role :: string
  ps_SupervisorPID :: int
  ps_SupervisorCreationTime :: nat
  ps_WorkerPID :: int
  ps_Supervise :: bool

text \<open>The durable record of a publish target and the ownership marker of a volume (driver.go).\<close>

record publishState =
  pub_VolumeID :: string
  pub_StagingTarget :: string
  pub_Target :: string
  pub_Readonly :: bool
  pub_AccessMode :: string
  pub_Status :: string
  pub_PublishedAt :: string

record volumeMarker =
  vm_Version :: int
  vm_Driver :: string
  vm_VolumeID :: string
  vm_Name :: string
  vm_RemoteRoot :: string
  vm_CreatedAt :: string

text \<open>What the driver reads of Kubernetes objects.\<close>

record csiSource =
  csi_Driver :: string
  csi_VolumeHandle :: string
  csi_VolumeAttributes :: params

record persistentVolume =
  pv_Name :: string
  pv_CSI :: "csiSource option"
  pv_AccessModes :: "string list"

text \<open>
  A parsed \<open>net/url\<close> URL, and the outcomes of sending a request: it cannot be built, it cannot be
  sent, or it is answered with a status code and a body that may fail to be read.
\<close>

record url =
  url_Scheme :: string
  url_HasUser :: bool
  url_Host :: string
  url_Path :: string
  url_RawPath :: string
  url_RawQuery :: string
  url_Fragment :: string

datatype httpAnswer = RequestRejected error | RequestFailed error | Response int "error + bytes"

section \<open>Events\<close>

datatype event =
    EvReadFile string "error + bytes"
  | EvReadDir string "error + dirEntry list"
  | EvReadlink string "error + string"
  | EvLstat string "error + fileInfo"
  | EvOpenFile string openFlag nat "error option"
  | EvFileWrite string bytes "error + int"
  | EvFileSync string "error option"
  | EvFileClose string "error option"
  | EvMkdirAll string nat "error option"
  | EvChmod string nat "error option"
  | EvChown string int int "error option"
  | EvRemove string "error option"
  | EvRename string string "error option"
  | EvLink string string "error option"
  | EvExec hostCommand hostCommandResult "error option"
  | EvIsMountPoint string "error + bool"
  | EvObserveMountPoint string "error + mountPointObservation"
  | EvNow time
  | EvWait duration "error option"
  | EvNewAttemptID "error + string"
  | EvCtxErr "error option"
  | EvBind string string bool "error option"
  | EvUnmount string "error option"
  | EvLazyUnmount string "error option"
  | EvLock string
  | EvUnlock string
  | EvGetPVC string string "error + params"
  | EvGetSecret string string "error + params"
  | EvListPVs "error + persistentVolume list"
  | EvHTTP string url string bytes httpAnswer

type_synonym history = "event list"

text \<open>Programs over events of their own kind, and those that talk to the host.\<close>

type_synonym ('e, 'a) runs = "('e list, 'a) state"
type_synonym 'a prog = "(event, 'a) runs"

section \<open>The environment\<close>

text \<open>
  The answers, as functions of the history and the arguments; and pure library functions: the two
  directions of \<open>encoding/json\<close> for the durable mount state (encoding a record of strings and
  numbers cannot fail, decoding is strict: unknown fields and trailing data are errors), decoding
  of the other records, \<open>net/url\<close>, and \<open>os.Environ\<close>.
\<close>

record env =
  e_ReadFile :: "history \<Rightarrow> string \<Rightarrow> error + bytes"
  e_ReadDir :: "history \<Rightarrow> string \<Rightarrow> error + dirEntry list"
  e_Readlink :: "history \<Rightarrow> string \<Rightarrow> error + string"
  e_Lstat :: "history \<Rightarrow> string \<Rightarrow> error + fileInfo"
  e_OpenFile :: "history \<Rightarrow> string \<Rightarrow> openFlag \<Rightarrow> nat \<Rightarrow> error option"
  e_FileWrite :: "history \<Rightarrow> string \<Rightarrow> bytes \<Rightarrow> error + int"
  e_FileSync :: "history \<Rightarrow> string \<Rightarrow> error option"
  e_FileClose :: "history \<Rightarrow> string \<Rightarrow> error option"
  e_MkdirAll :: "history \<Rightarrow> string \<Rightarrow> nat \<Rightarrow> error option"
  e_Chmod :: "history \<Rightarrow> string \<Rightarrow> nat \<Rightarrow> error option"
  e_Chown :: "history \<Rightarrow> string \<Rightarrow> int \<Rightarrow> int \<Rightarrow> error option"
  e_Remove :: "history \<Rightarrow> string \<Rightarrow> error option"
  e_Rename :: "history \<Rightarrow> string \<Rightarrow> string \<Rightarrow> error option"
  e_Link :: "history \<Rightarrow> string \<Rightarrow> string \<Rightarrow> error option"
  e_Exec :: "history \<Rightarrow> hostCommand \<Rightarrow> hostCommandResult \<times> error option"
  e_IsMountPoint :: "history \<Rightarrow> string \<Rightarrow> error + bool"
  e_ObserveMountPoint :: "history \<Rightarrow> string \<Rightarrow> error + mountPointObservation"
  e_Now :: "history \<Rightarrow> time"
  e_Wait :: "history \<Rightarrow> duration \<Rightarrow> error option"
  e_NewAttemptID :: "history \<Rightarrow> error + string"
  e_CtxErr :: "history \<Rightarrow> error option"
  e_Bind :: "history \<Rightarrow> string \<Rightarrow> string \<Rightarrow> bool \<Rightarrow> error option"
  e_Unmount :: "history \<Rightarrow> string \<Rightarrow> error option"
  e_LazyUnmount :: "history \<Rightarrow> string \<Rightarrow> error option"
  e_MarshalState :: "mountState \<Rightarrow> bytes"
  e_DecodeState :: "bytes \<Rightarrow> mountState option"
  e_GetPVC :: "history \<Rightarrow> string \<Rightarrow> string \<Rightarrow> error + params"
  e_GetSecret :: "history \<Rightarrow> string \<Rightarrow> string \<Rightarrow> error + params"
  e_ListPVs :: "history \<Rightarrow> error + persistentVolume list"
  e_HTTP :: "history \<Rightarrow> string \<Rightarrow> url \<Rightarrow> string \<Rightarrow> bytes \<Rightarrow> httpAnswer"
  e_DecodeProcess :: "bytes \<Rightarrow> drive9ProcessState option"
  e_DecodePublish :: "bytes \<Rightarrow> publishState option"
  e_DecodeMarker :: "bytes \<Rightarrow> volumeMarker option"
  e_ParseURL :: "string \<Rightarrow> url option"
  e_URLString :: "url \<Rightarrow> string"
  e_Environ :: "string list"

section \<open>Operations\<close>

definition perform :: "('e list \<Rightarrow> 'r) \<Rightarrow> ('r \<Rightarrow> 'e) \<Rightarrow> ('e, 'r) runs" where
  "perform answer ev = State (\<lambda>tr. let r = answer tr in (r, ev r # tr))"

definition ReadFile :: "env \<Rightarrow> string \<Rightarrow> (error + bytes) prog" where
  "ReadFile E path = perform (\<lambda>tr. e_ReadFile E tr path) (EvReadFile path)"

definition ReadDir :: "env \<Rightarrow> string \<Rightarrow> (error + dirEntry list) prog" where
  "ReadDir E path = perform (\<lambda>tr. e_ReadDir E tr path) (EvReadDir path)"

definition Readlink :: "env \<Rightarrow> string \<Rightarrow> (error + string) prog" where
  "Readlink E path = perform (\<lambda>tr. e_Readlink E tr path) (EvReadlink path)"

definition Lstat :: "env \<Rightarrow> string \<Rightarrow> (error + fileInfo) prog" where
  "Lstat E path = perform (\<lambda>tr. e_Lstat E tr path) (EvLstat path)"

definition OpenFile :: "env \<Rightarrow> string \<Rightarrow> openFlag \<Rightarrow> nat \<Rightarrow> error option prog" where
  "OpenFile E path flag mode = perform (\<lambda>tr. e_OpenFile E tr path flag mode) (EvOpenFile path flag mode)"

text \<open>An open file is named by its path: the driver never has two open at one path.\<close>

definition FileWrite :: "env \<Rightarrow> string \<Rightarrow> bytes \<Rightarrow> (error + int) prog" where
  "FileWrite E path body = perform (\<lambda>tr. e_FileWrite E tr path body) (EvFileWrite path body)"

definition FileSync :: "env \<Rightarrow> string \<Rightarrow> error option prog" where
  "FileSync E path = perform (\<lambda>tr. e_FileSync E tr path) (EvFileSync path)"

definition FileClose :: "env \<Rightarrow> string \<Rightarrow> error option prog" where
  "FileClose E path = perform (\<lambda>tr. e_FileClose E tr path) (EvFileClose path)"

definition MkdirAll :: "env \<Rightarrow> string \<Rightarrow> nat \<Rightarrow> error option prog" where
  "MkdirAll E path mode = perform (\<lambda>tr. e_MkdirAll E tr path mode) (EvMkdirAll path mode)"

definition Chmod :: "env \<Rightarrow> string \<Rightarrow> nat \<Rightarrow> error option prog" where
  "Chmod E path mode = perform (\<lambda>tr. e_Chmod E tr path mode) (EvChmod path mode)"

definition Chown :: "env \<Rightarrow> string \<Rightarrow> int \<Rightarrow> int \<Rightarrow> error option prog" where
  "Chown E path uid gid = perform (\<lambda>tr. e_Chown E tr path uid gid) (EvChown path uid gid)"

definition Remove :: "env \<Rightarrow> string \<Rightarrow> error option prog" where
  "Remove E path = perform (\<lambda>tr. e_Remove E tr path) (EvRemove path)"

definition Rename :: "env \<Rightarrow> string \<Rightarrow> string \<Rightarrow> error option prog" where
  "Rename E old new = perform (\<lambda>tr. e_Rename E tr old new) (EvRename old new)"

definition Link :: "env \<Rightarrow> string \<Rightarrow> string \<Rightarrow> error option prog" where
  "Link E old new = perform (\<lambda>tr. e_Link E tr old new) (EvLink old new)"

definition Exec :: "env \<Rightarrow> hostCommand \<Rightarrow> (hostCommandResult \<times> error option) prog" where
  "Exec E command = perform (\<lambda>tr. e_Exec E tr command) (\<lambda>(result, err). EvExec command result err)"

definition IsMountPoint :: "env \<Rightarrow> string \<Rightarrow> (error + bool) prog" where
  "IsMountPoint E path = perform (\<lambda>tr. e_IsMountPoint E tr path) (EvIsMountPoint path)"

definition ObserveMountPoint :: "env \<Rightarrow> string \<Rightarrow> (error + mountPointObservation) prog" where
  "ObserveMountPoint E path = perform (\<lambda>tr. e_ObserveMountPoint E tr path) (EvObserveMountPoint path)"

definition Now :: "env \<Rightarrow> time prog" where
  "Now E = perform (e_Now E) EvNow"

definition Wait :: "env \<Rightarrow> duration \<Rightarrow> error option prog" where
  "Wait E d = perform (\<lambda>tr. e_Wait E tr d) (EvWait d)"

definition NewAttemptID :: "env \<Rightarrow> (error + string) prog" where
  "NewAttemptID E = perform (e_NewAttemptID E) EvNewAttemptID"

definition CtxErr :: "env \<Rightarrow> error option prog" where
  "CtxErr E = perform (e_CtxErr E) EvCtxErr"

definition BindMount :: "env \<Rightarrow> string \<Rightarrow> string \<Rightarrow> bool \<Rightarrow> error option prog" where
  "BindMount E source target readonly =
     perform (\<lambda>tr. e_Bind E tr source target readonly) (EvBind source target readonly)"

definition UnmountPath :: "env \<Rightarrow> string \<Rightarrow> error option prog" where
  "UnmountPath E target = perform (\<lambda>tr. e_Unmount E tr target) (EvUnmount target)"

definition LazyUnmountPath :: "env \<Rightarrow> string \<Rightarrow> error option prog" where
  "LazyUnmountPath E target = perform (\<lambda>tr. e_LazyUnmount E tr target) (EvLazyUnmount target)"

definition GetPVC :: "env \<Rightarrow> string \<Rightarrow> string \<Rightarrow> (error + params) prog" where
  "GetPVC E namespace name = perform (\<lambda>tr. e_GetPVC E tr namespace name) (EvGetPVC namespace name)"

definition GetSecret :: "env \<Rightarrow> string \<Rightarrow> string \<Rightarrow> (error + params) prog" where
  "GetSecret E namespace name = perform (\<lambda>tr. e_GetSecret E tr namespace name) (EvGetSecret namespace name)"

definition ListPVs :: "env \<Rightarrow> (error + persistentVolume list) prog" where
  "ListPVs E = perform (e_ListPVs E) EvListPVs"

definition HTTP :: "env \<Rightarrow> string \<Rightarrow> url \<Rightarrow> string \<Rightarrow> bytes \<Rightarrow> httpAnswer prog" where
  "HTTP E method u apiKey body = perform (\<lambda>tr. e_HTTP E tr method u apiKey body) (EvHTTP method u apiKey body)"

text \<open>
  A mutex and its deferred release. The histories are those of one goroutine; a lock of
  another goroutine shows in what the environment answers while the lock is not held.
\<close>

definition withLock :: "string \<Rightarrow> 'a prog \<Rightarrow> 'a prog" where
  "withLock name body =
     do { perform (\<lambda>tr. ()) (\<lambda>_. EvLock name);
          r \<leftarrow> body;
          perform (\<lambda>tr. ()) (\<lambda>_. EvUnlock name);
          State_Monad.return r }"

section \<open>Early returns\<close>

text \<open>
  \<open>x, err := m; if err != nil { return h(err) }\<close> and the form for calls that return an error only,
  with an arbitrary value to return.
\<close>

definition orReturn :: "('e, error + 'a) runs \<Rightarrow> (error \<Rightarrow> 'b) \<Rightarrow> ('a \<Rightarrow> ('e, 'b) runs) \<Rightarrow> ('e, 'b) runs" where
  "orReturn m h k = do { r \<leftarrow> m; case r of Inl e \<Rightarrow> State_Monad.return (h e) | Inr x \<Rightarrow> k x }"

definition unlessErr :: "('e, error option) runs \<Rightarrow> (error \<Rightarrow> 'b) \<Rightarrow> ('e, 'b) runs \<Rightarrow> ('e, 'b) runs" where
  "unlessErr m h k = do { r \<leftarrow> m; case r of Some e \<Rightarrow> State_Monad.return (h e) | None \<Rightarrow> k }"

definition ifNil :: "error option \<Rightarrow> (error \<Rightarrow> 'b) \<Rightarrow> ('e, 'b) runs \<Rightarrow> ('e, 'b) runs" where
  "ifNil r h k = (case r of Some e \<Rightarrow> State_Monad.return (h e) | None \<Rightarrow> k)"

definition ifOk :: "error + 'a \<Rightarrow> (error \<Rightarrow> 'b) \<Rightarrow> ('a \<Rightarrow> ('e, 'b) runs) \<Rightarrow> ('e, 'b) runs" where
  "ifOk r h k = (case r of Inl e \<Rightarrow> State_Monad.return (h e) | Inr x \<Rightarrow> k x)"

section \<open>The logic of the operations\<close>

lemma emits_perform: "(\<And>r. \<Phi> r [ev r]) \<Longrightarrow> emits (perform answer ev) \<Phi>"
  by (simp add: emits_def perform_def Let_def)

lemma emits_perform_env: "(\<And>tr. \<Phi> (answer tr) [ev (answer tr)]) \<Longrightarrow> emits (perform answer ev) \<Phi>"
  by (simp add: emits_def perform_def Let_def)

lemma emits_only_perform [emits_intro]: "(\<And>r. A (ev r)) \<Longrightarrow> emits_only A (perform answer ev)"
  unfolding emits_only_def by (rule emits_perform) simp

lemmas host_defs = ReadFile_def ReadDir_def Readlink_def Lstat_def OpenFile_def FileWrite_def FileSync_def
  FileClose_def MkdirAll_def Chmod_def Chown_def Remove_def Rename_def Link_def Exec_def IsMountPoint_def
  ObserveMountPoint_def Now_def Wait_def NewAttemptID_def CtxErr_def BindMount_def UnmountPath_def
  LazyUnmountPath_def GetPVC_def GetSecret_def ListPVs_def HTTP_def

lemma emits_orReturn:
  assumes "emits m \<Phi>" and "\<And>e n. \<Phi> (Inl e) n \<Longrightarrow> \<Omega> (h e) n"
    and "\<And>x n. \<Phi> (Inr x) n \<Longrightarrow> emits (k x) (\<lambda>b n2. \<Omega> b (n2 @ n))"
  shows "emits (orReturn m h k) \<Omega>"
  unfolding orReturn_def
proof (rule emits_bind_pre [OF assms(1)])
  fix a n1
  assume "\<Phi> a n1"
  then show "emits (case a of Inl e \<Rightarrow> State_Monad.return (h e) | Inr x \<Rightarrow> k x) (\<lambda>b n2. \<Omega> b (n2 @ n1))"
    using assms(2,3) by (cases a) (auto intro: emits_return)
qed

lemma emits_unlessErr:
  assumes "emits m \<Phi>" and "\<And>e n. \<Phi> (Some e) n \<Longrightarrow> \<Omega> (h e) n"
    and "\<And>n. \<Phi> None n \<Longrightarrow> emits k (\<lambda>b n2. \<Omega> b (n2 @ n))"
  shows "emits (unlessErr m h k) \<Omega>"
  unfolding unlessErr_def
proof (rule emits_bind_pre [OF assms(1)])
  fix a n1
  assume "\<Phi> a n1"
  then show "emits (case a of Some e \<Rightarrow> State_Monad.return (h e) | None \<Rightarrow> k) (\<lambda>b n2. \<Omega> b (n2 @ n1))"
    using assms(2,3) by (cases a) (auto intro: emits_return)
qed

lemma emits_ifNil:
  "(\<And>e. r = Some e \<Longrightarrow> \<Omega> (h e) []) \<Longrightarrow> (r = None \<Longrightarrow> emits k \<Omega>) \<Longrightarrow> emits (ifNil r h k) \<Omega>"
  by (cases r) (auto simp: ifNil_def intro: emits_return)

lemma emits_ifOk:
  "(\<And>e. r = Inl e \<Longrightarrow> \<Omega> (h e) []) \<Longrightarrow> (\<And>x. r = Inr x \<Longrightarrow> emits (k x) \<Omega>) \<Longrightarrow> emits (ifOk r h k) \<Omega>"
  by (cases r) (auto simp: ifOk_def intro: emits_return)

lemma emits_only_orReturn [emits_intro]:
  "emits_only A m \<Longrightarrow> (\<And>x. emits_only A (k x)) \<Longrightarrow> emits_only A (orReturn m h k)"
  unfolding orReturn_def by (intro emits_intro)

lemma emits_only_unlessErr [emits_intro]:
  "emits_only A m \<Longrightarrow> emits_only A k \<Longrightarrow> emits_only A (unlessErr m h k)"
  unfolding unlessErr_def by (intro emits_intro)

lemma emits_only_ifNil [emits_intro]: "(r = None \<Longrightarrow> emits_only A k) \<Longrightarrow> emits_only A (ifNil r h k)"
  by (cases r) (auto simp: ifNil_def intro: emits_intro)

lemma emits_only_ifOk [emits_intro]: "(\<And>x. r = Inr x \<Longrightarrow> emits_only A (k x)) \<Longrightarrow> emits_only A (ifOk r h k)"
  by (cases r) (auto simp: ifOk_def intro: emits_intro)

lemma emits_only_withLock [emits_intro]:
  "emits_only A m \<Longrightarrow> A (EvLock name) \<Longrightarrow> A (EvUnlock name) \<Longrightarrow> emits_only A (withLock name m)"
  unfolding withLock_def by (intro emits_intro)

lemma emits_withLock:
  assumes "emits m (\<lambda>r n. \<Phi> r (EvUnlock name # n @ [EvLock name]))"
  shows "emits (withLock name m) \<Phi>"
  unfolding withLock_def
  by (rule emits_bindI, rule emits_perform, rule emits_bind_pre [OF assms], rule emits_bindI,
      rule emits_perform, rule emits_return) simp

text \<open>
  Weakest-precondition style rules: the events of one operation are added to what the rest must
  establish.
\<close>

named_theorems emits_wp "rules that step through a program"

lemma emits_wp_bind [emits_wp]:
  "(\<And>r. emits (f r) (\<lambda>b n. \<Omega> b (n @ [ev r]))) \<Longrightarrow> emits (State_Monad.bind (perform answer ev) f) \<Omega>"
  by (rule emits_bindI, rule emits_perform) simp

lemma emits_wp_orReturn [emits_wp]:
  "(\<And>e. \<Omega> (h e) [ev (Inl e)]) \<Longrightarrow> (\<And>x. emits (k x) (\<lambda>b n. \<Omega> b (n @ [ev (Inr x)]))) \<Longrightarrow>
   emits (orReturn (perform answer ev) h k) \<Omega>"
  by (rule emits_orReturn [where \<Phi> = "\<lambda>r n. n = [ev r]"], rule emits_perform) auto

lemma emits_wp_unlessErr [emits_wp]:
  "(\<And>e. \<Omega> (h e) [ev (Some e)]) \<Longrightarrow> emits k (\<lambda>b n. \<Omega> b (n @ [ev None])) \<Longrightarrow>
   emits (unlessErr (perform answer ev) h k) \<Omega>"
  by (rule emits_unlessErr [where \<Phi> = "\<lambda>r n. n = [ev r]"], rule emits_perform) auto

lemma emits_wp_option [emits_wp]:
  "(r = None \<Longrightarrow> emits m \<Omega>) \<Longrightarrow> (\<And>x. r = Some x \<Longrightarrow> emits (g x) \<Omega>) \<Longrightarrow>
   emits (case r of None \<Rightarrow> m | Some x \<Rightarrow> g x) \<Omega>"
  by (cases r) auto

lemma emits_wp_sum [emits_wp]:
  "(\<And>x. r = Inl x \<Longrightarrow> emits (f x) \<Omega>) \<Longrightarrow> (\<And>y. r = Inr y \<Longrightarrow> emits (g y) \<Omega>) \<Longrightarrow>
   emits (case r of Inl x \<Rightarrow> f x | Inr y \<Rightarrow> g y) \<Omega>"
  by (cases r) auto

lemma emits_wp_prod [emits_wp]:
  "(\<And>x y. r = (x, y) \<Longrightarrow> emits (f x y) \<Omega>) \<Longrightarrow> emits (case r of (x, y) \<Rightarrow> f x y) \<Omega>"
  by (cases r) auto

lemma emits_wp_if [emits_wp]:
  "(b \<Longrightarrow> emits m \<Omega>) \<Longrightarrow> (\<not> b \<Longrightarrow> emits n \<Omega>) \<Longrightarrow> emits (if b then m else n) \<Omega>"
  by simp

lemma emits_wp_let [emits_wp]: "emits (f x) \<Omega> \<Longrightarrow> emits (let y = x in f y) \<Omega>"
  by simp

lemmas emits_wp_rules [emits_wp] = emits_return emits_ifNil emits_ifOk

lemma emits_op: "emits (perform answer ev) (\<lambda>r n. n = [ev r])"
  by (rule emits_perform) simp

section \<open>Running a program\<close>

named_theorems run_simps "equations that run a program on a history"

lemma run_ops [run_simps]:
  "run_state (perform answer ev) tr = (answer tr, ev (answer tr) # tr)"
  "run_state (State_Monad.return x) tr = (x, tr)"
  "run_state (State_Monad.bind m f) tr = (case run_state m tr of (x, tr') \<Rightarrow> run_state (f x) tr')"
  "run_state (orReturn m h k) tr =
     (case run_state m tr of (r, tr') \<Rightarrow> (case r of Inl e \<Rightarrow> (h e, tr') | Inr x \<Rightarrow> run_state (k x) tr'))"
  "run_state (unlessErr m' h' k') tr =
     (case run_state m' tr of (r, tr') \<Rightarrow> (case r of Some e \<Rightarrow> (h' e, tr') | None \<Rightarrow> run_state k' tr'))"
  by (auto simp: perform_def Let_def State_Monad.return_def State_Monad.bind_def orReturn_def unlessErr_def
      split: prod.split sum.split option.split)

lemma run_ifs [run_simps]:
  "run_state (ifNil None h m) tr = run_state m tr" "run_state (ifNil (Some e) h m) tr = (h e, tr)"
  "run_state (ifOk (Inr x) h' k) tr = run_state (k x) tr" "run_state (ifOk (Inl e) h' k) tr = (h' e, tr)"
  by (simp_all add: ifNil_def ifOk_def State_Monad.return_def)

lemma run_withLock [run_simps]:
  "run_state (withLock name m) tr =
     (case run_state m (EvLock name # tr) of (r, tr') \<Rightarrow> (r, EvUnlock name # tr'))"
  by (simp add: withLock_def run_ops split: prod.split)

text \<open>A host where every operation succeeds and nothing exists yet, for the witnesses.\<close>

definition calmHost :: "(mountState \<Rightarrow> bytes) \<Rightarrow> (bytes \<Rightarrow> mountState option) \<Rightarrow> env" where
  "calmHost marshal decode =
     \<lparr>e_ReadFile = \<lambda>tr p. Inl (Sentinel ErrNotExist), e_ReadDir = \<lambda>tr p. Inr [],
      e_Readlink = \<lambda>tr p. Inl (Sentinel ErrNotExist), e_Lstat = \<lambda>tr p. Inl (Sentinel ErrNotExist),
      e_OpenFile = \<lambda>tr p flag mode. None, e_FileWrite = \<lambda>tr p body. Inr (int (length body)),
      e_FileSync = \<lambda>tr p. None, e_FileClose = \<lambda>tr p. None, e_MkdirAll = \<lambda>tr p mode. None,
      e_Chmod = \<lambda>tr p mode. None, e_Chown = \<lambda>tr p u g. None, e_Remove = \<lambda>tr p. None,
      e_Rename = \<lambda>tr a b. None, e_Link = \<lambda>tr a b. None,
      e_Exec = \<lambda>tr c. (\<lparr>cmd_Stdout = [], cmd_Stderr = [], cmd_ExitCode = 0\<rparr>, None),
      e_IsMountPoint = \<lambda>tr p. Inr False, e_ObserveMountPoint = \<lambda>tr p. Inr noObservation,
      e_Now = \<lambda>tr. 0, e_Wait = \<lambda>tr d. None, e_NewAttemptID = \<lambda>tr. Inr zeroAttempt,
      e_CtxErr = \<lambda>tr. None, e_Bind = \<lambda>tr a b ro. None, e_Unmount = \<lambda>tr p. None, e_LazyUnmount = \<lambda>tr p. None,
      e_MarshalState = marshal, e_DecodeState = decode, e_GetPVC = \<lambda>tr ns n. Inr [],
      e_GetSecret = \<lambda>tr ns n. Inr [], e_ListPVs = \<lambda>tr. Inr [],
      e_HTTP = \<lambda>tr m u k b. Response 404 (Inr []), e_DecodeProcess = \<lambda>b. None, e_DecodePublish = \<lambda>b. None,
      e_DecodeMarker = \<lambda>b. None, e_ParseURL = \<lambda>s. None, e_URLString = \<lambda>u. [], e_Environ = []\<rparr>"

text \<open>Facts about the result alone.\<close>

definition returns :: "('e, 'a) runs \<Rightarrow> ('a \<Rightarrow> bool) \<Rightarrow> bool" where
  "returns m P \<longleftrightarrow> emits m (\<lambda>r _. P r)"

lemma emits_conj: "emits m \<Phi> \<Longrightarrow> emits m \<Psi> \<Longrightarrow> emits m (\<lambda>r n. \<Phi> r n \<and> \<Psi> r n)"
  unfolding emits_def
proof (intro allI)
  fix tr
  assume "\<forall>tr. \<exists>new. snd (run_state m tr) = new @ tr \<and> \<Phi> (fst (run_state m tr)) new"
    and "\<forall>tr. \<exists>new. snd (run_state m tr) = new @ tr \<and> \<Psi> (fst (run_state m tr)) new"
  then obtain n1 n2 where "snd (run_state m tr) = n1 @ tr" "\<Phi> (fst (run_state m tr)) n1"
    "snd (run_state m tr) = n2 @ tr" "\<Psi> (fst (run_state m tr)) n2" by meson
  then show "\<exists>new. snd (run_state m tr) = new @ tr \<and> \<Phi> (fst (run_state m tr)) new \<and> \<Psi> (fst (run_state m tr)) new"
    by auto
qed

lemma emits_trivial_perform: "emits (perform answer ev) (\<lambda>_ _. True)"
  by (rule emits_perform) simp

text \<open>Every program built from the operations only extends the history.\<close>

lemma emits_only_emits: "emits_only A m \<Longrightarrow> emits m (\<lambda>_ n. \<forall>e\<in>set n. A e)"
  by (simp add: emits_only_def)

text \<open>\<open>yields m x\<close>: from every history, \<open>m\<close> returns \<open>x\<close>, whatever it adds to the history.\<close>

definition yields :: "('e, 'a) runs \<Rightarrow> 'a \<Rightarrow> bool" where
  "yields m x \<longleftrightarrow> (\<forall>tr. \<exists>n. run_state m tr = (x, n @ tr))"

named_theorems yields_intro "rules that run a program to its value"

lemma yields_perform: "(\<And>tr. answer tr = x) \<Longrightarrow> yields (perform answer ev) x"
  by (simp add: yields_def perform_def)

lemma yields_return [yields_intro]: "yields (State_Monad.return x) x"
  by (simp add: yields_def run_simps)

lemma yields_step:
  assumes "yields m x" and "yields k y" and "\<And>tr n. run_state m tr = (x, n @ tr) \<Longrightarrow> run_state c tr = run_state k (n @ tr)"
  shows "yields c y"
  unfolding yields_def
proof
  fix tr
  obtain n1 where n1: "run_state m tr = (x, n1 @ tr)" using assms(1) unfolding yields_def by blast
  obtain n2 where "run_state k (n1 @ tr) = (y, n2 @ n1 @ tr)" using assms(2) unfolding yields_def by blast
  then have "run_state c tr = (y, (n2 @ n1) @ tr)" using assms(3) [OF n1] by simp
  then show "\<exists>n. run_state c tr = (y, n @ tr)" by blast
qed

lemma yields_bind [yields_intro]: "yields m x \<Longrightarrow> yields (f x) y \<Longrightarrow> yields (State_Monad.bind m f) y"
  by (erule (1) yields_step) (simp add: run_simps)

lemma yields_orReturn [yields_intro]: "yields m (Inr x) \<Longrightarrow> yields (k x) y \<Longrightarrow> yields (orReturn m h k) y"
  by (erule (1) yields_step) (simp add: run_simps)

lemma yields_unlessErr [yields_intro]: "yields m None \<Longrightarrow> yields k y \<Longrightarrow> yields (unlessErr m h k) y"
  by (erule (1) yields_step) (simp add: run_simps)

lemma yields_ifs [yields_intro]: "r = None \<Longrightarrow> yields k y \<Longrightarrow> yields (ifNil r h k) y"
  "r' = Inr x \<Longrightarrow> yields (k' x) y \<Longrightarrow> yields (ifOk r' h' k') y"
  by (simp_all add: ifNil_def ifOk_def)

lemma yields_if: "(b \<Longrightarrow> yields m y) \<Longrightarrow> (\<not> b \<Longrightarrow> yields n y) \<Longrightarrow> yields (if b then m else n) y"
  by simp

lemma yields_let: "yields (f x) y \<Longrightarrow> yields (let z = x in f z) y"
  by simp

lemma yields_withLock [yields_intro]: "yields m x \<Longrightarrow> yields (withLock name m) x"
  unfolding withLock_def by (intro yields_bind [where x = "()"] yields_perform refl) (erule yields_bind, intro yields_bind [where x = "()"] yields_perform refl yields_return)

lemma yields_run: "yields m x \<Longrightarrow> \<exists>n. run_state m tr = (x, n @ tr)"
  by (simp add: yields_def)

text \<open>\<open>does m x e\<close>: from every history, \<open>m\<close> returns \<open>x\<close> and the event \<open>e\<close> happens.\<close>

definition does :: "('e, 'a) runs \<Rightarrow> 'a \<Rightarrow> 'e \<Rightarrow> bool" where
  "does m x e \<longleftrightarrow> (\<forall>tr. \<exists>n. run_state m tr = (x, n @ tr) \<and> e \<in> set n)"

lemma does_step:
  assumes "does m x e \<and> yields k y \<or> yields m x \<and> does k y e"
    and "\<And>tr n. run_state m tr = (x, n @ tr) \<Longrightarrow> run_state c tr = run_state k (n @ tr)"
  shows "does c y e"
  unfolding does_def
proof
  fix tr
  obtain n1 where n1: "run_state m tr = (x, n1 @ tr)" and e1: "does m x e \<longrightarrow> e \<in> set n1"
    using assms(1) unfolding yields_def does_def by meson
  obtain n2 where "run_state k (n1 @ tr) = (y, n2 @ n1 @ tr)" "does k y e \<longrightarrow> e \<in> set n2"
    using assms(1) unfolding yields_def does_def by meson
  then have "run_state c tr = (y, (n2 @ n1) @ tr) \<and> e \<in> set (n2 @ n1)" using assms n1 e1 by auto
  then show "\<exists>n. run_state c tr = (y, n @ tr) \<and> e \<in> set n" by blast
qed

lemma does_perform: "(\<And>tr. answer tr = x) \<Longrightarrow> e = ev x \<Longrightarrow> does (perform answer ev) x e"
  by (simp add: does_def perform_def)

lemma does_bind: "does m x e \<and> yields (f x) y \<or> yields m x \<and> does (f x) y e \<Longrightarrow> does (State_Monad.bind m f) y e"
  by (erule does_step) (simp add: run_simps)

lemma does_orReturn:
  "does m (Inr x) e \<and> yields (k x) y \<or> yields m (Inr x) \<and> does (k x) y e \<Longrightarrow> does (orReturn m h k) y e"
  by (erule does_step) (simp add: run_simps)

lemma does_unlessErr:
  "does m None e \<and> yields k y \<or> yields m None \<and> does k y e \<Longrightarrow> does (unlessErr m h k) y e"
  by (erule does_step) (simp add: run_simps)

lemmas does_now = does_bind [OF disjI1, OF conjI] does_orReturn [OF disjI1, OF conjI] does_unlessErr [OF disjI1, OF conjI]
lemmas does_later = does_bind [OF disjI2, OF conjI] does_orReturn [OF disjI2, OF conjI] does_unlessErr [OF disjI2, OF conjI]

lemma does_ifs: "r = None \<Longrightarrow> does k y e \<Longrightarrow> does (ifNil r h k) y e"
  "r' = Inr x \<Longrightarrow> does (k' x) y e \<Longrightarrow> does (ifOk r' h' k') y e"
  by (simp_all add: ifNil_def ifOk_def)

lemma does_withLock: "does m x e \<Longrightarrow> does (withLock name m) x e"
  unfolding withLock_def
  by (intro does_later(1) [where x = "()"] yields_perform refl)
    (erule does_now(1), intro yields_bind [where x = "()"] yields_perform refl yields_return)

lemma does_run: "does m x e \<Longrightarrow> \<exists>later earlier. run_state m tr = (x, later @ e # earlier @ tr)"
  unfolding does_def by (metis append_Cons append_assoc split_list)

end
