(* ===== verification/HostProcess.thy ===== *)
theory HostProcess
  imports HostRuntime
begin

text \<open>
  The part of \<open>internal/driver/host_process.go\<close> that asks the host: reading the supervisor's process
  state and \<open>/proc\<close>, and verifying that a PID belongs to the mount of a volume. The driver only
  signals, drains or adopts processes that pass these checks.
\<close>

section \<open>Identities\<close>

record processOwnershipExpectation =
  exp_VolumeID :: string
  exp_StagingTarget :: string
  exp_SystemdUnit :: string
  exp_BinaryPath :: string
  exp_EffectiveUID :: string
  exp_PID :: int
  exp_PIDStartTime :: string

record verifiedProcessIdentity =
  vp_PID :: int
  vp_PIDStartTime :: string
  vp_ControlSocketPath :: string
  vp_ProcessStatePath :: string
  vp_IsLauncher :: bool

definition validateProcessOwnershipExpectation :: "processOwnershipExpectation \<Rightarrow> error + string" where
  "validateProcessOwnershipExpectation expected =
     (case canonicalStagingTarget (exp_StagingTarget expected) of
        Inl e \<Rightarrow> Inl (ownershipError ''invalid expected staging target'')
      | Inr stagingTarget \<Rightarrow>
        if stagingTarget \<noteq> exp_StagingTarget expected
        then Inl (ownershipError ''invalid expected staging target'')
        else
     (case newVolumeHostNames (exp_VolumeID expected) zeroAttempt of
        Inl e \<Rightarrow> Inl (ownershipError ''invalid expected volume unit'')
      | Inr names \<Rightarrow>
        if names_SystemdUnit names \<noteq> exp_SystemdUnit expected
        then Inl (ownershipError ''invalid expected volume unit'')
        else if validateContentAddressedBinaryPath (exp_BinaryPath expected) \<noteq> None
        then Inl (ownershipError ''invalid expected binary path'')
        else
     (case drive9ControlSocketPath stagingTarget (exp_EffectiveUID expected) of
        Inl e \<Rightarrow> Inl (ownershipError ''invalid expected effective UID'')
      | Inr path \<Rightarrow>
        if (exp_PID expected = 0) \<noteq> (exp_PIDStartTime expected = [])
        then Inl (ownershipError ''incomplete recorded process identity'')
        else if exp_PID expected < 0 then Inl (ownershipError ''invalid recorded process PID'')
        else if exp_PIDStartTime expected \<noteq> []
        then (case ParseUint 64 (exp_PIDStartTime expected) of
                None \<Rightarrow> Inl (ownershipError ''invalid recorded process start time'')
              | Some value \<Rightarrow>
                  if value = 0 \<or> FormatUint value \<noteq> exp_PIDStartTime expected
                  then Inl (ownershipError ''invalid recorded process start time'')
                  else Inr stagingTarget)
        else Inr stagingTarget)))"

definition validateDrive9SupervisorProcessState :: "drive9ProcessState \<Rightarrow> string \<Rightarrow> string \<Rightarrow> error option" where
  "validateDrive9SupervisorProcessState state stagingTarget controlSocketPath =
     fail_if (ps_PID state \<le> 0 \<or> ps_CreationTime state = 0 \<or> ps_WorkerPID state < 0
        \<or> ps_Component state \<noteq> drive9SupervisorComponent \<or> ps_MountKind state \<noteq> drive9SupervisorMountKind
        \<or> ps_MountPoint state \<noteq> stagingTarget \<or> ps_ControlSocket state \<noteq> controlSocketPath
        \<or> ps_Role state \<noteq> drive9SupervisorRole \<or> \<not> ps_Supervise state
        \<or> ps_SupervisorPID state \<noteq> ps_PID state
        \<or> ps_SupervisorCreationTime state \<noteq> ps_CreationTime state)
       (ownershipError ''process-state identity does not match Drive9 mount supervisor'')"

section \<open>Reading the host\<close>

definition readHostProcessStartTime :: "env \<Rightarrow> int \<Rightarrow> (error + string) prog" where
  "readHostProcessStartTime E pid =
     orReturn (ReadFile E (hostProcPIDPath pid ''stat'')) Inl (\<lambda>body.
       State_Monad.return (parseHostProcStatStartTime body))"

definition readDrive9ProcessState :: "env \<Rightarrow> string \<Rightarrow> (error + drive9ProcessState) prog" where
  "readDrive9ProcessState E path =
     orReturn (Lstat E path) (\<lambda>_. Inl (ownershipError ''cannot inspect process-state file'')) (\<lambda>info.
     if \<not> IsRegular info \<or> fi_perm info \<noteq> perm600 \<or> int maxProcessStateLength < fi_size info
     then State_Monad.return (Inl (ownershipError ''process-state file type, mode, or size is invalid''))
     else
     orReturn (ReadFile E path) (\<lambda>_. Inl (ownershipError ''cannot read process-state file'')) (\<lambda>body.
     if length body = 0 \<or> maxProcessStateLength < length body
     then State_Monad.return (Inl (ownershipError ''cannot read process-state file''))
     else State_Monad.return
       (case e_DecodeProcess E body of
          None \<Rightarrow> Inl (ownershipError ''process-state JSON is invalid'')
        | Some state \<Rightarrow> Inr state)))"

definition drive9SupervisorIdentityAlive :: "env \<Rightarrow> drive9ProcessState \<Rightarrow> (error + bool) prog" where
  "drive9SupervisorIdentityAlive E state = do {
     r \<leftarrow> readHostProcessStartTime E (ps_PID state);
     State_Monad.return
       (case r of
          Inl e \<Rightarrow> if errors_Is e ErrNotExist then Inr False else Inl e
        | Inr startTime \<Rightarrow> Inr (startTime = FormatUint (ps_CreationTime state))) }"

definition stableStartTime :: "env \<Rightarrow> int \<Rightarrow> string \<Rightarrow> string \<Rightarrow> error option prog" where
  "stableStartTime E pid firstStartTime message = do {
     r \<leftarrow> readHostProcessStartTime E pid;
     State_Monad.return
       (case r of
          Inl e \<Rightarrow> Some (ownershipError message)
        | Inr secondStartTime \<Rightarrow> fail_if (secondStartTime \<noteq> firstStartTime) (ownershipError message)) }"

definition verifyHostPIDOwnership ::
    "env \<Rightarrow> processOwnershipExpectation \<Rightarrow> string \<Rightarrow> bool \<Rightarrow> (error + verifiedProcessIdentity) prog" where
  "verifyHostPIDOwnership E expected firstStartTime verifyStable =
     ifOk (validateProcessOwnershipExpectation expected) Inl (\<lambda>_.
     if exp_PID expected \<le> 0 \<or> firstStartTime = [] \<or> firstStartTime \<noteq> exp_PIDStartTime expected
     then State_Monad.return (Inl (ownershipError ''host PID identity is incomplete''))
     else
     orReturn (ReadFile E (hostProcPIDPath (exp_PID expected) ''cmdline''))
         (\<lambda>_. Inl (ownershipError ''cannot read process command line'')) (\<lambda>cmdline.
     ifOk (parseHostProcCmdline cmdline)
         (\<lambda>_. Inl (ownershipError ''process command line does not match staging target'')) (\<lambda>argv.
     if argv = [] \<or> last argv \<noteq> exp_StagingTarget expected
     then State_Monad.return (Inl (ownershipError ''process command line does not match staging target''))
     else
     orReturn (ReadFile E (hostProcPIDPath (exp_PID expected) ''cgroup''))
         (\<lambda>_. Inl (ownershipError ''process cgroup does not match systemd unit'')) (\<lambda>cgroup.
     if \<not> hostProcCgroupContainsUnit cgroup (exp_SystemdUnit expected)
     then State_Monad.return (Inl (ownershipError ''process cgroup does not match systemd unit''))
     else
     orReturn (Readlink E (hostProcPIDPath (exp_PID expected) ''exe''))
         (\<lambda>_. Inl (ownershipError ''process executable does not match immutable binary'')) (\<lambda>executable.
     if HasSuffix executable '' (deleted)'' \<or> executable \<noteq> exp_BinaryPath expected
     then State_Monad.return (Inl (ownershipError ''process executable does not match immutable binary''))
     else
     unlessErr (if verifyStable
                then stableStartTime E (exp_PID expected) firstStartTime
                       ''process identity changed during verification''
                else State_Monad.return None) Inl (
     State_Monad.return (Inr
       \<lparr>vp_PID = exp_PID expected, vp_PIDStartTime = firstStartTime, vp_ControlSocketPath = [],
        vp_ProcessStatePath = [], vp_IsLauncher = False\<rparr>)))))))"

definition verifyProcessOwnership ::
    "env \<Rightarrow> processOwnershipExpectation \<Rightarrow> (error + verifiedProcessIdentity) prog" where
  "verifyProcessOwnership E expected =
     ifOk (validateProcessOwnershipExpectation expected) Inl (\<lambda>stagingTarget.
     ifOk (drive9ProcessStatePath stagingTarget)
         (\<lambda>_. Inl (ownershipError ''cannot derive process-state path'')) (\<lambda>processStatePath.
     ifOk (drive9ControlSocketPath stagingTarget (exp_EffectiveUID expected))
         (\<lambda>_. Inl (ownershipError ''cannot derive control-socket path'')) (\<lambda>controlSocketPath.
     orReturn (readDrive9ProcessState E processStatePath) Inl (\<lambda>state.
     if exp_PID expected \<noteq> 0 \<and> ps_PID state \<noteq> exp_PID expected
     then State_Monad.return (Inl (ownershipError ''process-state PID does not match''))
     else
     ifNil (validateDrive9SupervisorProcessState state stagingTarget controlSocketPath) Inl (
     orReturn (readHostProcessStartTime E (ps_PID state))
         (\<lambda>_. Inl (ownershipError ''cannot verify process start time'')) (\<lambda>startTime.
     if exp_PIDStartTime expected \<noteq> [] \<and> startTime \<noteq> exp_PIDStartTime expected
     then State_Monad.return (Inl (ownershipError ''recorded process start time does not match''))
     else if FormatUint (ps_CreationTime state) \<noteq> startTime
     then State_Monad.return (Inl (ownershipError ''process-state creation identity does not match''))
     else
     orReturn (verifyHostPIDOwnership E
         (expected\<lparr>exp_PID := ps_PID state, exp_PIDStartTime := startTime\<rparr>) startTime (exp_PID expected = 0)) Inl
       (\<lambda>verified. State_Monad.return (Inr (verified
          \<lparr>vp_ControlSocketPath := controlSocketPath, vp_ProcessStatePath := processStatePath\<rparr>)))))))))"

section \<open>What a verified identity rests on\<close>

text \<open>
  Observations leave the host as it is: reads, and \<open>systemctl show\<close>.
\<close>

fun hostObservation :: "event \<Rightarrow> bool" where
  "hostObservation (EvReadFile p r) = True"
| "hostObservation (EvReadDir p r) = True"
| "hostObservation (EvReadlink p r) = True"
| "hostObservation (EvLstat p r) = True"
| "hostObservation (EvIsMountPoint p r) = True"
| "hostObservation (EvObserveMountPoint p r) = True"
| "hostObservation (EvNow t) = True"
| "hostObservation (EvCtxErr r) = True"
| "hostObservation (EvExec c res r) = (drop 11 (take 13 (cmd_Args c)) = [''/usr/bin/systemctl'', ''show''])"
| "hostObservation e = False"

definition sawStartTime :: "int \<Rightarrow> string \<Rightarrow> event list \<Rightarrow> bool" where
  "sawStartTime pid startTime n \<longleftrightarrow>
     (\<exists>body. EvReadFile (hostProcPIDPath pid ''stat'') (Inr body) \<in> set n
             \<and> parseHostProcStatStartTime body = Inr startTime)"

definition sawCmdline :: "int \<Rightarrow> string \<Rightarrow> event list \<Rightarrow> bool" where
  "sawCmdline pid stagingTarget n \<longleftrightarrow>
     (\<exists>cmdline argv. EvReadFile (hostProcPIDPath pid ''cmdline'') (Inr cmdline) \<in> set n
        \<and> parseHostProcCmdline cmdline = Inr argv \<and> argv \<noteq> [] \<and> last argv = stagingTarget)"

definition sawCgroup :: "int \<Rightarrow> string \<Rightarrow> event list \<Rightarrow> bool" where
  "sawCgroup pid unit n \<longleftrightarrow>
     (\<exists>cgroup. EvReadFile (hostProcPIDPath pid ''cgroup'') (Inr cgroup) \<in> set n
        \<and> hostProcCgroupContainsUnit cgroup unit)"

definition processEvidence :: "int \<Rightarrow> string \<Rightarrow> string \<Rightarrow> string \<Rightarrow> event list \<Rightarrow> bool" where
  "processEvidence pid stagingTarget unit binary n \<longleftrightarrow>
     sawCmdline pid stagingTarget n \<and> sawCgroup pid unit n
     \<and> EvReadlink (hostProcPIDPath pid ''exe'') (Inr binary) \<in> set n"

text \<open>What was seen in a part of the history was seen in the whole.\<close>

named_theorems seen_append "observations distribute over the parts of a history"

lemma saw_append [seen_append]:
  "sawStartTime pid st (n2 @ n1) \<longleftrightarrow> sawStartTime pid st n2 \<or> sawStartTime pid st n1"
  "sawCmdline pid t (n2 @ n1) \<longleftrightarrow> sawCmdline pid t n2 \<or> sawCmdline pid t n1"
  "sawCgroup pid u (n2 @ n1) \<longleftrightarrow> sawCgroup pid u n2 \<or> sawCgroup pid u n1"
  by (auto simp: sawStartTime_def sawCmdline_def sawCgroup_def)

lemma parse_plain: "parseHostProcStatStartTime body = Inl e \<Longrightarrow> \<not> errors_Is e s"
  by (auto simp: parseHostProcStatStartTime_def Let_def split: option.splits if_splits)

lemma emits_readHostProcessStartTime:
  "emits (readHostProcessStartTime E pid) (\<lambda>r n. (\<forall>e\<in>set n. hostObservation e)
     \<and> (\<forall>st. r = Inr st \<longrightarrow> sawStartTime pid st n)
     \<and> (\<forall>e. r = Inl e \<longrightarrow> errors_Is e ErrNotExist \<longrightarrow>
          EvReadFile (hostProcPIDPath pid ''stat'') (Inl e) \<in> set n))"
  unfolding readHostProcessStartTime_def host_defs
  by (intro emits_wp) (auto simp: sawStartTime_def dest: parse_plain)

lemma emits_stableStartTime:
  "emits (stableStartTime E pid st message) (\<lambda>r n. (\<forall>e\<in>set n. hostObservation e)
     \<and> (r = None \<longrightarrow> sawStartTime pid st n))"
  unfolding stableStartTime_def
  by (rule emits_bind_pre [OF emits_readHostProcessStartTime], rule emits_return) (auto split: sum.split)

definition hostVerified :: "processOwnershipExpectation \<Rightarrow> string \<Rightarrow> verifiedProcessIdentity \<Rightarrow> event list \<Rightarrow> bool" where
  "hostVerified expected st v n \<longleftrightarrow>
     validateProcessOwnershipExpectation expected = Inr (exp_StagingTarget expected)
     \<and> 0 < exp_PID expected \<and> st = exp_PIDStartTime expected
     \<and> vp_PID v = exp_PID expected \<and> vp_PIDStartTime v = st \<and> \<not> vp_IsLauncher v
     \<and> processEvidence (vp_PID v) (exp_StagingTarget expected) (exp_SystemdUnit expected) (exp_BinaryPath expected) n"

lemma validateProcessOwnershipExpectation_Inr:
  "validateProcessOwnershipExpectation expected = Inr t \<Longrightarrow> t = exp_StagingTarget expected"
  by (auto simp: validateProcessOwnershipExpectation_def split: sum.splits if_splits option.splits)

lemma emits_verifyHostPIDOwnership:
  "emits (verifyHostPIDOwnership E expected st again) (\<lambda>r n. (\<forall>e\<in>set n. hostObservation e)
     \<and> (\<forall>v. r = Inr v \<longrightarrow> hostVerified expected st v n \<and> (again \<longrightarrow> sawStartTime (vp_PID v) st n)))"
proof -
  have twice: "emits (if again then stableStartTime E (exp_PID expected) st m else State_Monad.return None)
      (\<lambda>r n. (\<forall>e\<in>set n. hostObservation e) \<and> (r = None \<longrightarrow> again \<longrightarrow> sawStartTime (exp_PID expected) st n))" for m
    by (cases again) (simp_all add: emits_return emits_conseq [OF emits_stableStartTime])
  show ?thesis
    unfolding verifyHostPIDOwnership_def host_defs
    by (intro emits_wp emits_unlessErr [OF twice])
      (auto simp: hostVerified_def processEvidence_def sawCmdline_def sawCgroup_def saw_append(1)
        dest: validateProcessOwnershipExpectation_Inr)
qed

definition sawPrivateFile :: "string \<Rightarrow> event list \<Rightarrow> bool" where
  "sawPrivateFile path n \<longleftrightarrow> (\<exists>info. EvLstat path (Inr info) \<in> set n \<and> IsRegular info \<and> fi_perm info = perm600)"

definition sawProcessState :: "env \<Rightarrow> string \<Rightarrow> drive9ProcessState \<Rightarrow> event list \<Rightarrow> bool" where
  "sawProcessState E path state n \<longleftrightarrow>
     (\<exists>body. EvReadFile path (Inr body) \<in> set n \<and> e_DecodeProcess E body = Some state)"

lemma saw_file_append [seen_append]:
  "sawPrivateFile p (n2 @ n1) \<longleftrightarrow> sawPrivateFile p n2 \<or> sawPrivateFile p n1"
  "sawProcessState E p s (n2 @ n1) \<longleftrightarrow> sawProcessState E p s n2 \<or> sawProcessState E p s n1"
  by (auto simp: sawPrivateFile_def sawProcessState_def)

lemma emits_readDrive9ProcessState:
  "emits (readDrive9ProcessState E path) (\<lambda>r n. (\<forall>e\<in>set n. hostObservation e)
     \<and> (\<forall>s. r = Inr s \<longrightarrow> sawPrivateFile path n \<and> sawProcessState E path s n))"
  unfolding readDrive9ProcessState_def host_defs
  by (intro emits_wp) (auto simp: sawPrivateFile_def sawProcessState_def split: option.splits)

text \<open>\<open>drive9SupervisorIdentityAlive\<close>: dead means that \<open>/proc\<close> has no such PID, or another process under it.\<close>

definition sawDead :: "int \<Rightarrow> string \<Rightarrow> event list \<Rightarrow> bool" where
  "sawDead pid startTime n \<longleftrightarrow>
     (\<exists>e. EvReadFile (hostProcPIDPath pid ''stat'') (Inl e) \<in> set n \<and> errors_Is e ErrNotExist)
     \<or> (\<exists>st. sawStartTime pid st n \<and> st \<noteq> startTime)"

lemma sawDead_append [seen_append]: "sawDead pid st (n2 @ n1) \<longleftrightarrow> sawDead pid st n2 \<or> sawDead pid st n1"
  by (auto simp: sawDead_def seen_append)

lemma emits_drive9SupervisorIdentityAlive:
  "emits (drive9SupervisorIdentityAlive E s) (\<lambda>r n. (\<forall>e\<in>set n. hostObservation e)
     \<and> (r = Inr False \<longrightarrow> sawDead (ps_PID s) (FormatUint (ps_CreationTime s)) n)
     \<and> (r = Inr True \<longrightarrow> sawStartTime (ps_PID s) (FormatUint (ps_CreationTime s)) n))"
  unfolding drive9SupervisorIdentityAlive_def
  by (rule emits_bind_pre [OF emits_readHostProcessStartTime],
      rule emits_return) (auto simp: sawDead_def split: sum.splits if_splits)

text \<open>What a successful \<open>verifyProcessOwnership\<close> has seen.\<close>

definition ownershipVerified ::
    "env \<Rightarrow> processOwnershipExpectation \<Rightarrow> verifiedProcessIdentity \<Rightarrow> event list \<Rightarrow> bool" where
  "ownershipVerified E expected v n \<longleftrightarrow>
     drive9ProcessStatePath (exp_StagingTarget expected) = Inr (vp_ProcessStatePath v)
     \<and> drive9ControlSocketPath (exp_StagingTarget expected) (exp_EffectiveUID expected) = Inr (vp_ControlSocketPath v)
     \<and> 0 < vp_PID v \<and> (exp_PID expected \<noteq> 0 \<longrightarrow> vp_PID v = exp_PID expected \<and> vp_PIDStartTime v = exp_PIDStartTime expected)
     \<and> (\<exists>s. sawPrivateFile (vp_ProcessStatePath v) n \<and> sawProcessState E (vp_ProcessStatePath v) s n \<and> ps_PID s = vp_PID v
            \<and> FormatUint (ps_CreationTime s) = vp_PIDStartTime v
            \<and> validateDrive9SupervisorProcessState s (exp_StagingTarget expected) (vp_ControlSocketPath v) = None)
     \<and> sawStartTime (vp_PID v) (vp_PIDStartTime v) n
     \<and> processEvidence (vp_PID v) (exp_StagingTarget expected) (exp_SystemdUnit expected) (exp_BinaryPath expected) n"

lemma ownershipVerified_append [intro]:
  "ownershipVerified E x v n1 \<Longrightarrow> ownershipVerified E x v (n2 @ n1)"
  "ownershipVerified E x v n2 \<Longrightarrow> ownershipVerified E x v (n2 @ n1)"
  unfolding ownershipVerified_def processEvidence_def by (auto simp: seen_append)

lemma hostVerified_evidence:
  "hostVerified x st v n \<Longrightarrow> vp_PID v = exp_PID x \<and> vp_PIDStartTime v = exp_PIDStartTime x \<and> st = exp_PIDStartTime x
     \<and> 0 < exp_PID x \<and> \<not> vp_IsLauncher v
     \<and> processEvidence (exp_PID x) (exp_StagingTarget x) (exp_SystemdUnit x) (exp_BinaryPath x) n"
  by (auto simp: hostVerified_def)

lemma expectation_pid:
  "validateProcessOwnershipExpectation x = Inr t \<Longrightarrow> t = exp_StagingTarget x \<and> (exp_PID x = 0 \<longleftrightarrow> exp_PIDStartTime x = [])"
  by (auto simp: validateProcessOwnershipExpectation_def split: sum.splits if_splits option.splits)

lemma emits_verifyProcessOwnership:
  "emits (verifyProcessOwnership E expected) (\<lambda>r n. (\<forall>e\<in>set n. hostObservation e)
     \<and> (\<forall>v. r = Inr v \<longrightarrow> ownershipVerified E expected v n \<and> \<not> vp_IsLauncher v))"
  unfolding verifyProcessOwnership_def
  by (intro emits_wp emits_orReturn [OF emits_readDrive9ProcessState] emits_orReturn [OF emits_readHostProcessStartTime]
      emits_orReturn [OF emits_verifyHostPIDOwnership])
    (auto simp: ownershipVerified_def dest!: hostVerified_evidence expectation_pid simp: seen_append processEvidence_def)

section \<open>A host with one healthy mount\<close>

text \<open>The host of the witnesses: the mount of \<open>exActive\<close> is up, run by PID 7.\<close>

definition exProcess :: drive9ProcessState where
  "exProcess = \<lparr>ps_PID = 7, ps_CreationTime = 9, ps_Component = drive9SupervisorComponent,
     ps_MountKind = drive9SupervisorMountKind, ps_MountPoint = exTarget,
     ps_ControlSocket = ControlSocketPath exActive, ps_Role = drive9SupervisorRole, ps_SupervisorPID = 7,
     ps_SupervisorCreationTime = 9, ps_WorkerPID = 8, ps_Supervise = True\<rparr>"

definition exStat :: bytes where "exStat = ''7 (drive9) S 1 1 1 0 0 0 0 0 0 0 0 0 0 0 0 0 0 0 9 0''"
definition exCmdline :: bytes where "exCmdline = ''drive9'' @ [CHR 0x00] @ exTarget @ [CHR 0x00]"
definition exCgroup :: bytes where "exCgroup = ''0::/'' @ SystemdUnit exActive"

definition exShow :: "string list \<Rightarrow> bytes" where
  "exShow args =
     (if ''--property=MainPID'' \<in> set args then ''MainPID=7''
      else if ''--property=Description'' \<in> set args
      then ''Description=drive9-csi:'' @ exVolume @ '':'' @ AttemptID exActive
      else ''LoadState=loaded'' @ [CHR 0x0A] @ ''ActiveState=active'' @ [CHR 0x0A] @ ''SubState=running'')"

definition exLive :: env where
  "exLive = (calmHost (\<lambda>s. ''x'') (\<lambda>body. Some exActive))
     \<lparr>e_ReadFile := \<lambda>tr p.
        if p = ''/host-proc/7/stat'' then Inr exStat
        else if p = ''/host-proc/7/cmdline'' then Inr exCmdline
        else if p = ''/host-proc/7/cgroup'' then Inr exCgroup
        else Inr ''x'',
      e_Readlink := \<lambda>tr p. Inr (BinaryPath exActive),
      e_Lstat := \<lambda>tr p. Inr \<lparr>fi_kind = if p = ControlSocketPath exActive then Socket else Regular,
                              fi_perm = perm600, fi_size = 1\<rparr>,
      e_IsMountPoint := \<lambda>tr p. Inr True,
      e_Exec := \<lambda>tr c. (\<lparr>cmd_Stdout = exShow (cmd_Args c), cmd_Stderr = [], cmd_ExitCode = 0\<rparr>, None),
      e_DecodeProcess := \<lambda>b. Some exProcess\<rparr>"

definition exExpectation :: processOwnershipExpectation where
  "exExpectation = \<lparr>exp_VolumeID = exVolume, exp_StagingTarget = exTarget, exp_SystemdUnit = SystemdUnit exActive,
     exp_BinaryPath = BinaryPath exActive, exp_EffectiveUID = ''0'', exp_PID = 7, exp_PIDStartTime = ''9''\<rparr>"

definition exIdentity :: verifiedProcessIdentity where
  "exIdentity = \<lparr>vp_PID = 7, vp_PIDStartTime = ''9'', vp_ControlSocketPath = ControlSocketPath exActive,
     vp_ProcessStatePath = ProcessStatePath exActive, vp_IsLauncher = False\<rparr>"

lemma ex_proc_paths [simp]: "hostProcPIDPath 7 ''stat'' = ''/host-proc/7/stat''"
  "hostProcPIDPath 7 ''cmdline'' = ''/host-proc/7/cmdline''" "hostProcPIDPath 7 ''cgroup'' = ''/host-proc/7/cgroup''"
  "hostProcPIDPath 7 ''exe'' = ''/host-proc/7/exe''"
  by code_simp+

lemma ex_proc_parse [simp]: "parseHostProcStatStartTime exStat = Inr ''9''"
  "parseHostProcCmdline exCmdline = Inr [''drive9'', exTarget]"
proof -
  have "FormatUint 9 = ''9''" "ParseUint 64 ''9'' = Some 9"
    by code_simp (simp add: ParseUint_def isDigit_def decVal_def digitVal_def)
  moreover have "ParseUint 31 ''7'' = Some 7" by (simp add: ParseUint_def isDigit_def decVal_def digitVal_def)
  moreover have "TrimSpace exStat = exStat" "Index exStat '' ('' = Some 1" "LastIndexByte exStat (CHR '')'') = Some 9"
    "take 1 exStat = ''7''" "length (Fields (drop 10 exStat)) = 21" "Fields (drop 10 exStat) ! 19 = ''9''" by code_simp+
  ultimately show "parseHostProcStatStartTime exStat = Inr ''9''" by (simp add: parseHostProcStatStartTime_def)
  show "parseHostProcCmdline exCmdline = Inr [''drive9'', exTarget]" by code_simp
qed

lemma ex_proc_cgroup [simp]: "hostProcCgroupContainsUnit exCgroup (SystemdUnit exActive)"
proof -
  let ?u = "''drive9-mount-'' @ truncatedSHA256 exVolume @ ''.service''"
  have h: "CHR ''/'' \<notin> set ?u" "CHR 0x0A \<notin> set ?u"
    using truncatedSHA256_hex [of exVolume] by (auto simp: hexDigits_def list_all_iff isLowerHex_def isDigit_def)
  have l: "Split (CHR 0x0A) (''0::/'' @ ?u) = [''0::/'' @ ?u]" using h(2) by (intro Split_noop) auto
  have c: "cgroupLineHasUnit ?u (''0::/'' @ ?u)"
    using Split_noop [OF h(1)] by (simp add: cgroupLineHasUnit_def del: append.simps(2)) (simp add: append.simps)
  have "SystemdUnit exActive = ?u" by (simp add: ex_defs)
  then show ?thesis using l c by (simp add: hostProcCgroupContainsUnit_def exCgroup_def del: append.simps)
qed

lemma ex_uint [simp]: "ParseUint 64 ''9'' = Some 9" "FormatUint 9 = ''9''" "ParseUint 32 ''0'' = Some 0" "FormatUint 0 = ''0''"
proof -
  show "FormatUint 9 = ''9''" "FormatUint 0 = ''0''" by code_simp+
qed (simp_all add: ParseUint_def isDigit_def decVal_def digitVal_def)

lemma ex_names_zero [simp]: "newVolumeHostNames exVolume zeroAttempt = Inr (exNames (CHR ''0''))"
  using exNames_Inr [of "CHR ''0''"] attemptIDPattern_zero by (simp add: exAttempt_def zeroAttempt_def)

lemma exExpectation_valid [simp]: "validateProcessOwnershipExpectation exExpectation = Inr exTarget"
  "validateProcessOwnershipExpectation (exExpectation\<lparr>exp_PID := 7, exp_PIDStartTime := ''9''\<rparr>) = Inr exTarget"
  using ex_parts drive9ControlSocketPath_root [OF ex_parts(6)]
  by (simp_all add: validateProcessOwnershipExpectation_def exExpectation_def ex_defs
      del: append.simps)

lemma exExpectation_same [simp]: "exExpectation\<lparr>exp_PID := 7, exp_PIDStartTime := ''9''\<rparr> = exExpectation"
  "exp_PID exExpectation = 7" "exp_PIDStartTime exExpectation = ''9''" "exp_StagingTarget exExpectation = exTarget"
  "exp_SystemdUnit exExpectation = SystemdUnit exActive" "exp_BinaryPath exExpectation = BinaryPath exActive"
  "exp_EffectiveUID exExpectation = ''0''"
  by (simp_all add: exExpectation_def)

lemma ex_socket_paths [simp]: "drive9ProcessStatePath exTarget = Inr (ProcessStatePath exActive)"
  "drive9ControlSocketPath exTarget ''0'' = Inr (ControlSocketPath exActive)"
  using drive9ControlSocketPath_root [OF ex_parts(6)] drive9ProcessStatePath_Inr [OF ex_parts(6)]
  by (simp_all add: ex_defs del: append.simps)

lemma exProcess_valid [simp]:
  "validateDrive9SupervisorProcessState exProcess exTarget (ControlSocketPath exActive) = None"
  "ps_PID exProcess = 7" "ps_CreationTime exProcess = 9"
  by (simp_all add: validateDrive9SupervisorProcessState_def exProcess_def)

lemma exLive_answers [simp]:
  "e_ReadFile exLive tr ''/host-proc/7/stat'' = Inr exStat"
  "e_ReadFile exLive tr ''/host-proc/7/cmdline'' = Inr exCmdline"
  "e_ReadFile exLive tr ''/host-proc/7/cgroup'' = Inr exCgroup"
  "e_ReadFile exLive tr (ProcessStatePath exActive) = Inr ''x''"
  "e_Readlink exLive tr p = Inr (BinaryPath exActive)" "e_IsMountPoint exLive tr p = Inr True"
  "e_Lstat exLive tr (ControlSocketPath exActive) = Inr \<lparr>fi_kind = Socket, fi_perm = perm600, fi_size = 1\<rparr>"
  "e_Lstat exLive tr (ProcessStatePath exActive) = Inr \<lparr>fi_kind = Regular, fi_perm = perm600, fi_size = 1\<rparr>"
  "e_Exec exLive tr c = (\<lparr>cmd_Stdout = exShow (cmd_Args c), cmd_Stderr = [], cmd_ExitCode = 0\<rparr>, None)"
  "e_DecodeProcess exLive b = Some exProcess" "e_CtxErr exLive tr = None" "e_Now exLive tr = 0"
  by (simp_all add: exLive_def calmHost_def ex_defs hostRuntimeDir_def)

lemma exLive_process:
  "run_state (readDrive9ProcessState exLive (ProcessStatePath exActive)) tr =
     (Inr exProcess, EvReadFile (ProcessStatePath exActive) (Inr ''x'')
        # EvLstat (ProcessStatePath exActive) (Inr \<lparr>fi_kind = Regular, fi_perm = perm600, fi_size = 1\<rparr>) # tr)"
  by (simp add: readDrive9ProcessState_def host_defs run_simps IsRegular_def maxProcessStateLength_def)

lemma exLive_start: "run_state (readHostProcessStartTime exLive 7) tr =
    (Inr ''9'', EvReadFile ''/host-proc/7/stat'' (Inr exStat) # tr)"
  by (simp add: readHostProcessStartTime_def host_defs run_simps)

definition exHostEvents :: "event list" where
  "exHostEvents =
     [EvReadlink ''/host-proc/7/exe'' (Inr (BinaryPath exActive)), EvReadFile ''/host-proc/7/cgroup'' (Inr exCgroup),
      EvReadFile ''/host-proc/7/cmdline'' (Inr exCmdline)]"

lemma exBinary_live: "\<not> HasSuffix (BinaryPath exActive) '' (deleted)''"
proof -
  have "\<not> HasSuffix (exBinary (CHR ''b'')) '' (deleted)''" by code_simp
  then show ?thesis by (simp add: ex_defs)
qed

lemma exLive_host:
  "run_state (verifyHostPIDOwnership exLive exExpectation ''9'' False) tr =
     (Inr (exIdentity\<lparr>vp_ControlSocketPath := [], vp_ProcessStatePath := []\<rparr>), exHostEvents @ tr)"
  "run_state (verifyHostPIDOwnership exLive exExpectation ''9'' True) tr =
     (Inr (exIdentity\<lparr>vp_ControlSocketPath := [], vp_ProcessStatePath := []\<rparr>),
      EvReadFile ''/host-proc/7/stat'' (Inr exStat) # exHostEvents @ tr)"
  by (simp_all add: verifyHostPIDOwnership_def stableStartTime_def host_defs run_simps exBinary_live exLive_start
      exIdentity_def exHostEvents_def)

lemma exLive_verified: "\<exists>tr'. run_state (verifyProcessOwnership exLive exExpectation) tr = (Inr exIdentity, tr')"
  by (simp add: verifyProcessOwnership_def run_simps exLive_process exLive_start exLive_host exIdentity_def)

section \<open>Properties\<close>

text \<open>
  C17: a process is accepted as the Drive9 supervisor of a mount only on evidence collected in this
  run, by reads alone: the process-state file of the staging target is a private regular file
  naming the PID as supervisor of that target, \<open>/proc\<close> shows the same start time, a command line
  ending in the staging target, the unit's cgroup and the immutable binary as its executable;
  and a PID and start time that were recorded before are confirmed, not replaced.
\<close>

theorem process_ownership_verified:
  assumes "run_state (verifyProcessOwnership E expected) tr = (Inr v, tr')"
  shows "\<exists>n. tr' = n @ tr \<and> list_all hostObservation n \<and> ownershipVerified E expected v n"
  using emits_run [OF emits_verifyProcessOwnership assms] by (auto simp: list_all_iff)

theorem process_ownership_verified_witness:
  "\<exists>n. ownershipVerified exLive exExpectation exIdentity n"
proof -
  obtain tr' where "run_state (verifyProcessOwnership exLive exExpectation) [] = (Inr exIdentity, tr')"
    using exLive_verified by blast
  from process_ownership_verified [OF this] show ?thesis by blast
qed

end
