(* ===== verification/Systemd.thy ===== *)
theory Systemd
  imports HostProcess
begin

text \<open>
  \<open>internal/driver/systemd.go\<close>: the commands run in the host's namespaces, what \<open>systemctl show\<close>
  says of the unit of a volume, and the verification that the unit's main process is the recorded
  Drive9 binary or the launcher of the recorded attempt.
\<close>

section \<open>Observations\<close>

datatype systemdUnitState =
    systemdUnitActive | systemdUnitActivating | systemdUnitInactive | systemdUnitFailed
  | systemdUnitNotFound | systemdUnitQueryError

record systemdUnitObservation =
  so_State :: systemdUnitState
  so_LoadState :: string
  so_ActiveState :: string
  so_SubState :: string

datatype systemdAttemptState =
  systemdAttemptRunning | systemdAttemptStarting | systemdAttemptExited | systemdAttemptAbsent

section \<open>Commands\<close>

definition hostNamespaceCommand :: "string \<Rightarrow> string list \<Rightarrow> hostCommand" where
  "hostNamespaceCommand command args =
     \<lparr>cmd_Path = ''nsenter'',
      cmd_Args = [''--mount=/host-proc/1/ns/mnt'', ''--root=/host-proc/1/root'', ''--wd=/host-proc/1/root'',
                  ''--'', command] @ args,
      cmd_Env = []\<rparr>"

definition hostSystemdManagerCommand :: "string \<Rightarrow> string list \<Rightarrow> hostCommand" where
  "hostSystemdManagerCommand executable args =
     hostNamespaceCommand ''systemd-run''
       ([''--service-type=exec'', ''--wait'', ''--pipe'', ''--quiet'', ''--collect'', ''--'', executable] @ args)"

definition hostSystemctlCommand :: "string list \<Rightarrow> hostCommand" where
  "hostSystemctlCommand args = hostSystemdManagerCommand ''/usr/bin/systemctl'' args"

text \<open>A command fails when it cannot be run or its exit code is not zero.\<close>

definition runOk :: "env \<Rightarrow> hostCommand \<Rightarrow> error \<Rightarrow> error option prog" where
  "runOk E command failure = do {
     r \<leftarrow> Exec E command;
     State_Monad.return
       (case r of (result, err) \<Rightarrow> fail_if (err \<noteq> None \<or> cmd_ExitCode result \<noteq> 0) failure) }"

definition runOutput :: "env \<Rightarrow> hostCommand \<Rightarrow> error \<Rightarrow> (error + bytes) prog" where
  "runOutput E command failure = do {
     r \<leftarrow> Exec E command;
     State_Monad.return
       (case r of (result, err) \<Rightarrow>
          if err \<noteq> None \<or> cmd_ExitCode result \<noteq> 0 then Inl failure else Inr (cmd_Stdout result)) }"

section \<open>The state of a unit\<close>

definition queryError :: "string \<Rightarrow> error" where
  "queryError message = Wrap message (Sentinel ErrSystemdQuery)"

text \<open>The properties in the order they are printed, each at most once.\<close>

fun systemdProperties :: "string list \<Rightarrow> params \<Rightarrow> error + params" where
  "systemdProperties [] values = Inr values"
| "systemdProperties (line # rest) values =
     (case Cut line (CHR ''='') of
        None \<Rightarrow> Inl (Errorf ''malformed systemd property'')
      | Some (key, value) \<Rightarrow>
          if key = [] \<or> value = [] then Inl (Errorf ''malformed systemd property'')
          else if key \<in> {''LoadState'', ''ActiveState'', ''SubState''} then
            (if map_of values key \<noteq> None then Inl (Errorf ''duplicate systemd property'')
             else systemdProperties rest (AList.update key value values))
          else Inl (Errorf ''unexpected systemd property''))"

definition parseSystemdUnitObservation :: "bytes \<Rightarrow> error + systemdUnitObservation" where
  "parseSystemdUnitObservation body =
     ebind (systemdProperties (Split (CHR 0x0A) (TrimSpace body)) []) (\<lambda>values.
       if length values \<noteq> 3 then Inl (Errorf ''missing systemd property'')
       else
         let observed = (\<lambda>s. \<lparr>so_State = s, so_LoadState = mapGet values ''LoadState'',
               so_ActiveState = mapGet values ''ActiveState'', so_SubState = mapGet values ''SubState''\<rparr>)
         in if mapGet values ''LoadState'' = ''not-found'' then Inr (observed systemdUnitNotFound)
            else if mapGet values ''LoadState'' \<noteq> ''loaded'' then Inl (Errorf ''ambiguous systemd load state'')
            else if mapGet values ''ActiveState'' = ''active'' then Inr (observed systemdUnitActive)
            else if mapGet values ''ActiveState'' = ''activating'' then Inr (observed systemdUnitActivating)
            else if mapGet values ''ActiveState'' = ''inactive'' then Inr (observed systemdUnitInactive)
            else if mapGet values ''ActiveState'' = ''failed'' then Inr (observed systemdUnitFailed)
            else Inl (Errorf ''ambiguous systemd active state''))"

definition querySystemdUnit :: "env \<Rightarrow> string \<Rightarrow> (error + systemdUnitObservation) prog" where
  "querySystemdUnit E unit =
     (if \<not> systemdUnitPattern unit
      then State_Monad.return (Inl (queryError ''invalid Drive9 systemd unit''))
      else
        orReturn (runOutput E (hostSystemctlCommand
            [''show'', ''--property=LoadState'', ''--property=ActiveState'', ''--property=SubState'', ''--'', unit])
            (queryError ''systemctl show failed'')) Inl (\<lambda>stdout.
        ifOk (parseSystemdUnitObservation stdout)
            (\<lambda>_. Inl (queryError ''systemctl show returned malformed state'')) (\<lambda>observation.
        State_Monad.return (Inr observation))))"

definition classifySystemdAttempt :: "systemdUnitObservation \<Rightarrow> bool \<Rightarrow> error + systemdAttemptState" where
  "classifySystemdAttempt observation observedLaunch =
     (case so_State observation of
        systemdUnitActive \<Rightarrow> Inr systemdAttemptRunning
      | systemdUnitActivating \<Rightarrow> Inr systemdAttemptStarting
      | systemdUnitInactive \<Rightarrow> Inr systemdAttemptExited
      | systemdUnitFailed \<Rightarrow> Inr systemdAttemptExited
      | systemdUnitNotFound \<Rightarrow> if observedLaunch then Inr systemdAttemptExited else Inr systemdAttemptAbsent
      | systemdUnitQueryError \<Rightarrow> Inl (Sentinel ErrSystemdQuery))"

section \<open>The main process\<close>

definition querySystemdMainPID :: "env \<Rightarrow> string \<Rightarrow> (error + int) prog" where
  "querySystemdMainPID E unit =
     (if \<not> systemdUnitPattern unit
      then State_Monad.return (Inl (queryError ''invalid Drive9 systemd unit''))
      else
        orReturn (runOutput E (hostSystemctlCommand [''show'', ''--property=MainPID'', ''--'', unit])
            (queryError ''MainPID query failed'')) Inl (\<lambda>stdout.
        case Cut (TrimSpace stdout) (CHR ''='') of
          None \<Rightarrow> State_Monad.return (Inl (queryError ''malformed MainPID query''))
        | Some (key, value) \<Rightarrow>
            if key \<noteq> ''MainPID'' then State_Monad.return (Inl (queryError ''malformed MainPID query''))
            else (case ParseInt 31 value of
                None \<Rightarrow> State_Monad.return (Inl (queryError ''invalid MainPID''))
              | Some pid \<Rightarrow>
                  if pid < 0 then State_Monad.return (Inl (queryError ''invalid MainPID''))
                  else State_Monad.return (Inr pid))))"

definition mountSystemdUnitDescription :: "mountState \<Rightarrow> error + string" where
  "mountSystemdUnitDescription state =
     (if \<not> volumeIDPattern (VolumeID state) \<or> \<not> attemptIDPattern (AttemptID state)
      then Inl (ownershipError ''invalid mount unit description identity'')
      else case newVolumeHostNames (VolumeID state) (AttemptID state) of
          Inl e \<Rightarrow> Inl (ownershipError ''mount unit description does not match unit name'')
        | Inr names \<Rightarrow>
            if names_SystemdUnit names \<noteq> SystemdUnit state
            then Inl (ownershipError ''mount unit description does not match unit name'')
            else Inr (''drive9-csi:'' @ VolumeID state @ '':'' @ AttemptID state))"

definition querySystemdUnitDescription :: "env \<Rightarrow> string \<Rightarrow> (error + string) prog" where
  "querySystemdUnitDescription E unit =
     (if \<not> systemdUnitPattern unit
      then State_Monad.return (Inl (queryError ''invalid Drive9 systemd unit''))
      else
        orReturn (runOutput E (hostSystemctlCommand [''show'', ''--property=Description'', ''--'', unit])
            (queryError ''Description query failed'')) Inl (\<lambda>stdout.
        let line = TrimSuffix stdout [CHR 0x0A] in
        if CHR 0x0D \<in> set line \<or> CHR 0x0A \<in> set line
        then State_Monad.return (Inl (queryError ''malformed Description query''))
        else (case Cut line (CHR ''='') of
            None \<Rightarrow> State_Monad.return (Inl (queryError ''malformed Description query''))
          | Some (key, value) \<Rightarrow>
              if key \<noteq> ''Description'' \<or> value = []
              then State_Monad.return (Inl (queryError ''malformed Description query''))
              else State_Monad.return (Inr value))))"

definition verifyMountSystemdUnitDescription :: "env \<Rightarrow> mountState \<Rightarrow> error option prog" where
  "verifyMountSystemdUnitDescription E state =
     ifOk (mountSystemdUnitDescription state) Some (\<lambda>expected.
     orReturn (querySystemdUnitDescription E (SystemdUnit state)) Some (\<lambda>actual.
       State_Monad.return (fail_if (actual \<noteq> expected)
         (ownershipError ''systemd unit description does not match mount attempt''))))"

definition verifySystemdUnitDescriptionForVolume :: "env \<Rightarrow> string \<Rightarrow> string \<Rightarrow> error option prog" where
  "verifySystemdUnitDescriptionForVolume E unit volumeID =
     (if \<not> volumeIDPattern volumeID
      then State_Monad.return (Some (ownershipError ''invalid volume identity for systemd description''))
      else
        orReturn (querySystemdUnitDescription E unit) Some (\<lambda>actual.
        let attemptID = TrimPrefix actual (''drive9-csi:'' @ volumeID @ '':'') in
        State_Monad.return (fail_if (attemptID = actual \<or> \<not> attemptIDPattern attemptID)
          (ownershipError ''systemd unit description belongs to another mount attempt''))))"

section \<open>Ownership of the main process\<close>

definition mainExpectation :: "mountState \<Rightarrow> int \<Rightarrow> string \<Rightarrow> processOwnershipExpectation" where
  "mainExpectation state pid startTime =
     \<lparr>exp_VolumeID = VolumeID state, exp_StagingTarget = StagingTarget state,
      exp_SystemdUnit = SystemdUnit state, exp_BinaryPath = BinaryPath state, exp_EffectiveUID = ''0'',
      exp_PID = pid, exp_PIDStartTime = startTime\<rparr>"

text \<open>\<open>verified.ControlSocketPath, _ = drive9ControlSocketPath(...)\<close>: the empty path on error.\<close>

definition orEmpty :: "error + string \<Rightarrow> string" where
  "orEmpty r = (case r of Inl e \<Rightarrow> [] | Inr s \<Rightarrow> s)"

definition withRuntimePaths :: "mountState \<Rightarrow> verifiedProcessIdentity \<Rightarrow> verifiedProcessIdentity" where
  "withRuntimePaths state verified =
     verified\<lparr>vp_ControlSocketPath := orEmpty (drive9ControlSocketPath (StagingTarget state) ''0''),
       vp_ProcessStatePath := orEmpty (drive9ProcessStatePath (StagingTarget state))\<rparr>"

definition verifySystemdMainPIDOwnership :: "env \<Rightarrow> mountState \<Rightarrow> (error + verifiedProcessIdentity) prog" where
  "verifySystemdMainPIDOwnership E state =
     unlessErr (verifyMountSystemdUnitDescription E state) Inl (
     orReturn (querySystemdMainPID E (SystemdUnit state)) Inl (\<lambda>pid.
     if pid \<le> 0 then State_Monad.return (Inl (ownershipError ''systemd service has no MainPID''))
     else
     orReturn (readHostProcessStartTime E pid)
         (\<lambda>_. Inl (ownershipError ''cannot read systemd MainPID start time'')) (\<lambda>startTime.
     orReturn (verifyHostPIDOwnership E (mainExpectation state pid startTime) startTime True) Inl (\<lambda>verified.
       State_Monad.return (Inr (withRuntimePaths state verified))))))"

definition verifyStartingLauncherPID ::
    "env \<Rightarrow> mountState \<Rightarrow> int \<Rightarrow> string \<Rightarrow> (error + verifiedProcessIdentity) prog" where
  "verifyStartingLauncherPID E state pid startTime =
     ifOk (newVolumeHostNames (VolumeID state) (AttemptID state))
         (\<lambda>_. Inl (ownershipError ''launcher startup paths do not match attempt'')) (\<lambda>names.
     if SystemdUnit state \<noteq> names_SystemdUnit names \<or> EnvPath state \<noteq> names_EnvPath names
        \<or> ArgsPath state \<noteq> names_ArgsPath names
     then State_Monad.return (Inl (ownershipError ''launcher startup paths do not match attempt''))
     else
     orReturn (ReadFile E (hostProcPIDPath pid ''cmdline''))
         (\<lambda>_. Inl (ownershipError ''cannot read launcher command line'')) (\<lambda>cmdline.
     ifOk (parseHostProcCmdline cmdline)
         (\<lambda>_. Inl (ownershipError ''launcher command line does not match attempt'')) (\<lambda>argv.
     if argv \<noteq> [hostLauncherPath, EnvPath state, ArgsPath state]
     then State_Monad.return (Inl (ownershipError ''launcher command line does not match attempt''))
     else
     orReturn (ReadFile E (hostProcPIDPath pid ''cgroup''))
         (\<lambda>_. Inl (ownershipError ''launcher cgroup does not match systemd unit'')) (\<lambda>cgroup.
     if \<not> hostProcCgroupContainsUnit cgroup (SystemdUnit state)
     then State_Monad.return (Inl (ownershipError ''launcher cgroup does not match systemd unit''))
     else
     orReturn (Readlink E (hostProcPIDPath pid ''exe''))
         (\<lambda>_. Inl (ownershipError ''launcher executable does not match installed launcher'')) (\<lambda>executable.
     if executable \<noteq> hostLauncherPath \<and> executable \<noteq> hostLauncherPath @ '' (deleted)''
     then State_Monad.return (Inl (ownershipError ''launcher executable does not match installed launcher''))
     else
     unlessErr (stableStartTime E pid startTime ''launcher PID identity changed during verification'') Inl (
     State_Monad.return (Inr (withRuntimePaths state
       \<lparr>vp_PID = pid, vp_PIDStartTime = startTime, vp_ControlSocketPath = [], vp_ProcessStatePath = [],
        vp_IsLauncher = True\<rparr>))))))))"

text \<open>\<open>Some\<close> identity, or \<open>None\<close> when the unit has no main process.\<close>

definition verifyStartingSystemdMainPIDOwnership ::
    "env \<Rightarrow> mountState \<Rightarrow> (error + verifiedProcessIdentity option) prog" where
  "verifyStartingSystemdMainPIDOwnership E state =
     unlessErr (verifyMountSystemdUnitDescription E state) Inl (
     orReturn (querySystemdMainPID E (SystemdUnit state)) Inl (\<lambda>pid.
     if pid = 0 then State_Monad.return (Inr None)
     else
     orReturn (readHostProcessStartTime E pid)
         (\<lambda>_. Inl (ownershipError ''cannot read starting service MainPID start time'')) (\<lambda>startTime. do {
     r \<leftarrow> verifyHostPIDOwnership E (mainExpectation state pid startTime) startTime True;
     case r of
       Inr verified \<Rightarrow> State_Monad.return (Inr (Some (withRuntimePaths state verified)))
     | Inl drive9Err \<Rightarrow>
         orReturn (verifyStartingLauncherPID E state pid startTime)
             (\<lambda>_. Inl (ownershipError
                ''starting service MainPID is neither the recorded Drive9 binary nor launcher'')) (\<lambda>verified.
           State_Monad.return (Inr (Some verified))) })))"

section \<open>The parser of unit properties\<close>

definition propertyLine :: "string \<times> string \<Rightarrow> string" where
  "propertyLine kv = fst kv @ ''='' @ snd kv"

definition unitKeys :: "string set" where
  "unitKeys = {''LoadState'', ''ActiveState'', ''SubState''}"

definition unitStateOf :: "string \<Rightarrow> string \<Rightarrow> systemdUnitState option" where
  "unitStateOf loadState activeState =
     (if loadState = ''not-found'' then Some systemdUnitNotFound
      else if loadState \<noteq> ''loaded'' then None
      else map_of [(''active'', systemdUnitActive), (''activating'', systemdUnitActivating),
             (''inactive'', systemdUnitInactive), (''failed'', systemdUnitFailed)] activeState)"

lemma update_new: "map_of vs k = None \<Longrightarrow> AList.update k v vs = vs @ [(k, v)]"
  by (induction vs) (auto split: if_splits)

lemma unitKeys_plain: "k \<in> unitKeys \<Longrightarrow> k \<noteq> [] \<and> CHR ''='' \<notin> set k"
  by (auto simp: unitKeys_def)

lemma systemdProperties_complete:
  assumes "distinct (map fst kvs)" and "fst ` set kvs \<subseteq> unitKeys - fst ` set vs" and "[] \<notin> snd ` set kvs"
  shows "systemdProperties (map propertyLine kvs) vs = Inr (vs @ kvs)"
  using assms
proof (induction kvs arbitrary: vs)
  case (Cons kv kvs)
  obtain k v where kv: "kv = (k, v)" by force
  have k: "k \<in> unitKeys" "k \<noteq> []" "CHR ''='' \<notin> set k" "v \<noteq> []" and new: "map_of vs k = None"
    using Cons.prems unitKeys_plain [of k] by (auto simp: kv map_of_eq_None_iff)
  have cut: "Cut (propertyLine kv) (CHR ''='') = Some (k, v)"
    using Cut_append [OF k(3), of v] by (simp add: kv propertyLine_def)
  have "systemdProperties (map propertyLine kvs) (vs @ [(k, v)]) = Inr ((vs @ [(k, v)]) @ kvs)"
    using Cons.prems by (intro Cons.IH) (auto simp: kv)
  then show ?case using k new cut by (simp add: kv update_new unitKeys_def)
qed simp

lemma systemdProperties_sound:
  assumes "systemdProperties lines vs = Inr vs'"
  shows "\<exists>kvs. lines = map propertyLine kvs \<and> vs' = vs @ kvs \<and> distinct (map fst kvs)
    \<and> fst ` set kvs \<subseteq> unitKeys - fst ` set vs \<and> [] \<notin> snd ` set kvs"
  using assms
proof (induction lines vs rule: systemdProperties.induct)
  case (2 line rest vs)
  obtain k v where cut: "Cut line (CHR ''='') = Some (k, v)" and nonempty: "k \<noteq> []" "v \<noteq> []"
    and key: "k \<in> unitKeys" and new: "map_of vs k = None"
    and rest: "systemdProperties rest (vs @ [(k, v)]) = Inr vs'"
    using 2(2) by (auto simp: unitKeys_def update_new split: option.splits if_splits)
  obtain kvs where "rest = map propertyLine kvs" "vs' = (vs @ [(k, v)]) @ kvs" "distinct (map fst kvs)"
      "fst ` set kvs \<subseteq> unitKeys - fst ` set (vs @ [(k, v)])" "[] \<notin> snd ` set kvs"
    using 2(1) [OF cut refl] nonempty key new rest by (auto simp: unitKeys_def update_new)
  then show ?case
    using Cut_Some [OF cut] key new nonempty
    by (intro exI [of _ "(k, v) # kvs"]) (auto simp: propertyLine_def map_of_eq_None_iff)
qed auto

lemma three_keys:
  assumes "distinct (map fst kvs)" and "fst ` set kvs \<subseteq> unitKeys"
  shows "length kvs = 3 \<longleftrightarrow> fst ` set kvs = unitKeys"
proof -
  have c: "card unitKeys = 3" "finite unitKeys" by (simp_all add: unitKeys_def)
  have "length kvs = card (fst ` set kvs)" using distinct_card [OF assms(1)] by simp
  then show ?thesis using c assms(2) card_subset_eq [OF c(2) assms(2)] by auto
qed

text \<open>
  C40: the unit parser accepts exactly the outputs that state each of the three properties once, in
  any order, with a load state of "not-found" or "loaded" and, when loaded, an active state it
  knows; and it reports that state. Everything else is an error, never a state.
\<close>

theorem parseSystemdUnitObservation_exact:
  "parseSystemdUnitObservation body = Inr observation \<longleftrightarrow>
     (\<exists>kvs s. Split (CHR 0x0A) (TrimSpace body) = map propertyLine kvs \<and> distinct (map fst kvs)
        \<and> fst ` set kvs = unitKeys \<and> [] \<notin> snd ` set kvs
        \<and> unitStateOf (mapGet kvs ''LoadState'') (mapGet kvs ''ActiveState'') = Some s
        \<and> observation = \<lparr>so_State = s, so_LoadState = mapGet kvs ''LoadState'',
             so_ActiveState = mapGet kvs ''ActiveState'', so_SubState = mapGet kvs ''SubState''\<rparr>)"
  (is "?l \<longleftrightarrow> (\<exists>kvs s. ?r kvs s)")
proof
  assume ?l
  then obtain kvs where p: "systemdProperties (Split (CHR 0x0A) (TrimSpace body)) [] = Inr kvs" and three: "length kvs = 3"
    by (auto simp: parseSystemdUnitObservation_def split: if_splits)
  from systemdProperties_sound [OF p] have k: "Split (CHR 0x0A) (TrimSpace body) = map propertyLine kvs"
    "distinct (map fst kvs)" "fst ` set kvs \<subseteq> unitKeys" "[] \<notin> snd ` set kvs" by auto
  have "\<exists>s. ?r kvs s"
    using \<open>?l\<close> p k three_keys [OF k(2,3)] three
    by (auto simp: parseSystemdUnitObservation_def unitStateOf_def Let_def split: if_splits)
  then show "\<exists>kvs s. ?r kvs s" by blast
next
  assume "\<exists>kvs s. ?r kvs s"
  then obtain kvs s where r: "?r kvs s" by blast
  then have "systemdProperties (Split (CHR 0x0A) (TrimSpace body)) [] = Inr kvs"
    using systemdProperties_complete [of kvs "[]"] by auto
  moreover have "length kvs = 3" using r three_keys by auto
  ultimately show ?l
    using r by (auto simp: parseSystemdUnitObservation_def unitStateOf_def Let_def split: if_splits)
qed

section \<open>What the queries have seen\<close>

definition ranOk :: "hostCommand \<Rightarrow> event list \<Rightarrow> bool" where
  "ranOk command n \<longleftrightarrow> (\<exists>result. EvExec command result None \<in> set n \<and> cmd_ExitCode result = 0)"

definition sawOutput :: "hostCommand \<Rightarrow> bytes \<Rightarrow> event list \<Rightarrow> bool" where
  "sawOutput command stdout n \<longleftrightarrow>
     (\<exists>result. EvExec command result None \<in> set n \<and> cmd_ExitCode result = 0 \<and> cmd_Stdout result = stdout)"

definition showUnit :: "string \<Rightarrow> hostCommand" where
  "showUnit unit = hostSystemctlCommand
     [''show'', ''--property=LoadState'', ''--property=ActiveState'', ''--property=SubState'', ''--'', unit]"

definition sawUnit :: "string \<Rightarrow> systemdUnitState \<Rightarrow> event list \<Rightarrow> bool" where
  "sawUnit unit s n \<longleftrightarrow>
     (\<exists>stdout obs. sawOutput (showUnit unit) stdout n \<and> parseSystemdUnitObservation stdout = Inr obs \<and> so_State obs = s)"

definition sawDescription :: "string \<Rightarrow> string \<Rightarrow> event list \<Rightarrow> bool" where
  "sawDescription unit description n \<longleftrightarrow>
     (\<exists>stdout. sawOutput (hostSystemctlCommand [''show'', ''--property=Description'', ''--'', unit]) stdout n
        \<and> TrimSuffix stdout [CHR 0x0A] = ''Description='' @ description)"

definition sawMainPID :: "string \<Rightarrow> int \<Rightarrow> event list \<Rightarrow> bool" where
  "sawMainPID unit pid n \<longleftrightarrow>
     (\<exists>stdout value. sawOutput (hostSystemctlCommand [''show'', ''--property=MainPID'', ''--'', unit]) stdout n
        \<and> TrimSpace stdout = ''MainPID='' @ value \<and> ParseInt 31 value = Some pid)"

lemma saw_output_append [seen_append]:
  "ranOk c (n2 @ n1) \<longleftrightarrow> ranOk c n2 \<or> ranOk c n1"
  "sawOutput c out (n2 @ n1) \<longleftrightarrow> sawOutput c out n2 \<or> sawOutput c out n1"
  by (auto simp: ranOk_def sawOutput_def)

lemma saw_unit_append [seen_append]:
  "sawUnit u s (n2 @ n1) \<longleftrightarrow> sawUnit u s n2 \<or> sawUnit u s n1"
  "sawDescription u d (n2 @ n1) \<longleftrightarrow> sawDescription u d n2 \<or> sawDescription u d n1"
  "sawMainPID u pid (n2 @ n1) \<longleftrightarrow> sawMainPID u pid n2 \<or> sawMainPID u pid n1"
  by (auto simp: sawUnit_def sawDescription_def sawMainPID_def seen_append)

lemma systemctl_args: "cmd_Args (hostSystemctlCommand args) =
    [''--mount=/host-proc/1/ns/mnt'', ''--root=/host-proc/1/root'', ''--wd=/host-proc/1/root'', ''--'', ''systemd-run'',
     ''--service-type=exec'', ''--wait'', ''--pipe'', ''--quiet'', ''--collect'', ''--'', ''/usr/bin/systemctl''] @ args"
  by (simp add: hostSystemctlCommand_def hostSystemdManagerCommand_def hostNamespaceCommand_def)

lemma emits_runOk:
  "emits (runOk E c failure) (\<lambda>r n. (\<exists>result err. n = [EvExec c result err]) \<and> (r = None \<longleftrightarrow> ranOk c n))"
  unfolding runOk_def host_defs by (intro emits_wp) (auto simp: ranOk_def)

lemma emits_runOutput:
  "emits (runOutput E c failure) (\<lambda>r n. (\<exists>result err. n = [EvExec c result err])
     \<and> (\<forall>out. r = Inr out \<longrightarrow> sawOutput c out n))"
  unfolding runOutput_def host_defs by (intro emits_wp) (auto simp: sawOutput_def split: if_splits)

text \<open>A query is one event and observes; so are the verifications built from queries.\<close>

lemma emits_querySystemdUnit:
  "emits (querySystemdUnit E unit) (\<lambda>r n. list_all hostObservation n
     \<and> (\<forall>obs. r = Inr obs \<longrightarrow> sawUnit unit (so_State obs) n))"
  unfolding querySystemdUnit_def
  by (intro emits_wp emits_orReturn [OF emits_runOutput]) (auto simp: sawUnit_def showUnit_def systemctl_args)

lemma parse_no_error: "parseSystemdUnitObservation body = Inr obs \<Longrightarrow> so_State obs \<noteq> systemdUnitQueryError"
  by (auto simp: parseSystemdUnitObservation_def Let_def split: if_splits)

lemma sawUnit_known: "sawUnit unit s n \<Longrightarrow> s \<noteq> systemdUnitQueryError"
  by (auto simp: sawUnit_def dest: parse_no_error)

lemma emits_querySystemdUnitDescription:
  "emits (querySystemdUnitDescription E unit) (\<lambda>r n. list_all hostObservation n
     \<and> (\<forall>d. r = Inr d \<longrightarrow> sawDescription unit d n))"
  unfolding querySystemdUnitDescription_def Let_def
  by (intro emits_wp emits_orReturn [OF emits_runOutput])
    (auto simp: sawDescription_def systemctl_args dest!: Cut_Some)

lemma emits_querySystemdMainPID:
  "emits (querySystemdMainPID E unit) (\<lambda>r n. list_all hostObservation n
     \<and> (\<forall>pid. r = Inr pid \<longrightarrow> 0 \<le> pid \<and> sawMainPID unit pid n))"
  unfolding querySystemdMainPID_def Let_def
  by (intro emits_wp emits_orReturn [OF emits_runOutput])
    (auto simp: sawMainPID_def systemctl_args dest!: Cut_Some)

definition attemptDescription :: "mountState \<Rightarrow> string" where
  "attemptDescription state = ''drive9-csi:'' @ VolumeID state @ '':'' @ AttemptID state"

lemma mountSystemdUnitDescription_Inr:
  "mountSystemdUnitDescription state = Inr d \<Longrightarrow> d = attemptDescription state"
  by (auto simp: mountSystemdUnitDescription_def attemptDescription_def split: if_splits sum.splits)

lemma emits_verifyMountSystemdUnitDescription:
  "emits (verifyMountSystemdUnitDescription E state) (\<lambda>r n. list_all hostObservation n
     \<and> (r = None \<longrightarrow> sawDescription (SystemdUnit state) (attemptDescription state) n))"
  unfolding verifyMountSystemdUnitDescription_def
  by (intro emits_wp emits_orReturn [OF emits_querySystemdUnitDescription])
    (auto dest: mountSystemdUnitDescription_Inr)

lemma emits_verifySystemdUnitDescriptionForVolume:
  "emits (verifySystemdUnitDescriptionForVolume E unit v) (\<lambda>r n. list_all hostObservation n
     \<and> (r = None \<longrightarrow> (\<exists>a. attemptIDPattern a \<and> sawDescription unit (''drive9-csi:'' @ v @ '':'' @ a) n)))"
proof -
  have "\<exists>a. attemptIDPattern a \<and> d = ''drive9-csi:'' @ v @ '':'' @ a"
    if "TrimPrefix d (''drive9-csi:'' @ v @ '':'') \<noteq> d" "attemptIDPattern (TrimPrefix d (''drive9-csi:'' @ v @ '':''))" for d
  proof -
    from that(1) obtain a where "d = (''drive9-csi:'' @ v @ '':'') @ a"
      by (auto simp: TrimPrefix_def HasPrefix_iff split: if_splits)
    then show ?thesis using that(2) TrimPrefix_append [of "''drive9-csi:'' @ v @ '':''" a] by auto
  qed
  then show ?thesis
    unfolding verifySystemdUnitDescriptionForVolume_def Let_def
    by (intro emits_wp emits_orReturn [OF emits_querySystemdUnitDescription]) auto
qed

text \<open>The main process of the unit of a mount: what a verified identity has been checked against.\<close>

definition mainVerified :: "mountState \<Rightarrow> verifiedProcessIdentity \<Rightarrow> event list \<Rightarrow> bool" where
  "mainVerified state v n \<longleftrightarrow>
     sawDescription (SystemdUnit state) (attemptDescription state) n
     \<and> sawMainPID (SystemdUnit state) (vp_PID v) n \<and> 0 < vp_PID v
     \<and> sawStartTime (vp_PID v) (vp_PIDStartTime v) n
     \<and> processEvidence (vp_PID v) (StagingTarget state) (SystemdUnit state) (BinaryPath state) n"

definition launcherEvidence :: "mountState \<Rightarrow> int \<Rightarrow> event list \<Rightarrow> bool" where
  "launcherEvidence state pid n \<longleftrightarrow>
     (\<exists>cmdline. EvReadFile (hostProcPIDPath pid ''cmdline'') (Inr cmdline) \<in> set n
          \<and> parseHostProcCmdline cmdline = Inr [hostLauncherPath, EnvPath state, ArgsPath state])
     \<and> sawCgroup pid (SystemdUnit state) n
     \<and> (\<exists>exe\<in>{hostLauncherPath, hostLauncherPath @ '' (deleted)''}.
          EvReadlink (hostProcPIDPath pid ''exe'') (Inr exe) \<in> set n)"

definition launcherVerified :: "mountState \<Rightarrow> verifiedProcessIdentity \<Rightarrow> event list \<Rightarrow> bool" where
  "launcherVerified state v n \<longleftrightarrow>
     sawDescription (SystemdUnit state) (attemptDescription state) n
     \<and> sawMainPID (SystemdUnit state) (vp_PID v) n \<and> 0 < vp_PID v
     \<and> sawStartTime (vp_PID v) (vp_PIDStartTime v) n \<and> launcherEvidence state (vp_PID v) n"

lemma launcherEvidence_append [intro]:
  "launcherEvidence s p n1 \<Longrightarrow> launcherEvidence s p (n2 @ n1)"
  "launcherEvidence s p n2 \<Longrightarrow> launcherEvidence s p (n2 @ n1)"
  by (auto simp: launcherEvidence_def seen_append)

lemma mainVerified_append [intro]:
  "mainVerified s v n1 \<Longrightarrow> mainVerified s v (n2 @ n1)" "mainVerified s v n2 \<Longrightarrow> mainVerified s v (n2 @ n1)"
  by (auto simp: mainVerified_def processEvidence_def seen_append)

lemma launcherVerified_append [intro]:
  "launcherVerified s v n1 \<Longrightarrow> launcherVerified s v (n2 @ n1)"
  "launcherVerified s v n2 \<Longrightarrow> launcherVerified s v (n2 @ n1)"
  by (auto simp: launcherVerified_def seen_append)

lemma withRuntimePaths_simps [simp]: "vp_PID (withRuntimePaths s v) = vp_PID v"
  "vp_PIDStartTime (withRuntimePaths s v) = vp_PIDStartTime v" "vp_IsLauncher (withRuntimePaths s v) = vp_IsLauncher v"
  by (simp_all add: withRuntimePaths_def)

lemma mainExpectation_simps [simp]: "exp_PID (mainExpectation s pid st) = pid"
  "exp_PIDStartTime (mainExpectation s pid st) = st" "exp_StagingTarget (mainExpectation s pid st) = StagingTarget s"
  "exp_SystemdUnit (mainExpectation s pid st) = SystemdUnit s" "exp_BinaryPath (mainExpectation s pid st) = BinaryPath s"
  by (simp_all add: mainExpectation_def)

lemma emits_host_observations:
  "emits m (\<lambda>r n. (\<forall>e\<in>set n. hostObservation e) \<and> \<Phi> r n) \<Longrightarrow> emits m (\<lambda>r n. list_all hostObservation n \<and> \<Phi> r n)"
  by (erule emits_conseq) (simp add: list_all_iff)

lemmas emits_start_time = emits_host_observations [OF emits_readHostProcessStartTime]
lemmas emits_pid_ownership = emits_host_observations [OF emits_verifyHostPIDOwnership]
lemmas emits_process_ownership = emits_host_observations [OF emits_verifyProcessOwnership]
lemmas emits_stable = emits_host_observations [OF emits_stableStartTime]
lemmas emits_read_process = emits_host_observations [OF emits_readDrive9ProcessState]
lemmas emits_alive = emits_host_observations [OF emits_drive9SupervisorIdentityAlive]

lemma emits_verifySystemdMainPIDOwnership:
  "emits (verifySystemdMainPIDOwnership E state) (\<lambda>r n. list_all hostObservation n
     \<and> (\<forall>v. r = Inr v \<longrightarrow> mainVerified state v n \<and> \<not> vp_IsLauncher v))"
  unfolding verifySystemdMainPIDOwnership_def
  by (intro emits_wp emits_unlessErr [OF emits_verifyMountSystemdUnitDescription]
      emits_orReturn [OF emits_querySystemdMainPID] emits_orReturn [OF emits_start_time]
      emits_orReturn [OF emits_pid_ownership])
    (auto simp: mainVerified_def processEvidence_def seen_append dest!: hostVerified_evidence)

lemma emits_verifyStartingLauncherPID:
  "emits (verifyStartingLauncherPID E state pid st) (\<lambda>r n. list_all hostObservation n
     \<and> (\<forall>v. r = Inr v \<longrightarrow> vp_PID v = pid \<and> vp_PIDStartTime v = st \<and> vp_IsLauncher v
          \<and> launcherEvidence state pid n))"
  unfolding verifyStartingLauncherPID_def host_defs
  by (intro emits_wp emits_unlessErr [OF emits_stable])
    (auto simp: launcherEvidence_def seen_append sawCgroup_def)

lemma emits_verifyStartingSystemdMainPIDOwnership:
  "emits (verifyStartingSystemdMainPIDOwnership E state) (\<lambda>r n. list_all hostObservation n
     \<and> (r = Inr None \<longrightarrow> sawDescription (SystemdUnit state) (attemptDescription state) n)
     \<and> (\<forall>v. r = Inr (Some v) \<longrightarrow> (if vp_IsLauncher v then launcherVerified state v n else mainVerified state v n)))"
  unfolding verifyStartingSystemdMainPIDOwnership_def
  by (intro emits_wp emits_unlessErr [OF emits_verifyMountSystemdUnitDescription]
      emits_orReturn [OF emits_querySystemdMainPID] emits_orReturn [OF emits_start_time]
      emits_bind_pre [OF emits_pid_ownership] emits_orReturn [OF emits_verifyStartingLauncherPID])
    (auto simp: seen_append mainVerified_def launcherVerified_def processEvidence_def dest!: hostVerified_evidence)

end
