(* ===== verification/RuntimeArtifacts.thy ===== *)
theory RuntimeArtifacts
  imports Systemd
begin

text \<open>
  The files a mount attempt leaves on the host: its startup files (\<open>removeAttemptStartupFiles\<close> of
  \<open>mount_lifecycle.go\<close>), and the process-state file and control socket of the supervisor
  (\<open>runtime_artifact_cleanup.go\<close>); with \<open>observeStartingProcess\<close> of
  \<open>mount_reconcile_starting.go\<close>, which reads them.
\<close>

section \<open>Startup files\<close>

text \<open>Removal of a list of files; a missing file is not an error.\<close>

definition removalErrors :: "error option \<Rightarrow> error list" where
  "removalErrors r = (case r of None \<Rightarrow> [] | Some e \<Rightarrow> if errors_Is e ErrNotExist then [] else [e])"

fun removeEach :: "env \<Rightarrow> string list \<Rightarrow> error list prog" where
  "removeEach E [] = State_Monad.return []"
| "removeEach E (path # paths) = do {
     r \<leftarrow> Remove E path;
     rest \<leftarrow> removeEach E paths;
     State_Monad.return (removalErrors r @ rest) }"

definition removeAttemptStartupFiles :: "env \<Rightarrow> mountState \<Rightarrow> error option prog" where
  "removeAttemptStartupFiles E state =
     ifOk (newVolumeHostNames (VolumeID state) (AttemptID state))
         (\<lambda>_. Some (Errorf ''startup artifact ownership does not match mount attempt'')) (\<lambda>names.
     if EnvPath state \<noteq> names_EnvPath names \<or> ArgsPath state \<noteq> names_ArgsPath names
     then State_Monad.return (Some (Errorf ''startup artifact ownership does not match mount attempt''))
     else do {
       errs \<leftarrow> removeEach E [EnvPath state, EnvPath state @ ''.tmp'', ArgsPath state, ArgsPath state @ ''.tmp''];
       State_Monad.return (errors_Join errs) })"

section \<open>The supervisor's files\<close>

text \<open>The process-state file: is it there, and if so, is its process verified dead?\<close>

definition deadProcessState :: "env \<Rightarrow> mountState \<Rightarrow> string \<Rightarrow> string \<Rightarrow> (error + bool) prog" where
  "deadProcessState E state processStatePath controlSocketPath = do {
     r \<leftarrow> Lstat E processStatePath;
     case r of
       Inl e \<Rightarrow>
         if errors_Is e ErrNotExist then State_Monad.return (Inr False)
         else State_Monad.return (Inl (Wrap ''inspect runtime process-state artifact'' e))
     | Inr info \<Rightarrow>
         orReturn (readDrive9ProcessState E processStatePath) Inl (\<lambda>processState.
         if validateDrive9SupervisorProcessState processState (StagingTarget state) controlSocketPath \<noteq> None
         then State_Monad.return (Inl (ownershipError
                ''runtime process-state identity does not match durable state''))
         else
         orReturn (drive9SupervisorIdentityAlive E processState)
             (\<lambda>_. Inl (ownershipError ''cannot prove runtime process-state PID is dead'')) (\<lambda>alive.
         if alive
         then State_Monad.return (Inl (ownershipError
                ''refusing runtime artifact cleanup while recorded PID is live''))
         else State_Monad.return (Inr True))) }"

definition isRealSocket :: "fileInfo \<Rightarrow> bool" where
  "isRealSocket info \<longleftrightarrow> fi_kind info = Socket"

definition socketPresent :: "env \<Rightarrow> string \<Rightarrow> (error + bool) prog" where
  "socketPresent E controlSocketPath = do {
     r \<leftarrow> Lstat E controlSocketPath;
     case r of
       Inr info \<Rightarrow>
         if \<not> isRealSocket info
         then State_Monad.return (Inl (ownershipError
                ''runtime control-socket artifact is not a real Unix socket''))
         else State_Monad.return (Inr True)
     | Inl e \<Rightarrow>
         if errors_Is e ErrNotExist then State_Monad.return (Inr False)
         else State_Monad.return (Inl (Wrap ''inspect runtime control-socket artifact'' e)) }"

definition removeVerifiedDeadRuntimeArtifacts :: "env \<Rightarrow> mountState \<Rightarrow> error option prog" where
  "removeVerifiedDeadRuntimeArtifacts E state =
     ifOk (drive9ProcessStatePath (StagingTarget state)) Some (\<lambda>processStatePath.
     ifOk (drive9ControlSocketPath (StagingTarget state) ''0'') Some (\<lambda>controlSocketPath.
     if ProcessStatePath state \<noteq> [] \<and> ProcessStatePath state \<noteq> processStatePath
     then State_Monad.return (Some (ownershipError ''recorded process-state path does not match staging target''))
     else if ControlSocketPath state \<noteq> [] \<and> ControlSocketPath state \<noteq> controlSocketPath
     then State_Monad.return (Some (ownershipError ''recorded control-socket path does not match staging target''))
     else
     orReturn (IsMountPoint E (StagingTarget state))
         (\<lambda>e. Some (Wrap ''verify mount absence before runtime artifact cleanup'' e)) (\<lambda>mounted.
     if mounted
     then State_Monad.return (Some (ownershipError ''refusing runtime artifact cleanup while mount remains present''))
     else
     orReturn (deadProcessState E state processStatePath controlSocketPath) Some (\<lambda>processStatePresent.
     orReturn (socketPresent E controlSocketPath) Some (\<lambda>controlSocketPresent. do {
       errs \<leftarrow> removeEach E ((if processStatePresent then [processStatePath] else [])
                @ (if controlSocketPresent then [controlSocketPath] else []));
       State_Monad.return (errors_Join errs) })))))"

section \<open>The process of a starting attempt\<close>

datatype startingProcessState =
  startingProcessAbsent | startingProcessDead | startingProcessVerified | startingProcessMismatch

record startingProcessObservation =
  sp_State :: startingProcessState
  sp_Verified :: verifiedProcessIdentity

definition noIdentity :: verifiedProcessIdentity where
  "noIdentity = \<lparr>vp_PID = 0, vp_PIDStartTime = [], vp_ControlSocketPath = [], vp_ProcessStatePath = [],
     vp_IsLauncher = False\<rparr>"

definition startingProcess :: "startingProcessState \<Rightarrow> startingProcessObservation" where
  "startingProcess s = \<lparr>sp_State = s, sp_Verified = noIdentity\<rparr>"

definition recordedExpectation :: "mountState \<Rightarrow> processOwnershipExpectation" where
  "recordedExpectation state = mainExpectation state 0 []"

text \<open>With an error the state is always a mismatch, so the pair is a sum here.\<close>

definition observeStartingProcess :: "env \<Rightarrow> mountState \<Rightarrow> (error + startingProcessObservation) prog" where
  "observeStartingProcess E state =
     ifOk (drive9ProcessStatePath (StagingTarget state)) Inl (\<lambda>processStatePath. do {
     r \<leftarrow> Lstat E processStatePath;
     case r of
       Inl e \<Rightarrow>
         if errors_Is e ErrNotExist then State_Monad.return (Inr (startingProcess startingProcessAbsent))
         else State_Monad.return (Inl e)
     | Inr info \<Rightarrow>
         orReturn (readDrive9ProcessState E processStatePath) Inl (\<lambda>processState.
         ifOk (drive9ControlSocketPath (StagingTarget state) ''0'')
             (\<lambda>_. Inl (Sentinel ErrProcessOwnership)) (\<lambda>controlSocket.
         if validateDrive9SupervisorProcessState processState (StagingTarget state) controlSocket \<noteq> None
         then State_Monad.return (Inl (Sentinel ErrProcessOwnership))
         else
         orReturn (drive9SupervisorIdentityAlive E processState) Inl (\<lambda>alive.
         if \<not> alive then State_Monad.return (Inr (startingProcess startingProcessDead))
         else
         orReturn (verifyProcessOwnership E (recordedExpectation state)) Inl (\<lambda>verified.
           State_Monad.return (Inr \<lparr>sp_State = startingProcessVerified, sp_Verified = verified\<rparr>))))) })"

definition copyVerifiedProcessIdentity :: "mountState \<Rightarrow> verifiedProcessIdentity \<Rightarrow> mountState" where
  "copyVerifiedProcessIdentity state verified =
     state\<lparr>PID := vp_PID verified, PIDStartTime := vp_PIDStartTime verified,
       ControlSocketPath := vp_ControlSocketPath verified, ProcessStatePath := vp_ProcessStatePath verified\<rparr>"

section \<open>Nothing alive loses its files\<close>

fun removesOnly :: "string set \<Rightarrow> event \<Rightarrow> bool" where
  "removesOnly paths (EvRemove p r) = (p \<in> paths)"
| "removesOnly paths e = False"

lemma removesOnly_mono: "removesOnly A e \<Longrightarrow> A \<subseteq> B \<Longrightarrow> removesOnly B e"
  by (cases e) auto

lemma list_all_removesOnly_mono: "list_all (removesOnly A) n \<Longrightarrow> A \<subseteq> B \<Longrightarrow> list_all (removesOnly B) n"
  by (auto simp: list_all_iff intro: removesOnly_mono)

lemma emits_removeEach:
  "emits (removeEach E paths) (\<lambda>errs n. list_all (removesOnly (set paths)) n
     \<and> (errs = [] \<longrightarrow> (\<forall>p\<in>set paths. \<exists>r. EvRemove p r \<in> set n \<and> removalErrors r = [])))"
proof (induction paths)
  case Nil
  then show ?case by (simp add: emits_return)
next
  case (Cons p ps)
  show ?case
    unfolding removeEach.simps host_defs
    by (intro emits_wp emits_bind_pre [OF Cons]) (auto intro: list_all_removesOnly_mono)
qed

lemma emits_removeAttemptStartupFiles:
  "emits (removeAttemptStartupFiles E state) (\<lambda>r n.
     list_all (removesOnly {EnvPath state, EnvPath state @ ''.tmp'', ArgsPath state, ArgsPath state @ ''.tmp''}) n
     \<and> (r = None \<longrightarrow> (\<exists>names. newVolumeHostNames (VolumeID state) (AttemptID state) = Inr names
          \<and> EnvPath state = names_EnvPath names \<and> ArgsPath state = names_ArgsPath names)))"
  unfolding removeAttemptStartupFiles_def
  by (intro emits_wp emits_bind_pre [OF emits_removeEach]) auto

definition sawDeadSupervisor :: "env \<Rightarrow> string \<Rightarrow> string \<Rightarrow> string \<Rightarrow> event list \<Rightarrow> bool" where
  "sawDeadSupervisor E target processStatePath controlSocketPath n \<longleftrightarrow>
     (\<exists>s. sawProcessState E processStatePath s n
        \<and> validateDrive9SupervisorProcessState s target controlSocketPath = None
        \<and> sawDead (ps_PID s) (FormatUint (ps_CreationTime s)) n)"

lemma sawDeadSupervisor_append [intro]:
  "sawDeadSupervisor E t p c n1 \<Longrightarrow> sawDeadSupervisor E t p c (n2 @ n1)"
  "sawDeadSupervisor E t p c n2 \<Longrightarrow> sawDeadSupervisor E t p c (n2 @ n1)"
  by (auto simp: sawDeadSupervisor_def seen_append)

lemma emits_deadProcessState:
  "emits (deadProcessState E state p c) (\<lambda>r n. list_all hostObservation n
     \<and> (r = Inr True \<longrightarrow> sawDeadSupervisor E (StagingTarget state) p c n))"
  unfolding deadProcessState_def host_defs
  by (intro emits_wp emits_orReturn [OF emits_read_process] emits_orReturn [OF emits_alive])
    (auto simp: sawDeadSupervisor_def seen_append)

lemma emits_socketPresent:
  "emits (socketPresent E c) (\<lambda>r n. list_all hostObservation n
     \<and> (r = Inr True \<longrightarrow> (\<exists>info. EvLstat c (Inr info) \<in> set n \<and> isRealSocket info)))"
  unfolding socketPresent_def host_defs by (intro emits_wp) auto

text \<open>
  Cleanup is in two phases: observations, then removals; and what is removed was seen unmounted
  and, for the process-state file, dead.
\<close>

definition cleanedArtifacts :: "env \<Rightarrow> mountState \<Rightarrow> event list \<Rightarrow> event list \<Rightarrow> bool" where
  "cleanedArtifacts E state removals obs \<longleftrightarrow>
     list_all hostObservation obs
     \<and> (removals \<noteq> [] \<longrightarrow> EvIsMountPoint (StagingTarget state) (Inr False) \<in> set obs
        \<and> (\<exists>p c. drive9ProcessStatePath (StagingTarget state) = Inr p
             \<and> drive9ControlSocketPath (StagingTarget state) ''0'' = Inr c
             \<and> list_all (removesOnly {p, c}) removals
             \<and> (\<forall>r. EvRemove p r \<in> set removals \<longrightarrow> sawDeadSupervisor E (StagingTarget state) p c obs)))"

lemma runtime_paths_differ:
  assumes "drive9ProcessStatePath t = Inr p" and "drive9ControlSocketPath t ''0'' = Inr c"
  shows "p \<noteq> c"
proof -
  obtain t' where t': "canonicalStagingTarget t = Inr t'"
    using assms(1) by (auto simp: drive9ProcessStatePath_def)
  have "last p = CHR ''d''" "last c = CHR ''k''"
    using assms drive9ProcessStatePath_Inr [OF t'] drive9ControlSocketPath_root [OF t'] by auto
  then show ?thesis by auto
qed

definition cleanupRun :: "env \<Rightarrow> mountState \<Rightarrow> error option \<Rightarrow> event list \<Rightarrow> bool" where
  "cleanupRun E state r n \<longleftrightarrow>
     (\<exists>removals obs. n = removals @ obs \<and> cleanedArtifacts E state removals obs
        \<and> (r = None \<longrightarrow> EvIsMountPoint (StagingTarget state) (Inr False) \<in> set obs))"

lemma cleanupRun_early: "list_all hostObservation n \<Longrightarrow> cleanupRun E state (Some e) n"
  unfolding cleanupRun_def cleanedArtifacts_def by (intro exI [of _ "[]"] exI [of _ n]) simp

lemma cleanupRun_late:
  assumes paths: "drive9ProcessStatePath (StagingTarget state) = Inr p"
      "drive9ControlSocketPath (StagingTarget state) ''0'' = Inr c"
    and removals: "list_all (removesOnly (set ((if present then [p] else []) @ (if socket then [c] else [])))) n"
    and dead: "present \<Longrightarrow> sawDeadSupervisor E (StagingTarget state) p c obs"
    and obs: "list_all hostObservation obs" "EvIsMountPoint (StagingTarget state) (Inr False) \<in> set obs"
  shows "cleanupRun E state r (n @ obs)"
proof -
  have sub: "list_all (removesOnly {p, c}) n"
    using removals by (auto intro: list_all_removesOnly_mono split: if_splits)
  have "present" if "EvRemove p x \<in> set n" for x
    using removals that runtime_paths_differ [OF paths] by (auto simp: list_all_iff split: if_splits)
  with sub show ?thesis
    unfolding cleanupRun_def cleanedArtifacts_def using paths dead obs
    by (intro exI [of _ n] exI [of _ obs]) auto
qed

lemma emits_removeVerifiedDeadRuntimeArtifacts:
  "emits (removeVerifiedDeadRuntimeArtifacts E state) (cleanupRun E state)"
  unfolding removeVerifiedDeadRuntimeArtifacts_def host_defs
proof (intro emits_wp emits_orReturn [OF emits_deadProcessState] emits_orReturn [OF emits_socketPresent]
      emits_bind_pre [OF emits_removeEach])
  fix p c mounted present n1 socket n2 n3 and errs :: "error list"
  let ?mount = "EvIsMountPoint (StagingTarget state) (Inr mounted)"
  assume "drive9ProcessStatePath (StagingTarget state) = Inr p"
    "drive9ControlSocketPath (StagingTarget state) ''0'' = Inr c" "\<not> mounted"
    "list_all hostObservation n1 \<and> (Inr present = Inr True \<longrightarrow> sawDeadSupervisor E (StagingTarget state) p c n1)"
    "list_all hostObservation n2 \<and> (Inr socket = Inr True \<longrightarrow> (\<exists>info. EvLstat c (Inr info) \<in> set n2 \<and> isRealSocket info))"
    "list_all (removesOnly (set ((if present then [p] else []) @ (if socket then [c] else [])))) n3 \<and> (errs = [] \<longrightarrow>
       (\<forall>q\<in>set ((if present then [p] else []) @ (if socket then [c] else [])). \<exists>r. EvRemove q r \<in> set n3 \<and> removalErrors r = []))"
  then have "cleanupRun E state (errors_Join errs) (n3 @ (n2 @ n1 @ [?mount]))"
    by (intro cleanupRun_late [of state p c present socket]) auto
  then show "cleanupRun E state (errors_Join errs) (((([] @ n3) @ n2) @ n1) @ [?mount])" by simp
qed (auto intro: cleanupRun_early)

section \<open>What the observation of a starting process means\<close>

definition startingObserved :: "env \<Rightarrow> mountState \<Rightarrow> startingProcessObservation \<Rightarrow> event list \<Rightarrow> bool" where
  "startingObserved E state process n \<longleftrightarrow>
     (\<exists>p. drive9ProcessStatePath (StagingTarget state) = Inr p \<and>
       (case sp_State process of
          startingProcessAbsent \<Rightarrow> \<exists>e. EvLstat p (Inl e) \<in> set n \<and> errors_Is e ErrNotExist
        | startingProcessDead \<Rightarrow> \<exists>c. sawDeadSupervisor E (StagingTarget state) p c n
        | startingProcessVerified \<Rightarrow> ownershipVerified E (recordedExpectation state) (sp_Verified process) n
             \<and> \<not> vp_IsLauncher (sp_Verified process)
        | startingProcessMismatch \<Rightarrow> False))"

lemma emits_observeStartingProcess:
  "emits (observeStartingProcess E state) (\<lambda>r n. list_all hostObservation n
     \<and> (\<forall>process. r = Inr process \<longrightarrow> startingObserved E state process n))"
  unfolding observeStartingProcess_def host_defs
  by (intro emits_wp emits_orReturn [OF emits_read_process] emits_orReturn [OF emits_alive]
      emits_orReturn [OF emits_process_ownership])
    (auto simp: startingObserved_def startingProcess_def sawDeadSupervisor_def seen_append)

lemma startingObserved_no_mismatch: "startingObserved E state process n \<Longrightarrow> sp_State process \<noteq> startingProcessMismatch"
  by (auto simp: startingObserved_def)

lemma startingObserved_append [intro]:
  "startingObserved E s p n1 \<Longrightarrow> startingObserved E s p (n2 @ n1)"
  "startingObserved E s p n2 \<Longrightarrow> startingObserved E s p (n2 @ n1)"
  by (auto simp: startingObserved_def split: startingProcessState.splits)

end
