(* ===== verification/StateStore.thy ===== *)
theory StateStore
  imports HostRuntime
begin

text \<open>
  The durable store of \<open>internal/driver/mount_state.go\<close>: reading, writing and deleting the state
  file of a volume under its lock, and the atomic replacement every durable record of the driver
  is written with. The store is also seen through the interface \<open>mountStateRepository\<close>, which
  its clients are written against.
\<close>

section \<open>Writing a file completely\<close>

function writeHostFile :: "env \<Rightarrow> string \<Rightarrow> bytes \<Rightarrow> error option prog" where
  "writeHostFile E file body =
     (if body = [] then State_Monad.return None
      else do {
        r \<leftarrow> FileWrite E file body;
        case r of
          Inl e \<Rightarrow> State_Monad.return (Some e)
        | Inr written \<Rightarrow>
            if written \<le> 0 \<or> int (length body) < written then State_Monad.return (Some (Sentinel ErrShortWrite))
            else writeHostFile E file (drop (nat written) body)
      })"
  by pat_completeness auto
termination by (relation "measure (\<lambda>(E, file, body). length body)") auto

declare writeHostFile.simps [simp del]

section \<open>Atomic replacement\<close>

text \<open>The deferred removal of the temporary file, on the returns before the rename.\<close>

definition removeTemp :: "env \<Rightarrow> string \<Rightarrow> error \<Rightarrow> error option prog" where
  "removeTemp E tempPath e = do { Remove E tempPath; State_Monad.return (Some e) }"

definition closeAndRemoveTemp :: "env \<Rightarrow> string \<Rightarrow> error \<Rightarrow> error option prog" where
  "closeAndRemoveTemp E tempPath e = do { FileClose E tempPath; removeTemp E tempPath e }"

definition syncDirectory :: "env \<Rightarrow> string \<Rightarrow> string \<Rightarrow> error option prog" where
  "syncDirectory E stateDir kind =
     unlessErr (OpenFile E stateDir O_RDONLY 0) (\<lambda>e. Some (Wrap (''open '' @ kind @ '' directory'') e)) (do {
       r \<leftarrow> FileSync E stateDir;
       case r of
         Some e \<Rightarrow> do { FileClose E stateDir; State_Monad.return (Some (Wrap (''sync '' @ kind @ '' directory'') e)) }
       | None \<Rightarrow>
           unlessErr (FileClose E stateDir) (\<lambda>e. Some (Wrap (''close '' @ kind @ '' directory'') e))
             (State_Monad.return None)
     })"

definition atomicTempPath :: "string \<Rightarrow> string \<Rightarrow> string \<Rightarrow> string" where
  "atomicTempPath stateDir path attemptID =
     path_Join [stateDir, ''.'' @ path_Base path @ ''.'' @ attemptID @ ''.tmp'']"

text \<open>What follows the creation of the temporary file.\<close>

definition publishTemp :: "env \<Rightarrow> string \<Rightarrow> string \<Rightarrow> string \<Rightarrow> string \<Rightarrow> error option prog" where
  "publishTemp E stateDir path kind tempPath = do {
     c \<leftarrow> Chmod E tempPath perm600;
     case c of
       Some e \<Rightarrow> closeAndRemoveTemp E tempPath (Wrap (''chmod '' @ kind @ '' temporary file'') e)
     | None \<Rightarrow> do {
     s \<leftarrow> FileSync E tempPath;
     case s of
       Some e \<Rightarrow> closeAndRemoveTemp E tempPath (Wrap (''sync '' @ kind @ '' temporary file'') e)
     | None \<Rightarrow> do {
     cl \<leftarrow> FileClose E tempPath;
     case cl of
       Some e \<Rightarrow> removeTemp E tempPath (Wrap (''close '' @ kind @ '' temporary file'') e)
     | None \<Rightarrow> do {
     rn \<leftarrow> Rename E tempPath path;
     case rn of
       Some e \<Rightarrow> removeTemp E tempPath (Wrap (''replace '' @ kind) e)
     | None \<Rightarrow> syncDirectory E stateDir kind }}}}"

definition writeAtomicStateFile :: "env \<Rightarrow> string \<Rightarrow> string \<Rightarrow> string \<Rightarrow> bytes \<Rightarrow> error option prog" where
  "writeAtomicStateFile E stateDir path kind body = do {
     id \<leftarrow> NewAttemptID E;
     case id of
       Inl e \<Rightarrow> State_Monad.return (Some (Errorf (''create '' @ kind @ '' temporary name'')))
     | Inr attemptID \<Rightarrow>
       if \<not> attemptIDPattern attemptID
       then State_Monad.return (Some (Errorf (''create '' @ kind @ '' temporary name'')))
       else
         let tempPath = atomicTempPath stateDir path attemptID in
         unlessErr (OpenFile E tempPath O_WRONLY_CREATE_EXCL perm600)
             (\<lambda>e. Some (Wrap (''create '' @ kind @ '' temporary file'') e)) (do {
           w \<leftarrow> writeHostFile E tempPath body;
           case w of
             Some e \<Rightarrow> closeAndRemoveTemp E tempPath (Wrap (''write '' @ kind @ '' temporary file'') e)
           | None \<Rightarrow> publishTemp E stateDir path kind tempPath }) }"

section \<open>The store\<close>

text \<open>A \<open>mountStateStore\<close> is its cleaned directory; \<open>newMountStateStore\<close> cleans it.\<close>

definition newMountStateStore :: "string \<Rightarrow> string" where
  "newMountStateStore stateDir = Clean stateDir"

definition statePath :: "string \<Rightarrow> string \<Rightarrow> error + string" where
  "statePath stateDir volumeID =
     (if \<not> volumeIDPattern volumeID then Inl (Errorf ''invalid Drive9 volume ID'')
      else if \<not> IsAbs stateDir then Inl (Errorf ''mount state directory must be absolute'')
      else Inr (path_Join [stateDir, volumeID @ ''.json'']))"

text \<open>\<open>e_DecodeState\<close> is the strict JSON decoder together with the check for trailing data.\<close>

definition decodeMountState :: "env \<Rightarrow> bytes \<Rightarrow> error + mountState" where
  "decodeMountState E body =
     (case e_DecodeState E body of
        None \<Rightarrow> Inl (Errorf ''decode mount state'')
      | Some state \<Rightarrow> echeck (validateMountState state) (Inr state))"

definition store_Read :: "env \<Rightarrow> string \<Rightarrow> string \<Rightarrow> (error + mountState) prog" where
  "store_Read E stateDir volumeID =
     ifOk (statePath stateDir volumeID) Inl (\<lambda>path.
     orReturn (Lstat E path) Inl (\<lambda>info.
       if \<not> IsRegular info \<or> fi_perm info \<noteq> perm600 \<or> int maxMountStateLength < fi_size info
       then State_Monad.return (Inl (Errorf ''mount state file type, mode, or size is invalid''))
       else
     orReturn (ReadFile E path) Inl (\<lambda>body.
       if length body = 0 \<or> maxMountStateLength < length body
       then State_Monad.return (Inl (Errorf ''mount state file size is invalid''))
       else
     ifOk (decodeMountState E body) Inl (\<lambda>state.
       if VolumeID state \<noteq> volumeID
       then State_Monad.return (Inl (Errorf ''mount state volume ID does not match filename''))
       else State_Monad.return (Inr state)))))"

text \<open>The current state under the lock: no file is no state.\<close>

definition store_Current :: "env \<Rightarrow> string \<Rightarrow> string \<Rightarrow> (error + mountState option) prog" where
  "store_Current E stateDir volumeID = do {
     r \<leftarrow> store_Read E stateDir volumeID;
     case r of
       Inl e \<Rightarrow> if errors_Is e ErrNotExist then State_Monad.return (Inr None)
               else State_Monad.return (Inl e)
     | Inr current \<Rightarrow> State_Monad.return (Inr (Some current)) }"

definition store_Write :: "env \<Rightarrow> string \<Rightarrow> mountState \<Rightarrow> error option prog" where
  "store_Write E stateDir state =
     withLock ''mountStateInventory'' (
       ifNil (validateMountState state) Some (
       ifOk (statePath stateDir (VolumeID state)) Some (\<lambda>path.
       withLock path (
         orReturn (store_Current E stateDir (VolumeID state))
           (\<lambda>e. Some (Wrap ''read current mount state'' e)) (\<lambda>current.
         ifNil (validateMountStateTransition current state) Some (
         let body = e_MarshalState E state @ [CHR 0x0A] in
         if maxMountStateLength < length body
         then State_Monad.return (Some (Errorf ''mount state file size is invalid''))
         else writeAtomicStateFile E stateDir path ''mount state'' body))))))"

definition deleteSync :: "env \<Rightarrow> string \<Rightarrow> error option prog" where
  "deleteSync E stateDir =
     unlessErr (OpenFile E stateDir O_RDONLY 0) Some (do {
       r \<leftarrow> FileSync E stateDir;
       case r of
         Some e \<Rightarrow> do { FileClose E stateDir; State_Monad.return (Some e) }
       | None \<Rightarrow> FileClose E stateDir })"

definition store_Delete :: "env \<Rightarrow> string \<Rightarrow> mountState \<Rightarrow> error option prog" where
  "store_Delete E stateDir expected =
     withLock ''mountStateInventory'' (
       ifNil (validateMountState expected) Some (
       if Phase expected \<noteq> mountStatePhaseStarting \<and> Phase expected \<noteq> mountStatePhaseStopping
       then State_Monad.return (Some (Errorf ''mount state may only be deleted from starting or stopping phase''))
       else
       ifOk (statePath stateDir (VolumeID expected)) Some (\<lambda>path.
       withLock path (do {
         r \<leftarrow> store_Read E stateDir (VolumeID expected);
         case r of
           Inl e \<Rightarrow> if errors_Is e ErrNotExist then State_Monad.return None else State_Monad.return (Some e)
         | Inr current \<Rightarrow>
             if current \<noteq> expected
             then State_Monad.return (Some (Errorf ''mount state changed before deletion''))
             else do {
               rm \<leftarrow> Remove E path;
               case rm of
                 Some e \<Rightarrow>
                   if errors_Is e ErrNotExist then deleteSync E stateDir else State_Monad.return (Some e)
               | None \<Rightarrow> deleteSync E stateDir }}))))"

section \<open>The repository interface\<close>

text \<open>\<open>mountStateRepository\<close> of mount_reconcile_starting.go.\<close>

record mountStateRepository =
  repo_Read :: "string \<Rightarrow> (error + mountState) prog"
  repo_Write :: "mountState \<Rightarrow> error option prog"
  repo_Delete :: "mountState \<Rightarrow> error option prog"

definition mountStateStore :: "env \<Rightarrow> string \<Rightarrow> mountStateRepository" where
  "mountStateStore E stateDir =
     \<lparr>repo_Read = store_Read E stateDir, repo_Write = store_Write E stateDir, repo_Delete = store_Delete E stateDir\<rparr>"

section \<open>The file system behind the history\<close>

text \<open>
  The contents a sequence of file events leaves, newest event first: creation, appended bytes,
  rename, link and removal, when they succeed. A crash at any point shows the contents of a
  suffix of the history.
\<close>

type_synonym filesystem = "string \<rightharpoonup> bytes"

fun fsStep :: "event \<Rightarrow> filesystem \<Rightarrow> filesystem" where
  "fsStep (EvOpenFile p O_WRONLY_CREATE_EXCL mode None) fs = fs(p \<mapsto> [])"
| "fsStep (EvFileWrite p body (Inr n)) fs =
     (case fs p of None \<Rightarrow> fs | Some old \<Rightarrow> fs(p \<mapsto> old @ take (nat n) body))"
| "fsStep (EvRename a b None) fs = (fs(b := fs a))(a := None)"
| "fsStep (EvLink a b None) fs = fs(b := fs a)"
| "fsStep (EvRemove p None) fs = fs(p := None)"
| "fsStep e fs = fs"

definition fsReplay :: "event list \<Rightarrow> filesystem \<Rightarrow> filesystem" where
  "fsReplay n fs = foldr fsStep n fs"

lemma fsReplay_simps [simp]: "fsReplay [] fs = fs" "fsReplay (e # n) fs = fsStep e (fsReplay n fs)"
  "fsReplay (n2 @ n1) fs = fsReplay n2 (fsReplay n1 fs)"
  by (simp_all add: fsReplay_def)

text \<open>Events that leave the file at \<open>p\<close> alone.\<close>

fun touches :: "string \<Rightarrow> event \<Rightarrow> bool" where
  "touches p (EvOpenFile q O_WRONLY_CREATE_EXCL mode r) = (p = q)"
| "touches p (EvFileWrite q body r) = (p = q)"
| "touches p (EvRename a b r) = (p = a \<or> p = b)"
| "touches p (EvLink a b r) = (p = b)"
| "touches p (EvRemove q r) = (p = q)"
| "touches p e = False"

lemma fsStep_untouched: "\<not> touches p e \<Longrightarrow> fsStep e fs p = fs p"
  by (cases "(e, fs)" rule: fsStep.cases) (auto split: option.splits)

lemma fsReplay_untouched: "\<forall>e\<in>set n. \<not> touches p e \<Longrightarrow> fsReplay n fs p = fs p"
  by (induction n) (auto simp: fsStep_untouched)

section \<open>Atomicity\<close>

lemma path_Base_Join:
  assumes "cleanAbs d" and "goodComp c"
  shows "path_Base (path_Join [d, c]) = c"
proof (cases "d = ''/''")
  case True
  have "CHR ''/'' \<notin> set c" "c \<noteq> []" "c \<noteq> ''.''" "c \<noteq> ''..''" using assms(2) by (auto simp: goodComp_def)
  then have "pathComps (''//'' @ c) = [c]" by (simp add: pathComps_def Split_noop)
  then have "path_Join [d, c] = [] @ ''/'' @ c" by (simp add: True path_Join_def Clean_def)
  then show ?thesis using path_Base_child [OF assms(2), of "[]"] by simp
next
  case False
  then show ?thesis using path_Join_child [OF assms(1) False assms(2)] path_Base_child [OF assms(2)] by simp
qed

lemma volumeID_chars: "volumeIDPattern v \<Longrightarrow> CHR ''/'' \<notin> set v \<and> v \<noteq> [] \<and> hd v = CHR ''d''"
proof -
  assume "volumeIDPattern v"
  then consider "HasPrefix v ''drive9-''" "hexDigits 32 (drop 7 v)" | "HasPrefix v ''drive9-root-''" "hexDigits 32 (drop 12 v)"
    by (auto simp: volumeIDPattern_def)
  then show ?thesis
  proof cases
    case 1
    then obtain r where "v = ''drive9-'' @ r" by (auto elim: HasPrefixE)
    with 1 show ?thesis by (auto simp: hexDigits_def list_all_iff isLowerHex_def isDigit_def)
  next
    case 2
    then obtain r where "v = ''drive9-root-'' @ r" by (auto elim: HasPrefixE)
    with 2 show ?thesis by (auto simp: hexDigits_def list_all_iff isLowerHex_def isDigit_def)
  qed
qed

lemma statePath_Inr:
  assumes "statePath dir v = Inr p"
  shows "volumeIDPattern v" and "p = path_Join [dir, v @ ''.json'']" and "goodComp (v @ ''.json'')"
proof -
  show v: "volumeIDPattern v" and "p = path_Join [dir, v @ ''.json'']"
    using assms by (auto simp: statePath_def split: if_splits)
  show "goodComp (v @ ''.json'')" using volumeID_chars [OF v] by (cases v) (auto simp: goodComp_def)
qed

lemma atomicTempPath_neq:
  assumes "cleanAbs dir" and "goodComp c" and "hd c \<noteq> CHR ''.''" and "attemptIDPattern a"
  shows "atomicTempPath dir (path_Join [dir, c]) a \<noteq> path_Join [dir, c]"
proof
  have b: "path_Base (path_Join [dir, c]) = c" using assms(1,2) by (rule path_Base_Join)
  have "CHR ''/'' \<notin> set a"
    using assms(4) by (auto simp: attemptIDPattern_def hexDigits_def list_all_iff isLowerHex_def isDigit_def)
  then have g: "goodComp (''.'' @ c @ ''.'' @ a @ ''.tmp'')" using assms(2) by (auto simp: goodComp_def)
  assume "atomicTempPath dir (path_Join [dir, c]) a = path_Join [dir, c]"
  then have "path_Base (path_Join [dir, ''.'' @ c @ ''.'' @ a @ ''.tmp'']) = c"
    using b by (simp add: atomicTempPath_def)
  then have "''.'' @ c @ ''.'' @ a @ ''.tmp'' = c" using path_Base_Join [OF assms(1) g] by simp
  then have "length (''.'' @ c @ ''.'' @ a @ ''.tmp'') = length c" by (rule arg_cong)
  then show False by simp
qed

definition quiet :: "string \<Rightarrow> event list \<Rightarrow> bool" where
  "quiet p n \<longleftrightarrow> (\<forall>e\<in>set n. \<not> touches p e)"

lemma quiet_simps [simp]: "quiet p []" "quiet p (e # n) \<longleftrightarrow> \<not> touches p e \<and> quiet p n"
  "quiet p (n2 @ n1) \<longleftrightarrow> quiet p n2 \<and> quiet p n1"
  by (auto simp: quiet_def)

lemma quiet_replay: "quiet p n \<Longrightarrow> fsReplay n fs p = fs p"
  by (simp add: quiet_def fsReplay_untouched)

lemma emits_writeHostFile:
  "emits (writeHostFile E file body) (\<lambda>r n. (\<forall>e\<in>set n. \<exists>b x. e = EvFileWrite file b x)
     \<and> (r = None \<longrightarrow> (\<forall>fs old. fs file = Some old \<longrightarrow> fsReplay n fs file = Some (old @ body))))"
proof (induction E "file" body rule: writeHostFile.induct)
  case (1 E "file" body)
  show ?case
  proof (cases "body = []")
    case True
    then show ?thesis by (subst writeHostFile.simps) (auto intro: emits_return)
  next
    case ne: False
    have step: "emits (writeHostFile E file (drop (nat w) body)) (\<lambda>r n.
        (\<forall>e\<in>set (n @ [EvFileWrite file body (Inr w)]). \<exists>b x. e = EvFileWrite file b x)
        \<and> (r = None \<longrightarrow> (\<forall>fs old. fs file = Some old \<longrightarrow>
             fsReplay (n @ [EvFileWrite file body (Inr w)]) fs file = Some (old @ body))))"
      if "\<not> (w \<le> 0 \<or> int (length body) < w)" for w
    proof (rule emits_conseq [OF 1 [OF ne that]])
      fix r n
      assume ih: "(\<forall>e\<in>set n. \<exists>b x. e = EvFileWrite file b x)
        \<and> (r = None \<longrightarrow> (\<forall>fs old. fs file = Some old \<longrightarrow> fsReplay n fs file = Some (old @ drop (nat w) body)))"
      have "fsReplay n (fsStep (EvFileWrite file body (Inr w)) fs) file = Some (old @ body)"
        if "r = None" "fs file = Some old" for fs old
        using ih that by (simp add: append_take_drop_id)
      with ih show "(\<forall>e\<in>set (n @ [EvFileWrite file body (Inr w)]). \<exists>b x. e = EvFileWrite file b x)
        \<and> (r = None \<longrightarrow> (\<forall>fs old. fs file = Some old \<longrightarrow>
             fsReplay (n @ [EvFileWrite file body (Inr w)]) fs file = Some (old @ body)))" by auto
    qed
    show ?thesis
      using ne
      by (subst writeHostFile.simps) (auto simp: FileWrite_def intro!: emits_wp intro: step split: sum.split)
  qed
qed

text \<open>
  What an atomic replacement leaves in the history: nothing that touches the path, or exactly one
  rename onto it, of a temporary file that then holds the whole body, synced and closed; a nil
  result means the rename happened and the directory was synced after it.
\<close>

definition replaced :: "string \<Rightarrow> string \<Rightarrow> bytes \<Rightarrow> error option \<Rightarrow> event list \<Rightarrow> bool" where
  "replaced dir path body r n \<longleftrightarrow>
     (quiet path n \<and> r \<noteq> None)
     \<or> (\<exists>temp after rr before.
          n = after @ EvRename temp path rr # before \<and> temp \<noteq> path \<and> quiet path before \<and> quiet path after
          \<and> EvFileSync temp None \<in> set before \<and> (\<forall>fs. fsReplay before fs temp = Some body)
          \<and> (r = None \<longrightarrow> rr = None \<and> EvFileSync dir None \<in> set after))"

lemma emits_syncDirectory:
  "emits (syncDirectory E dir kind) (\<lambda>r n. quiet path n \<and> (r = None \<longrightarrow> EvFileSync dir None \<in> set n))"
  unfolding syncDirectory_def host_defs by (intro emits_wp) auto

lemma emits_removeTemp: "path \<noteq> temp \<Longrightarrow> emits (removeTemp E temp e) (\<lambda>r n. quiet path n \<and> r \<noteq> None)"
  unfolding removeTemp_def host_defs by (intro emits_wp) auto

lemma emits_closeAndRemoveTemp:
  "path \<noteq> temp \<Longrightarrow> emits (closeAndRemoveTemp E temp e) (\<lambda>r n. quiet path n \<and> r \<noteq> None)"
  unfolding closeAndRemoveTemp_def removeTemp_def host_defs by (intro emits_wp) auto

lemma replaced_quiet: "quiet path n \<and> r \<noteq> None \<Longrightarrow> replaced dir path body r n"
  by (simp add: replaced_def)

lemma replacedI:
  "temp \<noteq> path \<Longrightarrow> quiet path earlier \<Longrightarrow> quiet path later \<Longrightarrow> EvFileSync temp None \<in> set earlier \<Longrightarrow>
   (\<And>fs. fsReplay earlier fs temp = Some body) \<Longrightarrow> (r = None \<longrightarrow> rr = None \<and> EvFileSync dir None \<in> set later) \<Longrightarrow>
   replaced dir path body r (later @ EvRename temp path rr # earlier)"
  unfolding replaced_def by blast

lemma emits_publishTemp:
  assumes ne: "temp \<noteq> path" and q: "quiet path n1"
    and full: "\<And>fs. fsReplay n1 fs temp = Some body"
  shows "emits (publishTemp E dir path kind temp) (\<lambda>r n. replaced dir path body r (n @ n1))"
  unfolding publishTemp_def Chmod_def FileSync_def FileClose_def Rename_def
proof (intro emits_wp, goal_cases)
  case (1 c s cl rn)
  let ?before = "EvFileClose temp None # EvFileSync temp None # EvChmod temp perm600 None # n1"
  have "replaced dir path body r (n @ EvRename temp path None # ?before)"
    if "quiet path n" "r = None \<longrightarrow> EvFileSync dir None \<in> set n" for r n
    using that ne q full by (intro replacedI) auto
  then show ?case using 1 by (intro emits_conseq [OF emits_syncDirectory [of E dir kind path]]) simp
next
  case (2 c s cl rn e)
  let ?before = "EvFileClose temp None # EvFileSync temp None # EvChmod temp perm600 None # n1"
  have "replaced dir path body r (n @ EvRename temp path (Some e) # ?before)"
    if "quiet path n" "r \<noteq> None" for r n
    using that ne q full by (intro replacedI) auto
  then show ?case using 2 ne by (intro emits_conseq [OF emits_removeTemp [of path]]) auto
qed (use ne q in \<open>auto intro!: replaced_quiet emits_conseq [OF emits_closeAndRemoveTemp [of path]]
        emits_conseq [OF emits_removeTemp [of path]]\<close>)

lemma emits_writeAtomicStateFile:
  assumes fresh: "\<And>a. attemptIDPattern a \<Longrightarrow> atomicTempPath dir path a \<noteq> path"
  shows "emits (writeAtomicStateFile E dir path kind body) (replaced dir path body)"
proof -
  have main: "emits (do {
           w \<leftarrow> writeHostFile E temp body;
           case w of
             Some e \<Rightarrow> closeAndRemoveTemp E temp (Wrap (''write '' @ kind @ '' temporary file'') e)
           | None \<Rightarrow> publishTemp E dir path kind temp })
      (\<lambda>r n. replaced dir path body r (n @ m @ [EvOpenFile temp O_WRONLY_CREATE_EXCL perm600 None] @ m'))"
    if ne: "temp \<noteq> path" and m: "m = []" "quiet path m'" for temp m m'
  proof (rule emits_bind_pre [OF emits_writeHostFile])
    let ?old = "EvOpenFile temp O_WRONLY_CREATE_EXCL perm600 None # m'"
    fix w :: "error option" and n1
    assume w: "(\<forall>e\<in>set n1. \<exists>b x. e = EvFileWrite temp b x)
      \<and> (w = None \<longrightarrow> (\<forall>fs old. fs temp = Some old \<longrightarrow> fsReplay n1 fs temp = Some (old @ body)))"
    have q1: "quiet path (n1 @ ?old)" using w ne m by (fastforce simp: quiet_def)
    have full: "fsReplay (n1 @ ?old) fs temp = Some body" if "w = None" for fs
      using w that by simp
    show "emits (case w of
             Some e \<Rightarrow> closeAndRemoveTemp E temp (Wrap (''write '' @ kind @ '' temporary file'') e)
           | None \<Rightarrow> publishTemp E dir path kind temp)
      (\<lambda>r n. replaced dir path body r ((n @ n1) @ m @ [EvOpenFile temp O_WRONLY_CREATE_EXCL perm600 None] @ m'))"
    proof (cases w)
      case None
      then show ?thesis using emits_publishTemp [OF ne q1 full] m by simp
    next
      case (Some e)
      then show ?thesis using q1 m ne
        by (auto intro!: replaced_quiet emits_conseq [OF emits_closeAndRemoveTemp [of path]])
    qed
  qed
  have fresh': "attemptIDPattern a \<Longrightarrow> path \<noteq> atomicTempPath dir path a" for a using fresh by metis
  show ?thesis
    unfolding writeAtomicStateFile_def NewAttemptID_def OpenFile_def
  proof (intro emits_wp, goal_cases)
    case (4 id a)
    then show ?case using main [OF fresh [of a], of "[]"] by simp
  qed (auto intro!: replaced_quiet dest: fresh')
qed

text \<open>Whatever the point of a crash, the file holds the old contents or the whole new body.\<close>

lemma append_eq_Cons_append:
  "later @ mid = after @ e # before \<Longrightarrow>
   (\<exists>x. mid = x @ e # before \<and> after = later @ x) \<or> (\<exists>x. before = x @ mid)"
proof (induction later arbitrary: after)
  case Nil
  then show ?case by auto
next
  case (Cons y later)
  then show ?case by (cases after) auto
qed

lemma replaced_crash:
  assumes "replaced dir path body r n" and "n = later @ mid"
  shows "fsReplay mid fs path = fs path \<or> fsReplay mid fs path = Some body"
proof -
  from assms(1) consider "quiet path n" | temp after rr before where
      "n = after @ EvRename temp path rr # before" "temp \<noteq> path" "quiet path before" "quiet path after"
      "\<forall>fs. fsReplay before fs temp = Some body"
    unfolding replaced_def by blast
  then show ?thesis
  proof cases
    case 1
    then show ?thesis using assms(2) by (simp add: quiet_replay)
  next
    case 2
    from append_eq_Cons_append [OF assms(2) [symmetric, unfolded 2(1)]] show ?thesis
    proof (elim disjE exE conjE)
      fix x
      assume "mid = x @ EvRename temp path rr # before" "after = later @ x"
      then show ?thesis using 2 by (cases rr) (auto simp: quiet_replay)
    next
      fix x
      assume "before = x @ mid"
      then show ?thesis using 2(3) by (simp add: quiet_replay)
    qed
  qed
qed

lemma replaced_success:
  "replaced dir path body None n \<Longrightarrow> fsReplay n fs path = Some body \<and> EvFileSync dir None \<in> set n"
  unfolding replaced_def by (auto simp: quiet_replay)

section \<open>What a read saw\<close>

definition plainError :: "error \<Rightarrow> bool" where
  "plainError e \<longleftrightarrow> (\<forall>t. \<not> errors_Is e t)"

lemma plainError_simps [simp]: "plainError (Errorf m)" "plainError (Wrap m e) \<longleftrightarrow> plainError e"
  by (simp_all add: plainError_def)

definition plainResult :: "error option \<Rightarrow> bool" where
  "plainResult r \<longleftrightarrow> (\<forall>e. r = Some e \<longrightarrow> plainError e)"

lemma plainResult_simps [simp]: "plainResult None" "plainResult (Some e) \<longleftrightarrow> plainError e"
  by (simp_all add: plainResult_def)

lemma plainResult_first_error: "\<forall>r\<in>set rs. plainResult r \<Longrightarrow> plainResult (first_error rs)"
  by (induction rs rule: first_error.induct) auto

lemma plainResult_fail_if [simp]: "plainResult (fail_if b e) \<longleftrightarrow> (b \<longrightarrow> plainError e)"
  by (simp add: fail_if_def)

lemma plainResult_if: "(b \<Longrightarrow> plainResult r) \<Longrightarrow> (\<not> b \<Longrightarrow> plainResult r') \<Longrightarrow> plainResult (if b then r else r')"
  by simp

lemma plainResult_sum: "(\<And>e. r = Inl e \<Longrightarrow> plainResult (f e)) \<Longrightarrow> (\<And>x. plainResult (g x)) \<Longrightarrow>
    plainResult (case r of Inl e \<Rightarrow> f e | Inr x \<Rightarrow> g x)"
  by (cases r) auto

lemma plainResult_option: "plainResult m \<Longrightarrow> (\<And>x. r = Some x \<Longrightarrow> plainResult (g x)) \<Longrightarrow>
    plainResult (case r of None \<Rightarrow> m | Some x \<Rightarrow> g x)"
  by (cases r) auto

lemmas plain_intros = plainResult_if plainResult_sum plainResult_option

lemma plain_validators:
  "plainResult (validateMountStateArgs args r t)" "plainResult (validateContentAddressedBinaryPath p)"
  "plainResult (validatePIDStartTime v)"
proof -
  show "plainResult (validateContentAddressedBinaryPath p)" by (simp add: validateContentAddressedBinaryPath_def)
  show "plainResult (validatePIDStartTime v)" unfolding validatePIDStartTime_def by (intro plain_intros) simp_all
  have "plainResult (first_error (map mountArgError args))"
    by (rule plainResult_first_error) (auto simp: mountArgError_def)
  then show "plainResult (validateMountStateArgs args r t)"
    unfolding validateMountStateArgs_def by (intro plain_intros) (simp_all add: plainResult_def)
qed

lemma plain_process: "plainResult (validateActiveProcessIdentity s c)"
  unfolding validateActiveProcessIdentity_def
  by (rule plainResult_first_error) (auto simp: plain_validators intro!: plain_intros)

lemma plain_wrapped: "plainResult r \<Longrightarrow> r = Some e \<Longrightarrow> plainError e"
  by (simp add: plainResult_def)

lemma plain_fallback:
  "plainResult (case validateContentAddressedBinaryPath p of
      Some e \<Rightarrow> Some (Wrap m e)
    | None \<Rightarrow> (case validateMountStateArgs args r t of Some e \<Rightarrow> Some (Wrap m' e) | None \<Rightarrow> None))"
  using plain_wrapped [OF plain_validators(1)] plain_wrapped [OF plain_validators(2)]
  by (intro plain_intros) simp_all

lemma plain_phases:
  "plainResult (validateStartingMountState s n c)" "plainResult (validateActiveMountState s c)"
  "plainResult (validateStoppingMountState s n c)"
proof -
  show "plainResult (validateStartingMountState s n c)"
    unfolding validateStartingMountState_def
    by (rule plainResult_first_error)
      (auto simp only: list.set insert_iff empty_iff ball_simps plainResult_fail_if plainError_simps plainResult_simps
        intro!: plain_fallback plainResult_if plainResult_sum)
  show "plainResult (validateActiveMountState s c)"
    unfolding validateActiveMountState_def
    by (rule plainResult_first_error) (simp add: plain_process)
  show "plainResult (validateStoppingMountState s n c)"
    unfolding validateStoppingMountState_def
    by (rule plainResult_first_error)
      (auto simp only: list.set insert_iff empty_iff ball_simps plainResult_fail_if plainError_simps plainResult_simps
        intro!: plain_process plainResult_if plainResult_sum)
qed

lemma validate_plain: "plainResult (validateMountState s)"
proof -
  have t: "parseCanonicalStateTime v = Inl e \<Longrightarrow> plainError e" for v e
    by (auto simp: parseCanonicalStateTime_def split: option.splits if_splits)
  have ph: "plainResult (case Phase s of
                 mountStatePhaseStarting \<Rightarrow> validateStartingMountState s names createdAt
               | mountStatePhaseActive \<Rightarrow> validateActiveMountState s createdAt
               | mountStatePhaseStopping \<Rightarrow> validateStoppingMountState s names createdAt
               | _ \<Rightarrow> Some (Errorf ''invalid mount state phase''))" for names createdAt
    by (cases "Phase s") (simp_all add: plain_phases)
  show ?thesis
    unfolding validateMountState_def
    using plain_wrapped [OF plain_validators(1)] plain_wrapped [OF plain_validators(2)] t
    by (intro plain_intros) (simp_all add: ph)
qed

lemma decodeMountState_plain: "decodeMountState E body = Inl e \<Longrightarrow> plainError e"
  unfolding decodeMountState_def echeck_def
  using plain_wrapped [OF validate_plain] by (auto split: option.splits)

lemma decodeMountState_valid: "decodeMountState E body = Inr s \<Longrightarrow> validateMountState s = None"
  by (auto simp: decodeMountState_def split: option.splits)

text \<open>
  Reading the state of a volume looks at its file and nothing else; a state comes from the bytes
  that were read, and \<open>ErrNotExist\<close> from the file system.
\<close>

definition readEvents :: "event list \<Rightarrow> bool" where
  "readEvents n \<longleftrightarrow> (\<forall>e\<in>set n. (\<exists>p x. e = EvLstat p x) \<or> (\<exists>p x. e = EvReadFile p x))"

definition sawState :: "env \<Rightarrow> string \<Rightarrow> mountState option \<Rightarrow> event list \<Rightarrow> bool" where
  "sawState E p current n \<longleftrightarrow>
     (case current of
        None \<Rightarrow> \<exists>e. errors_Is e ErrNotExist \<and> (EvLstat p (Inl e) \<in> set n \<or> EvReadFile p (Inl e) \<in> set n)
      | Some s \<Rightarrow> \<exists>body. EvReadFile p (Inr body) \<in> set n \<and> decodeMountState E body = Inr s)"

lemma sawState_append: "sawState E p c n \<Longrightarrow> sawState E p c (n2 @ n @ n1)"
  by (auto simp: sawState_def split: option.splits)

lemma readEvents_quiet: "readEvents n \<Longrightarrow> quiet p n"
  by (fastforce simp: readEvents_def quiet_def)

lemma emits_store_Read:
  "emits (store_Read E dir v) (\<lambda>r n. readEvents n
     \<and> (\<forall>s. r = Inr s \<longrightarrow> VolumeID s = v \<and> validateMountState s = None)
     \<and> (\<forall>p. statePath dir v = Inr p \<longrightarrow>
          (\<forall>s. r = Inr s \<longrightarrow> sawState E p (Some s) n)
          \<and> (\<forall>e. r = Inl e \<longrightarrow> errors_Is e ErrNotExist \<longrightarrow> sawState E p None n)))"
  unfolding store_Read_def Lstat_def ReadFile_def
  by (intro emits_wp)
    (auto simp: readEvents_def sawState_def plainError_def dest: decodeMountState_valid decodeMountState_plain)

lemma emits_store_Current:
  "emits (store_Current E dir v) (\<lambda>r n. readEvents n
     \<and> (\<forall>s. r = Inr (Some s) \<longrightarrow> VolumeID s = v \<and> validateMountState s = None)
     \<and> (\<forall>p c. statePath dir v = Inr p \<longrightarrow> r = Inr c \<longrightarrow> sawState E p c n))"
  unfolding store_Current_def
  by (rule emits_bind_pre [OF emits_store_Read]) (intro emits_wp, auto)

section \<open>What the store writes\<close>

text \<open>
  The history of a write: reads, then an atomic replacement by the encoded state, which is a
  legal successor of what was read; all under the lock of the path.
\<close>

definition wrote :: "env \<Rightarrow> string \<Rightarrow> mountState \<Rightarrow> error option \<Rightarrow> event list \<Rightarrow> bool" where
  "wrote E dir s r n \<longleftrightarrow>
     (\<forall>p. statePath dir (VolumeID s) = Inr p \<longrightarrow>
        (quiet p n \<and> r \<noteq> None)
        \<or> (\<exists>m later earlier current. mountWrite current s \<and> sawState E p current earlier
             \<and> replaced dir p (e_MarshalState E s @ [CHR 0x0A]) r m \<and> n = later @ m @ earlier
             \<and> quiet p later \<and> quiet p earlier \<and> EvLock p \<in> set earlier \<and> EvUnlock p \<in> set later))"

lemma statePath_fresh:
  assumes "statePath dir v = Inr p" and "Clean dir = dir" and "attemptIDPattern a"
  shows "atomicTempPath dir p a \<noteq> p"
proof -
  have "IsAbs dir" using assms(1) by (auto simp: statePath_def split: if_splits)
  then have c: "cleanAbs dir" using assms(2) by (simp add: cleanAbs_def)
  have "hd (v @ ''.json'') \<noteq> CHR ''.''" using volumeID_chars [OF statePath_Inr(1) [OF assms(1)]] by (cases v) auto
  then show ?thesis using atomicTempPath_neq [OF c statePath_Inr(3) [OF assms(1)] _ assms(3)]
    statePath_Inr(2) [OF assms(1)] by simp
qed

lemma wrote_quiet: "(\<And>p. quiet p n) \<Longrightarrow> r \<noteq> None \<Longrightarrow> wrote E dir s r n"
  by (simp add: wrote_def)

lemma emits_store_Write:
  assumes "Clean dir = dir"
  shows "emits (store_Write E dir s) (wrote E dir s)"
  unfolding store_Write_def
proof (rule emits_withLock, rule emits_ifNil, goal_cases)
  case (1 e)
  then show ?case by (intro wrote_quiet) auto
next
  case 2
  show ?case
  proof (rule emits_ifOk, goal_cases)
    case (1 e)
    then show ?case by (intro wrote_quiet) auto
  next
    case (2 p)
    show ?case
    proof (rule emits_withLock, rule emits_orReturn [OF emits_store_Current], goal_cases)
      case (1 e n)
      then show ?case by (intro wrote_quiet) (auto simp: readEvents_quiet)
    next
      case (2 current n1)
      let ?before = "n1 @ [EvLock p, EvLock ''mountStateInventory'']"
      let ?after = "[EvUnlock ''mountStateInventory'', EvUnlock p]"
      have q: "quiet p' n1" for p' using 2 readEvents_quiet by blast
      show ?case
      proof (rule emits_ifNil, goal_cases)
        case (1 e)
        then show ?case using q by (intro wrote_quiet) auto
      next
        case legal: 2
        have w: "wrote E dir s r (?after @ m @ ?before)"
          if "replaced dir p (e_MarshalState E s @ [CHR 0x0A]) r m" for r m
          unfolding wrote_def
          using that legal 2 q \<open>statePath dir (VolumeID s) = Inr p\<close> sawState_append [of E p current n1 "[]"]
          by (intro allI impI disjI2 exI [of _ m] exI [of _ ?after] exI [of _ ?before] exI [of _ current])
            (auto simp: mountWrite_def)
        have wr: "emits (writeAtomicStateFile E dir p ''mount state'' (e_MarshalState E s @ [CHR 0x0A]))
            (replaced dir p (e_MarshalState E s @ [CHR 0x0A]))"
          by (rule emits_writeAtomicStateFile)
            (rule statePath_fresh [OF \<open>statePath dir (VolumeID s) = Inr p\<close> assms])
        show ?case
        proof (rule emits_wp_let, rule emits_wp_if, goal_cases)
          case 1
          then show ?case using q by (intro emits_return wrote_quiet) auto
        next
          case 2
          show ?case by (rule emits_conseq [OF wr]) (drule w, simp)
        qed
      qed
    qed
  qed
qed

section \<open>Deletion\<close>

definition deleted :: "env \<Rightarrow> string \<Rightarrow> mountState \<Rightarrow> error option \<Rightarrow> event list \<Rightarrow> bool" where
  "deleted E dir s r n \<longleftrightarrow>
     (\<forall>p. statePath dir (VolumeID s) = Inr p \<longrightarrow>
        (quiet p n \<and> (r = None \<longrightarrow> sawState E p None n))
        \<or> (\<exists>later rr earlier. n = later @ EvRemove p rr # earlier \<and> quiet p later \<and> quiet p earlier
             \<and> sawState E p (Some s) earlier \<and> Phase s \<in> {mountStatePhaseStarting, mountStatePhaseStopping}
             \<and> EvLock p \<in> set earlier \<and> EvUnlock p \<in> set later
             \<and> (r = None \<longrightarrow> EvFileSync dir None \<in> set later
                  \<and> (rr = None \<or> (\<exists>e. rr = Some e \<and> errors_Is e ErrNotExist)))))"

lemma emits_deleteSync:
  "emits (deleteSync E dir) (\<lambda>r n. quiet p n \<and> (r = None \<longrightarrow> EvFileSync dir None \<in> set n))"
  unfolding deleteSync_def host_defs
  by (intro emits_wp emits_conseq [OF emits_op]) auto

lemma emits_store_Delete: "emits (store_Delete E dir s) (deleted E dir s)"
  unfolding store_Delete_def
proof (rule emits_withLock, rule emits_ifNil, goal_cases)
  case (1 e)
  then show ?case by (simp add: deleted_def)
next
  case 2
  show ?case
  proof (rule emits_wp_if, goal_cases)
    case 1
    then show ?case by (intro emits_return) (simp add: deleted_def)
  next
    case ph: 2
    show ?case
    proof (rule emits_ifOk, goal_cases)
      case (1 e)
      then show ?case by (simp add: deleted_def)
    next
      case p: (2 p)
      show ?case
      proof (rule emits_withLock, rule emits_bind_pre [OF emits_store_Read], goal_cases)
        case (1 r n1)
        let ?before = "n1 @ [EvLock p, EvLock ''mountStateInventory'']"
        let ?after = "[EvUnlock ''mountStateInventory'', EvUnlock p]"
        have q: "quiet p' n1" for p' using 1 readEvents_quiet by blast
        have gone: "deleted E dir s r' (?after @ m @ EvRemove p rr # ?before)"
          if "quiet p m" "r = Inr s" "r' = None \<longrightarrow> EvFileSync dir None \<in> set m \<and> (rr = None \<or> (\<exists>e. rr = Some e \<and> errors_Is e ErrNotExist))"
          for r' rr m
          unfolding deleted_def
        proof (intro allI impI disjI2, goal_cases)
          case (1 p')
          then have "p' = p" using p by simp
          moreover have "sawState E p (Some s) ?before"
            using \<open>readEvents n1 \<and> _\<close> that(2) p sawState_append [of E p "Some s" n1 "[]"] by auto
          ultimately show ?case using that q ph
            by (intro exI [of _ "?after @ m"] exI [of _ rr] exI [of _ ?before]) auto
        qed
        have noop: "deleted E dir s r' (?after @ ?before)" if "r' = None \<longrightarrow> sawState E p None ?before" for r'
          unfolding deleted_def using q that p sawState_append [of E p None ?before ?after "[]"] by auto
        show ?case
        proof (rule emits_wp_sum, goal_cases)
          case (1 e)
          have "errors_Is e ErrNotExist \<Longrightarrow> sawState E p None ?before"
            using \<open>readEvents n1 \<and> _\<close> 1 p sawState_append [of E p None n1 "[]"] by auto
          then show ?case using noop [of None] noop [of "Some e"] by (intro emits_wp) auto
        next
          case (2 current)
          show ?case
          proof (rule emits_wp_if, goal_cases)
            case 1
            then show ?case using noop [of "Some (Errorf ''mount state changed before deletion'')"] by (intro emits_return) simp
          next
            case three: 2
            then have rs: "r = Inr s" using 2 by simp
            have sync: "emits (deleteSync E dir) (\<lambda>r' m. deleted E dir s r' (?after @ (m @ EvRemove p rr # n1 @ [EvLock p, EvLock ''mountStateInventory''])))"
              if "rr = None \<or> (\<exists>e. rr = Some e \<and> errors_Is e ErrNotExist)" for rr
              by (rule emits_conseq [OF emits_deleteSync [of E dir p]]) (use that rs gone in simp)
            have fail: "deleted E dir s (Some e) (?after @ [] @ EvRemove p (Some e) # ?before)" for e
              using rs by (intro gone) auto
            show ?case unfolding Remove_def
              by (intro emits_wp) (use sync fail in auto)
          qed
        qed
      qed
    qed
  qed
qed

section \<open>The store refines the lifecycle\<close>

text \<open>
  A history agrees with the file system it builds when every read returned what was there and
  every \<open>ErrNotExist\<close> was true.
\<close>

fun agrees :: "filesystem \<Rightarrow> event \<Rightarrow> bool" where
  "agrees fs (EvReadFile p (Inr body)) = (fs p = Some body)"
| "agrees fs (EvReadFile p (Inl e)) = (errors_Is e ErrNotExist \<longrightarrow> fs p = None)"
| "agrees fs (EvLstat p (Inl e)) = (errors_Is e ErrNotExist \<longrightarrow> fs p = None)"
| "agrees fs (EvRemove p (Some e)) = (errors_Is e ErrNotExist \<longrightarrow> fs p = None)"
| "agrees fs e = True"

fun consistent :: "filesystem \<Rightarrow> event list \<Rightarrow> bool" where
  "consistent fs [] = True"
| "consistent fs (e # n) = (agrees (fsReplay n fs) e \<and> consistent fs n)"

lemma consistent_append: "consistent fs (n2 @ n1) \<longleftrightarrow> consistent fs n1 \<and> consistent (fsReplay n1 fs) n2"
  by (induction n2) auto

lemma consistent_quiet: "consistent fs n \<Longrightarrow> quiet p n \<Longrightarrow> e \<in> set n \<Longrightarrow> \<exists>fs'. agrees fs' e \<and> fs' p = fs p"
proof (induction n)
  case (Cons e' n)
  show ?case
  proof (cases "e = e'")
    case True
    then show ?thesis using Cons.prems quiet_replay [of p n fs] by auto
  next
    case False
    then show ?thesis using Cons by auto
  qed
qed simp

text \<open>The state a file system stores for a path.\<close>

definition storedState :: "env \<Rightarrow> filesystem \<Rightarrow> string \<Rightarrow> mountState option" where
  "storedState E fs p =
     (case fs p of None \<Rightarrow> None
      | Some body \<Rightarrow> (case decodeMountState E body of Inl e \<Rightarrow> None | Inr s \<Rightarrow> Some s))"

lemma storedState_cong: "fs p = fs' p \<Longrightarrow> storedState E fs p = storedState E fs' p"
  by (simp add: storedState_def)

lemma saw_stored: "consistent fs n \<Longrightarrow> quiet p n \<Longrightarrow> sawState E p c n \<Longrightarrow> storedState E fs p = c"
proof (cases c)
  case None
  assume a: "consistent fs n" "quiet p n" "sawState E p c n"
  then obtain e where "errors_Is e ErrNotExist" "EvLstat p (Inl e) \<in> set n \<or> EvReadFile p (Inl e) \<in> set n"
    using None by (auto simp: sawState_def)
  then have "fs p = None" using consistent_quiet [OF a(1,2)] by (metis agrees.simps(2,3))
  then show ?thesis using None by (simp add: storedState_def)
next
  case (Some s)
  assume a: "consistent fs n" "quiet p n" "sawState E p c n"
  then obtain body where "EvReadFile p (Inr body) \<in> set n" "decodeMountState E body = Inr s"
    using Some by (auto simp: sawState_def)
  moreover from this have "fs p = Some body" using consistent_quiet [OF a(1,2)] by (metis agrees.simps(1))
  ultimately show ?thesis using Some by (simp add: storedState_def)
qed

text \<open>The JSON text of a state decodes to the state again.\<close>

definition codecOk :: "env \<Rightarrow> mountState \<Rightarrow> bool" where
  "codecOk E s \<longleftrightarrow> decodeMountState E (e_MarshalState E s @ [CHR 0x0A]) = Inr s"

lemma append_three:
  assumes "late @ mid = later @ m @ earlier"
  obtains (first) x where "earlier = x @ mid" | (second) x y where "m = y @ x" "mid = x @ earlier"
    | (third) x y where "later = y @ x" "mid = x @ m @ earlier"
proof -
  from assms consider us where "late = later @ us" "us @ mid = m @ earlier" | us where "later = late @ us" "mid = us @ m @ earlier"
    by (auto simp: append_eq_append_conv2)
  then show thesis
  proof cases
    case 1
    then consider vs where "us = m @ vs" "vs @ mid = earlier" | vs where "m = us @ vs" "mid = vs @ earlier"
      by (auto simp: append_eq_append_conv2)
    then show thesis using first second by cases metis+
  qed (rule third)
qed

lemma wrote_refines:
  assumes w: "wrote E dir s r n" and p: "statePath dir (VolumeID s) = Inr p" and codec: "codecOk E s"
    and con: "consistent fs n" and split: "n = late @ mid"
  shows "fsReplay mid fs p = fs p
    \<or> (mountWrite (storedState E fs p) s \<and> storedState E (fsReplay mid fs) p = Some s)"
    and "r = None \<Longrightarrow> storedState E (fsReplay n fs) p = Some s \<and> EvFileSync dir None \<in> set n"
proof -
  let ?body = "e_MarshalState E s @ [CHR 0x0A]"
  from w p consider (none) "quiet p n" "r \<noteq> None"
    | (some) m later earlier current where "mountWrite current s" "sawState E p current earlier"
        "replaced dir p ?body r m" "n = later @ m @ earlier" "quiet p later" "quiet p earlier"
    unfolding wrote_def by blast
  then have "(fsReplay mid fs p = fs p \<or> (mountWrite (storedState E fs p) s \<and> storedState E (fsReplay mid fs) p = Some s))
    \<and> (r = None \<longrightarrow> storedState E (fsReplay n fs) p = Some s \<and> EvFileSync dir None \<in> set n)"
  proof cases
    case none
    then show ?thesis using split by (auto simp: quiet_replay)
  next
    case some
    have cur: "storedState E fs p = current"
      using con some by (intro saw_stored) (auto simp: consistent_append)
    have new: "storedState E fs' p = Some s" if "fs' p = Some ?body" for fs'
      using codec that by (simp add: storedState_def codecOk_def)
    have m: "fsReplay x (fsReplay earlier fs) p = fs p \<or> fsReplay x (fsReplay earlier fs) p = Some ?body"
      if "m = y @ x" for x y
      using replaced_crash [OF some(3) that, of "fsReplay earlier fs"] some(6) by (simp add: quiet_replay)
    have "fsReplay mid fs p = fs p \<or> fsReplay mid fs p = Some ?body"
    proof -
      have "late @ mid = later @ m @ earlier" using split some(4) by simp
      then show ?thesis
      proof (cases rule: append_three)
        case first
        then show ?thesis using some(6) by (simp add: quiet_replay)
      next
        case second
        then show ?thesis using m by simp
      next
        case third
        then show ?thesis using m [of "[]" m] some(5) by (simp add: quiet_replay)
      qed
    qed
    moreover have "fsReplay n fs p = Some ?body \<and> EvFileSync dir None \<in> set n" if "r = None"
      using replaced_success [of dir p ?body m] some that by (simp add: quiet_replay)
    ultimately show ?thesis using cur new some(1) by auto
  qed
  then show "fsReplay mid fs p = fs p
    \<or> (mountWrite (storedState E fs p) s \<and> storedState E (fsReplay mid fs) p = Some s)"
    and "r = None \<Longrightarrow> storedState E (fsReplay n fs) p = Some s \<and> EvFileSync dir None \<in> set n" by auto
qed

lemma deleted_refines:
  assumes d: "deleted E dir s r n" and p: "statePath dir (VolumeID s) = Inr p"
    and con: "consistent fs n" and split: "n = late @ mid"
  shows "fsReplay mid fs p = fs p
    \<or> (storedState E fs p = Some s \<and> Phase s \<in> {mountStatePhaseStarting, mountStatePhaseStopping}
       \<and> fsReplay mid fs p = None)"
    and "r = None \<Longrightarrow> storedState E (fsReplay n fs) p = None"
proof -
  from d p consider (none) "quiet p n" "r = None \<longrightarrow> sawState E p None n"
    | (some) later rr earlier where "n = later @ EvRemove p rr # earlier" "quiet p later" "quiet p earlier"
        "sawState E p (Some s) earlier" "Phase s \<in> {mountStatePhaseStarting, mountStatePhaseStopping}"
        "r = None \<longrightarrow> (rr = None \<or> (\<exists>e. rr = Some e \<and> errors_Is e ErrNotExist))"
    unfolding deleted_def by blast
  then have "(fsReplay mid fs p = fs p
    \<or> (storedState E fs p = Some s \<and> Phase s \<in> {mountStatePhaseStarting, mountStatePhaseStopping}
       \<and> fsReplay mid fs p = None)) \<and> (r = None \<longrightarrow> storedState E (fsReplay n fs) p = None)"
  proof cases
    case none
    then show ?thesis using split con saw_stored [of fs n p E None] by (auto simp: quiet_replay storedState_def)
  next
    case some
    have cur: "storedState E fs p = Some s"
      using con some by (intro saw_stored) (auto simp: consistent_append)
    from append_eq_Cons_append [OF split [symmetric, unfolded some(1)]]
    have "fsReplay mid fs p = fs p \<or> fsReplay mid fs p = None"
    proof (elim disjE exE conjE)
      fix x
      assume "mid = x @ EvRemove p rr # earlier" "later = late @ x"
      then show ?thesis using some by (cases rr) (auto simp: quiet_replay)
    next
      fix x
      assume "earlier = x @ mid"
      then show ?thesis using some by (simp add: quiet_replay)
    qed
    moreover have "storedState E (fsReplay n fs) p = None" if "r = None"
      using con some that by (auto simp: quiet_replay storedState_def consistent_append)
    ultimately show ?thesis using cur some(5) by blast
  qed
  then show "fsReplay mid fs p = fs p
    \<or> (storedState E fs p = Some s \<and> Phase s \<in> {mountStatePhaseStarting, mountStatePhaseStopping}
       \<and> fsReplay mid fs p = None)"
    and "r = None \<Longrightarrow> storedState E (fsReplay n fs) p = None" by auto
qed

text \<open>
  The life of a state file: writes and deletions of its volume, each run to any point, where the
  process may crash, in any history that agrees with the file system.
\<close>

inductive storeRun :: "env \<Rightarrow> string \<Rightarrow> string \<Rightarrow> filesystem \<Rightarrow> filesystem \<Rightarrow> bool" for E dir v where
  idle: "storeRun E dir v fs fs"
| writing: "storeRun E dir v fs fs1 \<Longrightarrow> VolumeID s = v \<Longrightarrow> codecOk E s \<Longrightarrow>
    run_state (store_Write E dir s) tr = (r, late @ mid @ tr) \<Longrightarrow> consistent fs1 (late @ mid) \<Longrightarrow>
    storeRun E dir v fs (fsReplay mid fs1)"
| deleting: "storeRun E dir v fs fs1 \<Longrightarrow> VolumeID s = v \<Longrightarrow>
    run_state (store_Delete E dir s) tr = (r, late @ mid @ tr) \<Longrightarrow> consistent fs1 (late @ mid) \<Longrightarrow>
    storeRun E dir v fs (fsReplay mid fs1)"

lemma run_wrote:
  assumes "Clean dir = dir" and "run_state (store_Write E dir s) tr = (r, n @ tr)"
  shows "wrote E dir s r n"
  using emits_run [OF emits_store_Write [OF assms(1)] assms(2)] by auto

lemma run_deleted: "run_state (store_Delete E dir s) tr = (r, n @ tr) \<Longrightarrow> deleted E dir s r n"
  using emits_run [OF emits_store_Delete] by fastforce

section \<open>The repository as an interface\<close>

text \<open>
  What the transactions of the node service use of a repository: its operations only touch its
  own files; a successful write has made a valid state durable, a successful deletion has removed
  the state, a successful read returns a valid state of the volume. What "durable" and "removed"
  mean on the history is the provider's.
\<close>

fun storeEvent :: "event \<Rightarrow> bool" where
  "storeEvent (EvReadFile p r) = True"
| "storeEvent (EvLstat p r) = True"
| "storeEvent (EvOpenFile p flag mode r) = True"
| "storeEvent (EvFileWrite p body r) = True"
| "storeEvent (EvFileSync p r) = True"
| "storeEvent (EvFileClose p r) = True"
| "storeEvent (EvChmod p mode r) = True"
| "storeEvent (EvRename a b r) = True"
| "storeEvent (EvRemove p r) = True"
| "storeEvent (EvNewAttemptID r) = True"
| "storeEvent (EvLock x) = True"
| "storeEvent (EvUnlock x) = True"
| "storeEvent e = False"

locale mount_state_repository =
  fixes states :: mountStateRepository
    and durable :: "mountState \<Rightarrow> event list \<Rightarrow> bool"
    and removed :: "mountState \<Rightarrow> event list \<Rightarrow> bool"
  assumes write_law: "emits (repo_Write states s) (\<lambda>r n. list_all storeEvent n
      \<and> (r = None \<longrightarrow> durable s n \<and> validateMountState s = None))"
    and delete_law: "emits (repo_Delete states s) (\<lambda>r n. list_all storeEvent n \<and> (r = None \<longrightarrow> removed s n))"
    and read_law: "emits (repo_Read states v) (\<lambda>r n. list_all storeEvent n
      \<and> (\<forall>s. r = Inr s \<longrightarrow> VolumeID s = v \<and> validateMountState s = None))"

text \<open>The store of mount_state.go provides it.\<close>

lemma emits_list_all: "emits_only A m \<Longrightarrow> emits m (\<lambda>r n. list_all A n)"
  by (simp add: emits_only_def list_all_iff)

lemma emits_only_writeHostFile: "emits_only storeEvent (writeHostFile E file body)"
  unfolding emits_only_def by (rule emits_conseq [OF emits_writeHostFile]) force

lemmas store_programs = store_Write_def store_Delete_def store_Current_def store_Read_def deleteSync_def
  writeAtomicStateFile_def publishTemp_def syncDirectory_def removeTemp_def closeAndRemoveTemp_def

lemma store_events:
  "emits_only storeEvent (store_Read E dir v)" "emits_only storeEvent (store_Write E dir s)"
  "emits_only storeEvent (store_Delete E dir s)"
  unfolding store_programs host_defs Let_def by (intro emits_intro emits_only_writeHostFile; simp)+

lemma emits_store_Write_named:
  "emits (store_Write E dir s) (\<lambda>r n. r = None \<longrightarrow> validateMountState s = None \<and> (\<exists>p. statePath dir (VolumeID s) = Inr p))"
  unfolding store_Write_def
proof (rule emits_withLock, rule emits_ifNil, goal_cases)
  case 2
  show ?case
    using 2 by (intro emits_ifOk emits_conseq [OF emits_only_emits [where A = "\<lambda>_. True"]])
      (auto simp: store_programs host_defs Let_def intro!: emits_intro emits_only_mono [OF emits_only_writeHostFile])
qed simp

lemma clean_fold_parts:
  "\<forall>c\<in>set st \<union> set es. CHR ''/'' \<notin> set c \<Longrightarrow> \<forall>c\<in>set st. c \<noteq> [] \<Longrightarrow>
   \<forall>c\<in>set (foldl (cleanStep r) st es). c \<noteq> [] \<and> CHR ''/'' \<notin> set c"
proof (induction es arbitrary: st)
  case (Cons e es)
  show ?case using Cons.prems unfolding foldl.simps by (intro Cons.IH) (auto split: if_splits list.splits)
qed auto

lemma relative_Clean: "\<not> IsAbs p \<Longrightarrow> \<not> IsAbs (Clean p)"
proof -
  assume rel: "\<not> IsAbs p"
  have parts: "\<forall>c\<in>set (pathComps p). c \<noteq> [] \<and> CHR ''/'' \<notin> set c"
    using clean_fold_parts [of "[]" "Split (CHR ''/'') p" "IsAbs p"] Split_parts by (auto simp: pathComps_def)
  then show ?thesis
  proof (cases "pathComps p")
    case Nil
    then show ?thesis using rel by (simp add: Clean_def)
  next
    case (Cons c cs)
    then obtain d c' where "c = d # c'" "d \<noteq> CHR ''/''" using parts by (cases c) auto
    then have "\<not> IsAbs (Join (c # cs) ''/'')" by (cases cs) auto
    then show ?thesis using rel Cons by (simp add: Clean_def)
  qed
qed

lemma emits_store_Write_new: "emits (store_Write E (newMountStateStore dir) s) (wrote E (newMountStateStore dir) s)"
proof (cases "IsAbs dir")
  case True
  then show ?thesis by (intro emits_store_Write) (simp add: newMountStateStore_def Clean_Clean)
next
  case False
  then have "statePath (newMountStateStore dir) v \<noteq> Inr p" for v p
    using relative_Clean [of dir] by (simp add: statePath_def newMountStateStore_def)
  then show ?thesis
    by (intro emits_conseq [OF emits_list_all [OF store_events(2)]]) (simp add: wrote_def)
qed

definition stateDurable :: "env \<Rightarrow> string \<Rightarrow> mountState \<Rightarrow> event list \<Rightarrow> bool" where
  "stateDurable E dir s n \<longleftrightarrow> (\<exists>p. statePath dir (VolumeID s) = Inr p) \<and> wrote E dir s None n"

interpretation node_store: mount_state_repository "mountStateStore E (newMountStateStore dir)"
  "stateDurable E (newMountStateStore dir)" "\<lambda>s. deleted E (newMountStateStore dir) s None" for E dir
proof
  show "emits (repo_Write (mountStateStore E (newMountStateStore dir)) s) (\<lambda>r n. list_all storeEvent n
      \<and> (r = None \<longrightarrow> stateDurable E (newMountStateStore dir) s n \<and> validateMountState s = None))" for s
    unfolding mountStateStore_def mountStateRepository.simps
    by (rule emits_conseq [OF emits_conj [OF emits_list_all [OF store_events(2)]
            emits_conj [OF emits_store_Write_new emits_store_Write_named]]]) (auto simp: stateDurable_def)
  show "emits (repo_Delete (mountStateStore E (newMountStateStore dir)) s) (\<lambda>r n. list_all storeEvent n
      \<and> (r = None \<longrightarrow> deleted E (newMountStateStore dir) s None n))" for s
    unfolding mountStateStore_def mountStateRepository.simps
    by (rule emits_conseq [OF emits_conj [OF emits_list_all [OF store_events(3)] emits_store_Delete]]) auto
  show "emits (repo_Read (mountStateStore E (newMountStateStore dir)) v) (\<lambda>r n. list_all storeEvent n
      \<and> (\<forall>s. r = Inr s \<longrightarrow> VolumeID s = v \<and> validateMountState s = None))" for v
    unfolding mountStateStore_def mountStateRepository.simps
    by (rule emits_conseq [OF emits_conj [OF emits_list_all [OF store_events(1)] emits_store_Read]]) auto
qed

section \<open>Properties\<close>

text \<open>
  C15: a write of the mount state is atomic and legal whatever fails and wherever it crashes: at
  every point of the run the file holds what it held before, or the complete new state and that
  was a legal successor of the stored one; and when the write reports success the new state is
  stored and the directory has been synced.
\<close>

theorem store_write_atomic:
  assumes "Clean dir = dir" and "statePath dir (VolumeID s) = Inr p" and "codecOk E s"
    and "run_state (store_Write E dir s) tr = (r, late @ mid @ tr)" and "consistent fs (late @ mid)"
  shows "(fsReplay mid fs p = fs p
      \<or> (mountWrite (storedState E fs p) s \<and> storedState E (fsReplay mid fs) p = Some s))
    \<and> (r = None \<longrightarrow> storedState E (fsReplay (late @ mid) fs) p = Some s \<and> EvFileSync dir None \<in> set (late @ mid))"
proof -
  have w: "wrote E dir s r (late @ mid)" using assms(1,4) by (intro run_wrote) simp_all
  show ?thesis
    using wrote_refines [OF w assms(2,3,5) refl] by blast
qed

text \<open>
  C14: whatever sequence of writes and deletions is run on the state of a volume, and wherever each
  of them crashes, the state on disk is always one that a legal life of the record has reached:
  the store refines the abstract lifecycle.
\<close>

theorem store_refines_lifecycle:
  assumes "storeRun E dir v fs fs'" and "Clean dir = dir" and "statePath dir v = Inr p"
    and "storedState E fs p = None" and "storedState E fs' p = Some s"
  shows "\<exists>s0. reaches mountWrite s0 s \<and> validateMountState s = None \<and> mountIdentity s = mountIdentity s0"
proof -
  have "\<forall>c. storedState E fs' p = Some c \<longrightarrow> (\<exists>s0. reaches mountWrite s0 c)"
    using assms(1,4)
  proof (induction rule: storeRun.induct)
    case (writing fs fs1 s tr r late mid)
    have w: "wrote E dir s r (late @ mid)" using assms(2) writing(4) by (intro run_wrote) simp_all
    have pv: "statePath dir (VolumeID s) = Inr p" using assms(3) writing(2) by simp
    consider "storedState E (fsReplay mid fs1) p = storedState E fs1 p"
      | "mountWrite (storedState E fs1 p) s" "storedState E (fsReplay mid fs1) p = Some s"
      using wrote_refines(1) [OF w pv writing(3,5) refl] storedState_cong by metis
    then show ?case
    proof cases
      case 1
      then show ?thesis using writing(6) [OF writing(7)] by simp
    next
      case 2
      then show ?thesis using writing(6) [OF writing(7)] by (cases "storedState E fs1 p") (auto intro: reaches.intros)
    qed
  next
    case (deleting fs fs1 s tr r late mid)
    have pv: "statePath dir (VolumeID s) = Inr p" using assms(3) deleting(2) by simp
    have "run_state (store_Delete E dir s) tr = (r, (late @ mid) @ tr)" using deleting(3) by simp
    from deleted_refines(1) [OF run_deleted [OF this] pv deleting(4) refl] deleting(5) [OF deleting(6)]
    show ?case using storedState_cong [of "fsReplay mid fs1" p fs1 E] by (auto simp: storedState_def)
  qed simp
  then obtain s0 where "reaches mountWrite s0 s" using assms(5) by blast
  then show ?thesis using mount_lifecycle.reaches_valid mount_lifecycle.reaches_key by blast
qed

section \<open>A run on a calm host\<close>

definition exHost :: env where
  "exHost = calmHost (\<lambda>s. ''x'') (\<lambda>body. if body = [CHR ''x'', CHR 0x0A] then Some exStarting else None)"

definition exPath :: string where "exPath = ''/s/'' @ exVolume @ ''.json''"

lemma exHost_codec: "codecOk exHost exStarting"
  using exStarting_valid by (simp add: codecOk_def decodeMountState_def exHost_def calmHost_def echeck_def)

lemma exHost_path: "statePath ''/s'' (VolumeID exStarting) = Inr exPath" "Clean ''/s'' = ''/s''"
proof -
  have "statePath ''/s'' exVolume = Inr exPath" by code_simp
  then show "statePath ''/s'' (VolumeID exStarting) = Inr exPath" by (simp add: ex_defs)
qed code_simp

definition exTemp :: string where "exTemp = atomicTempPath ''/s'' exPath zeroAttempt"

definition exWrites :: "event list" where
  "exWrites =
     [EvUnlock ''mountStateInventory'', EvUnlock exPath, EvFileClose ''/s'' None, EvFileSync ''/s'' None,
      EvOpenFile ''/s'' O_RDONLY 0 None, EvRename exTemp exPath None, EvFileClose exTemp None, EvFileSync exTemp None,
      EvChmod exTemp perm600 None, EvFileWrite exTemp [CHR ''x'', CHR 0x0A] (Inr 2),
      EvOpenFile exTemp O_WRONLY_CREATE_EXCL perm600 None, EvNewAttemptID (Inr zeroAttempt),
      EvLstat exPath (Inl (Sentinel ErrNotExist)), EvLock exPath, EvLock ''mountStateInventory'']"

lemma exHost_answers [simp]:
  "e_Lstat exHost tr p = Inl (Sentinel ErrNotExist)" "e_NewAttemptID exHost tr = Inr zeroAttempt"
  "e_OpenFile exHost tr p flag mode = None" "e_FileWrite exHost tr p body = Inr (int (length body))"
  "e_FileSync exHost tr p = None" "e_FileClose exHost tr p = None" "e_Chmod exHost tr p mode = None"
  "e_Rename exHost tr a b = None" "e_MarshalState exHost s = [CHR ''x'']"
  by (simp_all add: exHost_def calmHost_def)

lemma exRun_file:
  "run_state (writeHostFile exHost f [CHR ''x'', CHR 0x0A]) tr = (None, EvFileWrite f [CHR ''x'', CHR 0x0A] (Inr 2) # tr)"
  by (subst writeHostFile.simps) (simp add: FileWrite_def run_simps writeHostFile.simps [of _ _ "[]"])

lemma exRun_read: "run_state (store_Current exHost ''/s'' (VolumeID exStarting)) tr =
    (Inr None, EvLstat exPath (Inl (Sentinel ErrNotExist)) # tr)"
  by (simp add: store_Current_def store_Read_def Lstat_def run_simps exHost_path)

lemma exRun: "run_state (store_Write exHost ''/s'' exStarting) [] = (None, exWrites)"
proof -
  have legal: "validateMountStateTransition None exStarting = None" using ex_writes(1) by (simp add: mountWrite_def)
  have small: "\<not> maxMountStateLength < Suc (Suc 0)" by (simp add: maxMountStateLength_def)
  show ?thesis
    unfolding store_Write_def writeAtomicStateFile_def publishTemp_def syncDirectory_def exWrites_def exTemp_def host_defs
    by (simp add: run_simps exStarting_valid exHost_path legal small exRun_file exRun_read Let_def)
qed

lemma exRun_consistent: "consistent (\<lambda>_. None) exWrites"
  by (simp add: exWrites_def)

theorem store_write_atomic_witness:
  "storedState exHost (fsReplay exWrites (\<lambda>_. None)) exPath = Some exStarting"
  using store_write_atomic [OF exHost_path(2,1) exHost_codec, of "[]" None exWrites "[]" "\<lambda>_. None"]
    exRun exRun_consistent by simp

theorem store_refines_lifecycle_witness:
  "\<exists>s0. reaches mountWrite s0 exStarting \<and> storeRun exHost ''/s'' exVolume (\<lambda>_. None) (fsReplay exWrites (\<lambda>_. None))"
proof -
  have v: "VolumeID exStarting = exVolume" by (simp add: ex_defs)
  have run: "storeRun exHost ''/s'' exVolume (\<lambda>_. None) (fsReplay exWrites (\<lambda>_. None))"
    by (rule storeRun.writing [OF storeRun.idle v exHost_codec, where tr = "[]" and late = "[]" and r = None])
      (use exRun exRun_consistent in simp_all)
  have stored: "storedState exHost (fsReplay exWrites (\<lambda>_. None)) exPath = Some exStarting"
    using wrote_refines(2) [OF run_wrote [OF exHost_path(2), of exHost exStarting "[]" None exWrites] exHost_path(1)
        exHost_codec exRun_consistent, of "[]" exWrites] exRun by simp
  have "storedState exHost (\<lambda>_. None) exPath = None" by (simp add: storedState_def)
  from store_refines_lifecycle [OF run exHost_path(2) _ this stored] show ?thesis
    using run exHost_path(1) v by auto
qed

end
