(* ===== verification/MountStop.thy ===== *)
theory MountStop
  imports RuntimeArtifacts StateStore
begin

text \<open>
  \<open>internal/driver/mount_stop.go\<close>: stopping a mount. \<open>Stop\<close> makes the intent durable and then
  \<open>Reconcile\<close> drains, stops the unit, unmounts, kills and cleans up, from whatever a crash has
  left, until nothing remains and the record can be deleted; with \<open>systemdRunHostCommand\<close> of
  \<open>node_preflight.go\<close>.
\<close>

datatype mountStopResult = mountStopCleaned | mountStopPreserved

record mountStopRequest =
  stop_State :: mountState
  stop_PublishConsumers :: int
  stop_Intent :: mountStopIntent

definition mountDrainTimeout :: duration where "mountDrainTimeout = seconds 30"
definition mountPIDKillWait :: duration where "mountPIDKillWait = seconds 5"

definition preserved :: "error \<Rightarrow> mountStopResult \<times> error option" where
  "preserved e = (mountStopPreserved, Some e)"

text \<open>The errors of a step that does not end the cleanup.\<close>

definition collect :: "error option prog \<Rightarrow> error list prog" where
  "collect m = do { r \<leftarrow> m; State_Monad.return (err_list r) }"

section \<open>Commands\<close>

definition systemdRunUnitPattern :: "string \<Rightarrow> bool" where
  "systemdRunUnitPattern unit \<longleftrightarrow>
     hexNamed ''drive9-preflight-'' 32 '''' unit \<or> hexNamed ''drive9-signal-'' 32 '''' unit
     \<or> systemdUnitPattern unit"

definition systemdRunHostCommand :: "string \<Rightarrow> bool \<Rightarrow> bool \<Rightarrow> string \<Rightarrow> string list \<Rightarrow> error + hostCommand" where
  "systemdRunHostCommand unit wait captureOutput executable args =
     (if \<not> systemdRunUnitPattern unit then Inl (Errorf ''invalid Drive9 systemd-run unit'')
      else if \<not> IsAbs executable \<or> Clean executable \<noteq> executable
      then Inl (Errorf ''invalid systemd-run executable'')
      else if captureOutput \<and> \<not> wait then Inl (Errorf ''systemd-run output capture requires wait'')
      else Inr (hostNamespaceCommand ''systemd-run''
        ([''--service-type=exec''] @ (if wait then [''--wait''] else [])
         @ (if captureOutput then [''--pipe''] else [])
         @ [''--collect'', ''--unit='' @ unit, ''--'', executable] @ args)))"

definition hostMountRuntimeEnvironment :: "string list" where
  "hostMountRuntimeEnvironment =
     [''HOME='' @ path_Dir hostBinaryDir, ''TMPDIR='' @ hostRuntimeDir, ''XDG_RUNTIME_DIR='' @ hostRuntimeDir,
      ''PATH=/usr/sbin:/usr/bin:/sbin:/bin'']"

definition hostPIDSignalCommand :: "env \<Rightarrow> string \<Rightarrow> int \<Rightarrow> (error + hostCommand) prog" where
  "hostPIDSignalCommand E signal pid =
     (if signal \<noteq> ''0'' \<and> signal \<noteq> ''TERM'' \<and> signal \<noteq> ''KILL''
      then State_Monad.return (Inl (Errorf ''unsupported host PID signal''))
      else if pid \<le> 0 then State_Monad.return (Inl (Errorf ''invalid host PID''))
      else
        orReturn (NewAttemptID E) (\<lambda>_. Inl (Errorf ''generate host PID signal attempt ID'')) (\<lambda>attemptID.
        if \<not> attemptIDPattern attemptID
        then State_Monad.return (Inl (Errorf ''generate host PID signal attempt ID''))
        else State_Monad.return (systemdRunHostCommand (''drive9-signal-'' @ attemptID) True False ''/bin/kill''
               [''-'' @ signal, ''--'', FormatInt pid])))"

definition drainCommand :: "mountState \<Rightarrow> hostCommand" where
  "drainCommand state =
     (hostNamespaceCommand (BinaryPath state)
        [''mount'', ''drain'', ''--timeout'', Duration_String mountDrainTimeout, StagingTarget state])
     \<lparr>cmd_Env := hostMountRuntimeEnvironment\<rparr>"

definition runDrain :: "env \<Rightarrow> mountState \<Rightarrow> error option prog" where
  "runDrain E state = runOk E (drainCommand state) (Errorf ''Drive9 mount drain failed'')"

definition stopSystemdUnit :: "env \<Rightarrow> mountState \<Rightarrow> error option prog" where
  "stopSystemdUnit E state =
     runOk E (hostSystemctlCommand [''stop'', ''--'', SystemdUnit state]) (Errorf ''systemctl stop failed'')"

definition resetFailedUnit :: "env \<Rightarrow> mountState \<Rightarrow> error option prog" where
  "resetFailedUnit E state =
     runOk E (hostSystemctlCommand [''reset-failed'', ''--'', SystemdUnit state])
       (Errorf ''systemctl reset-failed failed'')"

definition runKernelUnmount :: "env \<Rightarrow> mountState \<Rightarrow> bool \<Rightarrow> error option prog" where
  "runKernelUnmount E state lazy =
     runOk E (hostNamespaceCommand hostLauncherPath
         ([''host-unmount''] @ (if lazy then [''--lazy''] else []) @ [''--'', StagingTarget state]))
       (if lazy then Errorf ''lazy kernel unmount failed'' else Errorf ''kernel unmount failed'')"

section \<open>Observing what runs\<close>

datatype stopProcessState = stopProcessAbsent | stopProcessVerified

record stopProcessObservation =
  st_State :: stopProcessState
  st_Verified :: verifiedProcessIdentity

definition stopVerified :: "verifiedProcessIdentity \<Rightarrow> stopProcessObservation" where
  "stopVerified v = \<lparr>st_State = stopProcessVerified, st_Verified = v\<rparr>"

definition stopAbsent :: stopProcessObservation where
  "stopAbsent = \<lparr>st_State = stopProcessAbsent, st_Verified = noIdentity\<rparr>"

text \<open>The recorded PID: verified, or gone, or its number reused by another process.\<close>

definition observeRecordedPID :: "env \<Rightarrow> mountState \<Rightarrow> (error + stopProcessObservation) prog" where
  "observeRecordedPID E state =
     (if PID state > 0 \<or> PIDStartTime state \<noteq> [] then
        if PID state \<le> 0 \<or> PIDStartTime state = [] then State_Monad.return (Inl (Sentinel ErrProcessOwnership))
        else do {
          r \<leftarrow> readHostProcessStartTime E (PID state);
          case r of
            Inr startTime \<Rightarrow>
              if startTime = PIDStartTime state then
                orReturn (verifyHostPIDOwnership E (mainExpectation state (PID state) (PIDStartTime state))
                    startTime True) Inl (\<lambda>verified.
                  State_Monad.return (Inr (stopVerified (verified\<lparr>vp_ControlSocketPath := ControlSocketPath state,
                    vp_ProcessStatePath := ProcessStatePath state\<rparr>))))
              else State_Monad.return (Inr stopAbsent)
          | Inl e \<Rightarrow>
              if errors_Is e ErrNotExist then State_Monad.return (Inr stopAbsent)
              else State_Monad.return (Inl e) }
      else State_Monad.return (Inr stopAbsent))"

definition observeStopProcess :: "env \<Rightarrow> mountState \<Rightarrow> (error + stopProcessObservation) prog" where
  "observeStopProcess E state =
     orReturn (observeRecordedPID E state) Inl (\<lambda>result.
     orReturn (observeStartingProcess E state) Inl (\<lambda>processState.
     if sp_State processState = startingProcessMismatch
     then State_Monad.return (Inl (Sentinel ErrProcessOwnership))
     else if sp_State processState = startingProcessVerified then
       if st_State result = stopProcessVerified
          \<and> (vp_PID (st_Verified result) \<noteq> vp_PID (sp_Verified processState)
             \<or> vp_PIDStartTime (st_Verified result) \<noteq> vp_PIDStartTime (sp_Verified processState))
       then State_Monad.return (Inl (ownershipError ''durable PID and process-state PID differ''))
       else State_Monad.return (Inr (stopVerified (sp_Verified processState)))
     else State_Monad.return (Inr result)))"

definition differs :: "stopProcessObservation \<Rightarrow> verifiedProcessIdentity \<Rightarrow> bool" where
  "differs process main \<longleftrightarrow>
     st_State process = stopProcessVerified
     \<and> (vp_PID (st_Verified process) \<noteq> vp_PID main \<or> vp_PIDStartTime (st_Verified process) \<noteq> vp_PIDStartTime main)"

definition serviceRunning :: "systemdUnitObservation \<Rightarrow> bool" where
  "serviceRunning service \<longleftrightarrow> so_State service = systemdUnitActive \<or> so_State service = systemdUnitActivating"

definition verifyStopServiceProcess ::
    "env \<Rightarrow> mountState \<Rightarrow> systemdUnitObservation \<Rightarrow> stopProcessObservation \<Rightarrow> (error + stopProcessObservation) prog" where
  "verifyStopServiceProcess E state service process =
     (if \<not> serviceRunning service then State_Monad.return (Inr process)
      else if EnvPath state \<noteq> [] \<or> ArgsPath state \<noteq> [] then
        orReturn (verifyStartingSystemdMainPIDOwnership E state) Inl (\<lambda>found.
          case found of
            None \<Rightarrow> State_Monad.return (Inr process)
          | Some mainProcess \<Rightarrow>
              if differs process mainProcess
              then State_Monad.return (Inl (ownershipError
                     ''verified process inventory and starting service MainPID differ''))
              else State_Monad.return (Inr (stopVerified mainProcess)))
      else
        orReturn (verifySystemdMainPIDOwnership E state) Inl (\<lambda>mainProcess.
          if differs process mainProcess
          then State_Monad.return (Inl (ownershipError
                 ''verified process inventory and systemd MainPID differ''))
          else State_Monad.return (Inr (stopVerified mainProcess))))"

definition stoppingPIDAlive :: "env \<Rightarrow> mountState \<Rightarrow> (error + bool) prog" where
  "stoppingPIDAlive E state =
     (if PID state \<le> 0 \<or> PIDStartTime state = [] then State_Monad.return (Inr False)
      else do {
        r \<leftarrow> readHostProcessStartTime E (PID state);
        State_Monad.return
          (case r of
             Inl e \<Rightarrow> if errors_Is e ErrNotExist then Inr False else Inl e
           | Inr startTime \<Rightarrow> Inr (startTime = PIDStartTime state)) })"

text \<open>The observations every cleanup starts with; the strings are the caller's messages.\<close>

definition observeStopService ::
    "env \<Rightarrow> mountState \<Rightarrow> string \<Rightarrow> string \<Rightarrow> string \<Rightarrow> string \<Rightarrow>
     (error + systemdUnitObservation \<times> stopProcessObservation) prog" where
  "observeStopService E state ownership query identity inventory =
     orReturn (observeStopProcess E state) (\<lambda>e. Inl (Wrap ownership e)) (\<lambda>process.
     orReturn (querySystemdUnit E (SystemdUnit state)) (\<lambda>e. Inl (Wrap query e)) (\<lambda>service.
     unlessErr (if so_State service \<noteq> systemdUnitNotFound then verifyMountSystemdUnitDescription E state
                else State_Monad.return None)
         (\<lambda>e. Inl (Wrap identity e)) (
     orReturn (verifyStopServiceProcess E state service process) (\<lambda>e. Inl (Wrap inventory e)) (\<lambda>process'.
       State_Monad.return (Inr (service, process'))))))"

section \<open>Cleaning up\<close>

definition removeStoppingArtifacts :: "env \<Rightarrow> mountState \<Rightarrow> error option prog" where
  "removeStoppingArtifacts E state = do {
     startup \<leftarrow> if EnvPath state \<noteq> [] \<or> ArgsPath state \<noteq> [] then collect (removeAttemptStartupFiles E state)
                else State_Monad.return [];
     runtime \<leftarrow> collect (removeVerifiedDeadRuntimeArtifacts E state);
     State_Monad.return (errors_Join (startup @ runtime)) }"

definition finalizeStoppingAfterArtifacts ::
    "mountStateRepository \<Rightarrow> mountState \<Rightarrow> (mountStopResult \<times> error option) prog" where
  "finalizeStoppingAfterArtifacts states state =
     unlessErr (repo_Delete states state) (\<lambda>e. preserved (Wrap ''delete terminal stopping state'' e))
       (State_Monad.return (mountStopCleaned, None))"

definition finalizeStopping ::
    "env \<Rightarrow> mountStateRepository \<Rightarrow> mountState \<Rightarrow> (mountStopResult \<times> error option) prog" where
  "finalizeStopping E states state =
     unlessErr (removeStoppingArtifacts E state) preserved (finalizeStoppingAfterArtifacts states state)"

fun waitForDeath :: "env \<Rightarrow> mountState \<Rightarrow> duration \<Rightarrow> nat \<Rightarrow> (error + bool) prog" where
  "waitForDeath E state interval 0 = State_Monad.return (Inr False)"
| "waitForDeath E state interval (Suc attempts) =
     orReturn (stoppingPIDAlive E state) Inl (\<lambda>alive.
     if \<not> alive then State_Monad.return (Inr True)
     else unlessErr (Wait E interval) Inl (waitForDeath E state interval attempts))"

definition killStoppingPID :: "env \<Rightarrow> mountState \<Rightarrow> error option prog" where
  "killStoppingPID E state =
     orReturn (hostPIDSignalCommand E ''KILL'' (PID state))
         (\<lambda>e. Some (Wrap ''build SIGKILL verified stopping PID command'' e)) (\<lambda>command.
     unlessErr (runOk E command (Errorf ''SIGKILL verified stopping PID failed'')) Some (
     orReturn (waitForDeath E state (mountPIDKillWait div 20) 20) Some (\<lambda>dead.
       State_Monad.return (fail_if (\<not> dead) (Errorf ''verified stopping PID remained alive'')))))"

definition stoppingResourcesAbsent :: "env \<Rightarrow> mountState \<Rightarrow> (error + bool) prog" where
  "stoppingResourcesAbsent E state =
     orReturn (IsMountPoint E (StagingTarget state)) Inl (\<lambda>mounted.
     orReturn (stoppingPIDAlive E state) Inl (\<lambda>alive.
     orReturn (querySystemdUnit E (SystemdUnit state)) Inl (\<lambda>service.
       State_Monad.return (Inr (\<not> mounted \<and> \<not> alive \<and> so_State service = systemdUnitNotFound)))))"

text \<open>Unmount, and lazily when that leaves the mount in place.\<close>

definition unmountStopping :: "env \<Rightarrow> mountState \<Rightarrow> error list prog" where
  "unmountStopping E state = do {
     r \<leftarrow> IsMountPoint E (StagingTarget state);
     case r of
       Inl e \<Rightarrow> State_Monad.return [e]
     | Inr mounted \<Rightarrow>
         if \<not> mounted then State_Monad.return []
         else do {
           first \<leftarrow> collect (runKernelUnmount E state False);
           again \<leftarrow> IsMountPoint E (StagingTarget state);
           case again of
             Inl e \<Rightarrow> State_Monad.return (first @ [e])
           | Inr mounted' \<Rightarrow>
               if \<not> mounted' then State_Monad.return first
               else do {
                 second \<leftarrow> collect (runKernelUnmount E state True);
                 State_Monad.return (first @ second) }}}"

definition killIfAlive :: "env \<Rightarrow> mountState \<Rightarrow> error list prog" where
  "killIfAlive E state = do {
     r \<leftarrow> stoppingPIDAlive E state;
     case r of
       Inl e \<Rightarrow> State_Monad.return [e]
     | Inr alive \<Rightarrow> if alive then collect (killStoppingPID E state) else State_Monad.return [] }"

definition stopService :: "env \<Rightarrow> mountState \<Rightarrow> systemdUnitObservation \<Rightarrow> error list prog" where
  "stopService E state service =
     (if serviceRunning service then collect (stopSystemdUnit E state)
      else if so_State service = systemdUnitInactive \<or> so_State service = systemdUnitFailed
      then collect (resetFailedUnit E state)
      else State_Monad.return [])"

text \<open>Nothing runs any more: reset the unit if it is still there, then finish.\<close>

definition reconcileAbsent ::
    "env \<Rightarrow> mountStateRepository \<Rightarrow> mountState \<Rightarrow> systemdUnitObservation \<Rightarrow>
     (mountStopResult \<times> error option) prog" where
  "reconcileAbsent E states state service =
     (let finish = (\<lambda>service.
            if so_State service = systemdUnitNotFound then finalizeStopping E states state
            else State_Monad.return (preserved (Errorf ''terminal stopping unit remains'')))
      in if so_State service = systemdUnitInactive \<or> so_State service = systemdUnitFailed
         then unlessErr (resetFailedUnit E state) preserved (
                orReturn (querySystemdUnit E (SystemdUnit state)) preserved finish)
         else finish service)"

definition reconcilePresent ::
    "env \<Rightarrow> mountStateRepository \<Rightarrow> mountState \<Rightarrow> mountState \<Rightarrow> systemdUnitObservation \<Rightarrow>
     (mountStopResult \<times> error option) prog" where
  "reconcilePresent E states state owned service = do {
     drain \<leftarrow> collect (runDrain E owned);
     stop \<leftarrow> stopService E owned service;
     unmount \<leftarrow> unmountStopping E owned;
     kill \<leftarrow> killIfAlive E owned;
     r \<leftarrow> stoppingResourcesAbsent E owned;
     let cleanupErrors = drain @ stop @ unmount @ kill @ (case r of Inl e \<Rightarrow> [e] | Inr t \<Rightarrow> []);
     artifacts \<leftarrow> if r = Inr True then collect (removeStoppingArtifacts E owned) else State_Monad.return [];
     if r = Inr True \<and> artifacts = [] then finalizeStoppingAfterArtifacts states state
     else
       let errs = cleanupErrors @ artifacts in
       State_Monad.return (mountStopPreserved,
         errors_Join (if errs = [] then [Errorf ''owned stopping resources remain''] else errs)) }"

definition Stop_Reconcile ::
    "env \<Rightarrow> mountStateRepository \<Rightarrow> mountState \<Rightarrow> (mountStopResult \<times> error option) prog" where
  "Stop_Reconcile E states state =
     unlessErr (CtxErr E) preserved (
     if validateMountState state \<noteq> None \<or> Phase state \<noteq> mountStatePhaseStopping
     then State_Monad.return (preserved (Errorf ''invalid stopping state''))
     else
     orReturn (observeStopService E state ''stopping ownership verification failed'' ''stopping systemd query failed''
         ''stopping unit identity failed'' ''active stopping service process inventory is inconsistent'') preserved
       (\<lambda>(service, process).
     let owned = (if st_State process = stopProcessVerified
                  then copyVerifiedProcessIdentity state (st_Verified process) else state) in
     orReturn (IsMountPoint E (StagingTarget state)) (\<lambda>e. preserved (Wrap ''observe stopping mount'' e)) (\<lambda>mounted.
       if st_State process = stopProcessAbsent \<and> \<not> mounted \<and> \<not> serviceRunning service
       then reconcileAbsent E states state service
       else reconcilePresent E states state owned service)))"

section \<open>Stopping\<close>

text \<open>The durable record of the intent to stop.\<close>

definition stoppingState :: "mountStopRequest \<Rightarrow> stopProcessObservation \<Rightarrow> string \<Rightarrow> time \<Rightarrow> mountState" where
  "stoppingState request process stopAttemptID now =
     (let stopping = (stop_State request)\<lparr>Phase := mountStatePhaseStopping, Reason := noReason,
            StartupDeadline := [], FallbackBinaryPath := [], FallbackMountArgs := [],
            StopAttemptID := stopAttemptID, StopIntent := stop_Intent request, StoppingAt := formatTime now\<rparr>
      in if st_State process = stopProcessVerified \<and> \<not> vp_IsLauncher (st_Verified process)
         then (let owned = copyVerifiedProcessIdentity stopping (st_Verified process)
               in if Phase (stop_State request) = mountStatePhaseStarting
                  then owned\<lparr>StartedAt := StoppingAt owned\<rparr> else owned)
         else stopping)"

definition Stop :: "env \<Rightarrow> mountStateRepository \<Rightarrow> mountStopRequest \<Rightarrow> (mountStopResult \<times> error option) prog" where
  "Stop E states request =
     unlessErr (CtxErr E) preserved (
     if stop_PublishConsumers request > 0
     then State_Monad.return (preserved (Errorf ''volume has active publish target(s)''))
     else if Phase (stop_State request) \<noteq> mountStatePhaseActive \<and> Phase (stop_State request) \<noteq> mountStatePhaseStarting
     then State_Monad.return (preserved (Errorf ''mount stop requires active or starting state''))
     else
     ifNil (validateMountState (stop_State request)) preserved (
     if stop_Intent request \<notin> {mountStopIntentUnstage, mountStopIntentRecovery, mountStopIntentCancelStart}
     then State_Monad.return (preserved (Errorf ''invalid mount stop intent''))
     else
     orReturn (observeStopService E (stop_State request) ''mount stop ownership verification failed''
         ''mount stop systemd query failed'' ''mount stop unit identity failed''
         ''active service process inventory is inconsistent'') preserved (\<lambda>(service, process).
     orReturn (NewAttemptID E) (\<lambda>_. preserved (Errorf ''generate stop attempt ID'')) (\<lambda>stopAttemptID.
     if \<not> attemptIDPattern stopAttemptID
     then State_Monad.return (preserved (Errorf ''generate stop attempt ID''))
     else do {
       now \<leftarrow> Now E;
       let stopping = stoppingState request process stopAttemptID now;
       unlessErr (repo_Write states stopping) (\<lambda>e. preserved (Wrap ''commit stopping intent'' e))
         (Stop_Reconcile E states stopping) }))))"

section \<open>What the observations establish\<close>

text \<open>A process of the mount, as far as the host can show: its start time, and that it is the Drive9
binary for this staging target, or the launcher of this attempt, in the unit's cgroup.\<close>

definition ownedProcess :: "mountState \<Rightarrow> verifiedProcessIdentity \<Rightarrow> event list \<Rightarrow> bool" where
  "ownedProcess state v n \<longleftrightarrow>
     0 < vp_PID v \<and> sawStartTime (vp_PID v) (vp_PIDStartTime v) n
     \<and> (processEvidence (vp_PID v) (StagingTarget state) (SystemdUnit state) (BinaryPath state) n
        \<or> vp_IsLauncher v \<and> launcherEvidence state (vp_PID v) n)"

lemma ownedProcess_append [intro]:
  "ownedProcess s v n1 \<Longrightarrow> ownedProcess s v (n2 @ n1)" "ownedProcess s v n2 \<Longrightarrow> ownedProcess s v (n2 @ n1)"
  by (auto simp: ownedProcess_def processEvidence_def seen_append)

lemma ownedProcess_intros:
  "mainVerified s v n \<Longrightarrow> ownedProcess s v n"
  "vp_IsLauncher v \<Longrightarrow> launcherVerified s v n \<Longrightarrow> ownedProcess s v n"
  "ownershipVerified E (recordedExpectation s) v n \<Longrightarrow> ownedProcess s v n"
  by (auto simp: mainVerified_def launcherVerified_def ownershipVerified_def ownedProcess_def recordedExpectation_def)

definition recordedDead :: "mountState \<Rightarrow> event list \<Rightarrow> bool" where
  "recordedDead state n \<longleftrightarrow> (0 < PID state \<and> PIDStartTime state \<noteq> [] \<longrightarrow> sawDead (PID state) (PIDStartTime state) n)"

lemma recordedDead_append [intro]:
  "recordedDead s n1 \<Longrightarrow> recordedDead s (n2 @ n1)" "recordedDead s n2 \<Longrightarrow> recordedDead s (n2 @ n1)"
  by (auto simp: recordedDead_def seen_append)

definition stopObserved :: "mountState \<Rightarrow> stopProcessObservation \<Rightarrow> event list \<Rightarrow> bool" where
  "stopObserved state process n \<longleftrightarrow>
     (case st_State process of
        stopProcessAbsent \<Rightarrow> recordedDead state n
      | stopProcessVerified \<Rightarrow> ownedProcess state (st_Verified process) n)"

lemma stopObserved_append [intro]:
  "stopObserved s p n1 \<Longrightarrow> stopObserved s p (n2 @ n1)" "stopObserved s p n2 \<Longrightarrow> stopObserved s p (n2 @ n1)"
  by (auto simp: stopObserved_def split: stopProcessState.splits)

lemma stop_states [simp]: "st_State (stopVerified v) = stopProcessVerified" "st_Verified (stopVerified v) = v"
  "st_State stopAbsent = stopProcessAbsent"
  by (simp_all add: stopVerified_def stopAbsent_def)

lemma emits_observeRecordedPID:
  "emits (observeRecordedPID E state) (\<lambda>r n. list_all hostObservation n
     \<and> (\<forall>process. r = Inr process \<longrightarrow> stopObserved state process n))"
  unfolding observeRecordedPID_def
  by (intro emits_wp emits_bind_pre [OF emits_start_time] emits_orReturn [OF emits_pid_ownership])
    (auto simp: stopObserved_def recordedDead_def sawDead_def ownedProcess_def processEvidence_def seen_append
      dest!: hostVerified_evidence)

lemma emits_observeStopProcess:
  "emits (observeStopProcess E state) (\<lambda>r n. list_all hostObservation n
     \<and> (\<forall>process. r = Inr process \<longrightarrow> stopObserved state process n))"
  unfolding observeStopProcess_def
  by (intro emits_wp emits_orReturn [OF emits_observeRecordedPID] emits_orReturn [OF emits_observeStartingProcess])
    (auto simp: stopObserved_def startingObserved_def split: stopProcessState.splits dest: ownedProcess_intros)

lemma emits_verifyStopServiceProcess:
  "emits (verifyStopServiceProcess E state service process) (\<lambda>r n. list_all hostObservation n
     \<and> (\<forall>process'. r = Inr process' \<longrightarrow> process' = process \<or>
          st_State process' = stopProcessVerified \<and> ownedProcess state (st_Verified process') n))"
  unfolding verifyStopServiceProcess_def
  by (intro emits_wp emits_orReturn [OF emits_verifyStartingSystemdMainPIDOwnership]
      emits_orReturn [OF emits_verifySystemdMainPIDOwnership])
    (auto split: if_splits intro: ownedProcess_intros)

definition serviceObserved :: "mountState \<Rightarrow> systemdUnitObservation \<Rightarrow> event list \<Rightarrow> bool" where
  "serviceObserved state service n \<longleftrightarrow>
     sawUnit (SystemdUnit state) (so_State service) n
     \<and> (so_State service \<noteq> systemdUnitNotFound \<longrightarrow> sawDescription (SystemdUnit state) (attemptDescription state) n)"

lemma serviceObserved_append:
  "serviceObserved s o' n1 \<Longrightarrow> serviceObserved s o' (n2 @ n1)" "serviceObserved s o' n2 \<Longrightarrow> serviceObserved s o' (n2 @ n1)"
  by (auto simp: serviceObserved_def seen_append)

lemma emits_observeStopService:
  "emits (observeStopService E state m1 m2 m3 m4) (\<lambda>r n. list_all hostObservation n
     \<and> (\<forall>service process. r = Inr (service, process) \<longrightarrow>
          serviceObserved state service n \<and> stopObserved state process n))"
proof -
  have d: "emits (if so_State service \<noteq> systemdUnitNotFound then verifyMountSystemdUnitDescription E state
      else State_Monad.return None) (\<lambda>r n. list_all hostObservation n \<and> (r = None \<longrightarrow> so_State service \<noteq> systemdUnitNotFound \<longrightarrow>
        sawDescription (SystemdUnit state) (attemptDescription state) n))" for service
    by (intro emits_wp_if emits_conseq [OF emits_verifyMountSystemdUnitDescription] emits_return) auto
  show ?thesis
    unfolding observeStopService_def
    by (intro emits_wp emits_orReturn [OF emits_observeStopProcess] emits_orReturn [OF emits_querySystemdUnit]
        emits_unlessErr [OF d] emits_orReturn [OF emits_verifyStopServiceProcess])
      (auto simp: serviceObserved_def stopObserved_def seen_append split: stopProcessState.splits)
qed

text \<open>\<open>stoppingPIDAlive\<close>: not alive means dead, or nothing was recorded.\<close>

lemma emits_stoppingPIDAlive:
  "emits (stoppingPIDAlive E state) (\<lambda>r n. list_all hostObservation n
     \<and> (r = Inr False \<longrightarrow> recordedDead state n)
     \<and> (r = Inr True \<longrightarrow> 0 < PID state \<and> sawStartTime (PID state) (PIDStartTime state) n))"
  unfolding stoppingPIDAlive_def
  by (intro emits_wp emits_bind_pre [OF emits_start_time])
    (auto simp: recordedDead_def sawDead_def split: sum.splits if_splits)

section \<open>Signals\<close>

definition signalCommand :: "string \<Rightarrow> string \<Rightarrow> int \<Rightarrow> hostCommand" where
  "signalCommand attemptID signal pid = hostNamespaceCommand ''systemd-run''
     [''--service-type=exec'', ''--wait'', ''--collect'', ''--unit=drive9-signal-'' @ attemptID, ''--'', ''/bin/kill'',
      ''-'' @ signal, ''--'', FormatInt pid]"

fun isSignal :: "event \<Rightarrow> bool" where
  "isSignal (EvExec c result err) = (\<exists>a signal pid. c = signalCommand a signal pid)"
| "isSignal e = False"

fun signals :: "int \<Rightarrow> event \<Rightarrow> bool" where
  "signals pid (EvExec c result err) = (\<exists>a signal. c = signalCommand a signal pid)"
| "signals pid e = False"

lemma isSignal_signals: "isSignal e \<longleftrightarrow> (\<exists>pid. signals pid e)"
  by (cases e) auto

lemma hexNamed_attempt: "attemptIDPattern a \<Longrightarrow> hexNamed ''drive9-signal-'' 32 '''' (''drive9-signal-'' @ a)"
  by (auto simp: hexNamed_def attemptIDPattern_def hexDigits_def HasPrefix_def HasSuffix_def)

lemma systemdRunHostCommand_kill:
  "attemptIDPattern a \<Longrightarrow> systemdRunHostCommand (''drive9-signal-'' @ a) True False ''/bin/kill'' [''-'' @ s, ''--'', FormatInt pid]
     = Inr (signalCommand a s pid)"
proof -
  have "IsAbs ''/bin/kill''" "Clean ''/bin/kill'' = ''/bin/kill''" by code_simp+
  then show "attemptIDPattern a \<Longrightarrow> ?thesis"
    using hexNamed_attempt [of a] by (simp add: systemdRunHostCommand_def systemdRunUnitPattern_def signalCommand_def)
qed

text \<open>Commands that are not signals; the order of the arguments decides.\<close>

lemma not_signal [simp]:
  "hostSystemctlCommand args \<noteq> signalCommand a s pid" "drainCommand state \<noteq> signalCommand a s pid"
  "hostNamespaceCommand hostLauncherPath args' \<noteq> signalCommand a s pid"
  by (simp_all add: signalCommand_def drainCommand_def hostSystemctlCommand_def hostSystemdManagerCommand_def
      hostNamespaceCommand_def hostLauncherPath_def)

lemma observation_no_signal: "hostObservation e \<Longrightarrow> \<not> isSignal e"
  by (cases e) (auto simp: signalCommand_def hostNamespaceCommand_def)

text \<open>
  Every signal in the events goes to one process, whose recorded start time was seen before it.
\<close>

fun provesAlive :: "int \<Rightarrow> string \<Rightarrow> event \<Rightarrow> bool" where
  "provesAlive pid st (EvReadFile p (Inr body)) =
     (p = hostProcPIDPath pid ''stat'' \<and> parseHostProcStatStartTime body = Inr st)"
| "provesAlive pid st e = False"

definition signalsTo :: "int \<Rightarrow> event list \<Rightarrow> bool" where
  "signalsTo pid n \<longleftrightarrow> (\<forall>e\<in>set n. isSignal e \<longrightarrow> signals pid e)"

lemma signalsTo_simps [simp]: "signalsTo pid []"
  "signalsTo pid (e # n) \<longleftrightarrow> (isSignal e \<longrightarrow> signals pid e) \<and> signalsTo pid n"
  "signalsTo pid (n2 @ n1) \<longleftrightarrow> signalsTo pid n2 \<and> signalsTo pid n1"
  by (auto simp: signalsTo_def)

definition signalsOnly :: "int \<Rightarrow> string \<Rightarrow> event list \<Rightarrow> bool" where
  "signalsOnly pid st n \<longleftrightarrow>
     signalsTo pid n \<and> preceded_by (provesAlive pid st) isSignal n"

definition noSignals :: "event list \<Rightarrow> bool" where
  "noSignals n \<longleftrightarrow> list_all (\<lambda>e. \<not> isSignal e) n"

lemma noSignals_simps [simp]: "noSignals []" "noSignals (e # n) \<longleftrightarrow> \<not> isSignal e \<and> noSignals n"
  "noSignals (n2 @ n1) \<longleftrightarrow> noSignals n2 \<and> noSignals n1"
  by (auto simp: noSignals_def)

lemma observations_no_signals: "list_all hostObservation n \<Longrightarrow> noSignals n"
  by (auto simp: noSignals_def list_all_iff dest: observation_no_signal)

lemma removes_no_signals: "list_all (removesOnly A) n \<Longrightarrow> noSignals n"
proof -
  have "removesOnly A e \<Longrightarrow> \<not> isSignal e" for e by (cases e) auto
  then show "list_all (removesOnly A) n \<Longrightarrow> noSignals n" by (auto simp: noSignals_def list_all_iff)
qed

lemma noSignals_signalsTo: "noSignals n \<Longrightarrow> signalsTo pid n"
  by (auto simp: noSignals_def signalsTo_def list_all_iff)

lemma signalsOnly_quiet: "noSignals n \<Longrightarrow> signalsOnly pid st n"
  by (auto simp: signalsOnly_def noSignals_signalsTo) (auto simp: noSignals_def list_all_iff intro: preceded_by_no)

lemma signalsOnly_append [intro]: "signalsOnly pid st n1 \<Longrightarrow> signalsOnly pid st n2 \<Longrightarrow> signalsOnly pid st (n2 @ n1)"
  by (auto simp: signalsOnly_def intro: preceded_by_append)

lemma sawStartTime_provesAlive: "sawStartTime pid st n \<longleftrightarrow> list_ex (provesAlive pid st) n"
  by (auto simp: sawStartTime_def list_ex_iff elim!: provesAlive.elims) force

lemma signalsOnly_kill:
  assumes "sawStartTime pid st n1" and "noSignals n1" and "signalsTo pid n2"
  shows "signalsOnly pid st (n2 @ n1)"
proof -
  have "list_ex (provesAlive pid st) n1" using assms(1) by (simp add: sawStartTime_provesAlive)
  then have "preceded_by (provesAlive pid st) isSignal (n2 @ n1)"
    using assms(2) by (induction n2) (auto simp: list_ex_append noSignals_def list_all_iff intro: preceded_by_no)
  then show ?thesis using assms(2,3) by (simp add: signalsOnly_def noSignals_signalsTo)
qed

lemma emits_hostPIDSignalCommand:
  "emits (hostPIDSignalCommand E signal pid) (\<lambda>r n. noSignals n
     \<and> (\<forall>c. r = Inr c \<longrightarrow> (\<exists>a. c = signalCommand a signal pid)))"
  unfolding hostPIDSignalCommand_def host_defs
  by (intro emits_wp) (auto simp: systemdRunHostCommand_kill simp del: append.simps)

lemma emits_waitForDeath:
  "emits (waitForDeath E state d k) (\<lambda>r n. noSignals n
     \<and> (r = Inr True \<longrightarrow> recordedDead state n))"
proof (induction k)
  case 0
  then show ?case by (simp add: emits_return)
next
  case (Suc k)
  show ?case
    unfolding waitForDeath.simps host_defs
    apply (intro emits_wp emits_orReturn [OF emits_stoppingPIDAlive] emits_conseq [OF Suc])
    apply (auto simp add: observations_no_signals)
    done
qed

lemma emits_killStoppingPID:
  "emits (killStoppingPID E state) (\<lambda>r n. signalsTo (PID state) n \<and> (r = None \<longrightarrow> recordedDead state n))"
  unfolding killStoppingPID_def
  by (intro emits_wp emits_orReturn [OF emits_hostPIDSignalCommand] emits_unlessErr [OF emits_runOk]
      emits_orReturn [OF emits_waitForDeath]) (auto simp: noSignals_signalsTo, metis+)

section \<open>The phases of a cleanup\<close>

text \<open>Nothing of the mount is left: not mounted, no unit, and the recorded process dead.\<close>

definition goneEvidence :: "mountState \<Rightarrow> event list \<Rightarrow> bool" where
  "goneEvidence state n \<longleftrightarrow>
     EvIsMountPoint (StagingTarget state) (Inr False) \<in> set n
     \<and> sawUnit (SystemdUnit state) systemdUnitNotFound n \<and> recordedDead state n"

lemma emits_stoppingResourcesAbsent:
  "emits (stoppingResourcesAbsent E state) (\<lambda>r n. list_all hostObservation n \<and> (r = Inr True \<longrightarrow> goneEvidence state n))"
  unfolding stoppingResourcesAbsent_def host_defs
  by (intro emits_wp emits_orReturn [OF emits_stoppingPIDAlive] emits_orReturn [OF emits_querySystemdUnit])
    (auto simp: goneEvidence_def seen_append)

text \<open>The removal of the artifacts of a stopped mount: only observations and removals.\<close>

fun removal :: "event \<Rightarrow> bool" where
  "removal (EvRemove p r) = True"
| "removal e = False"

definition tidies :: "event list \<Rightarrow> bool" where
  "tidies n \<longleftrightarrow> list_all (\<lambda>e. hostObservation e \<or> removal e) n"

lemma tidies_simps [simp]: "tidies []" "tidies (n2 @ n1) \<longleftrightarrow> tidies n2 \<and> tidies n1"
  by (auto simp: tidies_def)

lemma tidies_intros: "list_all hostObservation n \<Longrightarrow> tidies n" "list_all (removesOnly A) n \<Longrightarrow> tidies n"
proof -
  have "removesOnly A e \<Longrightarrow> removal e" for e by (cases e) auto
  then show "list_all hostObservation n \<Longrightarrow> tidies n" "list_all (removesOnly A) n \<Longrightarrow> tidies n"
    by (auto simp: tidies_def list_all_iff)
qed

lemma tidies_no_signals: "tidies n \<Longrightarrow> noSignals n"
proof -
  have "removal e \<Longrightarrow> \<not> isSignal e" for e by (cases e) auto
  then show "tidies n \<Longrightarrow> noSignals n"
    by (auto simp: tidies_def noSignals_def list_all_iff dest: observation_no_signal)
qed

lemma cleanupRun_tidies: "cleanupRun E state r n \<Longrightarrow> tidies n"
  by (cases "n = []") (auto simp: cleanupRun_def cleanedArtifacts_def intro: tidies_intros)

lemma emits_collect: "emits m \<Phi> \<Longrightarrow> emits (collect m) (\<lambda>errs n. \<exists>r. errs = err_list r \<and> \<Phi> r n)"
  unfolding collect_def by (rule emits_bind_pre, assumption, rule emits_return) auto

lemma emits_removeStoppingArtifacts:
  "emits (removeStoppingArtifacts E state) (\<lambda>r n. tidies n
     \<and> (r = None \<longrightarrow> EvIsMountPoint (StagingTarget state) (Inr False) \<in> set n))"
proof -
  have startup: "emits (if EnvPath state \<noteq> [] \<or> ArgsPath state \<noteq> [] then collect (removeAttemptStartupFiles E state)
      else State_Monad.return []) (\<lambda>_ n. tidies n)"
    by (intro emits_wp_if emits_conseq [OF emits_collect [OF emits_removeAttemptStartupFiles]] emits_return)
      (auto intro: tidies_intros)
  have runtime: "emits (collect (removeVerifiedDeadRuntimeArtifacts E state)) (\<lambda>errs n. tidies n
      \<and> (errs = [] \<longrightarrow> EvIsMountPoint (StagingTarget state) (Inr False) \<in> set n))"
    by (rule emits_conseq [OF emits_collect [OF emits_removeVerifiedDeadRuntimeArtifacts]])
      (auto simp: cleanupRun_tidies, auto simp: cleanupRun_def)
  show ?thesis
    unfolding removeStoppingArtifacts_def
    by (intro emits_bind_pre [OF startup] emits_bind_pre [OF runtime] emits_return) auto
qed

section \<open>A reconciled stop\<close>

lemma storeEvents_no_signals: "list_all storeEvent n \<Longrightarrow> noSignals n"
proof -
  have "storeEvent e \<Longrightarrow> \<not> isSignal e" for e by (cases e) auto
  then show "list_all storeEvent n \<Longrightarrow> noSignals n" by (auto simp: noSignals_def list_all_iff)
qed

text \<open>Observations, and \<open>systemctl reset-failed\<close> on the unit, which starts and ends nothing.\<close>

fun resets :: "string \<Rightarrow> event \<Rightarrow> bool" where
  "resets unit (EvExec c result err) = (c = hostSystemctlCommand [''reset-failed'', ''--'', unit])"
| "resets unit e = False"

definition settles :: "string \<Rightarrow> event list \<Rightarrow> bool" where
  "settles unit n \<longleftrightarrow> list_all (\<lambda>e. hostObservation e \<or> resets unit e) n"

lemma settles_simps [simp]: "settles u []" "settles u (e # n) \<longleftrightarrow> (hostObservation e \<or> resets u e) \<and> settles u n"
  "settles u (n2 @ n1) \<longleftrightarrow> settles u n2 \<and> settles u n1"
  by (auto simp: settles_def)

lemma settles_observations: "list_all hostObservation n \<Longrightarrow> settles u n"
  by (auto simp: settles_def list_all_iff)

text \<open>
  The end of a stop that cleaned up, latest first: the record was removed, before that the files,
  and before that, with nothing but observations in between, everything was seen gone.
\<close>

definition cleanedUp ::
    "(mountState \<Rightarrow> event list \<Rightarrow> bool) \<Rightarrow> mountState \<Rightarrow> mountState \<Rightarrow> event list \<Rightarrow> bool" where
  "cleanedUp removed state owned n \<longleftrightarrow>
     (\<exists>d a obs b. n = d @ a @ obs @ b \<and> list_all storeEvent d \<and> removed state d \<and> tidies a
        \<and> settles (SystemdUnit state) obs \<and> goneEvidence owned obs)"

lemma cleanedUpI:
  assumes "list_all storeEvent d \<and> removed state d \<and> tidies a" and "settles (SystemdUnit state) obs"
    and "goneEvidence owned obs"
  shows "cleanedUp removed state owned ((d @ a) @ obs @ b)"
  unfolding cleanedUp_def using assms by (intro exI [of _ d] exI [of _ a] exI [of _ obs] exI [of _ b]) simp

lemma cleanedUp_flat:
  "list_all storeEvent d \<Longrightarrow> removed state d \<Longrightarrow> tidies a \<Longrightarrow> list_all hostObservation obs \<Longrightarrow>
   goneEvidence owned obs \<Longrightarrow> cleanedUp removed state owned (d @ a @ obs @ b)"
  using cleanedUpI [of d removed state a obs owned b] by (simp add: settles_observations)

lemma cleanedUp_append: "cleanedUp removed state owned n \<Longrightarrow> cleanedUp removed state owned (n @ n1)"
  unfolding cleanedUp_def by (metis append_assoc)

lemma copyVerified_simps [simp]: "StagingTarget (copyVerifiedProcessIdentity s v) = StagingTarget s"
  "SystemdUnit (copyVerifiedProcessIdentity s v) = SystemdUnit s" "PID (copyVerifiedProcessIdentity s v) = vp_PID v"
  "PIDStartTime (copyVerifiedProcessIdentity s v) = vp_PIDStartTime v"
  "BinaryPath (copyVerifiedProcessIdentity s v) = BinaryPath s"
  by (simp_all add: copyVerifiedProcessIdentity_def)

lemma emits_quiet_command: "(\<And>a s pid. c \<noteq> signalCommand a s pid) \<Longrightarrow>
    emits (collect (runOk E c failure)) (\<lambda>_ n. noSignals n)"
  by (rule emits_conseq [OF emits_collect [OF emits_runOk]]) auto

lemma emits_runDrain: "emits (collect (runDrain E state)) (\<lambda>_ n. noSignals n)"
  unfolding runDrain_def by (rule emits_quiet_command) simp

lemma emits_runKernelUnmount: "emits (collect (runKernelUnmount E state lazy)) (\<lambda>_ n. noSignals n)"
  unfolding runKernelUnmount_def by (rule emits_quiet_command) simp

lemma emits_stopService: "emits (stopService E state service) (\<lambda>_ n. noSignals n)"
  unfolding stopService_def stopSystemdUnit_def resetFailedUnit_def
  by (intro emits_wp emits_quiet_command) auto

lemma emits_unmountStopping: "emits (unmountStopping E state) (\<lambda>_ n. noSignals n)"
  unfolding unmountStopping_def host_defs
  by (intro emits_wp emits_bind_pre [OF emits_runKernelUnmount]) auto

lemma emits_killIfAlive: "emits (killIfAlive E state) (\<lambda>_ n. signalsOnly (PID state) (PIDStartTime state) n)"
  unfolding killIfAlive_def
  by (intro emits_wp emits_bind_pre [OF emits_stoppingPIDAlive]
      emits_conseq [OF emits_collect [OF emits_killStoppingPID]])
    (auto intro: signalsOnly_kill signalsOnly_quiet observations_no_signals)

text \<open>The stopping record a request asks for, and where the process it names comes from.\<close>

definition stopIntended :: "mountStopRequest \<Rightarrow> mountState \<Rightarrow> bool" where
  "stopIntended request stopping \<longleftrightarrow>
     Phase stopping = mountStatePhaseStopping \<and> StopIntent stopping = stop_Intent request
     \<and> mountIdentity stopping = mountIdentity (stop_State request) \<and> AttemptID stopping = AttemptID (stop_State request)
     \<and> BinaryPath stopping = BinaryPath (stop_State request)"

definition stoppingFrom :: "mountStopRequest \<Rightarrow> mountState \<Rightarrow> event list \<Rightarrow> bool" where
  "stoppingFrom request stopping n \<longleftrightarrow>
     (PID stopping, PIDStartTime stopping) = (PID (stop_State request), PIDStartTime (stop_State request))
     \<or> (\<exists>v. (PID stopping, PIDStartTime stopping) = (vp_PID v, vp_PIDStartTime v) \<and> ownedProcess (stop_State request) v n)"

lemma stoppingState_intended: "stopIntended request (stoppingState request process a now)"
  by (auto simp: stopIntended_def stoppingState_def Let_def mountIdentity_def copyVerifiedProcessIdentity_def)

lemma stoppingState_from:
  "stopObserved (stop_State request) process n \<Longrightarrow> stoppingFrom request (stoppingState request process a now) (n2 @ n @ n1)"
  by (auto simp: stoppingFrom_def stoppingState_def Let_def copyVerifiedProcessIdentity_def stopObserved_def
      split: stopProcessState.splits)

context mount_state_repository
begin

lemma emits_finalizeAfterArtifacts:
  "emits (finalizeStoppingAfterArtifacts states state) (\<lambda>r n. list_all storeEvent n
     \<and> (fst r = mountStopCleaned \<longrightarrow> snd r = None \<and> removed state n))"
  unfolding finalizeStoppingAfterArtifacts_def
  by (intro emits_wp emits_unlessErr [OF delete_law]) (auto simp: preserved_def)

lemma emits_finalizeStopping:
  "emits (finalizeStopping E states state) (\<lambda>r n. noSignals n \<and> (fst r = mountStopCleaned \<longrightarrow> snd r = None \<and>
     (\<exists>d a. n = d @ a \<and> list_all storeEvent d \<and> removed state d \<and> tidies a)))"
  unfolding finalizeStopping_def
  by (intro emits_wp emits_unlessErr [OF emits_removeStoppingArtifacts] emits_conseq [OF emits_finalizeAfterArtifacts])
    (auto simp: preserved_def tidies_no_signals storeEvents_no_signals)

lemma emits_reconcileAbsent:
  assumes "list_all hostObservation obs" and "EvIsMountPoint (StagingTarget state) (Inr False) \<in> set obs"
    and "recordedDead state obs" and "sawUnit (SystemdUnit state) (so_State service) obs"
  shows "emits (reconcileAbsent E states state service) (\<lambda>r n. noSignals n
     \<and> (fst r = mountStopCleaned \<longrightarrow> snd r = None \<and> cleanedUp removed state state (n @ obs)))"
proof -
  have finish: "emits (if so_State service' = systemdUnitNotFound then finalizeStopping E states state
        else State_Monad.return (preserved (Errorf ''terminal stopping unit remains'')))
      (\<lambda>r n. noSignals n \<and> (fst r = mountStopCleaned \<longrightarrow> snd r = None \<and> cleanedUp removed state state (n @ mid @ obs)))"
    if mid: "settles (SystemdUnit state) mid" "sawUnit (SystemdUnit state) (so_State service') (mid @ obs)" for service' mid
  proof (rule emits_wp_if)
    assume gone: "so_State service' = systemdUnitNotFound"
    have "settles (SystemdUnit state) (mid @ obs)" "goneEvidence state (mid @ obs)"
      using mid assms gone by (auto simp: settles_observations goneEvidence_def)
    then show "emits (finalizeStopping E states state)
        (\<lambda>r n. noSignals n \<and> (fst r = mountStopCleaned \<longrightarrow> snd r = None \<and> cleanedUp removed state state (n @ mid @ obs)))"
      using cleanedUpI [where b = "[]"] by (intro emits_conseq [OF emits_finalizeStopping]) fastforce
  qed (auto intro!: emits_return simp: preserved_def)
  show ?thesis
    unfolding reconcileAbsent_def Let_def
  proof (intro emits_wp_if, unfold resetFailedUnit_def,
      intro emits_unlessErr [OF emits_runOk] emits_orReturn [OF emits_querySystemdUnit], goal_cases)
    case (3 n1 service' n2)
    then have "settles (SystemdUnit state) (n2 @ n1)" "sawUnit (SystemdUnit state) (so_State service') ((n2 @ n1) @ obs)"
      by (auto simp: settles_observations seen_append)
    from finish [OF this] show ?case using 3 by (rule_tac emits_conseq) (auto simp: observations_no_signals)
  next
    case 4
    then show ?case using finish [of "[]" service] assms by simp
  qed (auto simp: preserved_def observations_no_signals intro: emits_return)
qed

lemma emits_reconcilePresent:
  assumes owned: "StagingTarget owned = StagingTarget state" "SystemdUnit owned = SystemdUnit state"
  shows "emits (reconcilePresent E states state owned service) (\<lambda>r n.
     signalsOnly (PID owned) (PIDStartTime owned) n
     \<and> (fst r = mountStopCleaned \<longrightarrow> snd r = None \<and> cleanedUp removed state owned n))"
proof -
  have artifacts: "emits (if r = Inr True then collect (removeStoppingArtifacts E owned) else State_Monad.return [])
      (\<lambda>_ n. tidies n)" for r :: "error + bool"
    by (intro emits_wp_if emits_conseq [OF emits_collect [OF emits_removeStoppingArtifacts]] emits_return) auto
  show ?thesis
    unfolding reconcilePresent_def Let_def
    by (intro emits_bind_pre [OF emits_runDrain] emits_bind_pre [OF emits_stopService]
        emits_bind_pre [OF emits_unmountStopping] emits_bind_pre [OF emits_killIfAlive]
        emits_bind_pre [OF emits_stoppingResourcesAbsent] emits_bind_pre [OF artifacts] emits_wp_if
        emits_conseq [OF emits_finalizeAfterArtifacts] emits_return)
      (auto intro!: signalsOnly_append cleanedUp_flat
        intro: signalsOnly_quiet observations_no_signals storeEvents_no_signals tidies_no_signals)
qed

text \<open>
  A reconciled stop: whatever it signals is the process it has verified as the mount's, or the
  recorded one, seen alive with its recorded start time before each signal; and it reports
  "cleaned" only after everything was seen gone.
\<close>

definition stopReconciled :: "mountState \<Rightarrow> mountStopResult \<times> error option \<Rightarrow> event list \<Rightarrow> bool" where
  "stopReconciled state r n \<longleftrightarrow>
     (\<exists>owned. (owned = state \<or> (\<exists>v. owned = copyVerifiedProcessIdentity state v \<and> ownedProcess state v n))
        \<and> signalsOnly (PID owned) (PIDStartTime owned) n
        \<and> (fst r = mountStopCleaned \<longrightarrow> snd r = None \<and> cleanedUp removed state owned n))"

lemma stopReconciled_early: "noSignals n \<Longrightarrow> fst r = mountStopPreserved \<Longrightarrow> stopReconciled state r n"
  unfolding stopReconciled_def by (intro exI [of _ state]) (simp add: signalsOnly_quiet)

lemma emits_Stop_Reconcile: "emits (Stop_Reconcile E states state) (stopReconciled state)"
proof -
  have absent: "emits (reconcileAbsent E states state service) (\<lambda>r n2. stopReconciled state r (n2 @ n1))"
    if n1: "list_all hostObservation n1" "EvIsMountPoint (StagingTarget state) (Inr False) \<in> set n1"
      "serviceObserved state service n1" "stopObserved state process n1" "st_State process = stopProcessAbsent"
    for service process n1
  proof -
    have "emits (reconcileAbsent E states state service) (\<lambda>r n. noSignals n
        \<and> (fst r = mountStopCleaned \<longrightarrow> snd r = None \<and> cleanedUp removed state state (n @ n1)))"
      using n1 by (intro emits_reconcileAbsent) (auto simp: serviceObserved_def stopObserved_def)
    then show ?thesis
      by (rule emits_conseq)
        (auto simp: stopReconciled_def n1 observations_no_signals intro!: exI [of _ state] signalsOnly_quiet)
  qed
  have present: "emits (reconcilePresent E states state owned service) (\<lambda>r n2. stopReconciled state r (n2 @ n1))"
    if n1: "list_all hostObservation n1"
      "owned = state \<or> (\<exists>v. owned = copyVerifiedProcessIdentity state v \<and> ownedProcess state v n1)"
    for service owned n1
  proof (rule emits_conseq [OF emits_reconcilePresent])
    show "StagingTarget owned = StagingTarget state" "SystemdUnit owned = SystemdUnit state" using n1(2) by auto
    fix r :: "mountStopResult \<times> error option" and n
    assume "signalsOnly (PID owned) (PIDStartTime owned) n
      \<and> (fst r = mountStopCleaned \<longrightarrow> snd r = None \<and> cleanedUp removed state owned n)"
    moreover have "owned = state \<or> (\<exists>v. owned = copyVerifiedProcessIdentity state v \<and> ownedProcess state v (n @ n1))"
      using n1(2) by auto
    ultimately show "stopReconciled state r (n @ n1)"
      unfolding stopReconciled_def using n1(1) cleanedUp_append
      by (intro exI [of _ owned]) (auto simp: observations_no_signals signalsOnly_quiet)
  qed
  show ?thesis
    unfolding Stop_Reconcile_def Let_def host_defs
  proof (intro emits_wp emits_orReturn [OF emits_observeStopService], goal_cases)
    case (5 x n service process mounted)
    let ?seen = "[EvIsMountPoint (StagingTarget state) (Inr False)] @ n @ [EvCtxErr None]"
    have "serviceObserved state service n" "stopObserved state process n" using 5 by auto
    then have "serviceObserved state service ?seen" "stopObserved state process ?seen"
      by (blast intro: serviceObserved_append stopObserved_append)+
    then show ?case using absent [of ?seen service process] 5 by simp
  next
    case (6 x n service process mounted)
    let ?owned = "if st_State process = stopProcessVerified then copyVerifiedProcessIdentity state (st_Verified process) else state"
    let ?seen = "[EvIsMountPoint (StagingTarget state) (Inr mounted)] @ n @ [EvCtxErr None]"
    have "stopObserved state process n" using 6 by auto
    then have "stopObserved state process ?seen" by (blast intro: stopObserved_append)
    then have "?owned = state \<or> (\<exists>v. ?owned = copyVerifiedProcessIdentity state v \<and> ownedProcess state v ?seen)"
      by (auto simp: stopObserved_def)
    with present [of ?seen ?owned service] 6 show ?case by simp
  qed (auto simp: preserved_def observations_no_signals intro!: stopReconciled_early)
qed

text \<open>
  A stop: observations and an identifier, then the stopping record, and only once that is durable
  anything else.
\<close>

definition stopRun :: "mountStopRequest \<Rightarrow> mountStopResult \<times> error option \<Rightarrow> event list \<Rightarrow> bool" where
  "stopRun request r n \<longleftrightarrow>
     (fst r = mountStopPreserved \<and> snd r \<noteq> None \<and> list_all (\<lambda>e. hostObservation e \<or> storeEvent e) n)
     \<or> (\<exists>after' w before' stopping. n = after' @ w @ before' \<and> list_all (\<lambda>e. hostObservation e \<or> storeEvent e) (w @ before')
          \<and> durable stopping w \<and> stopIntended request stopping \<and> stoppingFrom request stopping before'
          \<and> stopReconciled stopping r after')"

lemma stopRun_early: "list_all (\<lambda>e. hostObservation e \<or> storeEvent e) n \<Longrightarrow> stopRun request (preserved e) n"
  by (simp add: stopRun_def preserved_def)

lemma stopRun_late:
  "stopReconciled stopping r after' \<Longrightarrow> list_all storeEvent w \<Longrightarrow> durable stopping w \<Longrightarrow>
   list_all (\<lambda>e. hostObservation e \<or> storeEvent e) before' \<Longrightarrow> stopIntended request stopping \<Longrightarrow>
   stoppingFrom request stopping before' \<Longrightarrow> stopRun request r (after' @ w @ before')"
  unfolding stopRun_def
  by (intro disjI2 exI [of _ after'] exI [of _ w] exI [of _ before'] exI [of _ stopping]) (auto simp: list_all_iff)

lemma emits_Stop: "emits (Stop E states request) (stopRun request)"
proof -
  have obs: "list_all (\<lambda>e. hostObservation e \<or> storeEvent e) n" if "list_all hostObservation n \<or> list_all storeEvent n" for n
    using that by (auto simp: list_all_iff)
  show ?thesis
    unfolding Stop_def Let_def host_defs
  proof (intro emits_wp emits_orReturn [OF emits_observeStopService] emits_unlessErr [OF write_law], goal_cases)
    case (10 x n service process a now nw)
    have "stopRun request r (nr @ nw @ [EvNow now, EvNewAttemptID (Inr a)] @ n @ [EvCtxErr None])"
      if "stopReconciled (stoppingState request process a now) r nr" for r nr
      using 10 obs stoppingState_from [of request process n a now "[EvNow now, EvNewAttemptID (Inr a)]" "[EvCtxErr None]"]
      by (intro stopRun_late [OF that] stoppingState_intended) auto
    then show ?case by (intro emits_conseq [OF emits_Stop_Reconcile]) simp
  qed (auto intro!: stopRun_early simp: obs)
qed

end

section \<open>Stopping a mount that is gone\<close>

text \<open>The host of the witnesses: a recorded active mount whose process, unit and mount have vanished.\<close>

definition exStop :: mountStopRequest where
  "exStop = \<lparr>stop_State = exActive, stop_PublishConsumers = 0, stop_Intent = mountStopIntentUnstage\<rparr>"

definition exStopping :: mountState where
  "exStopping = stoppingState exStop stopAbsent zeroAttempt 0"

definition exStatePath :: string where "exStatePath = ''/s/'' @ exVolume @ ''.json''"

definition renamed :: "event list \<Rightarrow> bool" where
  "renamed tr \<longleftrightarrow> list_ex (\<lambda>e. case e of EvRename a b r \<Rightarrow> True | _ \<Rightarrow> False) tr"

definition exGone :: env where
  "exGone = (calmHost (\<lambda>s. ''x'') (\<lambda>body. Some (if body = ''a'' then exActive else exStopping)))
     \<lparr>e_ReadFile := \<lambda>tr p.
        if p = exStatePath then Inr (if renamed tr then ''s'' else ''a'') else Inl (Sentinel ErrNotExist),
      e_Lstat := \<lambda>tr p.
        if p = exStatePath then Inr \<lparr>fi_kind = Regular, fi_perm = perm600, fi_size = 1\<rparr>
        else Inl (Sentinel ErrNotExist),
      e_Exec := \<lambda>tr c. (\<lparr>cmd_Stdout = ''LoadState=not-found'' @ [CHR 0x0A] @ ''ActiveState=inactive'' @ [CHR 0x0A]
          @ ''SubState=dead'', cmd_Stderr = [], cmd_ExitCode = 0\<rparr>, None)\<rparr>"

definition exStopStore :: mountStateRepository where
  "exStopStore = mountStateStore exGone (newMountStateStore ''/s'')"

lemma exGone_answers [simp]:
  "e_ReadFile exGone tr exStatePath = Inr (if renamed tr then ''s'' else ''a'')"
  "p \<noteq> exStatePath \<Longrightarrow> e_ReadFile exGone tr p = Inl (Sentinel ErrNotExist)"
  "e_Lstat exGone tr exStatePath = Inr \<lparr>fi_kind = Regular, fi_perm = perm600, fi_size = 1\<rparr>"
  "p \<noteq> exStatePath \<Longrightarrow> e_Lstat exGone tr p = Inl (Sentinel ErrNotExist)"
  "e_Exec exGone tr c = (\<lparr>cmd_Stdout = ''LoadState=not-found'' @ [CHR 0x0A] @ ''ActiveState=inactive'' @ [CHR 0x0A]
          @ ''SubState=dead'', cmd_Stderr = [], cmd_ExitCode = 0\<rparr>, None)"
  "e_NewAttemptID exGone tr = Inr zeroAttempt" "e_OpenFile exGone tr p flag mode = None"
  "e_FileWrite exGone tr p body = Inr (int (length body))" "e_FileSync exGone tr p = None"
  "e_FileClose exGone tr p = None" "e_Chmod exGone tr p mode = None" "e_Rename exGone tr a b = None"
  "e_Remove exGone tr p = None" "e_MarshalState exGone s = ''x''" "e_IsMountPoint exGone tr p = Inr False"
  "e_CtxErr exGone tr = None" "e_Now exGone tr = 0"
  "e_DecodeState exGone body = Some (if body = ''a'' then exActive else exStopping)"
  by (simp_all add: exGone_def calmHost_def)

lemma exStopping_record: "exStopping = exActive\<lparr>Phase := mountStatePhaseStopping, StopAttemptID := zeroAttempt,
    StopIntent := mountStopIntentUnstage, StoppingAt := formatTime 0\<rparr>"
  by (simp add: exStopping_def stoppingState_def exStop_def stopAbsent_def ex_defs)

lemma exStopping_valid: "validateMountState exStopping = None" "validateMountStateTransition (Some exActive) exStopping = None"
proof -
  show v: "validateMountState exStopping = None"
    using ex_parts exNames_Inr [of "CHR ''1''"] drive9ControlSocketPath_root [OF ex_parts(6)]
      drive9ProcessStatePath_Inr [OF ex_parts(6)] attemptIDPattern_zero
    by (simp add: validateMountState_def exStopping_record ex_defs knownPhase_def
        mountStateSchemaVersion_def validateStoppingMountState_def validateActiveProcessIdentity_def
        maxStartupTimeout_def del: append.simps)
  show "validateMountStateTransition (Some exActive) exStopping = None"
    using v by (simp add: validateMountStateTransition_def validateActiveToStopping_def sameMountIdentity_iff
        mountIdentity_def exStopping_record ex_defs)
qed

lemma ex_gone_unit: "parseSystemdUnitObservation (''LoadState=not-found'' @ [CHR 0x0A] @ ''ActiveState=inactive'' @ [CHR 0x0A]
     @ ''SubState=dead'') = Inr \<lparr>so_State = systemdUnitNotFound, so_LoadState = ''not-found'',
       so_ActiveState = ''inactive'', so_SubState = ''dead''\<rparr>"
  by code_simp

lemma ex_state_paths [simp]: "statePath ''/s'' exVolume = Inr exStatePath" "newMountStateStore ''/s'' = ''/s''"
  "ProcessStatePath exActive \<noteq> exStatePath" "ControlSocketPath exActive \<noteq> exStatePath"
  "''/host-proc/7/stat'' \<noteq> exStatePath"
proof -
  show "statePath ''/s'' exVolume = Inr exStatePath" unfolding exStatePath_def by code_simp
  show "newMountStateStore ''/s'' = ''/s''" by code_simp
qed (simp_all add: exStatePath_def ex_defs hostRuntimeDir_def)

definition exNotFound :: systemdUnitObservation where
  "exNotFound = \<lparr>so_State = systemdUnitNotFound, so_LoadState = ''not-found'', so_ActiveState = ''inactive'',
     so_SubState = ''dead''\<rparr>"

definition exQuery :: "event" where
  "exQuery = EvExec (showUnit (SystemdUnit exActive)) \<lparr>cmd_Stdout = ''LoadState=not-found'' @ [CHR 0x0A] @
     ''ActiveState=inactive'' @ [CHR 0x0A] @ ''SubState=dead'', cmd_Stderr = [], cmd_ExitCode = 0\<rparr> None"

definition exObserved :: "event list" where
  "exObserved = [exQuery, EvLstat (ProcessStatePath exActive) (Inl (Sentinel ErrNotExist)),
     EvReadFile ''/host-proc/7/stat'' (Inl (Sentinel ErrNotExist))]"

lemma exGone_query: "run_state (querySystemdUnit exGone (SystemdUnit exActive)) tr = (Inr exNotFound, exQuery # tr)"
proof -
  have "systemdUnitPattern (SystemdUnit exActive)" by (simp add: ex_defs del: append.simps)
  then show ?thesis
    using ex_gone_unit
    by (simp add: querySystemdUnit_def runOutput_def host_defs run_simps exNotFound_def exQuery_def showUnit_def
        del: append.simps)
qed

lemma ex_stopping_fields [simp]: "PID exActive = 7" "PIDStartTime exActive = ''9''" "StagingTarget exActive = exTarget"
  "PID exStopping = 7" "PIDStartTime exStopping = ''9''" "StagingTarget exStopping = exTarget"
  "SystemdUnit exStopping = SystemdUnit exActive" "ProcessStatePath exStopping = ProcessStatePath exActive"
  "ControlSocketPath exStopping = ControlSocketPath exActive" "EnvPath exStopping = []" "ArgsPath exStopping = []"
  "Phase exStopping = mountStatePhaseStopping" "VolumeID exStopping = exVolume" "VolumeID exActive = exVolume"
  "Phase exActive = mountStatePhaseActive" "exStopping \<noteq> exActive" "exActive \<noteq> exStopping"
  by (auto simp: exStopping_record ex_defs)

lemma exGone_observe:
  assumes "s = exActive \<or> s = exStopping"
  shows "run_state (observeStopService exGone s m1 m2 m3 m4) tr = (Inr (exNotFound, stopAbsent), exObserved @ tr)"
proof -
  have f: "PID s = 7" "PIDStartTime s = ''9''" "StagingTarget s = exTarget" "SystemdUnit s = SystemdUnit exActive"
    using assms by auto
  show ?thesis
    by (simp add: observeStopService_def observeStopProcess_def observeRecordedPID_def readHostProcessStartTime_def
        observeStartingProcess_def verifyStopServiceProcess_def serviceRunning_def startingProcess_def
        host_defs run_simps f exGone_query exNotFound_def exObserved_def)
qed

definition exFile :: "string \<Rightarrow> event list" where
  "exFile body = [EvReadFile exStatePath (Inr body),
     EvLstat exStatePath (Inr \<lparr>fi_kind = Regular, fi_perm = perm600, fi_size = 1\<rparr>)]"

lemma exGone_read:
  "run_state (store_Read exGone ''/s'' exVolume) tr =
     (Inr (if renamed tr then exStopping else exActive), exFile (if renamed tr then ''s'' else ''a'') @ tr)"
  using exActive_valid exStopping_valid(1)
  by (auto simp: store_Read_def host_defs run_simps IsRegular_def maxMountStateLength_def decodeMountState_def
      exFile_def renamed_def)

lemma exGone_file: "run_state (writeHostFile exGone f [CHR ''x'', CHR 0x0A]) tr =
    (None, EvFileWrite f [CHR ''x'', CHR 0x0A] (Inr 2) # tr)"
  by (subst writeHostFile.simps) (simp add: FileWrite_def run_simps writeHostFile.simps [of _ _ "[]"])

definition exStopTemp :: string where "exStopTemp = atomicTempPath ''/s'' exStatePath zeroAttempt"

definition exWrote :: "event list" where
  "exWrote =
     [EvUnlock ''mountStateInventory'', EvUnlock exStatePath, EvFileClose ''/s'' None, EvFileSync ''/s'' None,
      EvOpenFile ''/s'' O_RDONLY 0 None, EvRename exStopTemp exStatePath None, EvFileClose exStopTemp None,
      EvFileSync exStopTemp None, EvChmod exStopTemp perm600 None, EvFileWrite exStopTemp [CHR ''x'', CHR 0x0A] (Inr 2),
      EvOpenFile exStopTemp O_WRONLY_CREATE_EXCL perm600 None, EvNewAttemptID (Inr zeroAttempt)]
     @ exFile ''a'' @ [EvLock exStatePath, EvLock ''mountStateInventory'']"

lemma exGone_write: "\<not> renamed tr \<Longrightarrow> run_state (store_Write exGone ''/s'' exStopping) tr = (None, exWrote @ tr)"
  using exStopping_valid
  by (simp add: store_Write_def store_Current_def writeAtomicStateFile_def publishTemp_def syncDirectory_def exWrote_def
      exStopTemp_def exFile_def host_defs run_simps exGone_read exGone_file maxMountStateLength_def Let_def renamed_def)

definition exDeleted :: "event list" where
  "exDeleted =
     [EvUnlock ''mountStateInventory'', EvUnlock exStatePath, EvFileClose ''/s'' None, EvFileSync ''/s'' None,
      EvOpenFile ''/s'' O_RDONLY 0 None, EvRemove exStatePath None] @ exFile ''s''
     @ [EvLock exStatePath, EvLock ''mountStateInventory'']"

lemma exGone_delete: "renamed tr \<Longrightarrow> run_state (store_Delete exGone ''/s'' exStopping) tr = (None, exDeleted @ tr)"
  using exStopping_valid
  by (simp add: store_Delete_def deleteSync_def exDeleted_def exFile_def host_defs run_simps exGone_read renamed_def)

definition exTidied :: "event list" where
  "exTidied = [EvLstat (ControlSocketPath exActive) (Inl (Sentinel ErrNotExist)),
     EvLstat (ProcessStatePath exActive) (Inl (Sentinel ErrNotExist)), EvIsMountPoint exTarget (Inr False)]"

lemma exGone_tidy: "run_state (removeStoppingArtifacts exGone exStopping) tr = (None, exTidied @ tr)"
  by (simp add: removeStoppingArtifacts_def collect_def removeVerifiedDeadRuntimeArtifacts_def deadProcessState_def
      socketPresent_def host_defs run_simps exTidied_def errors_Join_def)

definition exStopEvents :: "event list" where
  "exStopEvents = exDeleted @ exTidied @ [EvIsMountPoint exTarget (Inr False)] @ exObserved @ [EvCtxErr None]
     @ exWrote @ [EvNow 0, EvNewAttemptID (Inr zeroAttempt)] @ exObserved @ [EvCtxErr None]"

lemma exGone_stop_from:
  assumes "\<not> renamed tr"
  shows "run_state (Stop exGone exStopStore exStop) tr = ((mountStopCleaned, None), exStopEvents @ tr)"
proof -
  have quiet: "\<not> renamed (EvNow 0 # EvNewAttemptID (Inr zeroAttempt) # exObserved @ EvCtxErr None # tr)"
    using assms by (simp add: renamed_def exObserved_def exQuery_def)
  have moved: "renamed (n @ exWrote @ tr)" for n tr by (simp add: renamed_def exWrote_def)
  have stopping: "stoppingState exStop stopAbsent zeroAttempt 0 = exStopping" by (simp add: exStopping_def)
  have req: "stop_State exStop = exActive" "stop_PublishConsumers exStop = 0" "stop_Intent exStop = mountStopIntentUnstage"
    by (simp_all add: exStop_def)
  have reconcile: "run_state (Stop_Reconcile exGone exStopStore exStopping) (exWrote @ tr) =
      ((mountStopCleaned, None), exDeleted @ exTidied @ [EvIsMountPoint exTarget (Inr False)] @ exObserved @ [EvCtxErr None] @ exWrote @ tr)"
    for tr
    using exStopping_valid(1) exGone_delete [OF moved, of "exTidied @ EvIsMountPoint exTarget (Inr False) # exObserved @ [EvCtxErr None]" tr]
    by (simp add: Stop_Reconcile_def reconcileAbsent_def finalizeStopping_def finalizeStoppingAfterArtifacts_def
        exStopStore_def mountStateStore_def host_defs run_simps exGone_observe exGone_tidy serviceRunning_def exNotFound_def Let_def)
  show ?thesis
    using exActive_valid exGone_write [OF quiet] reconcile
    by (simp add: Stop_def host_defs run_simps exGone_observe req stopping exStopEvents_def Let_def
        exStopStore_def mountStateStore_def)
qed

lemma exGone_stop: "run_state (Stop exGone exStopStore exStop) [] = ((mountStopCleaned, None), exStopEvents)"
  using exGone_stop_from [of "[]"] by (simp add: renamed_def)

section \<open>Properties\<close>

lemma quiet_no_signals: "list_all (\<lambda>e. hostObservation e \<or> storeEvent e) n \<Longrightarrow> noSignals n"
proof -
  have "storeEvent e \<Longrightarrow> \<not> isSignal e" for e by (cases e) auto
  then show "list_all (\<lambda>e. hostObservation e \<or> storeEvent e) n \<Longrightarrow> noSignals n"
    by (auto simp: noSignals_def list_all_iff dest: observation_no_signal)
qed

lemma run_Stop:
  "run_state (Stop E (mountStateStore E (newMountStateStore dir)) request) tr = (r, n @ tr) \<Longrightarrow>
   node_store.stopRun E dir request r n"
  using emits_run [OF node_store.emits_Stop] by fastforce



text \<open>
  C3: a stop that reports "cleaned" has removed the record last, the mount's files before that,
  and before those, with no action in between but resetting the unit, has seen that the staging
  target is not mounted, that systemd does not know the unit and that the process is dead.
\<close>

theorem stop_cleaned_gone:
  assumes "run_state (Stop E (mountStateStore E (newMountStateStore dir)) request) tr = (r, n @ tr)"
    and "fst r = mountStopCleaned"
  shows "snd r = None \<and> (\<exists>stopping owned. stopIntended request stopping
    \<and> (owned = stopping \<or> (\<exists>v. owned = copyVerifiedProcessIdentity stopping v \<and> ownedProcess stopping v n))
    \<and> cleanedUp (\<lambda>s. deleted E (newMountStateStore dir) s None) stopping owned n)"
proof -
  obtain after' w before' stopping where n: "n = after' @ w @ before'"
    and s: "stopIntended request stopping" "node_store.stopReconciled E dir stopping r after'"
    using run_Stop [OF assms(1)] assms(2) unfolding node_store.stopRun_def by auto
  then obtain owned where o: "owned = stopping \<or> (\<exists>v. owned = copyVerifiedProcessIdentity stopping v \<and> ownedProcess stopping v after')"
    and c: "snd r = None" "cleanedUp (\<lambda>s. deleted E (newMountStateStore dir) s None) stopping owned after'"
    using assms(2) unfolding node_store.stopReconciled_def by blast
  show ?thesis
    using o c s cleanedUp_append [OF c(2), of "w @ before'"] unfolding n by (blast intro: ownedProcess_append)
qed

theorem stop_cleaned_gone_witness:
  "\<exists>stopping owned. stopIntended exStop stopping
     \<and> cleanedUp (\<lambda>s. deleted exGone (newMountStateStore ''/s'') s None) stopping owned exStopEvents"
  using stop_cleaned_gone [of exGone "''/s''" exStop "[]" "(mountStopCleaned, None)" exStopEvents] exGone_stop
  unfolding exStopStore_def by auto



end
