(* ===== verification/NodePreflight.thy ===== *)
theory NodePreflight
  imports MountStop
begin

text \<open>
  \<open>internal/driver/node_preflight.go\<close>: what a node can do for the driver. The capabilities are
  probed once when the service starts; an operation that needs one that is missing fails before
  it touches anything. Reasons keep the constant part of their format strings, like errors.
\<close>

section \<open>Capabilities\<close>

datatype nodeCapabilityName =
    nodeCapabilityHostProc | nodeCapabilityHostNamespace | nodeCapabilityHostPIDSignal
  | nodeCapabilityTransientSystemd | nodeCapabilityFUSEDevice | nodeCapabilitySystemctl
  | nodeCapabilityJournalctl | nodeCapabilityRuntimeDirectory | nodeCapabilityInstalledBinaries
  | nodeCapabilityDrive9Content | nodeCapabilityDrive9Execution | otherNodeCapability string

definition orderedNodeCapabilityNames :: "nodeCapabilityName list" where
  "orderedNodeCapabilityNames =
     [nodeCapabilityHostProc, nodeCapabilityHostNamespace, nodeCapabilityHostPIDSignal,
      nodeCapabilityTransientSystemd, nodeCapabilityFUSEDevice, nodeCapabilitySystemctl,
      nodeCapabilityJournalctl, nodeCapabilityRuntimeDirectory, nodeCapabilityInstalledBinaries,
      nodeCapabilityDrive9Content, nodeCapabilityDrive9Execution]"

record nodeCapabilityStatus =
  cap_Available :: bool
  cap_Reason :: string

type_synonym nodeCapabilities = "nodeCapabilityStatus list"

definition allNodeCapabilityNames :: "nodeCapabilityName list" where
  "allNodeCapabilityNames = orderedNodeCapabilityNames"

definition availableNodeCapabilities :: nodeCapabilities where
  "availableNodeCapabilities =
     replicate (length orderedNodeCapabilityNames) \<lparr>cap_Available = True, cap_Reason = []\<rparr>"

fun capabilityIndexFrom :: "nodeCapabilityName \<Rightarrow> nodeCapabilityName list \<Rightarrow> nat option" where
  "capabilityIndexFrom name [] = None"
| "capabilityIndexFrom name (candidate # rest) =
     (if candidate = name then Some 0 else map_option Suc (capabilityIndexFrom name rest))"

definition nodeCapabilityIndex :: "nodeCapabilityName \<Rightarrow> nat option" where
  "nodeCapabilityIndex name = capabilityIndexFrom name orderedNodeCapabilityNames"

definition capability_Status :: "nodeCapabilities \<Rightarrow> nodeCapabilityName \<Rightarrow> nodeCapabilityStatus" where
  "capability_Status c name =
     (case nodeCapabilityIndex name of
        None \<Rightarrow> \<lparr>cap_Available = False, cap_Reason = ''unknown Node capability''\<rparr>
      | Some index \<Rightarrow> c ! index)"

definition withUnavailable :: "nodeCapabilities \<Rightarrow> nodeCapabilityName \<Rightarrow> string \<Rightarrow> nodeCapabilities" where
  "withUnavailable c name reason =
     (case nodeCapabilityIndex name of
        None \<Rightarrow> c
      | Some index \<Rightarrow> c[index := \<lparr>cap_Available = False, cap_Reason = reason\<rparr>])"

section \<open>Service modes\<close>

datatype driverServiceMode = driverServiceAuto | driverServiceController | driverServiceNode | otherServiceMode string

text \<open>\<open>driverServiceMode(strings.ToLower(strings.TrimSpace(mode)))\<close>.\<close>

definition serviceModeOf :: "string \<Rightarrow> driverServiceMode" where
  "serviceModeOf s =
     (if s = ''auto'' then driverServiceAuto else if s = ''controller'' then driverServiceController
      else if s = ''node'' then driverServiceNode else otherServiceMode s)"

definition nodeRecoveryDisabled :: string where "nodeRecoveryDisabled = ''disabled''"
definition nodeRecoveryAuto :: string where "nodeRecoveryAuto = ''auto''"
definition nodeRecoveryEnabled :: string where "nodeRecoveryEnabled = ''enabled''"

definition resolveDriverServiceMode :: "string \<Rightarrow> string \<Rightarrow> error + driverServiceMode" where
  "resolveDriverServiceMode mode recoveryMode =
     (let normalized = serviceModeOf (ToLower (TrimSpace mode)) in
      if normalized = otherServiceMode [] \<or> normalized = driverServiceAuto
      then (if recoveryMode = nodeRecoveryDisabled then Inr driverServiceController else Inr driverServiceNode)
      else if normalized = driverServiceController \<or> normalized = driverServiceNode then Inr normalized
      else Inl (Errorf ''service mode must be auto, controller, or node''))"

section \<open>Probes\<close>

definition compactDiagnostic :: "bytes \<Rightarrow> string" where
  "compactDiagnostic body = take 256 (Join (Fields body) '' '')"

definition hostProcMountNamespacePath :: string where "hostProcMountNamespacePath = ''/host-proc/1/ns/mnt''"
definition hostProcPIDNamespacePath :: string where "hostProcPIDNamespacePath = ''/host-proc/1/ns/pid''"
definition hostProcRootPath :: string where "hostProcRootPath = ''/host-proc/1/root''"
definition hostDrive9DesiredPath :: string where "hostDrive9DesiredPath = ''/var/lib/drive9-csi/bin/drive9''"

fun openHandles :: "env \<Rightarrow> string list \<Rightarrow> error option prog" where
  "openHandles E [] = State_Monad.return None"
| "openHandles E (path # paths) =
     unlessErr (OpenFile E path O_RDONLY 0) Some (
     unlessErr (FileClose E path) Some (openHandles E paths))"

definition openHostProcHandles :: "env \<Rightarrow> error option prog" where
  "openHostProcHandles E = openHandles E [hostProcMountNamespacePath, hostProcPIDNamespacePath, hostProcRootPath]"

definition checkHostSystemctl :: "env \<Rightarrow> bool prog" where
  "checkHostSystemctl E =
     orReturn (querySystemdUnit E ''drive9-mount-0000000000000000.service'') (\<lambda>_. False) (\<lambda>observation.
       State_Monad.return (so_State observation = systemdUnitNotFound))"

definition classifySystemdPreflightFailure :: "hostCommandResult \<Rightarrow> string" where
  "classifySystemdPreflightFailure result =
     (let diagnostic = ToLower (cmd_Stderr result); has = strContains diagnostic in
      if has ''systemd-run'' \<and> (has ''not found'' \<or> has ''no such file'')
      then ''host systemd-run client unavailable or PATH misconfigured''
      else if has ''failed to connect to bus'' \<or> has ''connection refused'' \<or> has ''dbus''
      then ''host systemd D-Bus inaccessible''
      else if has ''failed to start transient'' \<or> has ''rejected'' \<or> has ''unit already exists''
      then ''host systemd rejected transient unit''
      else ''preflight command failed in transient unit'')"

text \<open>A probe returns the reason it failed, or the empty string.\<close>

definition checkTransientSystemd :: "env \<Rightarrow> string prog" where
  "checkTransientSystemd E =
     orReturn (NewAttemptID E) (\<lambda>_. ''host systemd rejected transient unit'') (\<lambda>attemptID.
     if \<not> attemptIDPattern attemptID then State_Monad.return ''host systemd rejected transient unit''
     else
     ifOk (systemdRunHostCommand (''drive9-preflight-'' @ attemptID) True False ''/bin/true'' [])
         (\<lambda>_. ''host systemd rejected transient unit'') (\<lambda>command. do {
       (result, execErr) \<leftarrow> Exec E command;
       State_Monad.return (if execErr = None \<and> cmd_ExitCode result = 0 then []
         else classifySystemdPreflightFailure result) }))"

definition runHostTest :: "env \<Rightarrow> string list \<Rightarrow> string prog" where
  "runHostTest E args = do {
     (result, err) \<leftarrow> Exec E ((hostNamespaceCommand ''test'' args)\<lparr>cmd_Env := e_Environ E @ [''PATH=/usr/bin:/bin'']\<rparr>);
     State_Monad.return (if err = None \<and> cmd_ExitCode result = 0 then [] else ''host test failed'') }"

fun runHostTests :: "env \<Rightarrow> string list list \<Rightarrow> string prog" where
  "runHostTests E [] = State_Monad.return []"
| "runHostTests E (args # rest) = do {
     reason \<leftarrow> runHostTest E args;
     if reason \<noteq> [] then State_Monad.return reason else runHostTests E rest }"

definition checkHostFUSEDevice :: "env \<Rightarrow> string prog" where
  "checkHostFUSEDevice E = runHostTests E (map (\<lambda>predicate. [predicate, ''/dev/fuse'']) [''-c'', ''-r'', ''-w''])"

definition checkHostExecutable :: "env \<Rightarrow> string \<Rightarrow> string prog" where
  "checkHostExecutable E path = runHostTest E [''-x'', path]"

definition probeRuntimeDirectory :: "env \<Rightarrow> error option prog" where
  "probeRuntimeDirectory E =
     orReturn (NewAttemptID E) (\<lambda>_. Some (Errorf ''cannot create runtime write probe'')) (\<lambda>attemptID.
     if \<not> attemptIDPattern attemptID then State_Monad.return (Some (Errorf ''cannot create runtime write probe''))
     else
       let probePath = path_Join [hostRuntimeDir, ''.preflight-'' @ attemptID] in
       unlessErr (OpenFile E probePath O_WRONLY_CREATE_EXCL perm600) Some (do {
         closeErr \<leftarrow> FileClose E probePath;
         removeErr \<leftarrow> Remove E probePath;
         State_Monad.return (if closeErr \<noteq> None then closeErr else removeErr) }))"

definition prepareHostRuntimeDirectory :: "env \<Rightarrow> error option prog" where
  "prepareHostRuntimeDirectory E = do {
     first \<leftarrow> Lstat E hostRuntimeDir;
     made \<leftarrow> (case first of
         Inl e \<Rightarrow> if errors_Is e ErrNotExist
                  then unlessErr (MkdirAll E hostRuntimeDir perm700) Inl (Lstat E hostRuntimeDir)
                  else State_Monad.return first
       | Inr info \<Rightarrow> State_Monad.return first);
     ifOk made Some (\<lambda>info.
       if fi_kind info \<noteq> Directory
       then State_Monad.return (Some (Errorf ''runtime path is not a real directory''))
       else
       unlessErr (Chown E hostRuntimeDir 0 0) Some (
       unlessErr (Chmod E hostRuntimeDir perm700) Some (probeRuntimeDirectory E))) }"

section \<open>Installed binaries\<close>

text \<open>\<open>Perm() & 0o111 != 0\<close>.\<close>

definition anyExecute :: "fileInfo \<Rightarrow> bool" where
  "anyExecute info \<longleftrightarrow> odd (fi_perm info) \<or> odd (fi_perm info div 8) \<or> odd (fi_perm info div 64)"

definition checkInstalledHostBinaries :: "env \<Rightarrow> bool prog" where
  "checkInstalledHostBinaries E =
     orReturn (Lstat E hostDrive9DesiredPath) (\<lambda>_. False) (\<lambda>desired.
     if fi_kind desired \<noteq> Symlink then State_Monad.return False
     else
     orReturn (Lstat E hostLauncherPath) (\<lambda>_. False) (\<lambda>launcher.
       State_Monad.return (IsRegular launcher \<and> anyExecute launcher)))"

definition validateDesiredDrive9Content :: "env \<Rightarrow> (error + string) prog" where
  "validateDesiredDrive9Content E =
     orReturn (Lstat E hostDrive9DesiredPath)
         (\<lambda>_. Inl (Errorf ''desired Drive9 link is unavailable'')) (\<lambda>desired.
     if fi_kind desired \<noteq> Symlink
     then State_Monad.return (Inl (Errorf ''desired Drive9 link is unavailable''))
     else
     orReturn (Readlink E hostDrive9DesiredPath)
         (\<lambda>_. Inl (Errorf ''desired Drive9 link target is invalid'')) (\<lambda>target.
     if target \<noteq> path_Base target \<or> \<not> binaryNamePattern target
     then State_Monad.return (Inl (Errorf ''desired Drive9 link target is invalid''))
     else
     let targetPath = path_Join [hostBinaryDir, target] in
     ifNil (validateContentAddressedBinaryPath targetPath) Inl (
     orReturn (Lstat E targetPath)
         (\<lambda>_. Inl (Errorf ''content-addressed Drive9 binary is unavailable'')) (\<lambda>info.
     if \<not> IsRegular info \<or> \<not> anyExecute info
     then State_Monad.return (Inl (Errorf ''content-addressed Drive9 binary is unavailable''))
     else
     orReturn (ReadFile E targetPath) Inl (\<lambda>body.
     if sha256hex body \<noteq> TrimPrefix target ''drive9-''
     then State_Monad.return (Inl (Errorf ''content-addressed Drive9 digest does not match''))
     else State_Monad.return (Inr targetPath))))))"

definition drive9MountHelpContainsFlag :: "hostCommandResult \<Rightarrow> string \<Rightarrow> bool" where
  "drive9MountHelpContainsFlag result name =
     list_ex (\<lambda>output. list_ex (\<lambda>line. Fields line \<noteq> [] \<and> hd (Fields line) = ''-'' @ name)
         (Split (CHR 0x0A) output))
       [cmd_Stdout result, cmd_Stderr result]"

definition requiredMountFlags :: "string list" where
  "requiredMountFlags = [''supervise-foreground'', ''gvisor-compat'', ''local-only'', ''remote-only'', ''append-log'']"

definition checkHostDrive9Execution :: "env \<Rightarrow> string \<Rightarrow> string prog" where
  "checkHostDrive9Execution E drive9Path =
     (let unavailable = ''host systemd cannot execute Drive9 binary'' in
     orReturn (NewAttemptID E) (\<lambda>_. unavailable) (\<lambda>attemptID.
     if \<not> attemptIDPattern attemptID then State_Monad.return unavailable
     else
     ifOk (systemdRunHostCommand (''drive9-preflight-'' @ attemptID) True True drive9Path
             [''mount'', superviseForegroundFlag, directMountStrictFlag, ''--help''])
         (\<lambda>_. unavailable) (\<lambda>command. do {
       (result, err) \<leftarrow> Exec E command;
       State_Monad.return (if err \<noteq> None \<or> cmd_ExitCode result \<noteq> 0 then ''host Drive9 execution probe failed''
         else if list_all (drive9MountHelpContainsFlag result) requiredMountFlags then []
         else ''host Drive9 mount help missing required flag'') })))"

section \<open>The preflight\<close>

text \<open>A capability stays available exactly when its probe gives no reason.\<close>

definition noteProbe :: "nodeCapabilityName \<Rightarrow> string \<Rightarrow> nodeCapabilities \<Rightarrow> nodeCapabilities" where
  "noteProbe name reason capabilities =
     (if reason = [] then capabilities else withUnavailable capabilities name reason)"

definition reasonUnless :: "bool \<Rightarrow> string \<Rightarrow> string" where
  "reasonUnless ok reason = (if ok then [] else reason)"

definition checkHostNamespace :: "env \<Rightarrow> string prog" where
  "checkHostNamespace E = do {
     (result, err) \<leftarrow> Exec E (hostNamespaceCommand ''/bin/true'' []);
     State_Monad.return (reasonUnless (err = None \<and> cmd_ExitCode result = 0)
       ''nsenter into host mount namespace/root failed'') }"

definition checkHostPIDSignal :: "env \<Rightarrow> string prog" where
  "checkHostPIDSignal E =
     orReturn (hostPIDSignalCommand E ''0'' 1) (\<lambda>_. ''host systemd PID signal execution unavailable'') (\<lambda>command. do {
       (result, err) \<leftarrow> Exec E command;
       State_Monad.return (reasonUnless (err = None \<and> cmd_ExitCode result = 0)
         ''host systemd PID signal execution unavailable'') })"

definition checkDrive9 :: "env \<Rightarrow> nodeCapabilities \<Rightarrow> nodeCapabilities prog" where
  "checkDrive9 E capabilities =
     orReturn (validateDesiredDrive9Content E)
       (\<lambda>_. withUnavailable
              (withUnavailable capabilities nodeCapabilityDrive9Content
                 ''host Drive9 content-addressed binary validation failed'')
              nodeCapabilityDrive9Execution ''host Drive9 execution probe not attempted'')
       (\<lambda>drive9Path. do {
          reason \<leftarrow> checkHostDrive9Execution E drive9Path;
          State_Monad.return (noteProbe nodeCapabilityDrive9Execution reason capabilities) })"

definition runNodePreflight :: "env \<Rightarrow> nodeCapabilities prog" where
  "runNodePreflight E = do {
     handles \<leftarrow> openHostProcHandles E;
     let c = noteProbe nodeCapabilityHostProc (reasonUnless (handles = None)
           ''host /proc not mounted at /host-proc or PID 1 namespace/root inaccessible'') availableNodeCapabilities;
     namespace \<leftarrow> checkHostNamespace E;
     let c = noteProbe nodeCapabilityHostNamespace namespace c;
     pidSignal \<leftarrow> checkHostPIDSignal E;
     let c = noteProbe nodeCapabilityHostPIDSignal pidSignal c;
     transient \<leftarrow> checkTransientSystemd E;
     let c = noteProbe nodeCapabilityTransientSystemd transient c;
     fuse \<leftarrow> checkHostFUSEDevice E;
     let c = noteProbe nodeCapabilityFUSEDevice fuse c;
     systemctl \<leftarrow> checkHostSystemctl E;
     let c = noteProbe nodeCapabilitySystemctl (reasonUnless systemctl ''host systemctl executable unavailable'') c;
     journalctl \<leftarrow> checkHostExecutable E ''/usr/bin/journalctl'';
     let c = noteProbe nodeCapabilityJournalctl journalctl c;
     runtimeDir \<leftarrow> prepareHostRuntimeDirectory E;
     let c = noteProbe nodeCapabilityRuntimeDirectory (reasonUnless (runtimeDir = None)
           ''host /run/drive9-csi runtime directory unavailable or unsafe'') c;
     installed \<leftarrow> checkInstalledHostBinaries E;
     let c = noteProbe nodeCapabilityInstalledBinaries (reasonUnless installed
           ''host Drive9 binaries missing'') c;
     checkDrive9 E c }"

definition prepareDriverService :: "env \<Rightarrow> driverServiceMode \<Rightarrow> (error + bool \<times> nodeCapabilities) prog" where
  "prepareDriverService E mode =
     (case mode of
        driverServiceController \<Rightarrow>
          State_Monad.return (Inr (False, replicate 11 \<lparr>cap_Available = False, cap_Reason = []\<rparr>))
      | driverServiceNode \<Rightarrow> do {
          capabilities \<leftarrow> runNodePreflight E;
          State_Monad.return (Inr (True, capabilities)) }
      | _ \<Rightarrow> State_Monad.return (Inl (Errorf ''invalid driver service mode'')))"

section \<open>What an operation requires\<close>

datatype nodeOperation =
    nodeOperationHealthyStage | nodeOperationCreate | nodeOperationPublish | nodeOperationUnstage
  | nodeOperationUnpublish | otherNodeOperation string

fun requiredNodeCapabilities :: "nodeOperation \<Rightarrow> nodeCapabilityName list option" where
  "requiredNodeCapabilities nodeOperationCreate = Some allNodeCapabilityNames"
| "requiredNodeCapabilities nodeOperationHealthyStage =
     Some [nodeCapabilityHostProc, nodeCapabilityHostNamespace, nodeCapabilitySystemctl,
           nodeCapabilityRuntimeDirectory]"
| "requiredNodeCapabilities nodeOperationPublish =
     Some [nodeCapabilityHostProc, nodeCapabilityHostNamespace, nodeCapabilitySystemctl,
           nodeCapabilityRuntimeDirectory]"
| "requiredNodeCapabilities nodeOperationUnstage =
     Some [nodeCapabilityHostProc, nodeCapabilityHostNamespace, nodeCapabilityHostPIDSignal,
           nodeCapabilitySystemctl, nodeCapabilityRuntimeDirectory]"
| "requiredNodeCapabilities nodeOperationUnpublish = Some []"
| "requiredNodeCapabilities (otherNodeOperation s) = None"

definition requireNodeCapabilities :: "nodeCapabilities \<Rightarrow> nodeOperation \<Rightarrow> error option" where
  "requireNodeCapabilities capabilities operation =
     (case requiredNodeCapabilities operation of
        None \<Rightarrow> Some (Status FailedPrecondition ''unknown Node operation'')
      | Some required \<Rightarrow> first_error (map (\<lambda>name. fail_if (\<not> cap_Available (capability_Status capabilities name))
            (Status FailedPrecondition ''node capability unavailable'')) required))"

end
