(* ===== verification/MountLaunch.thy ===== *)
theory MountLaunch
  imports NodePreflight
begin

text \<open>
  \<open>internal/driver/mount_lifecycle.go\<close>: launching a mount attempt. The request is checked, the
  starting record made durable, the startup files published, the transient unit started, and the
  attempt promoted to active when its process is verified. \<open>Launch\<close> itself is in
  \<open>StartingReconcile\<close>, since it falls back on reconciliation.

  The wait for readiness polls until a deadline of the host's clock; its number of iterations is
  bounded by fuel here, and the result \<open>None\<close> stands for a loop that has not returned.
\<close>

section \<open>Requests\<close>

definition mountReadinessPollInterval :: duration where "mountReadinessPollInterval = milliseconds 250"
definition mountServiceStopTimeout :: duration where "mountServiceStopTimeout = seconds 120"
definition maxStartupFileLength :: nat where "maxStartupFileLength = 1048576"

record mountLaunchRequest =
  ml_VolumeID :: string
  ml_RemoteRoot :: string
  ml_StagingTarget :: string
  ml_Server :: string
  ml_APIKey :: string
  ml_MountArgs :: "string list"
  ml_Reason :: mountStartReason
  ml_FallbackBinaryPath :: string
  ml_FallbackMountArgs :: "string list"

definition trimASCIIWhitespace :: "string \<Rightarrow> string" where
  "trimASCIIWhitespace value =
     Trim value [CHR '' '', CHR 0x09, CHR 0x0D, CHR 0x0A, CHR 0x0B, CHR 0x0C]"

fun mountArgsContainServer :: "string list \<Rightarrow> string \<Rightarrow> bool" where
  "mountArgsContainServer (a # b # rest) server =
     (a = ''--server'' \<and> b = server \<or> mountArgsContainServer (b # rest) server)"
| "mountArgsContainServer args server = False"

definition validateMountLaunchRequest :: "mountLaunchRequest \<Rightarrow> error option" where
  "validateMountLaunchRequest request = first_error
     [fail_if (CHR 0x00 \<in> set (ml_Server request) \<or> CHR 0x00 \<in> set (ml_APIKey request))
        (Errorf ''drive9-csi: secret value contains NUL byte, cannot pass to mount process''),
      fail_if (ml_Server request = [] \<or> ml_APIKey request = []) (Errorf ''Drive9 server and API key are required''),
      fail_if (trimASCIIWhitespace (ml_Server request) \<noteq> ml_Server request
               \<or> trimASCIIWhitespace (ml_APIKey request) \<noteq> ml_APIKey request)
        (Errorf ''Drive9 credential values must not have surrounding ASCII whitespace''),
      fail_if (\<not> volumeIDPattern (ml_VolumeID request)) (Errorf ''invalid Drive9 volume ID''),
      fail_if (normalizeRemotePath (ml_RemoteRoot request) \<noteq> Inr (ml_RemoteRoot request))
        (Errorf ''invalid canonical remote root''),
      fail_if (canonicalStagingTarget (ml_StagingTarget request) \<noteq> Inr (ml_StagingTarget request))
        (Errorf ''invalid canonical staging target''),
      fail_if (ml_Reason request \<noteq> mountStartReasonStage \<and> ml_Reason request \<noteq> mountStartReasonRecovery)
        (Errorf ''invalid mount start reason''),
      validateMountStateArgs (ml_MountArgs request) (ml_RemoteRoot request) (ml_StagingTarget request),
      fail_if (\<not> mountArgsContainServer (ml_MountArgs request) (ml_Server request))
        (Errorf ''mount argv does not contain the exact requested server''),
      fail_if (ml_Reason request = mountStartReasonStage
               \<and> (ml_FallbackBinaryPath request \<noteq> [] \<or> ml_FallbackMountArgs request \<noteq> []))
        (Errorf ''stage mount cannot contain fallback identity''),
      fail_if ((ml_FallbackBinaryPath request = []) \<noteq> (ml_FallbackMountArgs request = []))
        (Errorf ''fallback mount identity is incomplete''),
      (if ml_FallbackBinaryPath request \<noteq> []
       then first_error
         [validateContentAddressedBinaryPath (ml_FallbackBinaryPath request),
          validateMountStateArgs (ml_FallbackMountArgs request) (ml_RemoteRoot request) (ml_StagingTarget request)]
       else None)]"

definition validateHostLauncherBinary :: "env \<Rightarrow> error option prog" where
  "validateHostLauncherBinary E =
     orReturn (Lstat E hostLauncherPath)
         (\<lambda>_. Some (Errorf ''host Drive9 launcher is missing or not executable'')) (\<lambda>info.
       State_Monad.return (fail_if (\<not> IsRegular info \<or> \<not> anyExecute info)
         (Errorf ''host Drive9 launcher is missing or not executable'')))"

section \<open>Startup files\<close>

definition encodeNULTerminated :: "string list \<Rightarrow> bytes" where
  "encodeNULTerminated values = concat (map (\<lambda>value. value @ [CHR 0x00]) values)"

definition validateStartupFilePath :: "string \<Rightarrow> error option" where
  "validateStartupFilePath path = first_error
     [fail_if (\<not> IsAbs path \<or> Clean path \<noteq> path \<or> path_Dir path \<noteq> hostRuntimeDir)
        (Errorf ''invalid startup file path''),
      fail_if (\<not> HasSuffix (path_Base path) ''.env'' \<and> \<not> HasSuffix (path_Base path) ''.args'')
        (Errorf ''invalid startup file extension'')]"

definition verifyExistingStartupFile :: "env \<Rightarrow> string \<Rightarrow> bytes \<Rightarrow> error option prog" where
  "verifyExistingStartupFile E path expected =
     orReturn (Lstat E path) Some (\<lambda>info.
     if \<not> IsRegular info \<or> fi_perm info \<noteq> perm600 \<or> int maxStartupFileLength < fi_size info
     then State_Monad.return (Some (Errorf ''existing startup file is unsafe''))
     else
     orReturn (ReadFile E path) Some (\<lambda>body.
       State_Monad.return (fail_if (body \<noteq> expected)
         (Errorf ''existing startup file belongs to a different attempt''))))"

text \<open>The steps from the open temporary file on; the deferred removal is explicit.\<close>

definition linkStartupFile :: "env \<Rightarrow> string \<Rightarrow> string \<Rightarrow> bytes \<Rightarrow> error option prog" where
  "linkStartupFile E tempPath finalPath body = do {
     r \<leftarrow> Link E tempPath finalPath;
     case r of
       None \<Rightarrow> State_Monad.return None
     | Some e \<Rightarrow>
         if \<not> errors_Is e ErrExist then State_Monad.return (Some e)
         else verifyExistingStartupFile E finalPath body }"

definition syncRuntimeDirectory :: "env \<Rightarrow> error option prog" where
  "syncRuntimeDirectory E =
     unlessErr (OpenFile E hostRuntimeDir O_RDONLY 0) Some (do {
       r \<leftarrow> FileSync E hostRuntimeDir;
       case r of
         Some e \<Rightarrow> do { FileClose E hostRuntimeDir; State_Monad.return (Some e) }
       | None \<Rightarrow> FileClose E hostRuntimeDir })"

definition fillStartupFile :: "env \<Rightarrow> string \<Rightarrow> bytes \<Rightarrow> error option prog" where
  "fillStartupFile E tempPath body = do {
     w \<leftarrow> writeHostFile E tempPath body;
     case w of
       Some e \<Rightarrow> closeAndRemoveTemp E tempPath e
     | None \<Rightarrow> do {
     o' \<leftarrow> Chown E tempPath 0 0;
     case o' of
       Some e \<Rightarrow> closeAndRemoveTemp E tempPath e
     | None \<Rightarrow> do {
     m \<leftarrow> Chmod E tempPath perm600;
     case m of
       Some e \<Rightarrow> closeAndRemoveTemp E tempPath e
     | None \<Rightarrow> do {
     s \<leftarrow> FileSync E tempPath;
     case s of
       Some e \<Rightarrow> closeAndRemoveTemp E tempPath e
     | None \<Rightarrow> do {
     c \<leftarrow> FileClose E tempPath;
     case c of
       Some e \<Rightarrow> removeTemp E tempPath e
     | None \<Rightarrow> State_Monad.return None }}}}}"

text \<open>A failed removal of the temporary file returns its error, after the deferred second attempt.\<close>

definition publishStartupFile :: "env \<Rightarrow> string \<Rightarrow> bytes \<Rightarrow> error option prog" where
  "publishStartupFile E finalPath body =
     ifNil (validateStartupFilePath finalPath) Some (
     if body = [] \<or> maxStartupFileLength < length body
     then State_Monad.return (Some (Errorf ''startup file content size is invalid''))
     else
       let tempPath = finalPath @ ''.tmp'' in
       unlessErr (OpenFile E tempPath O_WRONLY_CREATE_EXCL perm600) Some (
       unlessErr (fillStartupFile E tempPath body) Some (do {
         l \<leftarrow> linkStartupFile E tempPath finalPath body;
         case l of
           Some e \<Rightarrow> removeTemp E tempPath e
         | None \<Rightarrow> do {
         rm \<leftarrow> Remove E tempPath;
         case rm of
           Some e \<Rightarrow> removeTemp E tempPath e
         | None \<Rightarrow> syncRuntimeDirectory E }})))"

definition startupEnvironment :: "string \<Rightarrow> string \<Rightarrow> string list" where
  "startupEnvironment server apiKey =
     [''DRIVE9_SERVER='' @ server, ''DRIVE9_API_KEY='' @ apiKey] @ hostMountRuntimeEnvironment"

definition mountSystemdRunHostCommand :: "mountState \<Rightarrow> error + hostCommand" where
  "mountSystemdRunHostCommand state =
     (if Phase state \<noteq> mountStatePhaseStarting \<or> \<not> systemdUnitPattern (SystemdUnit state)
      then Inl (Errorf ''invalid starting state for systemd launch'')
      else ebind (mountSystemdUnitDescription state) (\<lambda>description.
        Inr (hostSystemdManagerCommand ''/usr/bin/systemd-run''
          [''--service-type=exec'', ''--collect'', ''--unit='' @ SystemdUnit state,
           ''--description='' @ description, ''--property=Restart=no'',
           ''--property=TimeoutStopSec='' @ FormatInt (mountServiceStopTimeout div 1000000000) @ ''s'',
           ''--'', hostLauncherPath, EnvPath state, ArgsPath state])))"

section \<open>Promotion\<close>

definition validateReadyControlSocket :: "env \<Rightarrow> string \<Rightarrow> error option prog" where
  "validateReadyControlSocket E path =
     orReturn (Lstat E path) (\<lambda>e. Some (Wrap ''Drive9 control socket is unavailable'' e)) (\<lambda>info.
       State_Monad.return (fail_if (\<not> isRealSocket info)
         (Errorf ''Drive9 control socket is not a real Unix socket'')))"

definition verifyStartingSystemdOwnership ::
    "env \<Rightarrow> mountState \<Rightarrow> systemdUnitObservation \<Rightarrow> verifiedProcessIdentity \<Rightarrow> error option prog" where
  "verifyStartingSystemdOwnership E state service process =
     (if \<not> serviceRunning service
      then State_Monad.return (Some (ownershipError ''ready starting process has no live systemd service''))
      else
        orReturn (verifyStartingSystemdMainPIDOwnership E state) Some (\<lambda>found.
          State_Monad.return (case found of
              None \<Rightarrow> Some (ownershipError ''ready starting service has no MainPID'')
            | Some mainProcess \<Rightarrow>
                fail_if (vp_PID mainProcess \<noteq> vp_PID process
                         \<or> vp_PIDStartTime mainProcess \<noteq> vp_PIDStartTime process)
                  (ownershipError ''starting process-state PID and systemd MainPID differ''))))"

definition activeState :: "mountState \<Rightarrow> verifiedProcessIdentity \<Rightarrow> time \<Rightarrow> mountState" where
  "activeState starting verified now =
     starting\<lparr>Phase := mountStatePhaseActive, Reason := noReason, FallbackBinaryPath := [],
       FallbackMountArgs := [], EnvPath := [], ArgsPath := [], StartupDeadline := [],
       PID := vp_PID verified, PIDStartTime := vp_PIDStartTime verified,
       ControlSocketPath := vp_ControlSocketPath verified, ProcessStatePath := vp_ProcessStatePath verified,
       StartedAt := formatTime now\<rparr>"

definition promoteActive ::
    "env \<Rightarrow> mountStateRepository \<Rightarrow> mountState \<Rightarrow> verifiedProcessIdentity \<Rightarrow> (error + mountState) prog" where
  "promoteActive E states starting verified =
     unlessErr (removeAttemptStartupFiles E starting)
         (\<lambda>e. Inl (Wrap ''remove consumed startup files before promotion'' e)) (do {
       now \<leftarrow> Now E;
       let active = activeState starting verified now;
       unlessErr (repo_Write states active) (\<lambda>e. Inl (Wrap ''promote verified mount to active'' e))
         (State_Monad.return (Inr active)) })"

definition classifyReadinessFailure :: "env \<Rightarrow> mountState \<Rightarrow> error prog" where
  "classifyReadinessFailure E state =
     orReturn (querySystemdUnit E (SystemdUnit state))
         (\<lambda>e. Wrap ''query mount service after readiness deadline'' e) (\<lambda>observation.
     ifOk (classifySystemdAttempt observation True) id (\<lambda>attemptState.
       State_Monad.return (
         if attemptState = systemdAttemptExited \<or> attemptState = systemdAttemptAbsent
         then Errorf ''Drive9 mount service exited before readiness''
         else Errorf ''Drive9 mount attempt not ready before persisted deadline'')))"

section \<open>Waiting for readiness\<close>

text \<open>
  One observation: the attempt is ready and promoted (or the wait is over with an error), or not
  ready yet, with whether the target is mounted.
\<close>

definition promoteReady ::
    "env \<Rightarrow> mountStateRepository \<Rightarrow> mountState \<Rightarrow> verifiedProcessIdentity \<Rightarrow> (error + mountState) prog" where
  "promoteReady E states starting verified =
     unlessErr (validateReadyControlSocket E (vp_ControlSocketPath verified)) Inl (
     orReturn (querySystemdUnit E (SystemdUnit starting)) Inl (\<lambda>service.
     unlessErr (verifyStartingSystemdOwnership E starting service verified) Inl (
       promoteActive E states starting verified)))"

definition observeReadiness ::
    "env \<Rightarrow> mountStateRepository \<Rightarrow> mountState \<Rightarrow> string \<Rightarrow> ((error + mountState) + bool) prog" where
  "observeReadiness E states starting processStatePath =
     unlessErr (CtxErr E) (\<lambda>e. Inl (Inl e)) (
     orReturn (IsMountPoint E (StagingTarget starting))
         (\<lambda>e. Inl (Inl (Wrap ''observe staging mount'' e))) (\<lambda>mounted. do {
     r \<leftarrow> Lstat E processStatePath;
     case r of
       Inl e \<Rightarrow>
         if errors_Is e ErrNotExist then State_Monad.return (Inr mounted)
         else State_Monad.return (Inl (Inl (Wrap ''observe Drive9 process-state file'' e)))
     | Inr info \<Rightarrow>
         if \<not> IsRegular info \<or> fi_perm info \<noteq> perm600
         then State_Monad.return (Inl (Inl (ownershipError ''unsafe Drive9 process-state file'')))
         else
         orReturn (verifyProcessOwnership E (recordedExpectation starting))
             (\<lambda>e. Inl (Inl (Wrap ''ownership verification failed'' e))) (\<lambda>verified.
         if \<not> mounted then State_Monad.return (Inr mounted)
         else do {
           promoted \<leftarrow> promoteReady E states starting verified;
           State_Monad.return (Inl promoted) }) }))"

fun waitReady ::
    "env \<Rightarrow> mountStateRepository \<Rightarrow> mountState \<Rightarrow> time \<Rightarrow> string \<Rightarrow> nat \<Rightarrow> (error + mountState) option prog" where
  "waitReady E states starting deadline processStatePath 0 = State_Monad.return None"
| "waitReady E states starting deadline processStatePath (Suc fuel) = do {
     r \<leftarrow> observeReadiness E states starting processStatePath;
     case r of
       Inl result \<Rightarrow> State_Monad.return (Some result)
     | Inr mounted \<Rightarrow> do {
         now \<leftarrow> Now E;
         if deadline \<le> now
         then do { e \<leftarrow> classifyReadinessFailure E starting; State_Monad.return (Some (Inl e)) }
         else
           unlessErr (Wait E (min mountReadinessPollInterval (time_Sub deadline now))) (\<lambda>e. Some (Inl e))
             (waitReady E states starting deadline processStatePath fuel) }}"

declare waitReady.simps [simp del]

definition waitForMountAndPromote ::
    "env \<Rightarrow> nat \<Rightarrow> mountStateRepository \<Rightarrow> mountState \<Rightarrow> (error + mountState) option prog" where
  "waitForMountAndPromote E fuel states starting =
     ifOk (parseCanonicalStateTime (StartupDeadline starting)) (\<lambda>e. Some (Inl e)) (\<lambda>deadline.
     ifOk (drive9ProcessStatePath (StagingTarget starting)) (\<lambda>e. Some (Inl e)) (\<lambda>processStatePath.
       waitReady E states starting deadline processStatePath fuel))"

end
