(* ===== verification/StartingReconcile.thy ===== *)
theory StartingReconcile
  imports MountLaunch
begin

text \<open>
  \<open>internal/driver/mount_reconcile_starting.go\<close>: what becomes of a recorded starting attempt. A
  ready attempt is promoted, one still on its way is waited for, an absent one is resumed, replaced
  by the fallback of its recovery, or given up; an expired one is stopped first. With \<open>Launch\<close> of
  \<open>mount_lifecycle.go\<close>, which ends in a reconciliation when its wait fails.

  \<open>None\<close> is a wait that has not returned within its fuel (see \<open>MountLaunch\<close>).
\<close>

datatype startingReconcileResult =
    startingReconcilePromoted | startingReconcileDeleted | startingReconcileResumed
  | startingReconcileSwitched | startingReconcileDegraded | startingReconcilePreserved

type_synonym startingOutcome = "(startingReconcileResult \<times> error option) option"

record mountLaunchCredentials =
  lc_Server :: string
  lc_APIKey :: string

definition keep :: "error \<Rightarrow> startingOutcome" where
  "keep e = Some (startingReconcilePreserved, Some e)"

definition degraded :: "error \<Rightarrow> startingOutcome" where
  "degraded e = Some (startingReconcileDegraded, Some e)"

text \<open>The result of a wait, once it has returned.\<close>

definition whenDone :: "'a option prog \<Rightarrow> ('a \<Rightarrow> 'b option prog) \<Rightarrow> 'b option prog" where
  "whenDone m k = do { r \<leftarrow> m; case r of None \<Rightarrow> State_Monad.return None | Some x \<Rightarrow> k x }"

section \<open>Credentials\<close>

fun mountStateServer :: "string list \<Rightarrow> string option" where
  "mountStateServer (a # b # rest) = (if a = ''--server'' then Some b else mountStateServer (b # rest))"
| "mountStateServer args = None"

definition startingRequest :: "mountState \<Rightarrow> mountLaunchCredentials \<Rightarrow> mountLaunchRequest" where
  "startingRequest state credentials =
     \<lparr>ml_VolumeID = VolumeID state, ml_RemoteRoot = RemoteRoot state, ml_StagingTarget = StagingTarget state,
      ml_Server = lc_Server credentials, ml_APIKey = lc_APIKey credentials, ml_MountArgs = MountArgs state,
      ml_Reason = Reason state,
      ml_FallbackBinaryPath = FallbackBinaryPath state,
      ml_FallbackMountArgs = (if FallbackBinaryPath state \<noteq> [] then FallbackMountArgs state else [])\<rparr>"

definition validateStartingCredentials :: "mountState \<Rightarrow> mountLaunchCredentials option \<Rightarrow> error option" where
  "validateStartingCredentials state credentials =
     (case credentials of
        None \<Rightarrow> Some (Wrap ''resume starting attempt'' (Sentinel ErrStartingCredentialsRequired))
      | Some creds \<Rightarrow>
          if mountStateServer (MountArgs state) \<noteq> Some (lc_Server creds)
          then Some (Errorf ''current credential server does not match persisted mount attempt'')
          else validateMountLaunchRequest (startingRequest state creds))"

definition validateRecoveryFallbackEligibility :: "string list \<Rightarrow> error option" where
  "validateRecoveryFallbackEligibility args =
     fail_if (\<not> mountArgsUseDirectMountStrict args)
       (Errorf ''recorded recovery fallback predates direct mount strict and is ineligible'')"

section \<open>Cleaning up\<close>

definition removeFailedUnit :: "env \<Rightarrow> mountState \<Rightarrow> error option prog" where
  "removeFailedUnit E state =
     unlessErr (verifyMountSystemdUnitDescription E state) Some (
     unlessErr (runOk E (hostSystemctlCommand [''reset-failed'', ''--'', SystemdUnit state])
         (Errorf ''remove failed transient unit'')) Some (
     orReturn (querySystemdUnit E (SystemdUnit state))
         (\<lambda>_. Some (Errorf ''failed transient unit is not absent'')) (\<lambda>observation.
       State_Monad.return (fail_if (so_State observation \<noteq> systemdUnitNotFound)
         (Errorf ''failed transient unit is not absent'')))))"

text \<open>A kernel unmount followed by a look at the mount point.\<close>

definition unmountDisconnectedStarting :: "env \<Rightarrow> mountState \<Rightarrow> error option prog" where
  "unmountDisconnectedStarting E state =
     orReturn (IsMountPoint E (StagingTarget state)) Some (\<lambda>mounted.
     orReturn (if mounted then do { runKernelUnmount E state False; IsMountPoint E (StagingTarget state) }
               else State_Monad.return (Inr mounted)) Some (\<lambda>mounted.
     orReturn (if mounted
               then unlessErr (runKernelUnmount E state True) Inl (IsMountPoint E (StagingTarget state))
               else State_Monad.return (Inr mounted)) Some (\<lambda>mounted.
       State_Monad.return (fail_if mounted (Errorf ''disconnected starting mount remains present'')))))"

definition removeDeadProcessArtifacts :: "env \<Rightarrow> mountState \<Rightarrow> error option prog" where
  "removeDeadProcessArtifacts E state = removeVerifiedDeadRuntimeArtifacts E state"

section \<open>Resuming and falling back\<close>

definition resumeStarting ::
    "env \<Rightarrow> nat \<Rightarrow> mountStateRepository \<Rightarrow> mountState \<Rightarrow> mountLaunchCredentials option \<Rightarrow> startingOutcome prog" where
  "resumeStarting E fuel states state credentials =
     ifNil (validateStartingCredentials state credentials) keep (
     let creds = the credentials;
         envBody = encodeNULTerminated (startupEnvironment (lc_Server creds) (lc_APIKey creds));
         argsBody = encodeNULTerminated (BinaryPath state # MountArgs state)
     in
     unlessErr (publishStartupFile E (EnvPath state) envBody) (\<lambda>e. keep (Wrap ''resume environment file'' e)) (
     unlessErr (publishStartupFile E (ArgsPath state) argsBody) (\<lambda>e. keep (Wrap ''resume argument file'' e)) (
     ifOk (mountSystemdRunHostCommand state) keep (\<lambda>command.
     unlessErr (runOk E command (Errorf ''resume Drive9 transient service'')) keep (
     whenDone (waitForMountAndPromote E fuel states state) (\<lambda>result.
       State_Monad.return (case result of
           Inl e \<Rightarrow> keep e
         | Inr active \<Rightarrow>
             if Phase active = mountStatePhaseActive then Some (startingReconcilePromoted, None)
             else Some (startingReconcileResumed, None))))))))"

definition fallbackCandidate :: "mountState \<Rightarrow> string \<Rightarrow> volumeHostNames \<Rightarrow> mountState" where
  "fallbackCandidate state attemptID names =
     noMountState\<lparr>Reason := mountStartReasonRecovery, AttemptID := attemptID, VolumeID := VolumeID state,
       RemoteRoot := RemoteRoot state, StagingTarget := StagingTarget state, SystemdUnit := SystemdUnit state,
       BinaryPath := FallbackBinaryPath state, MountArgs := FallbackMountArgs state,
       EnvPath := names_EnvPath names, ArgsPath := names_ArgsPath names\<rparr>"

definition switchToFallback ::
    "env \<Rightarrow> nat \<Rightarrow> mountStateRepository \<Rightarrow> mountState \<Rightarrow> mountLaunchCredentials option \<Rightarrow> startingOutcome prog" where
  "switchToFallback E fuel states state credentials =
     (if FallbackBinaryPath state = [] \<or> FallbackMountArgs state = []
      then State_Monad.return (degraded (Errorf ''recovery fallback candidate is unavailable''))
      else
      ifNil (validateRecoveryFallbackEligibility (FallbackMountArgs state)) degraded (
      if credentials = None \<or> mountStateServer (FallbackMountArgs state) \<noteq> map_option lc_Server credentials
      then State_Monad.return (keep (Wrap ''recovery fallback'' (Sentinel ErrStartingCredentialsRequired)))
      else
      unlessErr (removeAttemptStartupFiles E state) keep (
      orReturn (querySystemdUnit E (SystemdUnit state))
          (\<lambda>e. keep (Wrap ''desired attempt is not fully absent'' e)) (\<lambda>observation.
      if so_State observation \<noteq> systemdUnitNotFound
      then State_Monad.return (keep (Wrap ''desired attempt is not fully absent'' (Errorf ''unit state'')))
      else
      orReturn (NewAttemptID E) (\<lambda>_. keep (Errorf ''generate fallback attempt ID'')) (\<lambda>attemptID.
      if \<not> attemptIDPattern attemptID
      then State_Monad.return (keep (Errorf ''generate fallback attempt ID''))
      else
      ifOk (newVolumeHostNames (VolumeID state) attemptID) keep (\<lambda>names. do {
        now \<leftarrow> Now E;
        ifOk (initializeStartingMountState (fallbackCandidate state attemptID names) now) keep (\<lambda>fallback.
        unlessErr (repo_Write states fallback) (\<lambda>e. keep (Wrap ''commit fallback attempt'' e)) (
        whenDone (resumeStarting E fuel states fallback credentials) (\<lambda>(result, err).
          State_Monad.return (Some (if err \<noteq> None then (startingReconcileSwitched, err) else (result, None)))))) }))))))"

definition handleAbsentStarting ::
    "env \<Rightarrow> nat \<Rightarrow> mountStateRepository \<Rightarrow> mountState \<Rightarrow> mountLaunchCredentials option \<Rightarrow>
     startingProcessObservation \<Rightarrow> bool \<Rightarrow> bool \<Rightarrow> duration \<Rightarrow> startingOutcome prog" where
  "handleAbsentStarting E fuel states state credentials process mounted failed remaining =
     (if mounted then State_Monad.return (keep (Errorf ''starting mount remains present''))
      else
      unlessErr (if sp_State process = startingProcessDead then removeDeadProcessArtifacts E state
                 else State_Monad.return None) keep (
      unlessErr (removeAttemptStartupFiles E state) keep (
      if Reason state = mountStartReasonStage
      then unlessErr (repo_Delete states state) (\<lambda>e. keep (Wrap ''delete cancelled stage state'' e))
             (State_Monad.return (Some (startingReconcileDeleted, None)))
      else if \<not> mountArgsUseDirectMountStrict (MountArgs state)
      then State_Monad.return (degraded (Errorf
             ''recorded starting mount predates direct mount strict and cannot be relaunched''))
      else if FallbackBinaryPath state \<noteq> []
      then (if \<not> failed \<and> 0 < remaining then resumeStarting E fuel states state credentials
            else switchToFallback E fuel states state credentials)
      else if failed \<or> remaining = 0
      then do { removeAttemptStartupFiles E state;
                State_Monad.return (degraded (Errorf ''recovery fallback candidate failed'')) }
      else resumeStarting E fuel states state credentials)))"

section \<open>An expired attempt\<close>

text \<open>The process to stop: with the identity shown by the process-state file or the unit's main process.\<close>

definition expiredOwner ::
    "env \<Rightarrow> mountState \<Rightarrow> startingProcessObservation \<Rightarrow> systemdUnitObservation \<Rightarrow> (error + mountState) prog" where
  "expiredOwner E state process service =
     (let processVerified = sp_State process = startingProcessVerified;
          owned = (if processVerified then copyVerifiedProcessIdentity state (sp_Verified process) else state)
      in if serviceRunning service then
           orReturn (verifyStartingSystemdMainPIDOwnership E state)
               (\<lambda>e. Inl (Wrap ''expired starting service ownership'' e)) (\<lambda>found.
             State_Monad.return (case found of
                 None \<Rightarrow> Inr owned
               | Some mainProcess \<Rightarrow>
                   if processVerified \<and> vp_PID (sp_Verified process) \<noteq> vp_PID mainProcess
                   then Inl (ownershipError ''starting process-state PID and systemd MainPID differ'')
                   else Inr (copyVerifiedProcessIdentity owned mainProcess)))
         else if \<not> processVerified
         then State_Monad.return (Inl (Errorf ''expired starting attempt has no verified process owner''))
         else State_Monad.return (Inr owned))"

definition unmountExpired :: "env \<Rightarrow> mountState \<Rightarrow> mountState \<Rightarrow> error option prog" where
  "unmountExpired E state owned =
     orReturn (IsMountPoint E (StagingTarget state)) (\<lambda>e. Some (Wrap ''verify expired starting mount'' e)) (\<lambda>mounted.
     if \<not> mounted then State_Monad.return None
     else do {
       runKernelUnmount E owned False;
       orReturn (IsMountPoint E (StagingTarget state)) Some (\<lambda>mounted.
         if mounted then runKernelUnmount E owned True else State_Monad.return None) })"

definition stopExpired :: "env \<Rightarrow> mountState \<Rightarrow> mountState \<Rightarrow> systemdUnitObservation \<Rightarrow> error option prog" where
  "stopExpired E state owned service =
     orReturn (IsMountPoint E (StagingTarget state)) (\<lambda>e. Some (Wrap ''observe expired starting mount'' e)) (\<lambda>mounted. do {
       (if mounted then runDrain E owned else State_Monad.return None);
       unlessErr (if serviceRunning service then stopSystemdUnit E owned else State_Monad.return None)
           (\<lambda>e. Some (Wrap ''stop expired starting service'' e)) (
       unlessErr (unmountExpired E state owned) Some (
       orReturn (stoppingPIDAlive E owned) Some (\<lambda>alive.
         if alive then killStoppingPID E owned else State_Monad.return None))) })"

definition expiredGone :: "env \<Rightarrow> mountState \<Rightarrow> mountState \<Rightarrow> error option prog" where
  "expiredGone E state owned =
     orReturn (querySystemdUnit E (SystemdUnit state)) Some (\<lambda>service.
     orReturn (if so_State service = systemdUnitFailed
               then unlessErr (resetFailedUnit E owned) Inl (querySystemdUnit E (SystemdUnit state))
               else State_Monad.return (Inr service)) Some (\<lambda>service.
     if so_State service \<noteq> systemdUnitNotFound
     then State_Monad.return (Some (Errorf ''expired starting service remains''))
     else
     orReturn (IsMountPoint E (StagingTarget state)) Some (\<lambda>mounted.
     if mounted then State_Monad.return (Some (Errorf ''expired starting mount remains present''))
     else
     orReturn (stoppingPIDAlive E owned) Some (\<lambda>alive.
       State_Monad.return (fail_if alive (Errorf ''expired starting process remains alive''))))))"

definition failExpiredStarting ::
    "env \<Rightarrow> nat \<Rightarrow> mountStateRepository \<Rightarrow> mountState \<Rightarrow> mountLaunchCredentials option \<Rightarrow>
     startingProcessObservation \<Rightarrow> systemdUnitObservation \<Rightarrow> startingOutcome prog" where
  "failExpiredStarting E fuel states state credentials process service =
     orReturn (expiredOwner E state process service) keep (\<lambda>owned.
     unlessErr (stopExpired E state owned service) keep (
     unlessErr (expiredGone E state owned) keep (
     unlessErr (removeAttemptStartupFiles E state) keep (
     unlessErr (removeDeadProcessArtifacts E state) keep (
       handleAbsentStarting E fuel states state credentials (startingProcess startingProcessAbsent) False True 0)))))"

section \<open>Reconciliation\<close>

text \<open>An attempt whose unit is gone or has failed, once cleanup is allowed.\<close>

definition reconcileDeadUnit ::
    "env \<Rightarrow> nat \<Rightarrow> mountStateRepository \<Rightarrow> mountState \<Rightarrow> mountLaunchCredentials option \<Rightarrow> bool \<Rightarrow>
     startingProcessObservation \<Rightarrow> bool \<Rightarrow> duration \<Rightarrow> startingOutcome prog" where
  "reconcileDeadUnit E fuel states state credentials allowCleanup process mounted remaining =
     (if sp_State process = startingProcessVerified
      then State_Monad.return (keep (Errorf ''live owned process remains after service failure''))
      else if mounted \<and> sp_State process \<noteq> startingProcessDead
      then State_Monad.return (keep (Errorf ''mounted target lacks a verified dead Drive9 process''))
      else if \<not> allowCleanup then State_Monad.return (keep (Sentinel ErrStartingCleanupRequired))
      else
      unlessErr (verifyMountSystemdUnitDescription E state) keep (
      unlessErr (if mounted then unmountDisconnectedStarting E state else State_Monad.return None) keep (
      unlessErr (removeFailedUnit E state) keep (
        handleAbsentStarting E fuel states state credentials process False True remaining))))"

definition reconcileNoUnit ::
    "env \<Rightarrow> nat \<Rightarrow> mountStateRepository \<Rightarrow> mountState \<Rightarrow> mountLaunchCredentials option \<Rightarrow> bool \<Rightarrow>
     startingProcessObservation \<Rightarrow> bool \<Rightarrow> duration \<Rightarrow> startingOutcome prog" where
  "reconcileNoUnit E fuel states state credentials allowCleanup process mounted remaining =
     (if sp_State process = startingProcessVerified
      then State_Monad.return (keep (Errorf ''live owned process remains without its systemd unit''))
      else if mounted \<and> sp_State process \<noteq> startingProcessDead
      then State_Monad.return (keep (Errorf ''mounted target has no attributable Drive9 process''))
      else if \<not> allowCleanup then State_Monad.return (keep (Sentinel ErrStartingCleanupRequired))
      else
      unlessErr (if mounted then unmountDisconnectedStarting E state else State_Monad.return None) keep (
        handleAbsentStarting E fuel states state credentials process False False remaining))"

text \<open>The attempt is mounted by its verified process.\<close>

definition reconcileReady ::
    "env \<Rightarrow> mountStateRepository \<Rightarrow> mountState \<Rightarrow> systemdUnitObservation \<Rightarrow> verifiedProcessIdentity \<Rightarrow> startingOutcome prog" where
  "reconcileReady E states state observation verified =
     unlessErr (validateReadyControlSocket E (vp_ControlSocketPath verified)) keep (
     unlessErr (verifyStartingSystemdOwnership E state observation verified) keep (
     orReturn (promoteActive E states state verified) keep (\<lambda>_.
       State_Monad.return (Some (startingReconcilePromoted, None)))))"

text \<open>\<open>invalid starting state: %w\<close>, where the wrapped error may be nil.\<close>

definition invalidStarting :: "mountState \<Rightarrow> error" where
  "invalidStarting state =
     (case validateMountState state of
        Some e \<Rightarrow> Wrap ''invalid starting state'' e
      | None \<Rightarrow> Errorf ''invalid starting state'')"

fun Starting_Reconcile ::
    "env \<Rightarrow> nat \<Rightarrow> mountStateRepository \<Rightarrow> mountState \<Rightarrow> mountLaunchCredentials option \<Rightarrow> bool \<Rightarrow> nat \<Rightarrow>
     startingOutcome prog" where
  "Starting_Reconcile E fuel states state credentials allowCleanup 0 = State_Monad.return None"
| "Starting_Reconcile E fuel states state credentials allowCleanup (Suc rounds) =
     unlessErr (CtxErr E) keep (
     if validateMountState state \<noteq> None \<or> Phase state \<noteq> mountStatePhaseStarting
     then State_Monad.return (keep (invalidStarting state))
     else
     orReturn (IsMountPoint E (StagingTarget state)) (\<lambda>e. keep (Wrap ''observe starting mount'' e)) (\<lambda>mounted.
     orReturn (observeStartingProcess E state)
         (\<lambda>e. keep (Wrap ''starting process ownership is ambiguous'' e)) (\<lambda>process.
     if sp_State process = startingProcessMismatch
     then State_Monad.return (keep (Wrap ''starting process ownership is ambiguous'' (Sentinel ErrProcessOwnership)))
     else
     orReturn (querySystemdUnit E (SystemdUnit state))
         (\<lambda>e. keep (Wrap ''systemd starting-state query failed'' e)) (\<lambda>observation.
     if mounted \<and> sp_State process = startingProcessVerified
     then reconcileReady E states state observation (sp_Verified process)
     else do {
       now \<leftarrow> Now E;
       ifOk (remainingStartupTimeout state now) keep (\<lambda>remaining.
         case so_State observation of
           systemdUnitInactive \<Rightarrow>
             reconcileDeadUnit E fuel states state credentials allowCleanup process mounted remaining
         | systemdUnitFailed \<Rightarrow>
             reconcileDeadUnit E fuel states state credentials allowCleanup process mounted remaining
         | systemdUnitNotFound \<Rightarrow>
             reconcileNoUnit E fuel states state credentials allowCleanup process mounted remaining
         | systemdUnitQueryError \<Rightarrow>
             State_Monad.return (keep (Errorf ''systemd starting-state query returned ambiguous state''))
         | _ \<Rightarrow>
             if sp_State process = startingProcessDead
             then State_Monad.return (keep (Errorf ''active service has a dead recorded process''))
             else if \<not> mountArgsUseDirectMountStrict (MountArgs state) \<or> remaining = 0
             then (if \<not> allowCleanup then State_Monad.return (keep (Sentinel ErrStartingCleanupRequired))
                   else failExpiredStarting E fuel states state credentials process observation)
             else
               whenDone (waitForMountAndPromote E fuel states state) (\<lambda>result.
                 case result of
                   Inr active \<Rightarrow>
                     State_Monad.return (Some
                       (if Phase active = mountStatePhaseActive then startingReconcilePromoted
                        else startingReconcileResumed, None))
                 | Inl e \<Rightarrow> do {
                     ctx \<leftarrow> CtxErr E;
                     if ctx \<noteq> None then State_Monad.return (keep e)
                     else do {
                       now' \<leftarrow> Now E;
                       if remainingStartupTimeout state now' = Inr 0
                       then Starting_Reconcile E fuel states state credentials allowCleanup rounds
                       else State_Monad.return (keep e) }})) }))))"

declare Starting_Reconcile.simps [simp del]

section \<open>Launching\<close>

definition launchCandidate :: "mountLaunchRequest \<Rightarrow> string \<Rightarrow> volumeHostNames \<Rightarrow> string \<Rightarrow> mountState" where
  "launchCandidate request attemptID names binaryPath =
     noMountState\<lparr>Reason := ml_Reason request, AttemptID := attemptID, VolumeID := ml_VolumeID request,
       RemoteRoot := ml_RemoteRoot request, StagingTarget := ml_StagingTarget request,
       SystemdUnit := names_SystemdUnit names, BinaryPath := binaryPath,
       FallbackBinaryPath := ml_FallbackBinaryPath request, MountArgs := ml_MountArgs request,
       FallbackMountArgs := ml_FallbackMountArgs request, EnvPath := names_EnvPath names,
       ArgsPath := names_ArgsPath names\<rparr>"

text \<open>Publish the startup files, start the unit.\<close>

definition startAttempt :: "env \<Rightarrow> mountLaunchRequest \<Rightarrow> mountState \<Rightarrow> error option prog" where
  "startAttempt E request candidate =
     (let envBody = encodeNULTerminated (startupEnvironment (ml_Server request) (ml_APIKey request));
          argsBody = encodeNULTerminated (BinaryPath candidate # ml_MountArgs request)
      in
      unlessErr (publishStartupFile E (EnvPath candidate) envBody)
          (\<lambda>e. Some (Wrap ''publish mount environment file'' e)) (
      unlessErr (publishStartupFile E (ArgsPath candidate) argsBody)
          (\<lambda>e. Some (Wrap ''publish mount argument file'' e)) (
      ifOk (mountSystemdRunHostCommand candidate) Some (\<lambda>command.
        runOk E command (Errorf ''start Drive9 transient service'')))))"

text \<open>The launch up to the durable starting record.\<close>

definition prepareLaunch ::
    "env \<Rightarrow> mountStateRepository \<Rightarrow> mountLaunchRequest \<Rightarrow> (error + mountState) prog" where
  "prepareLaunch E states request =
     unlessErr (CtxErr E) Inl (
     ifNil (validateMountLaunchRequest request) Inl (
     if \<not> mountArgsUseDirectMountStrict (ml_MountArgs request)
     then State_Monad.return (Inl (Errorf ''new mount argv must contain exactly one direct-mount-strict flag''))
     else
     orReturn (validateDesiredDrive9Content E) (\<lambda>e. Inl (Wrap ''snapshot desired Drive9 binary'' e)) (\<lambda>binaryPath.
     unlessErr (validateHostLauncherBinary E) Inl (
     orReturn (NewAttemptID E) (\<lambda>_. Inl (Errorf ''generate mount attempt ID'')) (\<lambda>attemptID.
     if \<not> attemptIDPattern attemptID
     then State_Monad.return (Inl (Errorf ''generate mount attempt ID''))
     else
     ifOk (newVolumeHostNames (ml_VolumeID request) attemptID) Inl (\<lambda>names. do {
       now \<leftarrow> Now E;
       ifOk (initializeStartingMountState (launchCandidate request attemptID names binaryPath) now) Inl (\<lambda>candidate.
       unlessErr (repo_Write states candidate) (\<lambda>e. Inl (Wrap ''commit starting mount state'' e))
         (State_Monad.return (Inr candidate))) }))))))"

text \<open>The wait, and the reconciliation when it fails.\<close>

definition awaitLaunch ::
    "env \<Rightarrow> nat \<Rightarrow> nat \<Rightarrow> mountStateRepository \<Rightarrow> mountLaunchRequest \<Rightarrow> mountState \<Rightarrow> (error + mountState) option prog" where
  "awaitLaunch E fuel rounds states request candidate =
     whenDone (waitForMountAndPromote E fuel states candidate) (\<lambda>waited.
       case waited of
         Inr active \<Rightarrow> State_Monad.return (Some (Inr active))
       | Inl waitErr \<Rightarrow> do {
           ctx \<leftarrow> CtxErr E;
           if ctx \<noteq> None then State_Monad.return (Some (Inl waitErr))
           else
             whenDone (Starting_Reconcile E fuel states candidate
                 (Some \<lparr>lc_Server = ml_Server request, lc_APIKey = ml_APIKey request\<rparr>) True rounds)
               (\<lambda>(result, reconcileErr).
                 if result = startingReconcilePromoted \<and> reconcileErr = None then
                   orReturn (repo_Read states (VolumeID candidate))
                     (\<lambda>e. Some (Inl (Joined [waitErr, Wrap ''read promoted mount state'' e])))
                     (\<lambda>promoted. State_Monad.return (Some (Inr promoted)))
                 else State_Monad.return (Some (Inl (Joined (waitErr # err_list reconcileErr))))) })"

definition Launch ::
    "env \<Rightarrow> nat \<Rightarrow> nat \<Rightarrow> mountStateRepository \<Rightarrow> mountLaunchRequest \<Rightarrow> (error + mountState) option prog" where
  "Launch E fuel rounds states request =
     orReturn (prepareLaunch E states request) (\<lambda>e. Some (Inl e)) (\<lambda>candidate.
     unlessErr (startAttempt E request candidate) (\<lambda>e. Some (Inl e)) (
       awaitLaunch E fuel rounds states request candidate))"

end
