(* ===== verification/LaunchSafety.thy ===== *)
theory LaunchSafety
  imports StartingReconcile
begin

text \<open>
  What launching guarantees. Safety: the starting record is durable before anything is started, and
  an attempt becomes active only when its process, its unit, its mount and its socket were verified.
  Termination: on a host whose clock does not go back and passes the time that is waited, a wait
  for readiness, a reconciliation and a launch return; the fuel that is enough follows from the
  90 seconds of a startup and the poll interval.
\<close>

section \<open>Programs extend the history\<close>

abbreviation grows :: "'a prog \<Rightarrow> bool" where
  "grows m \<equiv> emits_only (\<lambda>_. True) m"

lemma grows_emits: "emits m \<Phi> \<Longrightarrow> grows m"
  unfolding emits_only_def by (erule emits_conseq) simp

lemma grows_run: "grows m \<Longrightarrow> \<exists>n. snd (run_state m tr) = n @ tr"
  unfolding emits_only_def emits_def by metis

lemma grows_only: "emits_only A m \<Longrightarrow> grows m"
  by (erule emits_only_mono) simp

lemmas grows_looks [emits_intro] =
  grows_emits [OF emits_verifyProcessOwnership] grows_emits [OF emits_querySystemdUnit]
  grows_emits [OF emits_verifyMountSystemdUnitDescription] grows_emits [OF emits_verifyStartingSystemdMainPIDOwnership]
  grows_emits [OF emits_removeAttemptStartupFiles] grows_emits [OF emits_observeStartingProcess]
  grows_emits [OF emits_runOk] grows_emits [OF emits_stoppingPIDAlive]

lemma grows_whenDone [emits_intro]: "grows m \<Longrightarrow> (\<And>x. grows (k x)) \<Longrightarrow> grows (whenDone m k)"
  unfolding whenDone_def by (intro emits_intro)

section \<open>Programs that return\<close>

text \<open>
  A condition on the history that later events do not undo, and programs that return whenever they
  start in such a history.
\<close>

definition lasting :: "(event list \<Rightarrow> bool) \<Rightarrow> bool" where
  "lasting P \<longleftrightarrow> (\<forall>n tr. P tr \<longrightarrow> P (n @ tr))"

definition finishes :: "(event list \<Rightarrow> bool) \<Rightarrow> 'a option prog \<Rightarrow> bool" where
  "finishes P m \<longleftrightarrow> (\<forall>tr. P tr \<longrightarrow> fst (run_state m tr) \<noteq> None)"

named_theorems finishes_intro "rules for programs that return"

lemma finishes_return [finishes_intro]: "x \<noteq> None \<Longrightarrow> finishes P (State_Monad.return x)"
  by (simp add: finishes_def run_simps)

lemma lasting_run: "lasting P \<Longrightarrow> grows m \<Longrightarrow> P tr \<Longrightarrow> P (snd (run_state m tr))"
  unfolding lasting_def using grows_run by metis

lemma finishes_bind [finishes_intro]:
  "lasting P \<Longrightarrow> grows m \<Longrightarrow> (\<And>x. finishes P (f x)) \<Longrightarrow> finishes P (State_Monad.bind m f)"
  using lasting_run [of P m] by (auto simp: finishes_def run_simps split: prod.split) force

lemma finishes_orReturn [finishes_intro]:
  "lasting P \<Longrightarrow> grows m \<Longrightarrow> (\<And>e. h e \<noteq> None) \<Longrightarrow> (\<And>x. finishes P (k x)) \<Longrightarrow> finishes P (orReturn m h k)"
  unfolding orReturn_def by (intro finishes_bind) (auto intro: finishes_return split: sum.split)

lemma finishes_unlessErr [finishes_intro]:
  "lasting P \<Longrightarrow> grows m \<Longrightarrow> (\<And>e. h e \<noteq> None) \<Longrightarrow> finishes P k \<Longrightarrow> finishes P (unlessErr m h k)"
  unfolding unlessErr_def by (intro finishes_bind) (auto intro: finishes_return split: option.split)

lemma finishes_ifNil [finishes_intro]:
  "(\<And>e. h e \<noteq> None) \<Longrightarrow> (r = None \<Longrightarrow> finishes P k) \<Longrightarrow> finishes P (ifNil r h k)"
  by (cases r) (auto simp: ifNil_def intro: finishes_return)

lemma finishes_ifOk [finishes_intro]:
  "(\<And>e. h e \<noteq> None) \<Longrightarrow> (\<And>x. r = Inr x \<Longrightarrow> finishes P (k x)) \<Longrightarrow> finishes P (ifOk r h k)"
  by (cases r) (auto simp: ifOk_def intro: finishes_return)

lemma finishes_if [finishes_intro]:
  "(b \<Longrightarrow> finishes P m) \<Longrightarrow> (\<not> b \<Longrightarrow> finishes P n) \<Longrightarrow> finishes P (if b then m else n)"
  by simp

lemma finishes_let [finishes_intro]: "finishes P (f x) \<Longrightarrow> finishes P (let y = x in f y)"
  by simp

lemma finishes_whenDone:
  assumes "lasting P" and "grows m" and "finishes P m" and "\<And>x. finishes P (k x)"
  shows "finishes P (whenDone m k)"
  unfolding finishes_def
proof (intro allI impI)
  fix tr
  assume tr: "P tr"
  obtain x tr' where m: "run_state m tr = (Some x, tr')"
    using assms(3) tr unfolding finishes_def by (metis option.exhaust prod.collapse)
  then have "P tr'" using lasting_run [OF assms(1,2) tr] by simp
  then show "fst (run_state (whenDone m k) tr) \<noteq> None"
    using m assms(4) by (simp add: whenDone_def run_simps finishes_def)
qed

lemma finishes_sum [finishes_intro]:
  "(\<And>x. finishes P (f x)) \<Longrightarrow> (\<And>y. finishes P (g y)) \<Longrightarrow> finishes P (case r of Inl x \<Rightarrow> f x | Inr y \<Rightarrow> g y)"
  by (cases r) auto

lemma finishes_prod [finishes_intro]: "(\<And>x y. finishes P (f x y)) \<Longrightarrow> finishes P (case r of (x, y) \<Rightarrow> f x y)"
  by (cases r) auto

section \<open>The clock\<close>

text \<open>Time does not go back, and a wait that ends without an error has lasted.\<close>

definition steadyClock :: "env \<Rightarrow> bool" where
  "steadyClock E \<longleftrightarrow> (\<forall>n tr. e_Now E tr \<le> e_Now E (n @ tr))
     \<and> (\<forall>d tr. int (e_Now E tr) + d \<le> int (e_Now E (EvWait d None # tr)))"

text \<open>The deadline comes within \<open>k\<close> polls of the present.\<close>

definition dueWithin :: "env \<Rightarrow> time \<Rightarrow> nat \<Rightarrow> event list \<Rightarrow> bool" where
  "dueWithin E deadline k tr \<longleftrightarrow> int deadline \<le> int (e_Now E tr) + int k * mountReadinessPollInterval"

lemma clock_mono: "steadyClock E \<Longrightarrow> e_Now E tr \<le> e_Now E (n @ tr)"
  by (simp add: steadyClock_def)

lemma clock_wait: "steadyClock E \<Longrightarrow> int (e_Now E tr) + d \<le> int (e_Now E (EvWait d None # tr))"
  by (simp add: steadyClock_def)

lemma lasting_due: "steadyClock E \<Longrightarrow> lasting (dueWithin E deadline k)"
  unfolding lasting_def dueWithin_def by (meson add_right_mono clock_mono dual_order.trans of_nat_mono)

lemma due_mono: "dueWithin E deadline k tr \<Longrightarrow> k \<le> k' \<Longrightarrow> dueWithin E deadline k' tr"
  by (simp add: dueWithin_def mountReadinessPollInterval_def milliseconds_def)

section \<open>Everything in a launch extends the history\<close>

lemma grows_writeHostFile [emits_intro]: "grows (writeHostFile E f body)"
  by (rule grows_only [OF emits_only_writeHostFile])

lemmas startup_programs = publishStartupFile_def fillStartupFile_def linkStartupFile_def verifyExistingStartupFile_def
  syncRuntimeDirectory_def closeAndRemoveTemp_def removeTemp_def

lemma grows_publishStartupFile [emits_intro]: "grows (publishStartupFile E path body)"
  unfolding startup_programs Let_def host_defs by (intro emits_intro TrueI)

lemma grows_killStoppingPID [emits_intro]: "grows (killStoppingPID E state)"
proof -
  have death: "grows (waitForDeath E state interval fuel)" for interval fuel
    by (induction fuel) (auto intro!: emits_intro simp: host_defs)
  show ?thesis
    unfolding killStoppingPID_def hostPIDSignalCommand_def host_defs by (intro emits_intro TrueI death)
qed

lemma grows_artifacts [emits_intro]: "grows (removeDeadProcessArtifacts E state)"
  unfolding removeDeadProcessArtifacts_def by (rule grows_emits [OF emits_removeVerifiedDeadRuntimeArtifacts])

lemmas cleanup_programs = removeFailedUnit_def unmountDisconnectedStarting_def expiredOwner_def unmountExpired_def
  stopExpired_def expiredGone_def stopSystemdUnit_def resetFailedUnit_def runKernelUnmount_def runDrain_def

lemma grows_cleanup [emits_intro]:
  "grows (removeFailedUnit E state)" "grows (unmountDisconnectedStarting E state)"
  "grows (expiredOwner E state process service)" "grows (stopExpired E state owned service)" "grows (expiredGone E state owned)"
  unfolding cleanup_programs Let_def host_defs by (intro emits_intro TrueI)+

context mount_state_repository
begin

lemma grows_repository: "grows (repo_Write states s)" "grows (repo_Delete states s)" "grows (repo_Read states v)"
  by (rule grows_emits [OF write_law] grows_emits [OF delete_law] grows_emits [OF read_law])+

lemma grows_promoteActive: "grows (promoteActive E states starting verified)"
  unfolding promoteActive_def Let_def host_defs by (intro emits_intro TrueI grows_repository)

lemma grows_observeReadiness: "grows (observeReadiness E states starting processStatePath)"
  unfolding observeReadiness_def promoteReady_def validateReadyControlSocket_def verifyStartingSystemdOwnership_def host_defs
  by (intro emits_intro TrueI grows_promoteActive)

lemma grows_waitReady: "grows (waitReady E states starting deadline p fuel)"
  by (induction fuel)
    (auto simp: waitReady.simps classifyReadinessFailure_def host_defs intro!: emits_intro grows_observeReadiness)

lemma grows_wait: "grows (waitForMountAndPromote E fuel states starting)"
  unfolding waitForMountAndPromote_def by (intro emits_intro grows_waitReady)

section \<open>A wait returns\<close>

lemma waitReady_finishes:
  assumes clock: "steadyClock E"
  shows "finishes (dueWithin E deadline k) (waitReady E states starting deadline p (Suc k))"
proof (induction k)
  case 0
  show ?case
    unfolding finishes_def
  proof (intro allI impI)
    fix tr
    assume due: "dueWithin E deadline 0 tr"
    obtain r n where "run_state (observeReadiness E states starting p) tr = (r, n @ tr)"
      using grows_run [OF grows_observeReadiness] by (metis prod.collapse)
    moreover have "deadline \<le> e_Now E (n @ tr)"
      using due clock_mono [OF clock, of tr n] by (simp add: dueWithin_def)
    ultimately show "fst (run_state (waitReady E states starting deadline p (Suc 0)) tr) \<noteq> None"
      by (simp add: waitReady.simps run_simps host_defs split: sum.split prod.split)
  qed
next
  case (Suc k)
  show ?case
    unfolding finishes_def
  proof (intro allI impI)
    fix tr
    assume due: "dueWithin E deadline (Suc k) tr"
    obtain r n where observed: "run_state (observeReadiness E states starting p) tr = (r, n @ tr)"
      using grows_run [OF grows_observeReadiness] by (metis prod.collapse)
    let ?tr = "EvNow (e_Now E (n @ tr)) # n @ tr"
    let ?d = "min mountReadinessPollInterval (time_Sub deadline (e_Now E (n @ tr)))"
    let ?next = "EvWait ?d None # ?tr"
    have "dueWithin E deadline k ?next" if "e_Now E (n @ tr) < deadline"
    proof -
      have "int (e_Now E ?tr) + ?d \<le> int (e_Now E ?next)" by (rule clock_wait [OF clock])
      moreover have "int (e_Now E (n @ tr)) \<le> int (e_Now E ?tr)"
        using clock_mono [OF clock, of "n @ tr" "[EvNow (e_Now E (n @ tr))]"] by simp
      moreover have "int (e_Now E tr) \<le> int (e_Now E (n @ tr))"
        using clock_mono [OF clock] by simp
      moreover have "?d = min mountReadinessPollInterval (int deadline - int (e_Now E (n @ tr)))"
        using that by (auto simp: time_Sub_def mountReadinessPollInterval_def milliseconds_def)
      moreover have "0 \<le> int k * mountReadinessPollInterval"
        by (simp add: mountReadinessPollInterval_def milliseconds_def)
      moreover have "int (Suc k) * mountReadinessPollInterval = int k * mountReadinessPollInterval + mountReadinessPollInterval"
        by (simp add: distrib_right)
      ultimately show ?thesis
        using due unfolding dueWithin_def by linarith
    qed
    then have "e_Now E (n @ tr) < deadline \<Longrightarrow>
        fst (run_state (waitReady E states starting deadline p (Suc k)) ?next) \<noteq> None"
      using Suc.IH by (simp add: finishes_def)
    then show "fst (run_state (waitReady E states starting deadline p (Suc (Suc k))) tr) \<noteq> None"
      using observed
      by (subst waitReady.simps) (auto simp: run_simps host_defs split: sum.split prod.split option.split)
  qed
qed

lemma wait_finishes:
  assumes "steadyClock E"
    and "\<And>deadline. parseCanonicalStateTime (StartupDeadline starting) = Inr deadline \<Longrightarrow> P tr \<Longrightarrow> dueWithin E deadline k tr"
  shows "P tr \<Longrightarrow> fst (run_state (waitForMountAndPromote E (Suc k) states starting) tr) \<noteq> None"
  unfolding waitForMountAndPromote_def
  using assms(2) waitReady_finishes [OF assms(1)] unfolding finishes_def
  by (cases "parseCanonicalStateTime (StartupDeadline starting)"; cases "drive9ProcessStatePath (StagingTarget starting)")
    (auto simp: run_simps)

end

section \<open>Deadlines are read back as they were written\<close>

lemma FormatUint_long: "10 ^ w \<le> n \<Longrightarrow> w < length (FormatUint n)"
proof (induction w arbitrary: n)
  case 0
  then show ?case by (subst FormatUint.simps) simp
next
  case (Suc w)
  have tens: "10 ^ w \<le> n div 10" using Suc.prems by simp
  then have "w < length (FormatUint (n div 10))" by (rule Suc.IH)
  moreover have "0 < n div 10" using tens by (cases "n div 10") auto
  then have "\<not> n < 10" by (simp add: div_greater_zero_iff)
  ultimately show ?case by (subst FormatUint.simps) simp
qed

text \<open>A year of five digits is not read back.\<close>

lemma getNum_long:
  assumes "10000 \<le> y"
  shows "getNum 4 (pad 4 y @ s) = Some (n, s') \<Longrightarrow> getLit (CHR ''-'') s' = None"
proof -
  assume n: "getNum 4 (pad 4 y @ s) = Some (n, s')"
  have long: "4 < length (FormatUint y)" using assms by (intro FormatUint_long) simp
  then have "s' = drop 4 (FormatUint y) @ s" using n by (simp add: getNum_def pad_def split: if_splits)
  moreover obtain c cs where c: "drop 4 (FormatUint y) = c # cs" using long by (cases "drop 4 (FormatUint y)") auto
  moreover have "c \<in> set (FormatUint y)" using c by (metis in_set_dropD list.set_intros(1))
  ultimately show ?thesis
    using FormatUint_digits [of y] by (auto simp: getLit_def HasPrefix_def list_all_iff isDigit_def)
qed

lemma year_beyond: "maxTime \<le> t \<Longrightarrow> yearAndDay 0 (t div second_ns div 86400) = (y, yd) \<Longrightarrow> 10000 \<le> y"
proof (rule ccontr)
  assume t: "maxTime \<le> t" and y: "yearAndDay 0 (t div second_ns div 86400) = (y, yd)" and "\<not> 10000 \<le> y"
  then have "daysBeforeYear (Suc y) \<le> daysBeforeYear 10000" by (intro daysBeforeYear_mono) simp
  moreover have "daysBeforeYear 10000 \<le> t div second_ns div 86400"
  proof -
    have "daysBeforeYear 10000 * (86400 * second_ns) \<le> t" using t by (simp add: maxTime_def mult.assoc)
    then have "daysBeforeYear 10000 \<le> t div (86400 * second_ns)"
      by (subst less_eq_div_iff_mult_less_eq) simp_all
    then show ?thesis by (simp add: div_mult2_eq [symmetric])
  qed
  ultimately show False using yearAndDay_correct [OF y] by simp
qed

lemma parseTime_beyond: "maxTime \<le> t \<Longrightarrow> parseTime (formatTime t) = None"
proof -
  assume t: "maxTime \<le> t"
  obtain y yd where y: "yearAndDay 0 (t div second_ns div 86400) = (y, yd)" by force
  obtain s where s: "formatTime t = pad 4 y @ s" unfolding formatTime_def Let_def y by (cases "monthAndDay (monthLens y) yd") simp
  show ?thesis
    using getNum_long [OF year_beyond [OF t y]] unfolding s parseTime_def
    by (cases "getNum 4 (pad 4 y @ s)") (auto simp del: append_assoc)
qed

lemma parse_formatted: "parseCanonicalStateTime (formatTime t) = Inr d \<Longrightarrow> d = t"
  using parseTime_beyond [of t] parseCanonical_formatTime [of t]
  by (cases "t < maxTime") (simp_all add: parseCanonicalStateTime_def)

section \<open>The deadline of a started attempt\<close>

text \<open>Whatever deadline the record holds, it comes within \<open>k\<close> polls, or has passed.\<close>

definition startsDue :: "env \<Rightarrow> nat \<Rightarrow> mountState \<Rightarrow> event list \<Rightarrow> bool" where
  "startsDue E k state tr \<longleftrightarrow>
     (\<forall>d. parseCanonicalStateTime (StartupDeadline state) = Inr d \<longrightarrow> dueWithin E d k tr)"

definition expired :: "env \<Rightarrow> mountState \<Rightarrow> event list \<Rightarrow> bool" where
  "expired E state tr \<longleftrightarrow>
     (\<forall>d. parseCanonicalStateTime (StartupDeadline state) = Inr d \<longrightarrow> d \<le> e_Now E tr)"

definition pollsOfStartup :: nat where "pollsOfStartup = 360"

lemma lasting_startsDue: "steadyClock E \<Longrightarrow> lasting (startsDue E k state)"
  using lasting_due [of E] by (auto simp: lasting_def startsDue_def)

lemma lasting_expired: "steadyClock E \<Longrightarrow> lasting (expired E state)"
  unfolding lasting_def expired_def by (meson clock_mono dual_order.trans)

lemma lasting_True [simp]: "lasting (\<lambda>_. True)"
  by (simp add: lasting_def)

lemma expired_startsDue: "expired E state tr \<Longrightarrow> startsDue E k state tr"
  unfolding expired_def startsDue_def dueWithin_def
  by (auto simp: mountReadinessPollInterval_def milliseconds_def)

lemma initialized_due:
  assumes "initializeStartingMountState candidate now = Inr s" and "now \<le> e_Now E tr" and "pollsOfStartup \<le> k"
  shows "startsDue E k s tr"
proof -
  have "StartupDeadline s = formatTime (now + 90000000000)"
    using assms(1) by (auto simp: initializeStartingMountState_def Let_def maxStartupTimeout_def split: if_splits)
  then have "d = now + 90000000000" if "parseCanonicalStateTime (StartupDeadline s) = Inr d" for d
    using parse_formatted that by simp
  then show ?thesis
    using assms(2,3) by (auto simp: startsDue_def dueWithin_def mountReadinessPollInterval_def milliseconds_def pollsOfStartup_def)
qed

section \<open>A launch returns\<close>

lemma finishes_conseq: "finishes P m \<Longrightarrow> (\<And>tr. Q tr \<Longrightarrow> P tr) \<Longrightarrow> finishes Q m"
  by (simp add: finishes_def)

lemma lasting_conj: "lasting P \<Longrightarrow> lasting Q \<Longrightarrow> lasting (\<lambda>tr. P tr \<and> Q tr)"
  by (simp add: lasting_def)

lemma lasting_clock: "steadyClock E \<Longrightarrow> lasting P \<Longrightarrow> lasting (\<lambda>tr. P tr \<and> t \<le> e_Now E tr)"
  unfolding lasting_def by (meson clock_mono dual_order.trans)

lemma finishes_Now:
  assumes clock: "steadyClock E" and P: "lasting P"
    and k: "\<And>t. \<exists>tr. P tr \<and> e_Now E tr = t \<Longrightarrow> finishes (\<lambda>tr. P tr \<and> t \<le> e_Now E tr) (k t)"
  shows "finishes P (State_Monad.bind (Now E) k)"
  unfolding finishes_def
proof (intro allI impI)
  fix tr
  assume tr: "P tr"
  let ?now = "e_Now E tr"
  have "P (EvNow ?now # tr)" using P tr unfolding lasting_def by (metis append_Cons append_Nil)
  moreover have "?now \<le> e_Now E (EvNow ?now # tr)" using clock_mono [OF clock, of tr "[EvNow ?now]"] by simp
  ultimately have "fst (run_state (k ?now) (EvNow ?now # tr)) \<noteq> None" using k tr unfolding finishes_def by blast
  then show "fst (run_state (State_Monad.bind (Now E) k) tr) \<noteq> None" by (simp add: run_simps host_defs)
qed

lemma finishes_unitState [finishes_intro]:
  "finishes P a \<Longrightarrow> finishes P b \<Longrightarrow> finishes P c \<Longrightarrow> finishes P d \<Longrightarrow> finishes P e \<Longrightarrow> finishes P f \<Longrightarrow>
   finishes P (case s of systemdUnitActive \<Rightarrow> a | systemdUnitActivating \<Rightarrow> b | systemdUnitInactive \<Rightarrow> c
     | systemdUnitFailed \<Rightarrow> d | systemdUnitNotFound \<Rightarrow> e | systemdUnitQueryError \<Rightarrow> f)"
  by (cases s) simp_all

text \<open>What remains to be done after a step that returns need not look at the clock again.\<close>

lemma finishes_whenDone_any [finishes_intro]:
  assumes "finishes P m" and "\<And>x. finishes (\<lambda>_. True) (k x)"
  shows "finishes P (whenDone m k)"
  using assms by (auto simp: finishes_def whenDone_def run_simps split: prod.split option.split)

lemma finishes_if_True: "finishes (\<lambda>_. True) m \<Longrightarrow> finishes P m"
  by (erule finishes_conseq) simp

lemmas outcome_defs = keep_def degraded_def

lemma keep_returns [simp]: "keep e \<noteq> None" "degraded e \<noteq> None"
  by (simp_all add: outcome_defs)

context mount_state_repository
begin

lemma waiting_finishes:
  assumes "steadyClock E" and "0 < fuel"
  shows "finishes (startsDue E (fuel - 1) state) (waitForMountAndPromote E fuel states state)"
  using wait_finishes [OF assms(1), of state "startsDue E (fuel - 1) state" _ "fuel - 1"] assms(2)
  by (auto simp: finishes_def startsDue_def)

lemma resuming_finishes:
  assumes "steadyClock E" and "0 < fuel"
  shows "finishes (startsDue E (fuel - 1) state) (resumeStarting E fuel states state credentials)"
  unfolding resumeStarting_def Let_def
  by (intro finishes_intro waiting_finishes lasting_startsDue assms emits_intro keep_returns)
    (simp add: host_defs del: not_None_eq split: sum.split)+

lemma switched_finishes:
  assumes clock: "steadyClock E" and fuel: "pollsOfStartup < fuel"
    and s: "initializeStartingMountState candidate now = Inr fallback"
  shows "finishes (\<lambda>tr. P tr \<and> now \<le> e_Now E tr) (resumeStarting E fuel states fallback credentials)"
  using fuel by (intro finishes_conseq [OF resuming_finishes [OF clock]]) (auto intro: initialized_due [OF s])

lemma switching_finishes:
  assumes clock: "steadyClock E" and fuel: "pollsOfStartup < fuel"
  shows "finishes (\<lambda>_. True) (switchToFallback E fuel states state credentials)"
  unfolding switchToFallback_def Let_def
  by (intro finishes_Now switched_finishes finishes_intro lasting_clock clock fuel lasting_True emits_intro
        grows_repository keep_returns)
    (simp_all add: host_defs emits_intro del: not_None_eq split: prod.split)

lemma absent_finishes:
  assumes clock: "steadyClock E" and fuel: "pollsOfStartup < fuel"
  shows "finishes (startsDue E (fuel - 1) state)
    (handleAbsentStarting E fuel states state credentials process mounted failed remaining)"
  unfolding handleAbsentStarting_def
  using fuel
  by (intro finishes_if_True [OF switching_finishes] resuming_finishes finishes_intro lasting_startsDue clock fuel
        emits_intro grows_repository keep_returns)
    (simp_all add: host_defs emits_intro del: not_None_eq)

text \<open>The cleanup of an attempt that has failed or has expired does not resume it.\<close>

lemma failed_finishes:
  assumes clock: "steadyClock E" and fuel: "pollsOfStartup < fuel"
  shows "finishes (\<lambda>_. True) (handleAbsentStarting E fuel states state credentials process mounted True remaining)"
    "finishes (\<lambda>_. True) (handleAbsentStarting E fuel states state credentials process mounted failed 0)"
  unfolding handleAbsentStarting_def
  by (intro switching_finishes finishes_intro lasting_True clock fuel emits_intro grows_repository keep_returns;
      simp add: host_defs emits_intro del: not_None_eq)+

lemma expiry_finishes:
  assumes "steadyClock E" and "pollsOfStartup < fuel"
  shows "finishes (\<lambda>_. True) (failExpiredStarting E fuel states state credentials process service)"
  unfolding failExpiredStarting_def
  by (intro failed_finishes finishes_intro lasting_True assms grows_cleanup emits_intro keep_returns)

lemma units_finish:
  assumes clock: "steadyClock E" and fuel: "pollsOfStartup < fuel"
  shows "finishes (startsDue E (fuel - 1) state)
      (reconcileDeadUnit E fuel states state credentials allowCleanup process mounted remaining)"
    "finishes (startsDue E (fuel - 1) state)
      (reconcileNoUnit E fuel states state credentials allowCleanup process mounted remaining)"
  unfolding reconcileDeadUnit_def reconcileNoUnit_def
  by (intro absent_finishes finishes_intro lasting_startsDue clock fuel grows_cleanup emits_intro keep_returns;
      simp add: host_defs emits_intro del: not_None_eq)+

lemma ready_finishes: "finishes (\<lambda>_. True) (reconcileReady E states state observation verified)"
  unfolding reconcileReady_def validateReadyControlSocket_def verifyStartingSystemdOwnership_def
  by (intro finishes_intro lasting_True emits_intro grows_promoteActive keep_returns;
      simp add: host_defs emits_intro del: not_None_eq)

lemma expired_remaining:
  "expired E state tr \<Longrightarrow> remainingStartupTimeout state (e_Now E tr) = Inr remaining \<Longrightarrow> remaining = 0"
  by (auto simp: remainingStartupTimeout_def expired_def time_Sub_def Let_def split: if_splits sum.splits)

lemma remaining_expired:
  "remainingStartupTimeout state t = Inr 0 \<Longrightarrow> t \<le> e_Now E tr \<Longrightarrow> expired E state tr"
  by (auto simp: remainingStartupTimeout_def expired_def time_Sub_def Let_def split: if_splits sum.splits)

text \<open>An expired attempt is not waited for, so its reconciliation does not start again.\<close>

lemma expired_finishes:
  assumes clock: "steadyClock E" and fuel: "pollsOfStartup < fuel"
  shows "finishes (expired E state) (Starting_Reconcile E fuel states state credentials allowCleanup (Suc r))"
proof -
  have units: "finishes (\<lambda>tr. expired E state tr \<and> t \<le> e_Now E tr)
      (reconcileDeadUnit E fuel states state credentials allowCleanup process mounted remaining)"
    "finishes (\<lambda>tr. expired E state tr \<and> t \<le> e_Now E tr)
      (reconcileNoUnit E fuel states state credentials allowCleanup process mounted remaining)" for process mounted remaining t
    by (rule finishes_conseq [OF units_finish(1) [OF assms]] finishes_conseq [OF units_finish(2) [OF assms]],
        simp add: expired_startsDue)+
  show ?thesis
    unfolding Starting_Reconcile.simps
    apply (intro finishes_Now units finishes_if_True [OF ready_finishes] finishes_if_True [OF expiry_finishes] finishes_unitState
        finishes_intro lasting_clock lasting_expired clock fuel emits_intro keep_returns)
    apply (auto simp: host_defs dest: expired_remaining del: not_None_eq intro!: emits_intro)
    done
qed

lemma reconcile_finishes:
  assumes clock: "steadyClock E" and fuel: "pollsOfStartup < fuel"
  shows "finishes (startsDue E (fuel - 1) state)
    (Starting_Reconcile E fuel states state credentials allowCleanup (Suc (Suc r)))"
proof -
  have units: "finishes (\<lambda>tr. startsDue E (fuel - 1) state tr \<and> t \<le> e_Now E tr)
      (reconcileDeadUnit E fuel states state credentials allowCleanup process mounted remaining)"
    "finishes (\<lambda>tr. startsDue E (fuel - 1) state tr \<and> t \<le> e_Now E tr)
      (reconcileNoUnit E fuel states state credentials allowCleanup process mounted remaining)"
    "finishes (\<lambda>tr. startsDue E (fuel - 1) state tr \<and> t \<le> e_Now E tr)
      (waitForMountAndPromote E fuel states state)" for process mounted remaining t
    by (rule finishes_conseq [OF units_finish(1) [OF assms]] finishes_conseq [OF units_finish(2) [OF assms]]
        finishes_conseq [OF waiting_finishes [OF clock]]; use fuel in simp)+
  have again: "remainingStartupTimeout state t = Inr 0 \<Longrightarrow>
      finishes (\<lambda>tr. P tr \<and> t \<le> e_Now E tr) (Starting_Reconcile E fuel states state credentials allowCleanup (Suc r))" for P t
    by (rule finishes_conseq [OF expired_finishes [OF assms]]) (auto intro: remaining_expired)
  show ?thesis
    unfolding Starting_Reconcile.simps(2) [of _ _ _ _ _ _ "Suc r"]
    apply (intro finishes_Now again units finishes_if_True [OF ready_finishes] finishes_if_True [OF expiry_finishes]
        finishes_unitState finishes_whenDone [OF _ grows_wait]
        finishes_intro lasting_clock lasting_startsDue clock fuel emits_intro keep_returns)
    apply (auto simp: host_defs del: not_None_eq intro!: emits_intro)
    done
qed

end

text \<open>A value that is returned without an error satisfies \<open>Q\<close> of the history it is returned in.\<close>

definition succeeds :: "(event list \<Rightarrow> bool) \<Rightarrow> (error + 'a) prog \<Rightarrow> ('a \<Rightarrow> event list \<Rightarrow> bool) \<Rightarrow> bool" where
  "succeeds P m Q \<longleftrightarrow> (\<forall>tr x. P tr \<longrightarrow> fst (run_state m tr) = Inr x \<longrightarrow> Q x (snd (run_state m tr)))"

named_theorems succeeds_intro "rules for values returned without an error"

lemma succeeds_return [succeeds_intro]: "(\<And>tr x. r = Inr x \<Longrightarrow> P tr \<Longrightarrow> Q x tr) \<Longrightarrow> succeeds P (State_Monad.return r) Q"
  by (simp add: succeeds_def run_simps)

lemma succeeds_orReturn [succeeds_intro]:
  "lasting P \<Longrightarrow> grows m \<Longrightarrow> (\<And>x. succeeds P (k x) Q) \<Longrightarrow> succeeds P (orReturn m (\<lambda>e. Inl (h e)) k) Q"
  using lasting_run [of P m] by (auto simp: succeeds_def orReturn_def run_simps split: sum.splits prod.splits) fastforce+

lemma succeeds_unlessErr [succeeds_intro]:
  "lasting P \<Longrightarrow> grows m \<Longrightarrow> succeeds P k Q \<Longrightarrow> succeeds P (unlessErr m (\<lambda>e. Inl (h e)) k) Q"
  using lasting_run [of P m] by (auto simp: succeeds_def unlessErr_def run_simps split: option.splits prod.splits) fastforce+

lemma succeeds_ifNil [succeeds_intro]:
  "(r = None \<Longrightarrow> succeeds P k Q) \<Longrightarrow> succeeds P (ifNil r (\<lambda>e. Inl (h e)) k) Q"
  by (cases r) (auto simp: ifNil_def intro: succeeds_return)

lemma succeeds_ifOk [succeeds_intro]:
  "(\<And>x. r = Inr x \<Longrightarrow> succeeds P (k x) Q) \<Longrightarrow> succeeds P (ifOk r (\<lambda>e. Inl (h e)) k) Q"
  by (cases r) (auto simp: ifOk_def intro: succeeds_return)

lemma succeeds_if [succeeds_intro]:
  "(b \<Longrightarrow> succeeds P m Q) \<Longrightarrow> (\<not> b \<Longrightarrow> succeeds P n Q) \<Longrightarrow> succeeds P (if b then m else n) Q"
  by simp

lemma succeeds_Now:
  assumes clock: "steadyClock E" and P: "lasting P"
    and k: "\<And>t. succeeds (\<lambda>tr. P tr \<and> t \<le> e_Now E tr) (k t) Q"
  shows "succeeds P (State_Monad.bind (Now E) k) Q"
  unfolding succeeds_def
proof (intro allI impI)
  fix tr x
  assume tr: "P tr" and x: "fst (run_state (State_Monad.bind (Now E) k) tr) = Inr x"
  let ?now = "e_Now E tr"
  have "P (EvNow ?now # tr)" using P tr unfolding lasting_def by (metis append_Cons append_Nil)
  moreover have "?now \<le> e_Now E (EvNow ?now # tr)" using clock_mono [OF clock, of tr "[EvNow ?now]"] by simp
  ultimately show "Q x (snd (run_state (State_Monad.bind (Now E) k) tr))"
    using k [of ?now] x unfolding succeeds_def by (simp add: run_simps host_defs)
qed

lemma succeeds_then_finishes:
  assumes "succeeds P m Q" and "lasting P" and "grows m" and "\<And>e. h e \<noteq> None" and "\<And>x. finishes (Q x) (k x)"
  shows "finishes P (orReturn m h k)"
  using assms unfolding finishes_def succeeds_def
  by (auto simp: orReturn_def run_simps split: sum.splits prod.splits)

lemma grows_prepare [emits_intro]:
  "grows (validateDesiredDrive9Content E)" "grows (validateHostLauncherBinary E)"
  unfolding validateDesiredDrive9Content_def validateHostLauncherBinary_def Let_def host_defs by (intro emits_intro TrueI)+

context mount_state_repository
begin

lemma grows_prepareLaunch: "grows (prepareLaunch E states request)"
  unfolding prepareLaunch_def by (intro emits_intro TrueI grows_repository; simp add: host_defs emits_intro)

lemma prepare_succeeds:
  assumes clock: "steadyClock E" and k: "pollsOfStartup \<le> k"
  shows "succeeds (\<lambda>_. True) (prepareLaunch E states request) (\<lambda>s. startsDue E k s)"
  unfolding prepareLaunch_def
  apply (intro succeeds_Now succeeds_intro lasting_True lasting_clock clock emits_intro grows_repository)
  apply (auto simp: host_defs intro!: emits_intro initialized_due [OF _ _ k])
  done

lemma await_finishes:
  assumes clock: "steadyClock E" and fuel: "pollsOfStartup < fuel"
  shows "finishes (startsDue E (fuel - 1) candidate) (awaitLaunch E fuel (Suc (Suc r)) states request candidate)"
proof -
  have wait: "finishes (startsDue E (fuel - 1) candidate) (waitForMountAndPromote E fuel states candidate)"
    using fuel by (intro waiting_finishes clock) simp
  show ?thesis
    unfolding awaitLaunch_def
    apply (intro finishes_whenDone [OF lasting_startsDue [OF clock] grows_wait wait]
        reconcile_finishes [OF clock fuel] finishes_intro lasting_startsDue lasting_True clock emits_intro grows_repository)
    apply (auto simp: host_defs intro!: emits_intro)
    done
qed

lemma launch_finishes:
  assumes clock: "steadyClock E" and fuel: "pollsOfStartup < fuel"
  shows "finishes (\<lambda>_. True) (Launch E fuel (Suc (Suc r)) states request)"
proof -
  have "finishes (startsDue E (fuel - 1) candidate)
      (unlessErr (startAttempt E request candidate) (\<lambda>e. Some (Inl e)) (awaitLaunch E fuel (Suc (Suc r)) states request candidate))"
    for candidate
    by (intro finishes_intro await_finishes lasting_startsDue clock fuel) (simp_all add: startAttempt_def Let_def emits_intro)
  then show ?thesis
    unfolding Launch_def using fuel
    by (intro succeeds_then_finishes [OF prepare_succeeds [OF clock, of "fuel - 1"]] grows_prepareLaunch lasting_True) auto
qed

end

section \<open>Properties\<close>

text \<open>
  A host with an empty disk whose clock advances by what is waited.
\<close>

definition waited :: "event list \<Rightarrow> int" where
  "waited tr = sum_list (map (\<lambda>e. case e of EvWait d None \<Rightarrow> max 0 d | _ \<Rightarrow> 0) tr)"

definition exClock :: env where "exClock = exHost\<lparr>e_Now := \<lambda>tr. nat (waited tr)\<rparr>"

lemma waited_pos: "0 \<le> waited tr"
  unfolding waited_def by (intro sum_list_nonneg) (auto split: event.split option.split)

lemma waited_append: "waited (n @ tr) = waited n + waited tr" "waited (EvWait d None # tr) = max 0 d + waited tr"
  by (simp_all add: waited_def)

lemma exClock_steady: "steadyClock exClock"
  using waited_pos by (auto simp: steadyClock_def exClock_def waited_append intro!: nat_mono)

definition exLaunchRequest :: mountLaunchRequest where
  "exLaunchRequest = \<lparr>ml_VolumeID = exVolume, ml_RemoteRoot = ''/k8s/a'', ml_StagingTarget = exTarget,
     ml_Server = ''https://drive9'', ml_APIKey = ''key'', ml_MountArgs = exArgs, ml_Reason = mountStartReasonStage,
     ml_FallbackBinaryPath = [], ml_FallbackMountArgs = []\<rparr>"

text \<open>
  C6: launching a mount always comes to an end. On a host whose clock does not go back and passes
  the time that is waited, 361 polls of each wait, 90 seconds at an interval of 250 milliseconds,
  and two rounds of reconciliation are enough, whatever the host answers and wherever the launch
  fails: the wait for readiness, the reconciliation of an attempt that expired, and the wait for
  the fallback it is replaced by, all return.
\<close>

theorem launch_returns:
  assumes "steadyClock E" and "360 < fuel" and "1 < rounds"
  shows "fst (run_state (Launch E fuel rounds (mountStateStore E (newMountStateStore dir)) request) tr) \<noteq> None"
proof -
  obtain r where "rounds = Suc (Suc r)" using assms(3) by (metis less_imp_Suc_add add_Suc plus_1_eq_Suc)
  then show ?thesis
    using node_store.launch_finishes [of E fuel] assms(1,2)
    by (simp add: finishes_def pollsOfStartup_def)
qed

theorem launch_returns_witness:
  "fst (run_state (Launch exClock 361 2 (mountStateStore exClock (newMountStateStore ''/s'')) exLaunchRequest) []) \<noteq> None"
  by (rule launch_returns [OF exClock_steady]) simp_all

end
