(* ===== verification/ActiveRecovery.thy ===== *)
theory ActiveRecovery
  imports StartingReconcile
begin

text \<open>
  \<open>internal/driver/active_recovery.go\<close>: a recorded active mount that is not healthy is replaced.
  The decision is a table over what was observed; the coordination runs the cleanup it names and
  then starts the desired binary, and when that fails the one that was active, through the
  interface of an executor. \<open>driverActiveRecoveryExecutor\<close> is the executor of the driver.
\<close>

section \<open>The decision\<close>

record activeRecoveryObservation =
  ServiceExists :: bool
  PIDVerified :: bool
  ProcessStateVerified :: bool
  MainPIDOwned :: bool
  MountExists :: bool
  SocketExists :: bool
  PIDOwnershipMismatch :: bool
  QueryAmbiguous :: bool

datatype activeRecoveryAction =
    activeRecoverySkip | activeRecoveryStopService | activeRecoveryDrainOrphan | activeRecoveryKillPID
  | activeRecoveryUnmount | activeRecoveryCleanArtifacts | activeRecoveryStartDesired

datatype activeRecoveryResult = activeRecoveryHealthy | activeRecoveryRecovered | activeRecoveryDegraded

definition decideActiveRecovery :: "activeRecoveryObservation \<Rightarrow> error + activeRecoveryAction list" where
  "decideActiveRecovery obs =
     (if QueryAmbiguous obs then Inl (Sentinel ErrSystemdQuery)
      else if PIDOwnershipMismatch obs then Inl (Sentinel ErrProcessOwnership)
      else if ServiceExists obs \<and> \<not> PIDVerified obs \<and> \<not> MainPIDOwned obs then Inl (Sentinel ErrProcessOwnership)
      else if ServiceExists obs \<and> PIDVerified obs \<and> ProcessStateVerified obs \<and> MountExists obs \<and> SocketExists obs
      then Inr [activeRecoverySkip]
      else if ServiceExists obs \<and> PIDVerified obs \<and> MountExists obs
      then Inr [activeRecoveryStopService, activeRecoveryUnmount, activeRecoveryStartDesired]
      else if ServiceExists obs \<and> PIDVerified obs
      then Inr [activeRecoveryStopService, activeRecoveryStartDesired]
      else if ServiceExists obs \<and> MainPIDOwned obs
      then Inr [activeRecoveryStopService, activeRecoveryCleanArtifacts, activeRecoveryStartDesired]
      else if PIDVerified obs \<and> MountExists obs
      then Inr [activeRecoveryDrainOrphan, activeRecoveryKillPID, activeRecoveryUnmount, activeRecoveryStartDesired]
      else if PIDVerified obs
      then Inr [activeRecoveryKillPID, activeRecoveryCleanArtifacts, activeRecoveryStartDesired]
      else if MountExists obs
      then Inr [activeRecoveryUnmount, activeRecoveryCleanArtifacts, activeRecoveryStartDesired]
      else Inr [activeRecoveryStartDesired])"

definition activeRecoveryCleanupPlan :: "activeRecoveryAction list \<Rightarrow> activeRecoveryAction list" where
  "activeRecoveryCleanupPlan actions =
     filter (\<lambda>a. a \<noteq> activeRecoveryStartDesired \<and> a \<noteq> activeRecoveryCleanArtifacts) actions"

section \<open>Candidates\<close>

definition desiredCandidate :: "mountState \<Rightarrow> string \<Rightarrow> string list \<Rightarrow> string \<Rightarrow> volumeHostNames \<Rightarrow> mountState" where
  "desiredCandidate active desiredBinary desiredArgs attemptID names =
     noMountState\<lparr>Reason := mountStartReasonRecovery, AttemptID := attemptID, VolumeID := VolumeID active,
       RemoteRoot := RemoteRoot active, StagingTarget := StagingTarget active, SystemdUnit := SystemdUnit active,
       BinaryPath := desiredBinary, FallbackBinaryPath := BinaryPath active, MountArgs := desiredArgs,
       FallbackMountArgs := MountArgs active, EnvPath := names_EnvPath names, ArgsPath := names_ArgsPath names\<rparr>"

definition newActiveRecoveryCandidate ::
    "mountState \<Rightarrow> string \<Rightarrow> string list \<Rightarrow> string \<Rightarrow> time \<Rightarrow> error + mountState" where
  "newActiveRecoveryCandidate active desiredBinary desiredArgs attemptID now =
     (if Phase active \<noteq> mountStatePhaseActive then Inl (Errorf ''active recovery requires active state'')
      else if \<not> mountArgsUseDirectMountStrict desiredArgs
      then Inl (Errorf ''desired recovery argv must contain exactly one direct-mount-strict flag'')
      else
        ebind (newVolumeHostNames (VolumeID active) attemptID) (\<lambda>names.
        ebind (initializeStartingMountState (desiredCandidate active desiredBinary desiredArgs attemptID names) now)
          (\<lambda>candidate. echeck (validateMountStateTransition (Some active) candidate) (Inr candidate))))"

definition newFallbackRecoveryCandidate :: "mountState \<Rightarrow> string \<Rightarrow> time \<Rightarrow> error + mountState" where
  "newFallbackRecoveryCandidate desired attemptID now =
     (if Phase desired \<noteq> mountStatePhaseStarting \<or> Reason desired \<noteq> mountStartReasonRecovery
         \<or> FallbackBinaryPath desired = []
      then Inl (Errorf ''fallback switch requires desired recovery candidate'')
      else
        echeck (validateRecoveryFallbackEligibility (FallbackMountArgs desired)) (
        ebind (newVolumeHostNames (VolumeID desired) attemptID) (\<lambda>names.
        ebind (initializeStartingMountState (fallbackCandidate desired attemptID names) now)
          (\<lambda>fallback. echeck (validateMountStateTransition (Some desired) fallback) (Inr fallback)))))"

section \<open>Coordination\<close>

text \<open>
  The executor and, in the same record, the candidate factory it may also be. Without a factory
  the candidates get fixed attempts and times. \<open>Start\<close> waits, so it may not return.
\<close>

record activeRecoveryCandidateFactory =
  NewDesired :: "mountState \<Rightarrow> string \<Rightarrow> (error + mountState) prog"
  NewFallback :: "mountState \<Rightarrow> (error + mountState) prog"

record activeRecoveryExecutor =
  Prepare :: "mountState \<Rightarrow> error option prog"
  Cleanup :: "mountState \<Rightarrow> activeRecoveryAction list \<Rightarrow> error option prog"
  Persist :: "mountState \<Rightarrow> error option prog"
  Start :: "mountState \<Rightarrow> error option option prog"
  CleanupCandidate :: "mountState \<Rightarrow> error option prog"
  Factory :: "activeRecoveryCandidateFactory option"

text \<open>\<open>time.Date(2026, 7, 10, 12, m, 0, 0, time.UTC)\<close>.\<close>

definition recoveryDate :: "nat \<Rightarrow> time" where
  "recoveryDate m = ((dayOfDate 2026 7 10 * 86400) + 12 * 3600 + m * 60) * 1000000000"

definition executor_NewDesired :: "activeRecoveryExecutor \<Rightarrow> mountState \<Rightarrow> string \<Rightarrow> (error + mountState) prog" where
  "executor_NewDesired x active desiredBinary =
     (case Factory x of
        Some factory \<Rightarrow> NewDesired factory active desiredBinary
      | None \<Rightarrow> State_Monad.return (newActiveRecoveryCandidate active desiredBinary (MountArgs active)
                  (replicate 32 (CHR ''d'')) (recoveryDate 5)))"

definition executor_NewFallback :: "activeRecoveryExecutor \<Rightarrow> mountState \<Rightarrow> (error + mountState) prog" where
  "executor_NewFallback x desired =
     (case Factory x of
        Some factory \<Rightarrow> NewFallback factory desired
      | None \<Rightarrow> State_Monad.return (newFallbackRecoveryCandidate desired (replicate 32 (CHR ''e'')) (recoveryDate 7)))"

definition recoveryFailed :: "error \<Rightarrow> (activeRecoveryResult \<times> error option) option" where
  "recoveryFailed e = Some (activeRecoveryDegraded, Some e)"

definition recovered :: "(activeRecoveryResult \<times> error option) option" where
  "recovered = Some (activeRecoveryRecovered, None)"

text \<open>The desired attempt has failed: clean up after it and start the fallback.\<close>

definition startFallback ::
    "activeRecoveryExecutor \<Rightarrow> mountState \<Rightarrow> (activeRecoveryResult \<times> error option) option prog" where
  "startFallback x desired =
     unlessErr (CleanupCandidate x desired) recoveryFailed (
     orReturn (executor_NewFallback x desired) recoveryFailed (\<lambda>fallback.
     unlessErr (Persist x fallback) recoveryFailed (
     whenDone (Start x fallback) (\<lambda>err.
       State_Monad.return (case err of Some e \<Rightarrow> recoveryFailed e | None \<Rightarrow> recovered)))))"

definition coordinateActiveRecovery ::
    "mountState \<Rightarrow> string \<Rightarrow> activeRecoveryObservation \<Rightarrow> activeRecoveryExecutor option \<Rightarrow>
     (activeRecoveryResult \<times> error option) option prog" where
  "coordinateActiveRecovery active desiredBinary observation executor =
     ifOk (decideActiveRecovery observation) recoveryFailed (\<lambda>actions.
     if actions = [activeRecoverySkip] then State_Monad.return (Some (activeRecoveryHealthy, None))
     else case executor of
         None \<Rightarrow> State_Monad.return (recoveryFailed (Errorf ''active recovery executor is required''))
       | Some x \<Rightarrow>
           unlessErr (Prepare x active) recoveryFailed (
           unlessErr (Cleanup x active actions) recoveryFailed (
           orReturn (executor_NewDesired x active desiredBinary) recoveryFailed (\<lambda>desired.
           unlessErr (Persist x desired) recoveryFailed (
           whenDone (Start x desired) (\<lambda>err.
             if err = None then State_Monad.return recovered else startFallback x desired))))))"

section \<open>Observation\<close>

text \<open>The recorded process, the process-state file and the unit's main process must agree.\<close>

definition observeActiveRecovery :: "env \<Rightarrow> mountState \<Rightarrow> (error + activeRecoveryObservation) prog" where
  "observeActiveRecovery E state =
     (if Phase state \<noteq> mountStatePhaseActive
      then State_Monad.return (Inl (Errorf ''active recovery requires active state''))
      else
      orReturn (IsMountPoint E (StagingTarget state)) Inl (\<lambda>mounted.
      orReturn (querySystemdUnit E (SystemdUnit state)) Inl (\<lambda>service. do {
        r \<leftarrow> readHostProcessStartTime E (PID state);
        orReturn (case r of
            Inr startTime \<Rightarrow>
              if startTime = PIDStartTime state
              then orReturn (verifyHostPIDOwnership E (mainExpectation state (PID state) (PIDStartTime state))
                     startTime True) Inl (\<lambda>_. State_Monad.return (Inr (Some (PID state))))
              else State_Monad.return (Inr None)
          | Inl e \<Rightarrow> State_Monad.return (if errors_Is e ErrNotExist then Inr None else Inl e)) Inl (\<lambda>recorded.
        orReturn (observeStartingProcess E state) Inl (\<lambda>process.
        if sp_State process = startingProcessMismatch
        then State_Monad.return (Inl (Sentinel ErrProcessOwnership))
        else
          let found = sp_State process = startingProcessVerified in
          if found \<and> recorded \<noteq> None \<and> recorded \<noteq> Some (vp_PID (sp_Verified process))
          then State_Monad.return (Inl (ownershipError ''durable PID and process-state PID differ''))
          else
            let verifiedPID = (if found then Some (vp_PID (sp_Verified process)) else recorded) in
            orReturn (if serviceRunning service
                then orReturn (verifySystemdMainPIDOwnership E state) Inl (\<lambda>mainProcess.
                  State_Monad.return (if verifiedPID \<noteq> None \<and> verifiedPID \<noteq> Some (vp_PID mainProcess)
                    then Inl (ownershipError ''recorded PID and systemd MainPID differ'') else Inr True))
                else State_Monad.return (Inr False)) Inl (\<lambda>mainOwned.
            orReturn (if ControlSocketPath state \<noteq> [] then do {
                  s \<leftarrow> Lstat E (ControlSocketPath state);
                  State_Monad.return (case s of
                      Inr info \<Rightarrow> Inr (isRealSocket info)
                    | Inl e \<Rightarrow> if errors_Is e ErrNotExist then Inr False else Inl e) }
                else State_Monad.return (Inr False)) Inl (\<lambda>socket.
              State_Monad.return (Inr
                \<lparr>ServiceExists = serviceRunning service, PIDVerified = verifiedPID \<noteq> None,
                 ProcessStateVerified = found, MainPIDOwned = mainOwned, MountExists = mounted,
                 SocketExists = socket, PIDOwnershipMismatch = False, QueryAmbiguous = False\<rparr>))))) })))"

section \<open>The driver's executor\<close>

definition terminateOrphan :: "env \<Rightarrow> mountState \<Rightarrow> error option prog" where
  "terminateOrphan E state =
     orReturn (hostPIDSignalCommand E ''TERM'' (PID state))
         (\<lambda>e. Some (Wrap ''build orphan Drive9 termination command'' e)) (\<lambda>command.
     unlessErr (runOk E command (Errorf ''terminate orphan Drive9 process'')) Some (
     orReturn (waitForDeath E state (milliseconds 250) 20) Some (\<lambda>dead.
       if dead then State_Monad.return None else killStoppingPID E state)))"

definition unmountActive :: "env \<Rightarrow> mountState \<Rightarrow> error option prog" where
  "unmountActive E state = do { errs \<leftarrow> unmountStopping E state; State_Monad.return (errors_Join errs) }"

fun collectUnit :: "env \<Rightarrow> mountState \<Rightarrow> nat \<Rightarrow> error option prog" where
  "collectUnit E state 0 = State_Monad.return (Some (Errorf ''old systemd unit was not collected''))"
| "collectUnit E state (Suc attempts) =
     orReturn (querySystemdUnit E (SystemdUnit state)) Some (\<lambda>service.
     let again = (if attempts = 0 then collectUnit E state 0
                  else unlessErr (Wait E (mountPIDKillWait div 20)) Some (collectUnit E state attempts)) in
     case so_State service of
       systemdUnitNotFound \<Rightarrow> State_Monad.return None
     | systemdUnitFailed \<Rightarrow>
         unlessErr (verifyMountSystemdUnitDescription E state) Some (
         unlessErr (resetFailedUnit E state) Some again)
     | systemdUnitInactive \<Rightarrow> unlessErr (verifyMountSystemdUnitDescription E state) Some again
     | _ \<Rightarrow> State_Monad.return (Some (Errorf ''old systemd unit remains'')))"

definition waitForSystemdUnitCollection :: "env \<Rightarrow> mountState \<Rightarrow> error option prog" where
  "waitForSystemdUnitCollection E state = collectUnit E state 20"

definition ensureOldRuntimeAbsent :: "env \<Rightarrow> mountState \<Rightarrow> error option prog" where
  "ensureOldRuntimeAbsent E state =
     orReturn (IsMountPoint E (StagingTarget state)) Some (\<lambda>mounted.
     if mounted then State_Monad.return (Some (Errorf ''old mount remains''))
     else
     orReturn (if 0 < PID state then stoppingPIDAlive E state else State_Monad.return (Inr False)) Some (\<lambda>alive.
     if alive then State_Monad.return (Some (Errorf ''old Drive9 PID remains''))
     else
     unlessErr (waitForSystemdUnitCollection E state) Some (removeVerifiedDeadRuntimeArtifacts E state)))"

definition executor_Prepare :: "mountLaunchCredentials \<Rightarrow> string list \<Rightarrow> mountState \<Rightarrow> error option" where
  "executor_Prepare credentials desiredArgs active =
     (if Phase active \<noteq> mountStatePhaseActive
      then Some (Errorf ''active recovery preparation requires active state'')
      else fail_if (mountStateServer desiredArgs \<noteq> Some (lc_Server credentials) \<or> lc_APIKey credentials = [])
        (Errorf ''active recovery credentials do not match desired argv''))"

text \<open>One action of the cleanup: \<open>Inl\<close> an error that ends it, \<open>Inr\<close> the errors it goes on with.\<close>

fun cleanupAction ::
    "env \<Rightarrow> systemdUnitObservation \<Rightarrow> mountState \<Rightarrow> activeRecoveryAction \<Rightarrow> (error + error list) prog" where
  "cleanupAction E service state activeRecoveryStopService =
     (if \<not> serviceRunning service
      then State_Monad.return (Inl (ownershipError ''active recovery service changed before stop''))
      else do { errs \<leftarrow> collect (stopSystemdUnit E state); State_Monad.return (Inr errs) })"
| "cleanupAction E service state activeRecoveryDrainOrphan =
     do { errs \<leftarrow> collect (runDrain E state); State_Monad.return (Inr errs) }"
| "cleanupAction E service state activeRecoveryKillPID =
     do { errs \<leftarrow> collect (terminateOrphan E state); State_Monad.return (Inr errs) }"
| "cleanupAction E service state activeRecoveryUnmount =
     do { errs \<leftarrow> collect (unmountActive E state); State_Monad.return (Inr errs) }"
| "cleanupAction E service state activeRecoveryCleanArtifacts = State_Monad.return (Inr [])"
| "cleanupAction E service state activeRecoverySkip = State_Monad.return (Inr [])"
| "cleanupAction E service state activeRecoveryStartDesired = State_Monad.return (Inr [])"

fun cleanupActions ::
    "env \<Rightarrow> systemdUnitObservation \<Rightarrow> mountState \<Rightarrow> activeRecoveryAction list \<Rightarrow> (error + error list) prog" where
  "cleanupActions E service state [] = State_Monad.return (Inr [])"
| "cleanupActions E service state (a # actions) =
     orReturn (cleanupAction E service state a) Inl (\<lambda>errs.
     orReturn (cleanupActions E service state actions) Inl (\<lambda>rest.
       State_Monad.return (Inr (errs @ rest))))"

definition executor_Cleanup :: "env \<Rightarrow> mountState \<Rightarrow> activeRecoveryAction list \<Rightarrow> error option prog" where
  "executor_Cleanup E active actions =
     orReturn (observeActiveRecovery E active)
         (\<lambda>e. Some (Wrap ''revalidate active recovery observation'' e)) (\<lambda>currentObservation.
     ifOk (decideActiveRecovery currentObservation)
         (\<lambda>e. Some (Wrap ''revalidate active recovery action'' e)) (\<lambda>currentActions.
     if activeRecoveryCleanupPlan currentActions \<noteq> activeRecoveryCleanupPlan actions
     then State_Monad.return (Some (ownershipError ''active recovery runtime changed before cleanup''))
     else
     orReturn (observeStopService E active ''revalidate active recovery process inventory''
         ''revalidate active recovery service'' ''revalidate active recovery unit identity''
         ''revalidate active recovery MainPID'') Some (\<lambda>(service, process).
     let cleanupState = (if st_State process = stopProcessVerified
           then copyVerifiedProcessIdentity active (st_Verified process) else active) in
     orReturn (cleanupActions E service cleanupState actions) Some (\<lambda>errs. do {
       absent \<leftarrow> ensureOldRuntimeAbsent E cleanupState;
       State_Monad.return (errors_Join (errs @ err_list absent)) }))))"

definition executor_Start ::
    "env \<Rightarrow> nat \<Rightarrow> mountStateRepository \<Rightarrow> mountLaunchCredentials \<Rightarrow> mountState \<Rightarrow> error option option prog" where
  "executor_Start E fuel states credentials state =
     whenDone (resumeStarting E fuel states state (Some credentials)) (\<lambda>(result, err).
       State_Monad.return (Some (if err \<noteq> None then err
         else fail_if (result \<noteq> startingReconcilePromoted)
           (Errorf ''recovery candidate did not become active''))))"

text \<open>Whom the cleanup of a candidate may stop.\<close>

definition candidateOwner ::
    "env \<Rightarrow> mountState \<Rightarrow> startingProcessObservation \<Rightarrow> systemdUnitObservation \<Rightarrow> (error + mountState) prog" where
  "candidateOwner E state process service =
     (let verified = sp_State process = startingProcessVerified;
          owned = (if verified then copyVerifiedProcessIdentity state (sp_Verified process) else state) in
      if \<not> serviceRunning service then State_Monad.return (Inr owned)
      else
      orReturn (verifyStartingSystemdMainPIDOwnership E state) Inl (\<lambda>found.
      ifOk (case found of
          None \<Rightarrow> Inr owned
        | Some mainProcess \<Rightarrow>
            if verified \<and> (vp_PID (sp_Verified process) \<noteq> vp_PID mainProcess
                 \<or> vp_PIDStartTime (sp_Verified process) \<noteq> vp_PIDStartTime mainProcess)
            then Inl (ownershipError ''candidate process-state PID and systemd MainPID differ'')
            else Inr (copyVerifiedProcessIdentity owned mainProcess)) Inl (\<lambda>owned.
      unlessErr (stopSystemdUnit E owned) Inl (State_Monad.return (Inr owned)))))"

definition executor_CleanupCandidate :: "env \<Rightarrow> mountState \<Rightarrow> error option prog" where
  "executor_CleanupCandidate E state =
     orReturn (observeStartingProcess E state) Some (\<lambda>process.
     orReturn (querySystemdUnit E (SystemdUnit state)) Some (\<lambda>service.
     unlessErr (if so_State service \<noteq> systemdUnitNotFound then verifyMountSystemdUnitDescription E state
                else State_Monad.return None) Some (
     orReturn (candidateOwner E state process service) Some (\<lambda>owned.
     orReturn (IsMountPoint E (StagingTarget state)) Some (\<lambda>mounted. do {
       unmount \<leftarrow> if mounted then collect (unmountActive E owned) else State_Monad.return [];
       orReturn (if 0 < PID owned then stoppingPIDAlive E owned else State_Monad.return (Inr False)) Some (\<lambda>alive.
       unlessErr (if alive then terminateOrphan E owned else State_Monad.return None) Some (do {
         startup \<leftarrow> collect (removeAttemptStartupFiles E state);
         absent \<leftarrow> collect (ensureOldRuntimeAbsent E owned);
         State_Monad.return (errors_Join (unmount @ startup @ absent)) })) })))))"

definition executor_New ::
    "env \<Rightarrow> (string \<Rightarrow> time \<Rightarrow> error + mountState) \<Rightarrow> (error + mountState) prog" where
  "executor_New E candidate =
     orReturn (NewAttemptID E) Inl (\<lambda>attemptID. do {
       now \<leftarrow> Now E;
       State_Monad.return (candidate attemptID now) })"

definition driverActiveRecoveryExecutor ::
    "env \<Rightarrow> nat \<Rightarrow> mountStateRepository \<Rightarrow> mountLaunchCredentials \<Rightarrow> string list \<Rightarrow> activeRecoveryExecutor" where
  "driverActiveRecoveryExecutor E fuel repository credentials desiredArgs =
     \<lparr>Prepare = (\<lambda>active. State_Monad.return (executor_Prepare credentials desiredArgs active)),
      Cleanup = executor_Cleanup E,
      Persist = repo_Write repository,
      Start = executor_Start E fuel repository credentials,
      CleanupCandidate = executor_CleanupCandidate E,
      Factory = Some
        \<lparr>NewDesired = (\<lambda>active desiredBinary.
           executor_New E (newActiveRecoveryCandidate active desiredBinary desiredArgs)),
         NewFallback = (\<lambda>desired.
           ifNil (validateRecoveryFallbackEligibility (FallbackMountArgs desired)) Inl
             (executor_New E (newFallbackRecoveryCandidate desired)))\<rparr>\<rparr>"

end
