(* ===== verification/NodeProperties.thy ===== *)
theory NodeProperties
  imports NodePreflight ActiveRecovery
begin

text \<open>
  What the node's checks and decisions guarantee: the shape of its capabilities and the gating of
  its operations, the binary it launches, and the decisions and the course of an active recovery.
\<close>

section \<open>Capabilities\<close>

text \<open>One status per capability, with a reason exactly when it is not available.\<close>

definition capabilitiesOk :: "nodeCapabilities \<Rightarrow> bool" where
  "capabilitiesOk c \<longleftrightarrow> length c = length orderedNodeCapabilityNames
     \<and> (\<forall>s\<in>set c. cap_Available s \<longleftrightarrow> cap_Reason s = [])"

lemma capabilityIndexFrom_Some: "capabilityIndexFrom name names = Some i \<Longrightarrow> i < length names \<and> names ! i = name"
  by (induction names arbitrary: i) (auto split: if_splits)

lemma capabilityIndexFrom_None: "capabilityIndexFrom name names = None \<longleftrightarrow> name \<notin> set names"
  by (induction names) auto

lemma nodeCapabilityIndex_inj:
  "nodeCapabilityIndex a = Some i \<Longrightarrow> nodeCapabilityIndex b = Some i \<Longrightarrow> a = b"
  unfolding nodeCapabilityIndex_def by (auto dest!: capabilityIndexFrom_Some)

lemma capabilitiesOk_available: "capabilitiesOk availableNodeCapabilities"
  by (simp add: capabilitiesOk_def availableNodeCapabilities_def)

lemma capabilitiesOk_unavailable:
  assumes "capabilitiesOk c" and "reason \<noteq> []"
  shows "capabilitiesOk (withUnavailable c name reason)"
proof (cases "nodeCapabilityIndex name")
  case (Some i)
  have "set (c[i := \<lparr>cap_Available = False, cap_Reason = reason\<rparr>])
      \<subseteq> insert \<lparr>cap_Available = False, cap_Reason = reason\<rparr> (set c)"
    by (rule set_update_subset_insert)
  then show ?thesis using assms Some by (auto simp: capabilitiesOk_def withUnavailable_def)
qed (use assms in \<open>simp add: withUnavailable_def\<close>)

lemma capabilitiesOk_noteProbe: "capabilitiesOk c \<Longrightarrow> capabilitiesOk (noteProbe name reason c)"
  by (simp add: noteProbe_def capabilitiesOk_unavailable)

text \<open>Whatever a program returns, from every history.\<close>

definition returns :: "('a \<Rightarrow> bool) \<Rightarrow> 'a prog \<Rightarrow> bool" where
  "returns P m \<longleftrightarrow> (\<forall>tr. P (fst (run_state m tr)))"

lemma returns_bind: "(\<And>x. returns P (f x)) \<Longrightarrow> returns P (State_Monad.bind m f)"
  by (simp add: returns_def run_simps split: prod.split)

lemma returns_return: "P x \<Longrightarrow> returns P (State_Monad.return x)"
  by (simp add: returns_def run_simps)

lemma returns_orReturn: "(\<And>e. P (h e)) \<Longrightarrow> (\<And>x. returns P (k x)) \<Longrightarrow> returns P (orReturn m h k)"
  by (simp add: returns_def run_simps split: prod.split sum.split)

lemma returns_runNodePreflight: "returns capabilitiesOk (runNodePreflight E)"
proof -
  have "returns capabilitiesOk (checkDrive9 E c)" if "capabilitiesOk c" for c
    unfolding checkDrive9_def
    by (intro returns_orReturn returns_bind returns_return)
      (simp_all add: that capabilitiesOk_noteProbe capabilitiesOk_unavailable)
  then show ?thesis
    unfolding runNodePreflight_def Let_def
    by (intro returns_bind) (simp add: capabilitiesOk_noteProbe capabilitiesOk_available)
qed

lemma capability_Status_unavailable:
  assumes "length c = length orderedNodeCapabilityNames" and "name \<in> set orderedNodeCapabilityNames"
  shows "cap_Available (capability_Status (withUnavailable c name reason) other)
    \<longleftrightarrow> other \<noteq> name \<and> cap_Available (capability_Status c other)"
proof -
  obtain i where i: "nodeCapabilityIndex name = Some i"
    using assms(2) capabilityIndexFrom_None by (fastforce simp: nodeCapabilityIndex_def)
  then have "i < length c"
    using capabilityIndexFrom_Some assms(1) by (fastforce simp: nodeCapabilityIndex_def)
  with i show ?thesis
    using nodeCapabilityIndex_inj [OF i, of other]
    by (auto simp: capability_Status_def withUnavailable_def nth_list_update split: option.splits)
qed

lemma first_error_all: "first_error rs = None \<longleftrightarrow> (\<forall>r\<in>set rs. r = None)"
  by (induction rs rule: first_error.induct) auto

lemma requireNodeCapabilities_None:
  "requireNodeCapabilities c operation = None \<longleftrightarrow>
     (\<exists>required. requiredNodeCapabilities operation = Some required
        \<and> (\<forall>name\<in>set required. cap_Available (capability_Status c name)))"
  by (auto simp: requireNodeCapabilities_def first_error_all fail_if_def split: option.splits)

lemma first_error_fails: "first_error (map (\<lambda>x. fail_if (p x) e) xs) = Some e' \<Longrightarrow> e' = e"
  by (induction xs) (auto simp: fail_if_def split: if_splits)

lemma required_known: "requiredNodeCapabilities operation = Some required \<Longrightarrow>
    set required \<subseteq> set orderedNodeCapabilityNames"
  by (cases operation) (auto simp: allNodeCapabilityNames_def orderedNodeCapabilityNames_def)

section \<open>The desired binary\<close>

lemma binaryNamePattern_digest: "binaryNamePattern name \<Longrightarrow> name = ''drive9-'' @ TrimPrefix name ''drive9-''"
  by (auto simp: binaryNamePattern_def hexNamed_def HasPrefix_iff TrimPrefix_def)

definition desiredBinary :: "string \<Rightarrow> event list \<Rightarrow> bool" where
  "desiredBinary path n \<longleftrightarrow>
     (\<exists>body info. path = path_Join [hostBinaryDir, ''drive9-'' @ sha256hex body]
        \<and> EvReadlink hostDrive9DesiredPath (Inr (''drive9-'' @ sha256hex body)) \<in> set n
        \<and> EvLstat path (Inr info) \<in> set n \<and> IsRegular info \<and> anyExecute info
        \<and> EvReadFile path (Inr body) \<in> set n)"

lemma emits_validateDesiredDrive9Content:
  "emits (validateDesiredDrive9Content E) (\<lambda>r n. list_all hostObservation n
     \<and> (\<forall>path. r = Inr path \<longrightarrow> desiredBinary path n))"
proof -
  have found: "desiredBinary (path_Join [hostBinaryDir, target]) n"
    if "binaryNamePattern target" "sha256hex body = TrimPrefix target ''drive9-''" "IsRegular info" "anyExecute info"
      "EvReadlink hostDrive9DesiredPath (Inr target) \<in> set n" "EvLstat (path_Join [hostBinaryDir, target]) (Inr info) \<in> set n"
      "EvReadFile (path_Join [hostBinaryDir, target]) (Inr body) \<in> set n" for target body info n
    unfolding desiredBinary_def using that binaryNamePattern_digest [OF that(1)] by metis
  show ?thesis
    unfolding validateDesiredDrive9Content_def Let_def host_defs
    by (intro emits_wp) (auto intro: found)
qed

lemma path_Base_plain: "goodComp c \<Longrightarrow> path_Base c = c"
proof -
  assume "goodComp c"
  then have c: "c \<noteq> []" "CHR ''/'' \<notin> set c" by (auto simp: goodComp_def)
  obtain d ds where d: "rev c = d # ds" using c(1) by (metis rev_is_Nil_conv neq_Nil_conv)
  then have "d \<noteq> CHR ''/''" using c(2) by (metis list.set_intros(1) set_rev)
  then have "TrimRight c ''/'' = c"
    using d by (simp add: TrimRight_def)
  moreover have "takeWhile (\<lambda>x. x \<noteq> CHR ''/'') (rev c) = rev c"
    using c(2) by (auto simp: takeWhile_eq_all_conv)
  ultimately show ?thesis using c(1) by (simp only: path_Base_def Let_def if_False rev_rev_ident)
qed

text \<open>A node with an installed binary.\<close>

definition exDesiredName :: string where "exDesiredName = ''drive9-'' @ sha256hex ''x''"
definition exDesiredPath :: string where "exDesiredPath = path_Join [hostBinaryDir, exDesiredName]"

definition exInstalled :: env where
  "exInstalled = exGone
     \<lparr>e_Lstat := \<lambda>tr p. Inr \<lparr>fi_kind = if p = hostDrive9DesiredPath then Symlink else Regular, fi_perm = 493, fi_size = 1\<rparr>,
      e_Readlink := \<lambda>tr p. Inr exDesiredName, e_ReadFile := \<lambda>tr p. Inr ''x''\<rparr>"

lemma exDesired_good: "goodComp exDesiredName" "binaryNamePattern exDesiredName" "path_Base exDesiredName = exDesiredName"
  "TrimPrefix exDesiredName ''drive9-'' = sha256hex ''x''"
proof -
  have hex: "hexDigits 64 (sha256hex ''x'')" by simp
  then have slash: "CHR ''/'' \<notin> set exDesiredName"
    by (auto simp: exDesiredName_def hexDigits_def list_all_iff isLowerHex_def isDigit_def)
  then show good: "goodComp exDesiredName" by (auto simp: goodComp_def exDesiredName_def)
  show "path_Base exDesiredName = exDesiredName" by (rule path_Base_plain [OF good])
  show "binaryNamePattern exDesiredName"
    using hex by (simp add: binaryNamePattern_def hexNamed_def exDesiredName_def HasPrefix_def HasSuffix_def hexDigits_def)
  show "TrimPrefix exDesiredName ''drive9-'' = sha256hex ''x''"
    by (simp add: TrimPrefix_def exDesiredName_def HasPrefix_def)
qed

lemma exDesired_content: "validateContentAddressedBinaryPath exDesiredPath = None" "exDesiredPath \<noteq> hostDrive9DesiredPath"
proof -
  have dir: "cleanAbs hostBinaryDir" "hostBinaryDir \<noteq> ''/''" by code_simp+
  note path = path_Join_child [OF dir exDesired_good(1), folded exDesiredPath_def]
  show "validateContentAddressedBinaryPath exDesiredPath = None"
    using path exDesired_good path_Base_child [OF exDesired_good(1), of hostBinaryDir] path_Dir_child [OF dir(1) exDesired_good(1) dir(2)]
      child_path(1) [OF dir exDesired_good(1)]
    by (simp add: validateContentAddressedBinaryPath_def cleanAbs_def)
  show "exDesiredPath \<noteq> hostDrive9DesiredPath"
    unfolding path by (simp add: hostDrive9DesiredPath_def hostBinaryDir_def exDesiredName_def)
qed

lemma exInstalled_run: "yields (validateDesiredDrive9Content exInstalled) (Inr exDesiredPath)"
  using exDesired_good exDesired_content
  by (simp add: yields_def validateDesiredDrive9Content_def Let_def host_defs run_simps exInstalled_def
      exDesiredPath_def [symmetric] IsRegular_def anyExecute_def)

section \<open>The decision\<close>

text \<open>What cannot be decided, what needs nothing, and the cleanup of everything else, part by part.\<close>

definition undecidable :: "activeRecoveryObservation \<Rightarrow> bool" where
  "undecidable obs \<longleftrightarrow> PIDOwnershipMismatch obs \<or> ServiceExists obs \<and> \<not> PIDVerified obs \<and> \<not> MainPIDOwned obs"

definition healthyMount :: "activeRecoveryObservation \<Rightarrow> bool" where
  "healthyMount obs \<longleftrightarrow> ServiceExists obs \<and> PIDVerified obs \<and> ProcessStateVerified obs \<and> MountExists obs \<and> SocketExists obs"

definition endProcess :: "activeRecoveryObservation \<Rightarrow> activeRecoveryAction list" where
  "endProcess obs =
     (if ServiceExists obs then [activeRecoveryStopService]
      else if PIDVerified obs then (if MountExists obs then [activeRecoveryDrainOrphan] else []) @ [activeRecoveryKillPID]
      else [])"

definition endMount :: "activeRecoveryObservation \<Rightarrow> activeRecoveryAction list" where
  "endMount obs =
     (if MountExists obs \<and> (PIDVerified obs \<or> \<not> ServiceExists obs) then [activeRecoveryUnmount] else [])"

definition endArtifacts :: "activeRecoveryObservation \<Rightarrow> activeRecoveryAction list" where
  "endArtifacts obs =
     (if ServiceExists obs \<and> \<not> PIDVerified obs \<or> \<not> ServiceExists obs \<and> PIDVerified obs \<noteq> MountExists obs
      then [activeRecoveryCleanArtifacts] else [])"

section \<open>The course of a recovery\<close>

text \<open>Running \<open>m\<close> from \<open>tr\<close> returns \<open>x\<close> and leaves \<open>tr'\<close>.\<close>

definition runsTo :: "'a prog \<Rightarrow> event list \<Rightarrow> 'a \<Rightarrow> event list \<Rightarrow> bool" where
  "runsTo m tr x tr' \<longleftrightarrow> run_state m tr = (x, tr')"

text \<open>The desired attempt: prepared, the old runtime cleaned up, recorded, then started.\<close>

definition desiredStarted ::
    "activeRecoveryExecutor \<Rightarrow> mountState \<Rightarrow> string \<Rightarrow> activeRecoveryAction list \<Rightarrow> mountState \<Rightarrow>
     error option \<Rightarrow> event list \<Rightarrow> event list \<Rightarrow> bool" where
  "desiredStarted x active binary actions desired err tr tr' \<longleftrightarrow>
     (\<exists>t1 t2 t3 t4. runsTo (Prepare x active) tr None t1 \<and> runsTo (Cleanup x active actions) t1 None t2
        \<and> runsTo (executor_NewDesired x active binary) t2 (Inr desired) t3
        \<and> runsTo (Persist x desired) t3 None t4 \<and> runsTo (Start x desired) t4 (Some err) tr')"

text \<open>The fallback: after the desired attempt was cleaned up, recorded, then started.\<close>

definition fallbackStarted ::
    "activeRecoveryExecutor \<Rightarrow> mountState \<Rightarrow> mountState \<Rightarrow> event list \<Rightarrow> event list \<Rightarrow> bool" where
  "fallbackStarted x desired fallback tr tr' \<longleftrightarrow>
     (\<exists>t1 t2 t3. runsTo (CleanupCandidate x desired) tr None t1
        \<and> runsTo (executor_NewFallback x desired) t1 (Inr fallback) t2
        \<and> runsTo (Persist x fallback) t2 None t3 \<and> runsTo (Start x fallback) t3 (Some None) tr')"

lemma startFallback_recovered:
  assumes "run_state (startFallback x desired) tr = (Some (activeRecoveryRecovered, None), tr')"
  shows "\<exists>fallback. fallbackStarted x desired fallback tr tr'"
  using assms unfolding startFallback_def fallbackStarted_def runsTo_def whenDone_def recoveryFailed_def recovered_def
  by (auto simp: run_simps split: prod.splits option.splits sum.splits)

text \<open>An executor whose every step succeeds.\<close>

definition exExecutor :: activeRecoveryExecutor where
  "exExecutor = \<lparr>Prepare = (\<lambda>a. State_Monad.return None), Cleanup = (\<lambda>a acts. State_Monad.return None),
     Persist = (\<lambda>s. State_Monad.return None), Start = (\<lambda>s. State_Monad.return (Some None)),
     CleanupCandidate = (\<lambda>s. State_Monad.return None),
     Factory = Some \<lparr>NewDesired = (\<lambda>a b. State_Monad.return (Inr (a\<lparr>BinaryPath := b\<rparr>))),
       NewFallback = (\<lambda>s. State_Monad.return (Inr s))\<rparr>\<rparr>"

definition exGoneObservation :: activeRecoveryObservation where
  "exGoneObservation = \<lparr>ServiceExists = False, PIDVerified = False, ProcessStateVerified = False, MainPIDOwned = False,
     MountExists = False, SocketExists = False, PIDOwnershipMismatch = False, QueryAmbiguous = False\<rparr>"

section \<open>Properties\<close>





text \<open>
  C27: the binary that is launched is content-addressed: the path the check returns is the target of
  the desired link, names the SHA-256 digest of the very content that was read there, and is a
  regular executable file.
\<close>

theorem desired_binary_content_addressed:
  assumes "run_state (validateDesiredDrive9Content E) tr = (Inr path, n @ tr)"
  shows "\<exists>body info. path = path_Join [hostBinaryDir, ''drive9-'' @ sha256hex body]
    \<and> EvReadlink hostDrive9DesiredPath (Inr (''drive9-'' @ sha256hex body)) \<in> set n
    \<and> EvLstat path (Inr info) \<in> set n \<and> IsRegular info \<and> anyExecute info
    \<and> EvReadFile path (Inr body) \<in> set n"
  using emits_ran [OF emits_validateDesiredDrive9Content assms] by (simp add: desiredBinary_def)

theorem desired_binary_content_addressed_witness:
  "\<exists>n info. EvLstat exDesiredPath (Inr info) \<in> set n \<and> IsRegular info \<and> anyExecute info"
proof -
  obtain n where "run_state (validateDesiredDrive9Content exInstalled) [] = (Inr exDesiredPath, n @ [])"
    using exInstalled_run unfolding yields_def by blast
  from desired_binary_content_addressed [OF this] show ?thesis by blast
qed


text \<open>
  C19: a recovery that reports success has prepared, cleaned up, recorded and started the desired
  candidate, in that order, each step only after the one before succeeded; and when the start of
  the desired candidate failed, has cleaned it up, recorded the fallback and started that one.
\<close>

theorem recovery_course:
  assumes "decideActiveRecovery observation = Inr actions" and "actions \<noteq> [activeRecoverySkip]"
    and "run_state (coordinateActiveRecovery active binary observation (Some x)) tr
      = (Some (activeRecoveryRecovered, None), tr')"
  shows "\<exists>desired. desiredStarted x active binary actions desired None tr tr'
    \<or> (\<exists>err fallback t. desiredStarted x active binary actions desired (Some err) tr t
        \<and> fallbackStarted x desired fallback t tr')"
proof -
  have "\<exists>desired err t. desiredStarted x active binary actions desired err tr t
      \<and> (err = None \<and> t = tr' \<or> err \<noteq> None
         \<and> run_state (startFallback x desired) t = (Some (activeRecoveryRecovered, None), tr'))"
    using assms(3) unfolding coordinateActiveRecovery_def desiredStarted_def runsTo_def whenDone_def recovered_def
    by (auto simp: assms(1,2) run_simps recoveryFailed_def split: prod.splits option.splits sum.splits if_splits)
  then show ?thesis by (metis startFallback_recovered option.exhaust)
qed

theorem recovery_course_witness:
  "\<exists>desired t. desiredStarted exExecutor exActive ''b'' [activeRecoveryStartDesired] desired None [] t
     \<or> (\<exists>err fallback t'. desiredStarted exExecutor exActive ''b'' [activeRecoveryStartDesired] desired (Some err) [] t'
        \<and> fallbackStarted exExecutor desired fallback t' t)"
proof -
  have decided: "decideActiveRecovery exGoneObservation = Inr [activeRecoveryStartDesired]"
    by (simp add: decideActiveRecovery_def exGoneObservation_def)
  have "run_state (coordinateActiveRecovery exActive ''b'' exGoneObservation (Some exExecutor)) []
      = (Some (activeRecoveryRecovered, None), [])"
    by (simp add: coordinateActiveRecovery_def decided exExecutor_def executor_NewDesired_def whenDone_def recovered_def run_simps)
  from recovery_course [OF decided _ this] show ?thesis by simp blast
qed

end
