(* ===== verification/LaunchRecord.thy ===== *)
theory LaunchRecord
  imports LaunchSafety NodeProperties
begin

text \<open>
  What a launch has written first. Nothing is started for an attempt whose starting record is not
  durable, on any path through the launch, its reconciliation and its fallback.
\<close>

section \<open>Starting an attempt\<close>

text \<open>The command that starts the unit of an attempt, and the names its startup files appear under.\<close>

definition startsUnit :: "hostCommand \<Rightarrow> bool" where
  "startsUnit c \<longleftrightarrow> drop 11 (take 12 (cmd_Args c)) = [''/usr/bin/systemd-run'']"

fun starting :: "event \<Rightarrow> bool" where
  "starting (EvExec c res r) = startsUnit c"
| "starting (EvLink a b r) = True"
| "starting e = False"

fun startsFor :: "mountState \<Rightarrow> event \<Rightarrow> bool" where
  "startsFor s (EvExec c res r) = (mountSystemdRunHostCommand s = Inr c)"
| "startsFor s (EvLink a b r) = (a = b @ ''.tmp'' \<and> (b = EnvPath s \<or> b = ArgsPath s))"
| "startsFor s e = False"

abbreviation idle :: "'a prog \<Rightarrow> bool" where
  "idle m \<equiv> emits_only (\<lambda>e. \<not> starting e) m"

abbreviation starts :: "mountState \<Rightarrow> 'a prog \<Rightarrow> bool" where
  "starts s m \<equiv> emits_only (\<lambda>e. starting e \<longrightarrow> startsFor s e) m"

lemma starting_simps [simp]: "\<not> startsUnit (hostSystemctlCommand args)"
    "\<not> startsUnit (drainCommand state)"
    "\<not> startsUnit (hostNamespaceCommand hostLauncherPath [''host-unmount'', ''--'', target])"
    "\<not> startsUnit (hostNamespaceCommand hostLauncherPath [''host-unmount'', ''--lazy'', ''--'', target])"
    "\<not> startsUnit (signalCommand a s pid)"
  by (simp_all add: startsUnit_def hostSystemctlCommand_def hostSystemdManagerCommand_def hostNamespaceCommand_def
      drainCommand_def signalCommand_def)

lemma idle_starts: "idle m \<Longrightarrow> starts s m"
  by (erule emits_only_mono) simp

lemma show_not_start: "drop 11 (take 13 args) = [a, b] \<Longrightarrow> drop 11 (take 12 args) \<noteq> [c] \<or> a = c"
  by (cases "drop 11 args") (simp_all add: drop_take)

lemma looking_idle: "hostObservation e \<Longrightarrow> \<not> starting e"
  by (cases e) (use show_not_start in \<open>fastforce simp: startsUnit_def\<close>)+

lemma storing_idle: "storeEvent e \<Longrightarrow> \<not> starting e" "removesOnly A e \<Longrightarrow> \<not> starting e"
  by (cases e; simp)+

lemma emits_idle: "emits m \<Phi> \<Longrightarrow> (\<And>a n. \<Phi> a n \<Longrightarrow> \<forall>e\<in>set n. \<not> starting e) \<Longrightarrow> idle m"
  unfolding emits_only_def by (rule emits_conseq)

lemma idle_only: "emits m (\<lambda>r n. list_all hostObservation n \<and> \<Psi> r n) \<Longrightarrow> idle m"
  by (erule emits_idle) (auto simp: list_all_iff looking_idle)

lemma idle_runOk [emits_intro]: "\<not> startsUnit c \<Longrightarrow> idle (runOk E c e)"
  unfolding runOk_def host_defs by (intro emits_intro) (simp split: prod.split)

lemma idle_looks [emits_intro]:
  "idle (verifyMountSystemdUnitDescription E state)" "idle (verifyStartingSystemdMainPIDOwnership E state)"
  "idle (querySystemdUnit E unit)" "idle (observeStartingProcess E state)" "idle (stoppingPIDAlive E state)"
  by (rule idle_only [OF emits_verifyStartingSystemdMainPIDOwnership] idle_only [OF emits_querySystemdUnit]
      idle_only [OF emits_observeStartingProcess] idle_only [OF emits_stoppingPIDAlive]
      idle_only [OF emits_verifyMountSystemdUnitDescription])+

lemma idle_process [emits_intro]: "idle (verifyProcessOwnership E expected)"
  by (rule emits_idle [OF emits_verifyProcessOwnership]) (auto simp: looking_idle)

lemma idle_removal [emits_intro]: "idle (removeAttemptStartupFiles E state)"
  by (rule emits_idle [OF emits_removeAttemptStartupFiles]) (auto simp: list_all_iff storing_idle)

lemma idle_artifacts [emits_intro]: "idle (removeDeadProcessArtifacts E state)"
  unfolding removeDeadProcessArtifacts_def
proof (rule emits_idle [OF emits_removeVerifiedDeadRuntimeArtifacts])
  fix r n
  assume "cleanupRun E state r n"
  then obtain removals obs where "n = removals @ obs" "cleanedArtifacts E state removals obs"
    unfolding cleanupRun_def by blast
  then show "\<forall>e\<in>set n. \<not> starting e"
    by (cases "removals = []") (auto simp: cleanedArtifacts_def list_all_iff looking_idle dest: storing_idle(2))
qed

lemma emits_only_value:
  assumes "emits m (\<lambda>r n. (\<forall>e\<in>set n. A e) \<and> (\<forall>x. r = Inr x \<longrightarrow> B x))" and "\<And>x. B x \<Longrightarrow> emits_only A (k x)"
  shows "emits_only A (orReturn m h k)"
  unfolding emits_only_def
  by (rule emits_orReturn [OF assms(1)])
    (use assms(2) in \<open>auto simp: emits_only_def intro: emits_conseq\<close>)

lemma idle_killStoppingPID [emits_intro]: "idle (killStoppingPID E state)"
proof -
  have death: "idle (waitForDeath E state interval fuel)" for interval fuel
    by (induction fuel) (auto intro!: emits_intro simp: host_defs)
  have "idle (hostPIDSignalCommand E signal pid)" for signal pid
    unfolding hostPIDSignalCommand_def host_defs by (intro emits_intro) simp
  from emits_conj [OF this [unfolded emits_only_def] emits_hostPIDSignalCommand]
  have "emits (hostPIDSignalCommand E signal pid) (\<lambda>r n. (\<forall>e\<in>set n. \<not> starting e)
      \<and> (\<forall>c. r = Inr c \<longrightarrow> \<not> startsUnit c))" for signal pid
    by (rule emits_conseq) auto
  then show ?thesis
    unfolding killStoppingPID_def by (rule emits_only_value) (auto intro!: emits_intro death)
qed

lemma idle_cleanup [emits_intro]:
  "idle (removeFailedUnit E state)" "idle (unmountDisconnectedStarting E state)"
  "idle (expiredOwner E state process service)" "idle (stopExpired E state owned service)" "idle (expiredGone E state owned)"
  unfolding cleanup_programs Let_def host_defs
  by (intro emits_intro; simp)+

lemma idle_prepare [emits_intro]:
  "idle (validateDesiredDrive9Content E)" "idle (validateHostLauncherBinary E)"
  unfolding validateDesiredDrive9Content_def validateHostLauncherBinary_def Let_def host_defs by (intro emits_intro; simp)+

text \<open>The startup files of an attempt appear under its names, its unit is started by its command.\<close>

lemma starts_publishStartupFile [emits_intro]:
  "path = EnvPath s \<or> path = ArgsPath s \<Longrightarrow> starts s (publishStartupFile E path body)"
proof -
  assume path: "path = EnvPath s \<or> path = ArgsPath s"
  have filled: "starts s (writeHostFile E f b)" for f b
    by (rule emits_only_mono [OF emits_only_writeHostFile]) (simp add: storing_idle)
  show ?thesis
    unfolding startup_programs Let_def host_defs using path by (intro emits_intro filled; auto)
qed

lemma starts_runOk [emits_intro]: "mountSystemdRunHostCommand s = Inr c \<Longrightarrow> starts s (runOk E c e)"
  unfolding runOk_def host_defs by (intro emits_intro) (simp split: prod.split)

lemma starts_startAttempt: "starts candidate (startAttempt E request candidate)"
proof -
  have run: "starts candidate (ifOk (mountSystemdRunHostCommand candidate) Some (\<lambda>c. runOk E c e))" for e
    by (cases "mountSystemdRunHostCommand candidate") (auto simp: ifOk_def intro!: emits_intro)
  show ?thesis
    unfolding startAttempt_def Let_def by (intro emits_intro run) simp_all
qed

context mount_state_repository
begin

lemma idle_repository: "idle (repo_Write states s)" "idle (repo_Delete states s)" "idle (repo_Read states v)"
  by (rule emits_idle [OF write_law] emits_idle [OF delete_law] emits_idle [OF read_law];
      auto simp: list_all_iff storing_idle)+

lemma idle_promoteActive: "idle (promoteActive E states s verified)"
  unfolding promoteActive_def Let_def host_defs by (intro emits_intro idle_repository; simp)

lemma idle_observeReadiness: "idle (observeReadiness E states s processStatePath)"
  unfolding observeReadiness_def promoteReady_def validateReadyControlSocket_def verifyStartingSystemdOwnership_def host_defs
  by (intro emits_intro idle_promoteActive; simp)

lemma idle_wait: "idle (waitForMountAndPromote E fuel states s)"
proof -
  have "idle (waitReady E states s deadline p fuel)" for deadline p
    by (induction fuel)
      (auto simp: waitReady.simps classifyReadinessFailure_def host_defs intro!: emits_intro idle_observeReadiness)
  then show ?thesis unfolding waitForMountAndPromote_def by (intro emits_intro)
qed

end

section \<open>Nothing is started before its record\<close>

definition recorded :: "(mountState \<Rightarrow> event list \<Rightarrow> bool) \<Rightarrow> mountState \<Rightarrow> event list \<Rightarrow> bool" where
  "recorded durable s h \<longleftrightarrow> (\<exists>l w b. h = l @ w @ b \<and> durable s w)"

text \<open>A start needs the record of its attempt: one of \<open>D\<close>, or one that became durable before.\<close>

definition startGuard :: "(mountState \<Rightarrow> event list \<Rightarrow> bool) \<Rightarrow> mountState set \<Rightarrow> event \<Rightarrow> event list \<Rightarrow> bool" where
  "startGuard durable D e h \<longleftrightarrow> (starting e \<longrightarrow> (\<exists>s. startsFor s e \<and> (s \<in> D \<or> recorded durable s h)))"

definition launches :: "(mountState \<Rightarrow> event list \<Rightarrow> bool) \<Rightarrow> mountState set \<Rightarrow> 'a prog \<Rightarrow> bool" where
  "launches durable D m \<longleftrightarrow> emits m (\<lambda>_ n. guarded (startGuard durable D) n)"

named_theorems launches_intro "rules for programs that start what is recorded"

lemma recorded_append: "recorded durable s h \<Longrightarrow> recorded durable s (l @ h @ b)"
  unfolding recorded_def by (metis append.assoc)

lemma startGuard_later: "startGuard durable D e h \<Longrightarrow> startGuard durable D e (h @ b)"
  using recorded_append [of durable _ h "[]" b] by (auto simp: startGuard_def)

lemma guarded_start_append:
  "guarded (startGuard durable D) n1 \<Longrightarrow> guarded (startGuard durable D) n2 \<Longrightarrow> guarded (startGuard durable D) (n2 @ n1)"
  by (auto intro: guarded_mono startGuard_later)

lemma launches_starts: "starts s m \<Longrightarrow> s \<in> D \<Longrightarrow> launches durable D m"
  unfolding launches_def emits_only_def
  by (erule emits_conseq, rule guarded_free) (simp add: startGuard_def, blast)

lemma launches_idle: "idle m \<Longrightarrow> launches durable D m"
  unfolding launches_def emits_only_def
  by (erule emits_conseq) (auto intro!: guarded_free simp: startGuard_def)

lemma launches_return [launches_intro]: "launches durable D (State_Monad.return x)"
  by (simp add: launches_def emits_return)

lemma launches_bind [launches_intro]:
  "launches durable D m \<Longrightarrow> (\<And>x. launches durable D (f x)) \<Longrightarrow> launches durable D (State_Monad.bind m f)"
  unfolding launches_def
  by (rule emits_bind [where \<Phi> = "\<lambda>_ n. guarded (startGuard durable D) n"
        and \<Psi> = "\<lambda>_ _ n. guarded (startGuard durable D) n"]) (auto intro: guarded_start_append simp del: guarded_append)

lemma launches_sum [launches_intro]:
  "(\<And>x. launches durable D (f x)) \<Longrightarrow> (\<And>y. launches durable D (g y)) \<Longrightarrow>
   launches durable D (case r of Inl x \<Rightarrow> f x | Inr y \<Rightarrow> g y)"
  by (cases r) auto

lemma launches_option [launches_intro]:
  "launches durable D m \<Longrightarrow> (\<And>y. launches durable D (g y)) \<Longrightarrow>
   launches durable D (case r of None \<Rightarrow> m | Some y \<Rightarrow> g y)"
  by (cases r) auto

lemma launches_prod [launches_intro]:
  "(\<And>x y. launches durable D (f x y)) \<Longrightarrow> launches durable D (case p of (x, y) \<Rightarrow> f x y)"
  by (cases p) auto

lemma launches_if [launches_intro]:
  "(b \<Longrightarrow> launches durable D m) \<Longrightarrow> (\<not> b \<Longrightarrow> launches durable D n) \<Longrightarrow> launches durable D (if b then m else n)"
  by simp

lemma launches_let [launches_intro]: "launches durable D (f x) \<Longrightarrow> launches durable D (let y = x in f y)"
  by simp

lemma launches_ifNil [launches_intro]: "(r = None \<Longrightarrow> launches durable D k) \<Longrightarrow> launches durable D (ifNil r h k)"
  by (cases r) (auto simp: ifNil_def intro: launches_return)

lemma launches_ifOk [launches_intro]: "(\<And>x. r = Inr x \<Longrightarrow> launches durable D (k x)) \<Longrightarrow> launches durable D (ifOk r h k)"
  by (cases r) (auto simp: ifOk_def intro: launches_return)

lemma launches_orReturn [launches_intro]:
  "idle m \<Longrightarrow> (\<And>x. launches durable D (k x)) \<Longrightarrow> launches durable D (orReturn m h k)"
  unfolding orReturn_def by (intro launches_intro) (auto intro: launches_idle)

lemma launches_unlessErr [launches_intro]:
  "launches durable D m \<Longrightarrow> launches durable D k \<Longrightarrow> launches durable D (unlessErr m h k)"
  unfolding unlessErr_def by (intro launches_intro)

lemma launches_whenDone [launches_intro]:
  "launches durable D m \<Longrightarrow> (\<And>x. launches durable D (k x)) \<Longrightarrow> launches durable D (whenDone m k)"
  unfolding whenDone_def by (intro launches_intro)

text \<open>What a successful write has made durable may be started from then on.\<close>

lemma startGuard_recorded:
  "recorded durable s n \<Longrightarrow> startGuard durable (insert s D) e h \<Longrightarrow> startGuard durable D e (h @ n)"
  using recorded_append [of durable s n h "[]"] recorded_append [of durable _ h "[]" n]
  by (auto simp: startGuard_def)

lemma launches_after:
  assumes "\<forall>e\<in>set n. \<not> starting e" and "recorded durable s n" and "launches durable (insert s D) k"
  shows "emits k (\<lambda>b n2. guarded (startGuard durable D) (n2 @ n))"
proof -
  have "guarded (startGuard durable D) n" using assms(1) by (auto intro!: guarded_free simp: startGuard_def)
  then show ?thesis
    using assms(3) startGuard_recorded [OF assms(2)] unfolding launches_def
    by (auto elim!: emits_conseq intro: guarded_mono)
qed

lemma launches_written:
  assumes "emits w (\<lambda>r n. (\<forall>e\<in>set n. \<not> starting e) \<and> (r = None \<longrightarrow> recorded durable s n))" and "launches durable (insert s D) k"
  shows "launches durable D (unlessErr w h k)"
  unfolding launches_def
  by (rule emits_unlessErr [OF assms(1)])
    (auto intro!: guarded_free launches_after [OF _ _ assms(2)] simp: startGuard_def simp del: guarded_append)

lemma launches_prepared:
  assumes "emits m (\<lambda>r n. (\<forall>e\<in>set n. \<not> starting e) \<and> (\<forall>s. r = Inr s \<longrightarrow> recorded durable s n))"
    and "\<And>s n. recorded durable s n \<Longrightarrow> launches durable (insert s D) (k s)"
  shows "launches durable D (orReturn m h k)"
  unfolding launches_def
  by (rule emits_orReturn [OF assms(1)])
    (auto intro!: guarded_free launches_after assms(2) simp: startGuard_def simp del: guarded_append)

section \<open>What a program has established when it ends\<close>

text \<open>A condition on the result and the events that more events before do not undo.\<close>

definition extensive :: "('a \<Rightarrow> event list \<Rightarrow> bool) \<Rightarrow> bool" where
  "extensive Q \<longleftrightarrow> (\<forall>r n b. Q r n \<longrightarrow> Q r (n @ b))"

named_theorems establish_intro "rules for conditions that earlier events do not undo"

lemma establish_bind [establish_intro]:
  "extensive Q \<Longrightarrow> grows m \<Longrightarrow> (\<And>x. emits (f x) Q) \<Longrightarrow> emits (State_Monad.bind m f) Q"
  unfolding extensive_def emits_only_def
  by (erule emits_bind [where \<Psi> = "\<lambda>_. Q"]) auto

lemma establish_orReturn [establish_intro]:
  "extensive Q \<Longrightarrow> grows m \<Longrightarrow> (\<And>e n. Q (h e) n) \<Longrightarrow> (\<And>x. emits (k x) Q) \<Longrightarrow> emits (orReturn m h k) Q"
  unfolding orReturn_def by (intro establish_bind) (auto intro: emits_return split: sum.split)

lemma establish_unlessErr [establish_intro]:
  "extensive Q \<Longrightarrow> grows m \<Longrightarrow> (\<And>e n. Q (h e) n) \<Longrightarrow> emits k Q \<Longrightarrow> emits (unlessErr m h k) Q"
  unfolding unlessErr_def by (intro establish_bind) (auto intro: emits_return split: option.split)

lemmas establish_rules [establish_intro] = emits_return emits_ifNil emits_ifOk emits_wp_if emits_wp_let
  emits_wp_option emits_wp_sum emits_wp_prod

text \<open>The result of a program that has established it for every way it goes on.\<close>

lemma establish_whenDone:
  assumes "extensive Q" and "emits m \<Phi>" and "\<And>n. Q None n" and "\<And>x n. \<Phi> (Some x) n \<Longrightarrow> emits (k x) (\<lambda>b n2. Q b (n2 @ n))"
  shows "emits (whenDone m k) Q"
  unfolding whenDone_def
proof (rule emits_bind_pre [OF assms(2)])
  fix r n1
  assume "\<Phi> r n1"
  then show "emits (case r of None \<Rightarrow> State_Monad.return None | Some x \<Rightarrow> k x) (\<lambda>b n2. Q b (n2 @ n1))"
    using assms(3,4) by (cases r) (auto intro: emits_return)
qed

definition startRecord :: "(mountState \<Rightarrow> event list \<Rightarrow> bool) \<Rightarrow> string \<Rightarrow> mountState \<Rightarrow> event list \<Rightarrow> bool" where
  "startRecord durable v s w \<longleftrightarrow> durable s w \<and> validateMountState s = None
     \<and> Phase s = mountStatePhaseStarting \<and> VolumeID s = v"

lemma initialized_start:
  "initializeStartingMountState candidate now = Inr s \<Longrightarrow>
   validateMountState s = None \<and> Phase s = mountStatePhaseStarting \<and> VolumeID s = VolumeID candidate"
  by (auto simp: initializeStartingMountState_def Let_def split: if_splits)

lemma candidate_volume [simp]: "VolumeID (fallbackCandidate s a names) = VolumeID s"
    "VolumeID (launchCandidate request a names b) = ml_VolumeID request"
  by (simp_all add: fallbackCandidate_def launchCandidate_def)

context mount_state_repository
begin

abbreviation launching :: "mountState set \<Rightarrow> string \<Rightarrow> 'a prog \<Rightarrow> bool" where
  "launching D v m \<equiv> launches (startRecord durable v) D m"

lemma launching_write:
  assumes "\<exists>candidate now. initializeStartingMountState candidate now = Inr s \<and> VolumeID candidate = v"
    and "launching (insert s D) v k"
  shows "launching D v (unlessErr (repo_Write states s) h k)"
proof -
  have "startRecord durable v s n \<Longrightarrow> recorded (startRecord durable v) s n" for n
    unfolding recorded_def by (metis append.left_neutral append.right_neutral)
  then have "emits (repo_Write states s) (\<lambda>r n. (\<forall>e\<in>set n. \<not> starting e)
      \<and> (r = None \<longrightarrow> recorded (startRecord durable v) s n))"
    using assms(1)
    by (intro emits_conseq [OF write_law]) (auto simp: list_all_iff storing_idle startRecord_def dest: initialized_start)
  then show ?thesis by (rule launches_written [OF _ assms(2)])
qed

lemma launching_resume: "state \<in> D \<Longrightarrow> launching D v (resumeStarting E fuel states state credentials)"
  unfolding resumeStarting_def Let_def
  by (intro launches_starts [OF starts_publishStartupFile] launches_starts [OF starts_runOk] launches_idle [OF idle_wait]
      launches_intro) auto

lemma launching_switch: "VolumeID state = v \<Longrightarrow> launching D v (switchToFallback E fuel states state credentials)"
  unfolding switchToFallback_def Let_def
  by (intro launching_write launching_resume launches_intro launches_idle emits_intro)
    (auto simp: host_defs intro!: emits_intro)

end

context mount_state_repository
begin

lemma launching_absent:
  "VolumeID state = v \<Longrightarrow> state \<in> D \<Longrightarrow>
   launching D v (handleAbsentStarting E fuel states state credentials process mounted failed remaining)"
  unfolding handleAbsentStarting_def
  by (intro launching_resume launching_switch launches_idle [OF idle_removal] launches_idle [OF idle_artifacts]
      launches_idle [OF idle_repository(2)] launches_intro) simp_all

lemma launching_expiry:
  "VolumeID state = v \<Longrightarrow> state \<in> D \<Longrightarrow> launching D v (failExpiredStarting E fuel states state credentials process service)"
  unfolding failExpiredStarting_def
  by (intro launching_absent launches_idle [OF idle_removal] launches_idle [OF idle_artifacts] launches_idle [OF idle_cleanup(4)]
      launches_idle [OF idle_cleanup(5)] launches_intro idle_cleanup) simp_all

lemma launching_units:
  assumes "VolumeID state = v" "state \<in> D"
  shows "launching D v (reconcileDeadUnit E fuel states state credentials allowCleanup process mounted remaining)"
    "launching D v (reconcileNoUnit E fuel states state credentials allowCleanup process mounted remaining)"
    "launching D v (reconcileReady E states state observation verified)"
  unfolding reconcileDeadUnit_def reconcileNoUnit_def reconcileReady_def validateReadyControlSocket_def
    verifyStartingSystemdOwnership_def
  by (intro launching_absent assms launches_intro launches_idle [OF idle_looks(1)] launches_idle [OF idle_cleanup(1)]
      launches_idle [OF idle_cleanup(2)] idle_promoteActive emits_intro; simp add: host_defs launches_idle emits_intro)+

lemma launching_reconcile:
  assumes "VolumeID state = v" "state \<in> D"
  shows "launching D v (Starting_Reconcile E fuel states state credentials allowCleanup rounds)"
proof (induction rounds)
  case 0
  show ?case by (simp add: Starting_Reconcile.simps launches_return)
next
  case (Suc rounds)
  have "launching D v (case s of systemdUnitActive \<Rightarrow> a | systemdUnitActivating \<Rightarrow> b | systemdUnitInactive \<Rightarrow> c
     | systemdUnitFailed \<Rightarrow> d | systemdUnitNotFound \<Rightarrow> e | systemdUnitQueryError \<Rightarrow> f)"
    if "launching D v a" "launching D v b" "launching D v c" "launching D v d" "launching D v e" "launching D v f"
    for s and a b c d e f :: "startingOutcome prog"
    using that by (cases s) simp_all
  note this [launches_intro]
  show ?case
    unfolding Starting_Reconcile.simps
    by (intro launching_units launching_expiry assms launches_intro launches_idle [OF idle_wait] Suc emits_intro)
      (simp_all add: host_defs launches_idle emits_intro)
qed

lemma idle_prepareLaunch: "idle (prepareLaunch E states request)"
  unfolding prepareLaunch_def by (intro emits_intro idle_repository; simp add: host_defs emits_intro)

lemma emits_prepareLaunch:
  "emits (prepareLaunch E states request)
     (\<lambda>r n. \<forall>s. r = Inr s \<longrightarrow> recorded (startRecord durable (ml_VolumeID request)) s n)"
  (is "emits _ ?R")
proof -
  have "emits (unlessErr (repo_Write states s) (\<lambda>e. Inl (h e)) (State_Monad.return (Inr s))) ?R"
    if s: "initializeStartingMountState candidate now = Inr s" and v: "VolumeID candidate = ml_VolumeID request"
    for candidate now s and h :: "error \<Rightarrow> error"
  proof (rule emits_unlessErr [OF write_law], goal_cases)
    case (2 n)
    have "n = [] @ n @ []" by simp
    then have "recorded (startRecord durable (ml_VolumeID request)) s n"
      using 2 initialized_start [OF s] v unfolding recorded_def startRecord_def by metis
    then show ?case by (intro emits_return) simp
  qed simp
  note writing = this
  have extensive: "extensive ?R"
    using recorded_append [of _ _ _ "[]"] by (auto simp: extensive_def)
  show ?thesis
    unfolding prepareLaunch_def
    apply (intro writing establish_intro extensive emits_intro)
    apply (auto simp: host_defs intro!: emits_intro)
    done
qed

lemma launching_launch: "launching {} (ml_VolumeID request) (Launch E fuel rounds states request)"
proof -
  have await: "launching {s} v (awaitLaunch E fuel rounds states request s)" if "VolumeID s = v" for s v
    unfolding awaitLaunch_def using that
    by (intro launching_reconcile launches_intro launches_idle [OF idle_wait] idle_repository)
      (simp_all add: host_defs launches_idle emits_intro)
  have start: "launching {s} v (unlessErr (startAttempt E request s) (\<lambda>e. Some (Inl e)) (awaitLaunch E fuel rounds states request s))"
    if "VolumeID s = v" for s v
    by (intro launches_intro launches_starts [OF starts_startAttempt] await that) simp
  show ?thesis
    unfolding Launch_def
  proof (rule launches_prepared [OF emits_conj [OF idle_prepareLaunch [unfolded emits_only_def] emits_prepareLaunch]])
    fix s n
    assume "recorded (startRecord durable (ml_VolumeID request)) s n"
    then have "VolumeID s = ml_VolumeID request" by (auto simp: recorded_def startRecord_def)
    then show "launching (insert s {}) (ml_VolumeID request)
        (unlessErr (startAttempt E request s) (\<lambda>e. Some (Inl e)) (awaitLaunch E fuel rounds states request s))"
      using start [of s "ml_VolumeID request"] by simp
  qed
qed

end

section \<open>A launch\<close>

text \<open>A node with an installed binary and no record, on which no startup file can be published.\<close>

definition exLaunchArgs :: "string list" where
  "exLaunchArgs = [''mount'', ''--supervise-foreground'', ''--mode=fuse'', ''--direct-mount-strict'',
     ''--server'', ''https://drive9'', '':/k8s/a'', exTarget]"

definition exLaunch :: mountLaunchRequest where
  "exLaunch = exLaunchRequest\<lparr>ml_MountArgs := exLaunchArgs\<rparr>"

definition exLaunched :: mountState where
  "exLaunched = exStarting\<lparr>AttemptID := zeroAttempt, BinaryPath := exDesiredPath, MountArgs := exLaunchArgs,
     EnvPath := names_EnvPath (exNames (CHR ''0'')), ArgsPath := names_ArgsPath (exNames (CHR ''0''))\<rparr>"

definition exNode :: env where
  "exNode = exInstalled
     \<lparr>e_Lstat := \<lambda>tr p. if p = exPath then Inl (Sentinel ErrNotExist) else e_Lstat exInstalled tr p,
      e_Link := \<lambda>tr a b. Some (Errorf ''link'')\<rparr>"

lemma exLaunch_valid: "validateMountLaunchRequest exLaunch = None" "mountArgsUseDirectMountStrict (ml_MountArgs exLaunch)"
  by code_simp+

lemma exLaunchArgs_valid: "validateMountStateArgs exLaunchArgs ''/k8s/a'' exTarget = None" "exLaunchArgs \<noteq> []"
  by code_simp+

lemma exLaunched_valid: "validateMountState exLaunched = None"
  using ex_parts exLaunchArgs_valid exDesired_content(1) ex_names_zero attemptIDPattern_zero
  by (simp add: validateMountState_def exLaunched_def exStarting_def exCandidate_def noMountState_def knownPhase_def
      mountStateSchemaVersion_def validateStartingMountState_def maxStartupTimeout_def del: append.simps)

lemma exNode_answers [simp]:
  "e_Lstat exNode tr exPath = Inl (Sentinel ErrNotExist)" "e_NewAttemptID exNode tr = Inr zeroAttempt"
  "e_OpenFile exNode tr p flag mode = None" "e_FileWrite exNode tr p body = Inr (int (length body))"
  "e_FileSync exNode tr p = None" "e_FileClose exNode tr p = None" "e_Chmod exNode tr p mode = None"
  "e_Chown exNode tr p u g = None" "e_Remove exNode tr p = None" "e_Link exNode tr a b = Some (Errorf ''link'')"
  "e_Rename exNode tr a b = None" "e_MarshalState exNode s = [CHR ''x'']" "e_Now exNode tr = 0" "e_CtxErr exNode tr = None"
  "p \<noteq> exPath \<Longrightarrow> e_Lstat exNode tr p = e_Lstat exInstalled tr p"
  "e_Readlink exNode = e_Readlink exInstalled" "e_ReadFile exNode = e_ReadFile exInstalled"
  by (simp_all add: exNode_def exInstalled_def exGone_def calmHost_def)

lemma exNode_file:
  "body \<noteq> [] \<Longrightarrow> run_state (writeHostFile exNode f body) tr = (None, EvFileWrite f body (Inr (int (length body))) # tr)"
  by (subst writeHostFile.simps) (simp add: FileWrite_def run_simps writeHostFile.simps [of _ _ "[]"])

lemma exPath_differs: "exDesiredPath \<noteq> exPath" "hostLauncherPath \<noteq> exPath" "hostDrive9DesiredPath \<noteq> exPath"
proof -
  have dir: "cleanAbs hostBinaryDir" "hostBinaryDir \<noteq> ''/''" by code_simp+
  show "exDesiredPath \<noteq> exPath"
    unfolding path_Join_child [OF dir exDesired_good(1), folded exDesiredPath_def] by (simp add: exPath_def hostBinaryDir_def)
qed (simp_all add: exPath_def hostLauncherPath_def hostDrive9DesiredPath_def hostBinaryDir_def)

lemma exNode_desired: "yields (validateDesiredDrive9Content exNode) (Inr exDesiredPath)"
  using exDesired_good exDesired_content exPath_differs
  by (simp add: yields_def validateDesiredDrive9Content_def Let_def host_defs run_simps exInstalled_def
      exDesiredPath_def [symmetric] IsRegular_def anyExecute_def)

lemma exNode_launcher: "yields (validateHostLauncherBinary exNode) None"
  using exPath_differs
  by (simp add: yields_def validateHostLauncherBinary_def host_defs run_simps exInstalled_def hostLauncherPath_def
      hostDrive9DesiredPath_def hostBinaryDir_def IsRegular_def anyExecute_def)

lemma exNode_write: "yields (store_Write exNode ''/s'' exLaunched) None"
proof -
  have path: "statePath ''/s'' (VolumeID exLaunched) = Inr exPath"
    using exHost_path by (simp add: exLaunched_def)
  have legal: "validateMountStateTransition None exLaunched = None"
    using exLaunched_valid by (simp add: validateMountStateTransition_def exLaunched_def exStarting_def)
  have none: "run_state (store_Current exNode ''/s'' (VolumeID exLaunched)) tr = (Inr None, EvLstat exPath (Inl (Sentinel ErrNotExist)) # tr)" for tr
    using path by (simp add: store_Current_def store_Read_def Lstat_def run_simps)
  have small: "\<not> maxMountStateLength < Suc (Suc 0)" by (simp add: maxMountStateLength_def)
  show ?thesis
    unfolding yields_def store_Write_def writeAtomicStateFile_def publishTemp_def syncDirectory_def host_defs
    using exHost_path(1) path
    by (simp add: run_simps exLaunched_valid legal small none exNode_file Let_def)
qed

lemma exLaunch_initialized: "initializeStartingMountState (launchCandidate exLaunch zeroAttempt (exNames (CHR ''0'')) exDesiredPath) 0 = Inr exLaunched"
proof -
  have "launchCandidate exLaunch zeroAttempt (exNames (CHR ''0'')) exDesiredPath
      \<lparr>SchemaVersion := mountStateSchemaVersion, Phase := mountStatePhaseStarting,
       CreatedAt := formatTime 0, StartupDeadline := formatTime (0 + nat maxStartupTimeout)\<rparr> = exLaunched"
    by (simp add: launchCandidate_def exLaunch_def exLaunchRequest_def exLaunched_def ex_defs mountStateSchemaVersion_def
        maxStartupTimeout_def)
  then show ?thesis
    using exLaunched_valid unfolding initializeStartingMountState_def Let_def
    by (simp add: launchCandidate_def noMountState_def)
qed

lemma exNode_prepared: "yields (prepareLaunch exNode (mountStateStore exNode (newMountStateStore ''/s'')) exLaunch) (Inr exLaunched)"
proof -
  have simple: "yields (CtxErr exNode) None" "yields (NewAttemptID exNode) (Inr zeroAttempt)" "yields (Now exNode) 0"
    by (simp_all add: host_defs yields_perform)
  have volume: "newVolumeHostNames (ml_VolumeID exLaunch) zeroAttempt = Inr (exNames (CHR ''0''))"
    using ex_names_zero by (simp add: exLaunch_def exLaunchRequest_def)
  have stored: "yields (repo_Write (mountStateStore exNode (newMountStateStore ''/s'')) exLaunched) None"
    using exNode_write exHost_path(2) by (simp add: mountStateStore_def newMountStateStore_def)
  show ?thesis
    unfolding prepareLaunch_def
    by (intro yields_ifs(1) [OF exLaunch_valid(1)] yields_ifs(2) [OF volume] yields_ifs(2) [OF exLaunch_initialized]
      yields_unlessErr [OF simple(1)] yields_orReturn [OF exNode_desired] yields_if
      yields_unlessErr [OF exNode_launcher] yields_orReturn [OF simple(2)] yields_bind [OF simple(3)]
      yields_unlessErr [OF stored] yields_return) (use exLaunch_valid(2) in simp_all)
qed

lemma exNode_publish:
  assumes "validateStartupFilePath path = None" and "body \<noteq> []" and "length body \<le> maxStartupFileLength"
  shows "does (publishStartupFile exNode path body) (Some (Errorf ''link''))
    (EvLink (path @ ''.tmp'') path (Some (Errorf ''link'')))"
  unfolding does_def
proof (intro allI exI conjI)
  show "run_state (publishStartupFile exNode path body) tr = (Some (Errorf ''link''),
      [EvRemove (path @ ''.tmp'') None, EvLink (path @ ''.tmp'') path (Some (Errorf ''link'')), EvFileClose (path @ ''.tmp'') None,
       EvFileSync (path @ ''.tmp'') None, EvChmod (path @ ''.tmp'') perm600 None, EvChown (path @ ''.tmp'') 0 0 None,
       EvFileWrite (path @ ''.tmp'') body (Inr (int (length body))), EvOpenFile (path @ ''.tmp'') O_WRONLY_CREATE_EXCL perm600 None] @ tr)" for tr
    unfolding startup_programs Let_def host_defs using assms by (simp add: run_simps exNode_file)
qed simp

lemma exLaunch_body: "encodeNULTerminated (startupEnvironment (ml_Server exLaunch) (ml_APIKey exLaunch)) \<noteq> []"
  "length (encodeNULTerminated (startupEnvironment (ml_Server exLaunch) (ml_APIKey exLaunch))) \<le> maxStartupFileLength"
proof -
  have "length (encodeNULTerminated (startupEnvironment (ml_Server exLaunch) (ml_APIKey exLaunch))) < 500" by code_simp
  then show "length (encodeNULTerminated (startupEnvironment (ml_Server exLaunch) (ml_APIKey exLaunch))) \<le> maxStartupFileLength"
    by (simp add: maxStartupFileLength_def)
qed code_simp

lemma exLaunch_env: "validateStartupFilePath (EnvPath exLaunched) = None"
proof -
  let ?c = "truncatedSHA256 exVolume @ ''-'' @ zeroAttempt @ ''.env''"
  have dir: "cleanAbs hostRuntimeDir" "hostRuntimeDir \<noteq> ''/''" by code_simp+
  have good: "goodComp ?c" by (rule startup_name_good [OF attemptIDPattern_zero]) simp
  have path: "EnvPath exLaunched = path_Join [hostRuntimeDir, ?c]"
    by (simp add: exLaunched_def exNames_def exAttempt_def zeroAttempt_def)
  show ?thesis
    using path_Join_child [OF dir good] path_Base_child [OF good, of hostRuntimeDir] path_Dir_child [OF dir(1) good dir(2)]
      child_path(1) [OF dir good]
    unfolding path by (simp add: validateStartupFilePath_def cleanAbs_def HasSuffix_def)
qed

lemma exNode_started: "does (startAttempt exNode exLaunch exLaunched)
    (Some (Wrap ''publish mount environment file'' (Errorf ''link'')))
    (EvLink (EnvPath exLaunched @ ''.tmp'') (EnvPath exLaunched) (Some (Errorf ''link'')))"
  unfolding does_def
proof
  fix tr
  obtain n where "run_state (publishStartupFile exNode (EnvPath exLaunched)
      (encodeNULTerminated (startupEnvironment (ml_Server exLaunch) (ml_APIKey exLaunch)))) tr = (Some (Errorf ''link''), n @ tr)"
    "EvLink (EnvPath exLaunched @ ''.tmp'') (EnvPath exLaunched) (Some (Errorf ''link'')) \<in> set n"
    using exNode_publish [OF exLaunch_env exLaunch_body] unfolding does_def by blast
  then show "\<exists>n. run_state (startAttempt exNode exLaunch exLaunched) tr =
      (Some (Wrap ''publish mount environment file'' (Errorf ''link'')), n @ tr)
      \<and> EvLink (EnvPath exLaunched @ ''.tmp'') (EnvPath exLaunched) (Some (Errorf ''link'')) \<in> set n"
    unfolding startAttempt_def Let_def by (simp add: run_simps)
qed

text \<open>
  C1: whatever a launch starts, it has recorded. A startup file appears under its name, and the
  command that starts a transient unit runs, only for an attempt whose starting record for the
  requested volume was written and is durable at that moment, in the launch itself as well as when
  its reconciliation resumes the attempt or replaces it by its fallback.
\<close>

theorem launch_write_ahead:
  assumes "run_state (Launch E fuel rounds (mountStateStore E (newMountStateStore dir)) request) tr = (r, later @ e # earlier @ tr)"
    and "starting e"
  shows "\<exists>s. startsFor s e \<and> recorded (startRecord (stateDurable E (newMountStateStore dir)) (ml_VolumeID request)) s earlier"
proof -
  have "guarded (startGuard (startRecord (stateDurable E (newMountStateStore dir)) (ml_VolumeID request)) {}) (later @ e # earlier)"
    using emits_ran [OF node_store.launching_launch [unfolded launches_def], where new = "later @ e # earlier" and tr = tr]
      assms(1) by simp
  from guarded_split [OF this] show ?thesis using assms(2) by (simp add: startGuard_def)
qed

theorem launch_write_ahead_witness:
  "\<exists>s earlier. startsFor s (EvLink (EnvPath exLaunched @ ''.tmp'') (EnvPath exLaunched) (Some (Errorf ''link'')))
     \<and> recorded (startRecord (stateDurable exNode (newMountStateStore ''/s'')) (ml_VolumeID exLaunch)) s earlier"
proof -
  let ?e = "EvLink (EnvPath exLaunched @ ''.tmp'') (EnvPath exLaunched) (Some (Errorf ''link''))"
  let ?launch = "Launch exNode 361 2 (mountStateStore exNode (newMountStateStore ''/s'')) exLaunch"
  obtain n1 where n1: "run_state (prepareLaunch exNode (mountStateStore exNode (newMountStateStore ''/s'')) exLaunch) []
      = (Inr exLaunched, n1)"
    using exNode_prepared unfolding yields_def by (metis append_Nil2)
  obtain later earlier where "run_state (startAttempt exNode exLaunch exLaunched) n1
      = (Some (Wrap ''publish mount environment file'' (Errorf ''link'')), later @ ?e # earlier @ n1)"
    using does_run [OF exNode_started] by blast
  with n1 have "run_state ?launch [] = (Some (Inl (Wrap ''publish mount environment file'' (Errorf ''link''))),
      later @ ?e # (earlier @ n1) @ [])"
    by (simp add: Launch_def run_simps)
  from launch_write_ahead [OF this] show ?thesis by auto
qed

end
