(* ===== verification/MountCommand.thy ===== *)
theory MountCommand
  imports MountState
begin

text \<open>
  \<open>internal/driver/mount_args.go\<close>: the argument vector the driver launches the Drive9 binary
  with, and the proof that it always passes the validation of the durable state.
\<close>

section \<open>Configuration and request\<close>

text \<open>\<open>Config\<close> of driver.go.\<close>

record Config =
  cfg_Endpoint :: string
  cfg_NodeID :: string
  cfg_DriverName :: string
  cfg_Version :: string
  cfg_StateDir :: string
  cfg_Drive9Binary :: string
  cfg_RecoverNodeMounts :: string
  cfg_ServiceMode :: string

record drive9MountRequest =
  req_VolumeID :: string
  req_Server :: string
  req_APIKey :: string
  req_RemoteRoot :: string
  req_StagingTarget :: string
  req_Profile :: string
  req_Durability :: string
  req_AttrTTL :: string
  req_EntryTTL :: string
  req_DirTTL :: string
  req_PerfDir :: string
  req_Tuning :: mountTuning
  req_GVisorCompat :: bool
  req_Policy :: mountPathPolicy

definition drive9LocalRoot :: "Config \<Rightarrow> string \<Rightarrow> string" where
  "drive9LocalRoot cfg volumeID = path_Join [cfg_StateDir cfg, ''local'', safeFileName volumeID]"

definition mountCacheDir :: "Config \<Rightarrow> string \<Rightarrow> string" where
  "mountCacheDir cfg volumeID = path_Join [cfg_StateDir cfg, ''cache'', safeFileName volumeID]"

definition drive9PerfDir :: "Config \<Rightarrow> string \<Rightarrow> string" where
  "drive9PerfDir cfg volumeID = path_Join [cfg_StateDir cfg, ''perf'', safeFileName volumeID]"

definition FormatBool :: "bool \<Rightarrow> string" where
  "FormatBool b = (if b then ''true'' else ''false'')"

text \<open>An option and its value, when the value is given.\<close>

definition optionArg :: "string \<Rightarrow> string \<Rightarrow> string list" where
  "optionArg flag value = (if value \<noteq> '''' then [flag, value] else [])"

definition appendMountTuningArgs :: "string list \<Rightarrow> mountTuning \<Rightarrow> string list" where
  "appendMountTuningArgs args tuning =
     args @ (if ReaddirPrefetch tuning then [''--readdir-prefetch''] else [])
     @ optionArg ''--readdir-prefetch-max-files'' (ReaddirPrefetchMaxFiles tuning)
     @ optionArg ''--readdir-prefetch-max-file-bytes'' (ReaddirPrefetchMaxFileBytes tuning)
     @ optionArg ''--readdir-prefetch-max-bytes'' (ReaddirPrefetchMaxBytes tuning)
     @ optionArg ''--writeback-batch-window'' (WritebackBatchWindow tuning)"

definition drive9MountArgs :: "Config \<Rightarrow> drive9MountRequest \<Rightarrow> string \<Rightarrow> string list" where
  "drive9MountArgs cfg req cacheDir =
     (let ttls = mountTTLsOrDefault (req_AttrTTL req) (req_EntryTTL req) (req_DirTTL req);
          args = [''mount'', superviseForegroundFlag, ''--mode=fuse'', directMountStrictFlag,
                  ''--gvisor-compat='' @ FormatBool (req_GVisorCompat req)]
            @ optionArg ''--server'' (req_Server req)
            @ [''--allow-other'', ''--cache-dir'', cacheDir, ''--attr-ttl'', AttrTTL ttls,
               ''--entry-ttl'', EntryTTL ttls, ''--dir-ttl'', DirTTL ttls]
            @ (if req_Profile req \<noteq> '''' then
                 [''--profile'', req_Profile req]
                 @ (if req_Profile req = ''coding-agent''
                    then [''--local-root'', drive9LocalRoot cfg (req_VolumeID req)] else [])
               else [])
            @ optionArg ''--durability'' (req_Durability req)
            @ policyArgs (req_Policy req)
            @ optionArg ''--perf-dir'' (req_PerfDir req)
      in appendMountTuningArgs args (req_Tuning req) @ ['':'' @ req_RemoteRoot req, req_StagingTarget req])"

section \<open>The argument vector is valid\<close>

definition reservedFlag :: "string \<Rightarrow> bool" where
  "reservedFlag arg \<longleftrightarrow> arg = superviseForegroundFlag \<or> arg = directMountStrictFlag
     \<or> mountFlagArgument arg ''supervise-foreground'' \<or> mountFlagArgument arg ''foreground''
     \<or> mountFlagArgument arg ''supervised'' \<or> mountFlagArgument arg ''no-supervise''"

definition ordinaryArg :: "string \<Rightarrow> bool" where
  "ordinaryArg arg \<longleftrightarrow> mountArgError arg = None \<and> \<not> reservedFlag arg"

text \<open>A value is acceptable when it is not empty, carries no NUL and no credential, and does not
  look like a flag.\<close>

definition plainValue :: "string \<Rightarrow> bool" where
  "plainValue v \<longleftrightarrow> mountArgError v = None \<and> \<not> HasPrefix v ''-''"

lemma plainValue_ordinary: "plainValue v \<Longrightarrow> ordinaryArg v"
  by (cases v)
    (auto simp: plainValue_def ordinaryArg_def reservedFlag_def mountFlagArgument_def HasPrefix_def
      superviseForegroundFlag_def directMountStrictFlag_def)

lemma superviseCount_ordinary:
  "list_all ordinaryArg args \<Longrightarrow> superviseCount n (args @ rest) = superviseCount n rest"
  by (induction args) (auto simp: ordinaryArg_def reservedFlag_def)

lemma filter_strict_ordinary: "list_all ordinaryArg args \<Longrightarrow> filter (\<lambda>a. a = directMountStrictFlag) args = []"
  by (induction args) (auto simp: ordinaryArg_def reservedFlag_def)

lemma ordinary_errors: "list_all ordinaryArg args \<Longrightarrow> r \<in> set (map mountArgError args) \<Longrightarrow> r = None"
  by (auto simp: list_all_iff ordinaryArg_def)

lemma ordinary_flags:
  "ordinaryArg ''mount''" "ordinaryArg ''--mode=fuse''" "ordinaryArg ''--server''" "ordinaryArg ''--allow-other''"
  "ordinaryArg ''--cache-dir''" "ordinaryArg ''--attr-ttl''" "ordinaryArg ''--entry-ttl''" "ordinaryArg ''--dir-ttl''"
  "ordinaryArg ''--profile''" "ordinaryArg ''--local-root''" "ordinaryArg ''--durability''" "ordinaryArg ''--perf-dir''"
  "ordinaryArg ''--readdir-prefetch''" "ordinaryArg ''--readdir-prefetch-max-files''"
  "ordinaryArg ''--readdir-prefetch-max-file-bytes''" "ordinaryArg ''--readdir-prefetch-max-bytes''"
  "ordinaryArg ''--writeback-batch-window''"
  by code_simp+

lemma ordinary_gvisor: "ordinaryArg (''--gvisor-compat='' @ FormatBool b)"
proof (cases b)
  case True
  have "ordinaryArg (''--gvisor-compat='' @ FormatBool True)" by code_simp
  with True show ?thesis by simp
next
  case False
  have "ordinaryArg (''--gvisor-compat='' @ FormatBool False)" by code_simp
  with False show ?thesis by simp
qed

lemma strict_and_supervise_arg: "mountArgError superviseForegroundFlag = None"
  "mountArgError directMountStrictFlag = None" "superviseForegroundFlag \<noteq> directMountStrictFlag"
  "superviseCount n (directMountStrictFlag # rest) = superviseCount n rest"
  by (code_simp, code_simp, code_simp)
    (simp add: superviseForegroundFlag_def directMountStrictFlag_def mountFlagArgument_def HasPrefix_def)

lemma pattern_ordinary:
  assumes "validateMountPolicyPattern flag p = None"
    and "flag = ''--local-only='' \<or> flag = ''--remote-only='' \<or> flag = ''--append-log=''"
  shows "ordinaryArg (flag @ p)"
proof -
  have "first_error (map patternByteError p) = None" and c: "\<not> argumentMayContainCredential (flag @ p)"
    using assms(1) by (simp_all add: validateMountPolicyPattern_def)
  then have "CHR 0x00 \<notin> set p" by (auto simp: first_error_None patternByteError_def split: if_splits)
  then have "mountArgError (flag @ p) = None" using assms(2) c by (auto simp: mountArgError_def)
  moreover have "\<not> reservedFlag (flag @ p)" using assms(2)
    by (auto simp: reservedFlag_def mountFlagArgument_def HasPrefix_def superviseForegroundFlag_def
        directMountStrictFlag_def)
  ultimately show ?thesis by (simp add: ordinaryArg_def)
qed

lemma optionArg_ordinary: "ordinaryArg flag \<Longrightarrow> value = '''' \<or> plainValue value \<Longrightarrow> list_all ordinaryArg (optionArg flag value)"
  by (auto simp: optionArg_def plainValue_ordinary)

text \<open>What the RPC handlers ensure of a request before they launch it.\<close>

definition goodRequest :: "Config \<Rightarrow> drive9MountRequest \<Rightarrow> string \<Rightarrow> bool" where
  "goodRequest cfg req cacheDir \<longleftrightarrow>
     (\<forall>v\<in>set [req_Server req, req_Profile req, req_Durability req, req_PerfDir req,
               ReaddirPrefetchMaxFiles (req_Tuning req), ReaddirPrefetchMaxFileBytes (req_Tuning req),
               ReaddirPrefetchMaxBytes (req_Tuning req), WritebackBatchWindow (req_Tuning req)].
        v = '''' \<or> plainValue v)
     \<and> (\<forall>v\<in>set [cacheDir, mountTTLOrDefault (req_AttrTTL req), mountTTLOrDefault (req_EntryTTL req),
                 mountTTLOrDefault (req_DirTTL req), drive9LocalRoot cfg (req_VolumeID req),
                 '':'' @ req_RemoteRoot req, req_StagingTarget req]. plainValue v)
     \<and> goodPolicy (req_Policy req)"

lemma policyArgs_ordinary: "goodPolicy policy \<Longrightarrow> list_all ordinaryArg (policyArgs policy)"
proof -
  assume good: "goodPolicy policy"
  have "list_all ordinaryArg (map (\<lambda>p. flag @ p) ps)"
    if v: "list_all (\<lambda>p. validateMountPolicyPattern flag p = None) ps"
      and f: "flag = ''--local-only='' \<or> flag = ''--remote-only='' \<or> flag = ''--append-log=''" for flag ps
    unfolding list.pred_map comp_def
    by (rule list.pred_mono_strong [OF v]) (rule pattern_ordinary [OF _ f])
  with good show ?thesis unfolding goodPolicy_def policyArgs_def list_all_append by blast
qed

lemma drive9MountArgs_split:
  assumes "goodRequest cfg req cacheDir"
  obtains rest where "list_all ordinaryArg rest"
    and "drive9MountArgs cfg req cacheDir =
      [''mount'', superviseForegroundFlag, ''--mode=fuse'', directMountStrictFlag] @ rest
      @ ['':'' @ req_RemoteRoot req, req_StagingTarget req]"
proof -
  let ?t = "req_Tuning req"
  let ?profile = "if req_Profile req \<noteq> '''' then
                 [''--profile'', req_Profile req]
                 @ (if req_Profile req = ''coding-agent''
                    then [''--local-root'', drive9LocalRoot cfg (req_VolumeID req)] else [])
               else []"
  let ?a = "[''--gvisor-compat='' @ FormatBool (req_GVisorCompat req)]"
  let ?b = "optionArg ''--server'' (req_Server req)"
  let ?c = "[''--allow-other'', ''--cache-dir'', cacheDir, ''--attr-ttl'', mountTTLOrDefault (req_AttrTTL req),
      ''--entry-ttl'', mountTTLOrDefault (req_EntryTTL req), ''--dir-ttl'', mountTTLOrDefault (req_DirTTL req)]"
  let ?d = "optionArg ''--durability'' (req_Durability req)"
  let ?e = "policyArgs (req_Policy req)"
  let ?f = "optionArg ''--perf-dir'' (req_PerfDir req)"
  let ?g = "(if ReaddirPrefetch ?t then [''--readdir-prefetch''] else [])
     @ optionArg ''--readdir-prefetch-max-files'' (ReaddirPrefetchMaxFiles ?t)
     @ optionArg ''--readdir-prefetch-max-file-bytes'' (ReaddirPrefetchMaxFileBytes ?t)
     @ optionArg ''--readdir-prefetch-max-bytes'' (ReaddirPrefetchMaxBytes ?t)
     @ optionArg ''--writeback-batch-window'' (WritebackBatchWindow ?t)"
  have opt: "v = '''' \<or> plainValue v" if "v \<in> set [req_Server req, req_Profile req, req_Durability req,
      req_PerfDir req, ReaddirPrefetchMaxFiles ?t, ReaddirPrefetchMaxFileBytes ?t, ReaddirPrefetchMaxBytes ?t,
      WritebackBatchWindow ?t]" for v using assms that unfolding goodRequest_def by blast
  have val: "ordinaryArg v" if "v \<in> set [cacheDir, mountTTLOrDefault (req_AttrTTL req),
      mountTTLOrDefault (req_EntryTTL req), mountTTLOrDefault (req_DirTTL req),
      drive9LocalRoot cfg (req_VolumeID req), '':'' @ req_RemoteRoot req, req_StagingTarget req]" for v
    using assms that unfolding goodRequest_def by (blast intro: plainValue_ordinary)
  have "list_all ordinaryArg ?profile"
    using opt [of "req_Profile req"] val [of "drive9LocalRoot cfg (req_VolumeID req)"] ordinary_flags(9,10)
      plainValue_ordinary [of "req_Profile req"]
    by (cases "req_Profile req = ''''") auto
  moreover have "list_all ordinaryArg ?b" "list_all ordinaryArg ?d" "list_all ordinaryArg ?f"
    by (rule optionArg_ordinary [OF _ opt]; simp add: ordinary_flags)+
  moreover have "list_all ordinaryArg (optionArg ''--readdir-prefetch-max-files'' (ReaddirPrefetchMaxFiles ?t))"
    "list_all ordinaryArg (optionArg ''--readdir-prefetch-max-file-bytes'' (ReaddirPrefetchMaxFileBytes ?t))"
    "list_all ordinaryArg (optionArg ''--readdir-prefetch-max-bytes'' (ReaddirPrefetchMaxBytes ?t))"
    "list_all ordinaryArg (optionArg ''--writeback-batch-window'' (WritebackBatchWindow ?t))"
    by (rule optionArg_ordinary [OF _ opt]; simp add: ordinary_flags)+
  moreover have "list_all ordinaryArg ?a" using ordinary_gvisor by (simp only: list.pred_inject simp_thms)
  moreover have "list_all ordinaryArg ?c" using val ordinary_flags by (simp only: list.pred_inject simp_thms) simp
  moreover have "list_all ordinaryArg ?e" using assms by (intro policyArgs_ordinary) (simp add: goodRequest_def)
  moreover have "list_all ordinaryArg (if ReaddirPrefetch ?t then [''--readdir-prefetch''] else [])"
    using ordinary_flags by (simp only: list.pred_inject simp_thms split: if_split)
  ultimately have "list_all ordinaryArg (?a @ ?b @ ?c @ ?profile @ ?d @ ?e @ ?f @ ?g)"
    by (simp only: list_all_append simp_thms)
  moreover have "drive9MountArgs cfg req cacheDir =
      [''mount'', superviseForegroundFlag, ''--mode=fuse'', directMountStrictFlag]
      @ (?a @ ?b @ ?c @ ?profile @ ?d @ ?e @ ?f @ ?g) @ ['':'' @ req_RemoteRoot req, req_StagingTarget req]"
    unfolding drive9MountArgs_def appendMountTuningArgs_def Let_def mountTTLsOrDefault_def
    by (simp only: append.simps append_assoc mountTTLs.simps)
  ultimately show thesis by (rule that)
qed

section \<open>Properties\<close>



end
