(* ===== verification/PublishState.thy ===== *)
theory PublishState
  imports StateStore GoJson Lifecycles
begin

text \<open>
  The publish records of \<open>internal/driver/driver.go\<close>: one durable file per target path, its three
  states and their transitions, the scan for the consumers of a staging target, and the rule for
  a second target of a volume. Access modes are those of the CSI protocol.
\<close>

section \<open>Access modes\<close>

text \<open>\<open>csi.VolumeCapability_AccessMode_Mode\<close>; \<open>String\<close> prints the number of a value without a name.\<close>

datatype accessMode =
    UNKNOWN | SINGLE_NODE_WRITER | SINGLE_NODE_READER_ONLY | MULTI_NODE_READER_ONLY | MULTI_NODE_SINGLE_WRITER
  | MULTI_NODE_MULTI_WRITER | SINGLE_NODE_SINGLE_WRITER | SINGLE_NODE_MULTI_WRITER | otherAccessMode int

fun accessMode_String :: "accessMode \<Rightarrow> string" where
  "accessMode_String UNKNOWN = ''UNKNOWN''"
| "accessMode_String SINGLE_NODE_WRITER = ''SINGLE_NODE_WRITER''"
| "accessMode_String SINGLE_NODE_READER_ONLY = ''SINGLE_NODE_READER_ONLY''"
| "accessMode_String MULTI_NODE_READER_ONLY = ''MULTI_NODE_READER_ONLY''"
| "accessMode_String MULTI_NODE_SINGLE_WRITER = ''MULTI_NODE_SINGLE_WRITER''"
| "accessMode_String MULTI_NODE_MULTI_WRITER = ''MULTI_NODE_MULTI_WRITER''"
| "accessMode_String SINGLE_NODE_SINGLE_WRITER = ''SINGLE_NODE_SINGLE_WRITER''"
| "accessMode_String SINGLE_NODE_MULTI_WRITER = ''SINGLE_NODE_MULTI_WRITER''"
| "accessMode_String (otherAccessMode n) = FormatInt n"

section \<open>Statuses\<close>

definition publishStatusPending :: string where "publishStatusPending = ''pending''"
definition publishStatusPublished :: string where "publishStatusPublished = ''published''"
definition publishStatusUnpublishing :: string where "publishStatusUnpublishing = ''unpublishing''"

definition validatePublishStatus :: "string \<Rightarrow> error option" where
  "validatePublishStatus s =
     fail_if (s \<notin> {publishStatusPending, publishStatusPublished, publishStatusUnpublishing})
       (Errorf ''unsupported publish status'')"

definition validatePublishStatusTransition :: "string \<Rightarrow> string \<Rightarrow> error option" where
  "validatePublishStatusTransition old new =
     fail_if (\<not> (old = [] \<and> new = publishStatusPending
        \<or> old = publishStatusPending \<and> new = publishStatusPublished
        \<or> old = publishStatusPending \<and> new = publishStatusUnpublishing
        \<or> old = publishStatusPublished \<and> new = publishStatusUnpublishing
        \<or> old = publishStatusUnpublishing \<and> new = []))
       (Errorf ''unsupported publish status transition'')"

definition publishStateMatches :: "publishState \<Rightarrow> string \<Rightarrow> string \<Rightarrow> string \<Rightarrow> bool \<Rightarrow> string \<Rightarrow> bool" where
  "publishStateMatches state volumeID stagingTarget target readonly accessMode \<longleftrightarrow>
     pub_VolumeID state = volumeID
     \<and> Clean (pub_StagingTarget state) = Clean stagingTarget
     \<and> Clean (pub_Target state) = Clean target
     \<and> pub_Readonly state = readonly
     \<and> pub_AccessMode state = accessMode"

definition checkMultiTargetAccess :: "publishState list \<Rightarrow> accessMode \<Rightarrow> error option" where
  "checkMultiTargetAccess active requestedMode =
     (if active = [] then None
      else if requestedMode \<noteq> SINGLE_NODE_MULTI_WRITER \<and> requestedMode \<noteq> MULTI_NODE_MULTI_WRITER
      then Some (Status FailedPrecondition
             ''volume already published; a multi-writer access mode is required for multi-target'')
      else fail_if (list_ex (\<lambda>a. pub_AccessMode a \<noteq> accessMode_String requestedMode) active)
             (Status FailedPrecondition ''volume already published with incompatible access mode''))"

definition applyLegacyDefaults :: "publishState \<Rightarrow> publishState" where
  "applyLegacyDefaults s =
     (if pub_AccessMode s = [] then s\<lparr>pub_AccessMode := accessMode_String SINGLE_NODE_WRITER\<rparr> else s)"

section \<open>The file\<close>

text \<open>\<open>json.MarshalIndent(v, "", "  ")\<close> of a struct: its rendered fields in order.\<close>

definition marshalIndent :: "(string \<times> string) list \<Rightarrow> bytes" where
  "marshalIndent members =
     ''{'' @ [CHR 0x0A]
     @ Join (map (\<lambda>(key, value). ''  '' @ jsonString key @ '': '' @ value) members) ('','' @ [CHR 0x0A])
     @ [CHR 0x0A] @ ''}''"

definition jsonBool :: "bool \<Rightarrow> string" where
  "jsonBool b = (if b then ''true'' else ''false'')"

definition marshalPublishState :: "publishState \<Rightarrow> bytes" where
  "marshalPublishState s = marshalIndent
     ([(''volumeID'', jsonString (pub_VolumeID s)), (''stagingTarget'', jsonString (pub_StagingTarget s)),
       (''target'', jsonString (pub_Target s)), (''readonly'', jsonBool (pub_Readonly s))]
      @ (if pub_AccessMode s \<noteq> [] then [(''accessMode'', jsonString (pub_AccessMode s))] else [])
      @ [(''status'', jsonString (pub_Status s)), (''publishedAt'', jsonString (pub_PublishedAt s))])"

definition publishStateFilePath :: "string \<Rightarrow> string \<Rightarrow> string" where
  "publishStateFilePath stateDir target =
     path_Join [stateDir, ''published-'' @ take 32 (sha256hex (Clean target)) @ ''.json'']"

definition writePublishStateFile :: "env \<Rightarrow> string \<Rightarrow> publishState \<Rightarrow> error option prog" where
  "writePublishStateFile E stateDir state =
     ifNil (validatePublishStatus (pub_Status state)) Some (
     let body = marshalPublishState state @ [CHR 0x0A];
         path = publishStateFilePath stateDir (pub_Target state)
     in withLock path (writeAtomicStateFile E stateDir path ''publish state'' body))"

definition decodePublishState :: "env \<Rightarrow> bytes \<Rightarrow> error + publishState" where
  "decodePublishState E body =
     (case e_DecodePublish E body of
        None \<Rightarrow> Inl (Errorf ''decode publish state'')
      | Some state \<Rightarrow>
          echeck (validatePublishStatus (pub_Status (applyLegacyDefaults state))) (Inr (applyLegacyDefaults state)))"

definition readPublishState :: "env \<Rightarrow> string \<Rightarrow> string \<Rightarrow> (error + publishState) prog" where
  "readPublishState E stateDir target =
     orReturn (ReadFile E (publishStateFilePath stateDir target)) Inl (\<lambda>body.
       State_Monad.return (decodePublishState E body))"

definition removePublishStateFile :: "env \<Rightarrow> string \<Rightarrow> string \<Rightarrow> error option prog" where
  "removePublishStateFile E stateDir target =
     (let statePath = publishStateFilePath stateDir target in
      withLock statePath (do {
        rm \<leftarrow> Remove E statePath;
        case rm of
          Some e \<Rightarrow>
            if errors_Is e ErrNotExist then syncDirectory E stateDir ''publish state''
            else State_Monad.return (Some (Wrap ''remove publish state'' e))
        | None \<Rightarrow> syncDirectory E stateDir ''publish state'' }))"

section \<open>The consumers of a staging target\<close>

definition publishStateEntry :: "dirEntry \<Rightarrow> bool" where
  "publishStateEntry entry \<longleftrightarrow>
     \<not> IsDir entry \<and> HasPrefix (de_name entry) ''published-'' \<and> HasSuffix (de_name entry) ''.json''"

definition consumes :: "string \<Rightarrow> string \<Rightarrow> publishState \<Rightarrow> bool" where
  "consumes volumeID stagingTarget state \<longleftrightarrow>
     pub_VolumeID state = volumeID \<and> Clean (pub_StagingTarget state) = Clean stagingTarget"

fun scanPublishStates ::
    "env \<Rightarrow> string \<Rightarrow> string \<Rightarrow> string \<Rightarrow> dirEntry list \<Rightarrow> (error + publishState list) prog" where
  "scanPublishStates E stateDir volumeID stagingTarget [] = State_Monad.return (Inr [])"
| "scanPublishStates E stateDir volumeID stagingTarget (entry # entries) =
     (if \<not> publishStateEntry entry then scanPublishStates E stateDir volumeID stagingTarget entries
      else do {
        r \<leftarrow> ReadFile E (path_Join [stateDir, de_name entry]);
        case r of
          Inl e \<Rightarrow>
            if errors_Is e ErrNotExist then scanPublishStates E stateDir volumeID stagingTarget entries
            else State_Monad.return (Inl (Wrap ''unreadable publish state'' e))
        | Inr body \<Rightarrow>
            ifOk (decodePublishState E body) (\<lambda>e. Inl (Wrap ''malformed or invalid publish state'' e)) (\<lambda>state.
            orReturn (scanPublishStates E stateDir volumeID stagingTarget entries) Inl (\<lambda>rest.
              State_Monad.return (Inr (if consumes volumeID stagingTarget state then state # rest else rest)))) })"

definition hasActivePublishTargets :: "env \<Rightarrow> string \<Rightarrow> string \<Rightarrow> string \<Rightarrow> (error + publishState list) prog" where
  "hasActivePublishTargets E stateDir volumeID stagingTarget = do {
     r \<leftarrow> ReadDir E stateDir;
     case r of
       Inl e \<Rightarrow>
         if errors_Is e ErrNotExist then State_Monad.return (Inr [])
         else State_Monad.return (Inl (Wrap ''read state dir'' e))
     | Inr entries \<Rightarrow> scanPublishStates E stateDir volumeID stagingTarget entries }"

end
