(* ===== verification/Drive9Client.thy ===== *)
theory Drive9Client
  imports PublishState MountLaunch
begin

text \<open>
  \<open>internal/driver/drive9_client.go\<close> and \<open>internal/driver/k8s_secret.go\<close>: credentials and where
  they come from, and the client of the Drive9 server. Kubernetes objects and HTTP answers are
  answers of the environment; \<open>net/url\<close> and the JSON decoder are its parameters.
\<close>

section \<open>Credentials\<close>

record drive9Credentials =
  cred_Server :: string
  cred_APIKey :: string

fun firstNonEmpty :: "string list \<Rightarrow> string" where
  "firstNonEmpty [] = []"
| "firstNonEmpty (v # vs) = (if TrimSpace v \<noteq> [] then v else firstNonEmpty vs)"

definition normalizeDrive9ServerURL :: "env \<Rightarrow> string \<Rightarrow> error + string" where
  "normalizeDrive9ServerURL E raw =
     (case e_ParseURL E raw of
        None \<Rightarrow> Inl (Errorf ''parse'')
      | Some u \<Rightarrow>
          if url_Scheme u \<noteq> ''http'' \<and> url_Scheme u \<noteq> ''https'' then Inl (Errorf ''must use http or https URL'')
          else if url_Host u = [] then Inl (Errorf ''host is required'')
          else if url_HasUser u then Inl (Errorf ''userinfo is not allowed'')
          else if url_RawQuery u \<noteq> [] \<or> url_Fragment u \<noteq> [] then Inl (Errorf ''query and fragment are not allowed'')
          else Inr (e_URLString E (u\<lparr>url_Path := TrimRight (url_Path u) ''/''\<rparr>)))"

definition credentialsFromSecrets :: "env \<Rightarrow> params \<Rightarrow> error + drive9Credentials" where
  "credentialsFromSecrets E secrets =
     (let server = firstNonEmpty [mapGet secrets ''server'', mapGet secrets ''DRIVE9_SERVER''];
          apiKey = firstNonEmpty [mapGet secrets ''apiKey'', mapGet secrets ''api_key'', mapGet secrets ''DRIVE9_API_KEY'']
      in
      if server = [] then Inl (Status InvalidArgument ''Drive9 server secret is required'')
      else if apiKey = [] then Inl (Status InvalidArgument ''Drive9 apiKey secret is required'')
      else if CHR 0x00 \<in> set server \<or> CHR 0x00 \<in> set apiKey
      then Inl (Status InvalidArgument ''drive9-csi: secret value contains NUL byte, cannot pass to mount process'')
      else if trimASCIIWhitespace server \<noteq> server \<or> trimASCIIWhitespace apiKey \<noteq> apiKey
      then Inl (Status InvalidArgument ''Drive9 credential values must not have surrounding ASCII whitespace'')
      else case normalizeDrive9ServerURL E server of
          Inl e \<Rightarrow> Inl (Status InvalidArgument ''Drive9 server secret'')
        | Inr normalizedServer \<Rightarrow> Inr \<lparr>cred_Server = normalizedServer, cred_APIKey = apiKey\<rparr>)"

section \<open>Kubernetes\<close>

definition annotationSecretName :: string where "annotationSecretName = ''drive9.ai/secret-name''"
definition annotationRemoteRoot :: string where "annotationRemoteRoot = ''drive9.ai/remote-root''"
definition paramPVCName :: string where "paramPVCName = ''csi.storage.k8s.io/pvc/name''"
definition paramPVCNamespace :: string where "paramPVCNamespace = ''csi.storage.k8s.io/pvc/namespace''"
definition attrSecretName :: string where "attrSecretName = ''secretName''"
definition attrSecretNamespace :: string where "attrSecretNamespace = ''secretNamespace''"

record pvcSecretRef =
  ref_SecretName :: string
  ref_SecretNamespace :: string
  ref_RemoteRoot :: string

definition resolveSecretRefFromPVC :: "env \<Rightarrow> string \<Rightarrow> string \<Rightarrow> (error + pvcSecretRef) prog" where
  "resolveSecretRefFromPVC E pvcName pvcNamespace =
     orReturn (GetPVC E pvcNamespace pvcName) (\<lambda>_. Inl (Status Internal ''read PVC'')) (\<lambda>annotations.
     let secretName = TrimSpace (mapGet annotations annotationSecretName);
         remoteRoot = TrimSpace (mapGet annotations annotationRemoteRoot)
     in State_Monad.return
       (if secretName = [] then Inl (Status InvalidArgument ''PVC is missing required annotation'')
        else Inr \<lparr>ref_SecretName = secretName, ref_SecretNamespace = pvcNamespace,
              ref_RemoteRoot = (if remoteRoot = [] then defaultRemoteRoot else remoteRoot)\<rparr>))"

definition credentialsFromK8sSecret :: "env \<Rightarrow> params \<Rightarrow> error + drive9Credentials" where
  "credentialsFromK8sSecret E secret =
     (case credentialsFromSecrets E secret of
        Inl e \<Rightarrow> Inl (Status InvalidArgument ''Secret'')
      | Inr creds \<Rightarrow> Inr creds)"

definition readCredentialsFromSecret :: "env \<Rightarrow> string \<Rightarrow> string \<Rightarrow> (error + drive9Credentials) prog" where
  "readCredentialsFromSecret E secretName secretNamespace =
     orReturn (GetSecret E secretNamespace secretName) (\<lambda>_. Inl (Status InvalidArgument ''read Secret'')) (\<lambda>secret.
       State_Monad.return (credentialsFromK8sSecret E secret))"

definition extractPVCRef :: "params \<Rightarrow> error + string \<times> string" where
  "extractPVCRef ps =
     (let name = TrimSpace (mapGet ps paramPVCName); namespace = TrimSpace (mapGet ps paramPVCNamespace) in
      if name = [] \<or> namespace = []
      then Inl (Status InvalidArgument ''missing PVC metadata in CreateVolume parameters'')
      else Inr (name, namespace))"

text \<open>The first persistent volume with the handle decides.\<close>

definition csiHandle :: "string \<Rightarrow> persistentVolume \<Rightarrow> bool" where
  "csiHandle volumeID pv \<longleftrightarrow> (case pv_CSI pv of None \<Rightarrow> False | Some csi \<Rightarrow> csi_VolumeHandle csi = volumeID)"

definition resolveVolumeContextFromPV :: "env \<Rightarrow> string \<Rightarrow> string \<Rightarrow> (error + params) prog" where
  "resolveVolumeContextFromPV E driverName volumeID =
     orReturn (ListPVs E) (\<lambda>_. Inl (Status Internal ''list PVs to resolve volume attributes'')) (\<lambda>pvs.
       State_Monad.return (case find (csiHandle volumeID) pvs of
           None \<Rightarrow> Inl (Status FailedPrecondition ''no PV with CSI volumeHandle found'')
         | Some pv \<Rightarrow>
             let csi = the (pv_CSI pv) in
             if driverName \<noteq> [] \<and> csi_Driver csi \<noteq> driverName
             then Inl (Status FailedPrecondition ''PV is owned by another CSI driver'')
             else Inr (csi_VolumeAttributes csi)))"

definition resolveSecretRefFromPV :: "env \<Rightarrow> string \<Rightarrow> (error + string \<times> string) prog" where
  "resolveSecretRefFromPV E volumeID =
     orReturn (resolveVolumeContextFromPV E [] volumeID) Inl (\<lambda>attrs.
     let name = TrimSpace (mapGet attrs attrSecretName); ns = TrimSpace (mapGet attrs attrSecretNamespace) in
     State_Monad.return (if name \<noteq> [] \<and> ns \<noteq> [] then Inr (name, ns)
       else Inl (Status FailedPrecondition ''no PV with Secret reference in volumeAttributes'')))"

definition supportedPVMode :: "string \<Rightarrow> bool" where
  "supportedPVMode mode \<longleftrightarrow> mode \<in> {''ReadWriteMany'', ''ReadWriteOnce'', ''ReadWriteOncePod''}"

definition classifyRecoveryPVAccessModes :: "string list \<Rightarrow> error + bool" where
  "classifyRecoveryPVAccessModes modes =
     (if modes = [] then Inl (Errorf ''must contain a supported writer mode'')
      else if \<not> list_all supportedPVMode modes then Inl (Errorf ''unsupported writer mode'')
      else
        let mnmw = ''ReadWriteMany'' \<in> set modes in
        if mnmw \<and> length modes \<noteq> 1
        then Inl (Errorf ''ReadWriteMany must not be combined with another access mode'')
        else Inr mnmw)"

text \<open>The only persistent volume of the driver with the handle; two are an error.\<close>

definition ownedBy :: "string \<Rightarrow> string \<Rightarrow> persistentVolume \<Rightarrow> bool" where
  "ownedBy driverName volumeID pv \<longleftrightarrow>
     (case pv_CSI pv of None \<Rightarrow> False | Some csi \<Rightarrow> csi_VolumeHandle csi = volumeID \<and> csi_Driver csi = driverName)"

definition resolveRecoveryVolumeContextFromPV :: "env \<Rightarrow> string \<Rightarrow> string \<Rightarrow> (error + params \<times> bool) prog" where
  "resolveRecoveryVolumeContextFromPV E driverName volumeID =
     orReturn (ListPVs E) (\<lambda>_. Inl (Status Internal ''list PVs for volume'')) (\<lambda>pvs.
       State_Monad.return (case filter (ownedBy driverName volumeID) pvs of
           [] \<Rightarrow> Inl (Status FailedPrecondition ''no PV with volumeHandle found'')
         | [matched] \<Rightarrow>
             (case classifyRecoveryPVAccessModes (pv_AccessModes matched) of
                Inl e \<Rightarrow> Inl (Status FailedPrecondition ''PV access modes'')
              | Inr mnmw \<Rightarrow> Inr (csi_VolumeAttributes (the (pv_CSI matched)), mnmw))
         | _ \<Rightarrow> Inl (Status FailedPrecondition ''multiple PVs have volumeHandle'')))"

section \<open>Requests\<close>

text \<open>A client is its credentials.\<close>

definition newDrive9Client :: "drive9Credentials \<Rightarrow> drive9Credentials" where
  "newDrive9Client creds = creds"

text \<open>The gRPC status of an HTTP status.\<close>

definition grpcHTTPError :: "int \<Rightarrow> string \<Rightarrow> error" where
  "grpcHTTPError statusCode op =
     (if statusCode = 400 then Status InvalidArgument op
      else if statusCode = 404 then Status NotFound op
      else if statusCode = 401 \<or> statusCode = 403 then Status PermissionDenied op
      else if statusCode = 409 then Status AlreadyExists op
      else if statusCode = 429 then Status Unavailable op
      else if statusCode \<ge> 500 then Status Unavailable op
      else Status Internal op)"

definition drive9_request ::
    "env \<Rightarrow> drive9Credentials \<Rightarrow> string \<Rightarrow> string \<Rightarrow> string \<Rightarrow> bytes \<Rightarrow> (error + int \<times> (error + bytes)) prog" where
  "drive9_request E c method remotePath rawQuery body =
     ifOk (encodeDrive9FSPath remotePath) (\<lambda>_. Inl (Status InvalidArgument ''Drive9 path'')) (\<lambda>encoded.
     case e_ParseURL E (cred_Server c) of
       None \<Rightarrow> State_Monad.return (Inl (Status InvalidArgument ''Drive9 server URL''))
     | Some u \<Rightarrow> do {
         answer \<leftarrow> HTTP E method
           (u\<lparr>url_Path := TrimRight (url_Path u) ''/'' @ encoded, url_RawQuery := rawQuery\<rparr>) (cred_APIKey c) body;
         State_Monad.return (case answer of
             RequestRejected e \<Rightarrow> Inl (Status Internal ''create Drive9 request'')
           | RequestFailed e \<Rightarrow> Inl (Status Unavailable ''Drive9 request failed'')
           | Response statusCode content \<Rightarrow> Inr (statusCode, content)) })"

definition client_exists :: "env \<Rightarrow> drive9Credentials \<Rightarrow> string \<Rightarrow> (error + bool) prog" where
  "client_exists E c remotePath =
     orReturn (drive9_request E c ''HEAD'' remotePath [] []) Inl (\<lambda>(statusCode, content).
       State_Monad.return
         (if statusCode = 200 \<or> statusCode = 204 then Inr True
          else if statusCode = 404 then Inr False
          else Inl (grpcHTTPError statusCode ''stat Drive9 path'')))"

definition client_mkdir :: "env \<Rightarrow> drive9Credentials \<Rightarrow> string \<Rightarrow> error option prog" where
  "client_mkdir E c remotePath =
     orReturn (drive9_request E c ''POST'' remotePath ''mkdir'' []) Some (\<lambda>(statusCode, content).
       State_Monad.return (fail_if (statusCode \<ge> 300) (grpcHTTPError statusCode ''mkdir Drive9 path'')))"

fun mkdirParts :: "env \<Rightarrow> drive9Credentials \<Rightarrow> string \<Rightarrow> string list \<Rightarrow> error option prog" where
  "mkdirParts E c current [] = State_Monad.return None"
| "mkdirParts E c current (part # parts) = do {
     err \<leftarrow> client_mkdir E c (path_Join [current, part]);
     if err \<noteq> None \<and> status_Code err \<noteq> AlreadyExists then State_Monad.return err
     else mkdirParts E c (path_Join [current, part]) parts }"

definition client_mkdirAll :: "env \<Rightarrow> drive9Credentials \<Rightarrow> string \<Rightarrow> error option prog" where
  "client_mkdirAll E c remotePath =
     ifOk (normalizeRemotePath remotePath) (\<lambda>_. Some (Status InvalidArgument ''Drive9 path'')) (\<lambda>normalized.
     if normalized = ''/'' then State_Monad.return None
     else do {
       err \<leftarrow> client_mkdir E c normalized;
       if status_Code err = OK \<or> status_Code err = AlreadyExists then State_Monad.return None
       else if status_Code err = NotFound
       then mkdirParts E c ''/'' (Split (CHR ''/'') (Trim normalized ''/''))
       else State_Monad.return err })"

definition marshalMarker :: "volumeMarker \<Rightarrow> bytes" where
  "marshalMarker m = marshalIndent
     [(''version'', FormatInt (vm_Version m)), (''driver'', jsonString (vm_Driver m)),
      (''volumeID'', jsonString (vm_VolumeID m)), (''name'', jsonString (vm_Name m)),
      (''remoteRoot'', jsonString (vm_RemoteRoot m)), (''createdAt'', jsonString (vm_CreatedAt m))]"

definition client_writeJSON :: "env \<Rightarrow> drive9Credentials \<Rightarrow> string \<Rightarrow> volumeMarker \<Rightarrow> error option prog" where
  "client_writeJSON E c remotePath marker =
     orReturn (drive9_request E c ''PUT'' remotePath [] (marshalMarker marker)) Some (\<lambda>(statusCode, content).
       State_Monad.return (fail_if (statusCode \<ge> 300) (grpcHTTPError statusCode ''write Drive9 marker'')))"

definition decodeMarker :: "env \<Rightarrow> bytes \<Rightarrow> error + volumeMarker" where
  "decodeMarker E body =
     (case e_DecodeMarker E body of
        None \<Rightarrow> Inl (Status FailedPrecondition ''invalid CSI marker'')
      | Some marker \<Rightarrow> Inr marker)"

definition client_readMarker :: "env \<Rightarrow> drive9Credentials \<Rightarrow> string \<Rightarrow> (error + volumeMarker) prog" where
  "client_readMarker E c remotePath =
     orReturn (drive9_request E c ''GET'' remotePath [] []) Inl (\<lambda>(statusCode, content).
     if statusCode \<ge> 300 then State_Monad.return (Inl (grpcHTTPError statusCode ''read Drive9 marker''))
     else State_Monad.return (case content of
         Inl e \<Rightarrow> Inl (Status Internal ''read marker body'')
       | Inr body \<Rightarrow> decodeMarker E (take 65536 body)))"

text \<open>The identity of a marker that the driver compares.\<close>

definition sameMarker :: "volumeMarker \<Rightarrow> volumeMarker \<Rightarrow> bool" where
  "sameMarker got want \<longleftrightarrow>
     vm_VolumeID got = vm_VolumeID want \<and> vm_RemoteRoot got = vm_RemoteRoot want
     \<and> vm_Driver got = vm_Driver want \<and> vm_Name got = vm_Name want"

definition client_validateMarker :: "env \<Rightarrow> drive9Credentials \<Rightarrow> string \<Rightarrow> volumeMarker \<Rightarrow> error option prog" where
  "client_validateMarker E c remotePath want = do {
     r \<leftarrow> client_readMarker E c remotePath;
     State_Monad.return (case r of
         Inl e \<Rightarrow> Some (if status_of e = NotFound
             then Status AlreadyExists ''Drive9 path already exists without a CSI marker'' else e)
       | Inr got \<Rightarrow> fail_if (\<not> sameMarker got want)
           (Status AlreadyExists ''Drive9 path already exists and is owned by a different CSI volume'')) }"

definition client_upsertIndex :: "env \<Rightarrow> drive9Credentials \<Rightarrow> string \<Rightarrow> volumeMarker \<Rightarrow> error option prog" where
  "client_upsertIndex E c remotePath marker =
     orReturn (client_exists E c remotePath) Some (\<lambda>present.
       if present then client_validateMarker E c remotePath marker
       else client_writeJSON E c remotePath marker)"

definition client_removeAll :: "env \<Rightarrow> drive9Credentials \<Rightarrow> string \<Rightarrow> error option prog" where
  "client_removeAll E c remotePath =
     orReturn (drive9_request E c ''DELETE'' remotePath ''recursive=1'' []) Some (\<lambda>(statusCode, content).
       State_Monad.return (if statusCode = 404 then None
         else fail_if (statusCode \<ge> 300) (grpcHTTPError statusCode ''delete Drive9 path'')))"

end
