(* ===== verification/Controller.thy ===== *)
theory Controller
  imports MountCommand Drive9Client
begin

text \<open>
  The controller service of \<open>internal/driver/driver.go\<close>: volumes are created and deleted on the
  Drive9 server. A managed volume is a directory with an ownership marker and two index files; a
  workspace-root volume is a view of an existing directory. Creating writes the name index first
  and the volume index last; deleting removes the index files and the marker and never any data.
\<close>

section \<open>Requests\<close>

text \<open>\<open>csi.VolumeCapability\<close>: the getters give \<open>UNKNOWN\<close> for a missing access mode.\<close>

record mountVolume =
  mv_FsType :: string
  mv_MountFlags :: "string list"

record volumeCapability =
  vc_Mount :: "mountVolume option"
  vc_Mode :: accessMode

record capacityRange =
  cr_Required :: int
  cr_Limit :: int

record createVolumeRequest =
  cv_Name :: string
  cv_Capabilities :: "volumeCapability option list"
  cv_Capacity :: "capacityRange option"
  cv_HasContentSource :: bool
  cv_Parameters :: params
  cv_MutableParameters :: params

record csiVolume =
  vol_Id :: string
  vol_CapacityBytes :: int
  vol_Context :: params

section \<open>Capabilities and capacity\<close>

definition singleNodeWriter :: "accessMode \<Rightarrow> bool" where
  "singleNodeWriter mode \<longleftrightarrow> mode \<in> {SINGLE_NODE_WRITER, SINGLE_NODE_SINGLE_WRITER, SINGLE_NODE_MULTI_WRITER}"

definition validateCapability :: "volumeCapability option \<Rightarrow> error option" where
  "validateCapability cap =
     (case cap of
        None \<Rightarrow> Some (Status InvalidArgument ''nil volume capability'')
      | Some c \<Rightarrow>
          (case vc_Mount c of
             None \<Rightarrow> Some (Status InvalidArgument ''only filesystem mount volumes are supported'')
           | Some m \<Rightarrow> first_error
               [fail_if (TrimSpace (mv_FsType m) \<noteq> []) (Status InvalidArgument ''mount fs_type is not supported''),
                fail_if (mv_MountFlags m \<noteq> []) (Status InvalidArgument ''mount flags are not supported''),
                fail_if (\<not> singleNodeWriter (vc_Mode c) \<and> vc_Mode c \<noteq> MULTI_NODE_MULTI_WRITER)
                  (Status InvalidArgument ''unsupported writer access mode'')]))"

fun capabilityModes :: "volumeCapability option list \<Rightarrow> accessMode list" where
  "capabilityModes [] = []"
| "capabilityModes (None # caps) = capabilityModes caps"
| "capabilityModes (Some c # caps) = vc_Mode c # capabilityModes caps"

definition validateVolumeCapabilities :: "volumeCapability option list \<Rightarrow> error option" where
  "validateVolumeCapabilities caps =
     (if caps = [] then Some (Status InvalidArgument ''volume capability is required'')
      else first_error
        [first_error (map validateCapability caps),
         fail_if (MULTI_NODE_MULTI_WRITER \<in> set (capabilityModes caps)
                  \<and> list_ex singleNodeWriter (capabilityModes caps))
           (Status InvalidArgument ''MULTI_NODE_MULTI_WRITER cannot be combined with single-node writer capabilities'')])"

definition validateCapacityRange :: "capacityRange option \<Rightarrow> error option" where
  "validateCapacityRange r =
     (case r of
        None \<Rightarrow> None
      | Some c \<Rightarrow> first_error
          [fail_if (cr_Required c < 0 \<or> cr_Limit c < 0)
             (Status InvalidArgument ''capacity bytes must be non-negative''),
           fail_if (cr_Required c > 0 \<and> cr_Limit c > 0 \<and> cr_Required c > cr_Limit c)
             (Status InvalidArgument ''required capacity must not exceed limit capacity'')])"

definition requestedCapacity :: "capacityRange option \<Rightarrow> int" where
  "requestedCapacity r =
     (case r of None \<Rightarrow> 0 | Some c \<Rightarrow> if cr_Required c > 0 then cr_Required c else cr_Limit c)"

text \<open>The answer confirms the capabilities or carries the message of the error.\<close>

definition ValidateVolumeCapabilities ::
    "string \<Rightarrow> volumeCapability option list \<Rightarrow> error + (error + volumeCapability option list)" where
  "ValidateVolumeCapabilities volumeID caps =
     (if TrimSpace volumeID = [] then Inl (Status InvalidArgument ''volume id is required'')
      else case validateVolumeCapabilities caps of Some e \<Rightarrow> Inr (Inl e) | None \<Rightarrow> Inr (Inr caps))"

text \<open>Always an error.\<close>

definition ControllerModifyVolume :: "string \<Rightarrow> params \<Rightarrow> error" where
  "ControllerModifyVolume volumeID mutable =
     (if TrimSpace volumeID = [] then Status InvalidArgument ''volume id is required''
      else case validateMutableMountParameterValues mutable of
          Some e \<Rightarrow> e
        | None \<Rightarrow> Status Unimplemented ''dynamic VolumeAttributesClass updates are not supported'')"

section \<open>The remote root of a new volume\<close>

text \<open>The root and whether the volume is managed.\<close>

definition resolveCreateVolumeRemoteRoot ::
    "string \<Rightarrow> params \<Rightarrow> pvcSecretRef \<Rightarrow> error + string \<times> bool" where
  "resolveCreateVolumeRemoteRoot name ps ref =
     (let prefix = TrimSpace (mapGet ps ''remoteRootPrefix'');
          param = TrimSpace (mapGet ps ''remoteRoot'');
          annotation = ref_RemoteRoot ref;
          annotated = (annotation \<noteq> [] \<and> annotation \<noteq> defaultRemoteRoot);
          status = (\<lambda>r. case r of Inl e \<Rightarrow> Inl (Status InvalidArgument ''remoteRoot'') | Inr x \<Rightarrow> Inr x);
          mount = (\<lambda>raw. ebind (status (normalizeMountRoot raw)) (\<lambda>remoteRoot. Inr (remoteRoot, False)))
      in
      if prefix \<noteq> [] then
        if param \<noteq> [] \<or> annotated
        then Inl (Status InvalidArgument ''remoteRootPrefix cannot be combined with remoteRoot'')
        else case buildRemoteRoot prefix name of
            Inl e \<Rightarrow> Inl (Status InvalidArgument ''remoteRootPrefix'')
          | Inr remoteRoot \<Rightarrow> Inr (remoteRoot, True)
      else if param \<noteq> [] \<and> annotated then
        ebind (status (normalizeMountRoot param)) (\<lambda>normalizedParam.
        ebind (status (normalizeMountRoot annotation)) (\<lambda>normalizedAnnotation.
          if normalizedParam \<noteq> normalizedAnnotation
          then Inl (Status InvalidArgument ''remoteRoot parameter and annotation values differ'')
          else mount normalizedParam))
      else if param \<noteq> [] then mount param
      else if annotated then mount annotation
      else mount defaultRemoteRoot)"

definition ensureRemotePathExists :: "env \<Rightarrow> drive9Credentials \<Rightarrow> string \<Rightarrow> error option prog" where
  "ensureRemotePathExists E c remoteRoot =
     orReturn (client_exists E c remoteRoot) Some (\<lambda>present.
       State_Monad.return (fail_if (\<not> present) (Status FailedPrecondition ''Drive9 remote root does not exist'')))"

definition validateRemoteVolumeMarker ::
    "env \<Rightarrow> Config \<Rightarrow> drive9Credentials \<Rightarrow> string \<Rightarrow> string \<Rightarrow> error option prog" where
  "validateRemoteVolumeMarker E cfg c volumeID remoteRoot =
     orReturn (client_readMarker E c (markerPath remoteRoot))
       (\<lambda>e. Some (if status_of e = NotFound then Status FailedPrecondition ''Drive9 volume marker is missing'' else e))
       (\<lambda>marker. State_Monad.return
         (fail_if (vm_VolumeID marker \<noteq> volumeID \<or> vm_RemoteRoot marker \<noteq> remoteRoot
                   \<or> vm_Driver marker \<noteq> cfg_DriverName cfg)
           (Status FailedPrecondition ''Drive9 volume marker does not match requested volume'')))"

definition validateVolumeNameIndex ::
    "env \<Rightarrow> Config \<Rightarrow> drive9Credentials \<Rightarrow> string \<Rightarrow> volumeMarker \<Rightarrow> error option prog" where
  "validateVolumeNameIndex E cfg c name want =
     orReturn (client_readMarker E c (nameIndexPath name))
       (\<lambda>e. if status_of e = NotFound then None else Some e)
       (\<lambda>got. State_Monad.return (first_error
         [fail_if (vm_Driver got \<noteq> cfg_DriverName cfg \<or> vm_Name got \<noteq> name)
            (Status AlreadyExists ''CSI volume name is owned by a different volume''),
          fail_if (vm_VolumeID got \<noteq> vm_VolumeID want \<or> vm_RemoteRoot got \<noteq> vm_RemoteRoot want)
            (Status AlreadyExists ''CSI volume name already exists with different parameters'')]))"

section \<open>CreateVolume\<close>

text \<open>What the parameters of a volume say about its mount.\<close>

record mountSettings =
  ms_TTLs :: mountTTLs
  ms_Perf :: mountPerf
  ms_GVisor :: mountGVisor
  ms_Policy :: mountPathPolicy
  ms_Tuning :: mountTuning
  ms_Profile :: string
  ms_Durability :: string

definition settingsContext :: "mountSettings \<Rightarrow> params \<Rightarrow> params" where
  "settingsContext m base =
     addDurabilityToVolumeContext
       (Tuning_addToVolumeContext (ms_Tuning m)
         (Policy_addToVolumeContext (ms_Policy m)
           (GVisor_addToVolumeContext (ms_GVisor m)
             (Perf_addToVolumeContext (ms_Perf m)
               (TTLs_addToVolumeContext (ms_TTLs m) base))))) (ms_Durability m)"

definition timeRFC3339 :: "time \<Rightarrow> string" where
  "timeRFC3339 t = formatTime (t div 1000000000 * 1000000000)"

definition newMarker :: "Config \<Rightarrow> string \<Rightarrow> string \<Rightarrow> string \<Rightarrow> time \<Rightarrow> volumeMarker" where
  "newMarker cfg volumeID name remoteRoot now =
     \<lparr>vm_Version = 1, vm_Driver = cfg_DriverName cfg, vm_VolumeID = volumeID, vm_Name = name,
      vm_RemoteRoot = remoteRoot, vm_CreatedAt = timeRFC3339 now\<rparr>"

text \<open>A directory without a marker was left by a deletion and is adopted.\<close>

definition claimRoot :: "env \<Rightarrow> drive9Credentials \<Rightarrow> string \<Rightarrow> volumeMarker \<Rightarrow> error option prog" where
  "claimRoot E c remoteRoot marker =
     orReturn (client_exists E c remoteRoot) Some (\<lambda>present.
     if present then do {
       r \<leftarrow> client_readMarker E c (markerPath remoteRoot);
       case r of
         Inl e \<Rightarrow> if status_of e = NotFound then client_writeJSON E c (markerPath remoteRoot) marker
                  else State_Monad.return (Some e)
       | Inr got \<Rightarrow> State_Monad.return (fail_if (\<not> sameMarker got marker)
           (Status AlreadyExists ''Drive9 path already exists and is owned by a different CSI volume'')) }
     else
       unlessErr (client_mkdirAll E c remoteRoot) Some (client_writeJSON E c (markerPath remoteRoot) marker))"

definition createManagedDirectoryVolume ::
    "env \<Rightarrow> Config \<Rightarrow> createVolumeRequest \<Rightarrow> drive9Credentials \<Rightarrow> pvcSecretRef \<Rightarrow> string \<Rightarrow> string \<Rightarrow>
     mountSettings \<Rightarrow> (error + csiVolume) prog" where
  "createManagedDirectoryVolume E cfg req c ref name remoteRoot settings = do {
     now \<leftarrow> Now E;
     let volumeID = volumeIDForRemoteRoot remoteRoot;
     let marker = newMarker cfg volumeID name remoteRoot now;
     unlessErr (client_mkdirAll E c nameIndexRoot) Inl (
     unlessErr (validateVolumeNameIndex E cfg c name marker) Inl (
     unlessErr (client_upsertIndex E c (nameIndexPath name) marker) Inl (
     unlessErr (claimRoot E c remoteRoot marker) Inl (
     unlessErr (client_upsertIndex E c (indexPath volumeID) marker) Inl (
       State_Monad.return (Inr
         \<lparr>vol_Id = volumeID, vol_CapacityBytes = requestedCapacity (cv_Capacity req),
          vol_Context = settingsContext settings
            [(''remoteRoot'', remoteRoot), (''profile'', ms_Profile settings),
             (attrSecretName, ref_SecretName ref), (attrSecretNamespace, ref_SecretNamespace ref)]\<rparr>)))))) }"

definition createWorkspaceVolume ::
    "env \<Rightarrow> createVolumeRequest \<Rightarrow> drive9Credentials \<Rightarrow> pvcSecretRef \<Rightarrow> string \<Rightarrow> string \<Rightarrow>
     mountSettings \<Rightarrow> (error + csiVolume) prog" where
  "createWorkspaceVolume E req c ref name remoteRoot settings =
     unlessErr (ensureRemotePathExists E c remoteRoot) Inl (
       State_Monad.return (Inr
         \<lparr>vol_Id = volumeIDForWorkspaceRoot name remoteRoot,
          vol_CapacityBytes = requestedCapacity (cv_Capacity req),
          vol_Context = settingsContext settings
            [(''drive9VolumeMode'', ''workspace-root''), (''remoteRoot'', remoteRoot), (''volumeName'', name),
             (''profile'', ms_Profile settings),
             (attrSecretName, ref_SecretName ref), (attrSecretNamespace, ref_SecretNamespace ref)]\<rparr>))"

definition validateCreateRequest :: "createVolumeRequest \<Rightarrow> error option" where
  "validateCreateRequest req = first_error
     [fail_if (TrimSpace (cv_Name req) = []) (Status InvalidArgument ''volume name is required''),
      validateVolumeCapabilities (cv_Capabilities req),
      validateCapacityRange (cv_Capacity req),
      fail_if (cv_HasContentSource req) (Status InvalidArgument ''volume content sources are not supported'')]"

text \<open>After the credentials are known: the remaining checks, in their order.\<close>

definition createSettings ::
    "params \<Rightarrow> params \<Rightarrow> mountGVisor \<Rightarrow> mountPathPolicy \<Rightarrow> error + mountSettings" where
  "createSettings ps mountParams gvisor policy =
     (case validateNoAPIKeyInAttributes ps of
        Some e \<Rightarrow> Inl (Status InvalidArgument ''volumeAttributes must not contain credential key'')
      | None \<Rightarrow>
          ebind (effectiveMountTTLs mountParams) (\<lambda>ttls.
          ebind (effectiveMountPerf mountParams) (\<lambda>perf.
          ebind (effectiveMountTuning mountParams) (\<lambda>tuning.
            Inr \<lparr>ms_TTLs = ttls, ms_Perf = perf, ms_GVisor = gvisor, ms_Policy = policy, ms_Tuning = tuning,
                 ms_Profile = profileFromParameters mountParams,
                 ms_Durability = durabilityFromParameters mountParams\<rparr>))))"

definition CreateVolume :: "env \<Rightarrow> Config \<Rightarrow> createVolumeRequest \<Rightarrow> (error + csiVolume) prog" where
  "CreateVolume E cfg req =
     (let name = TrimSpace (cv_Name req); ps = cv_Parameters req in
     ifNil (validateCreateRequest req) Inl (
     ifOk (effectiveCreateMountParameters ps (cv_MutableParameters req)) Inl (\<lambda>mountParams.
     ifOk (effectiveMountGVisor mountParams) Inl (\<lambda>gvisor.
     ifOk (effectiveMountPathPolicy mountParams) Inl (\<lambda>policy.
     ifOk (extractPVCRef ps) Inl (\<lambda>(pvcName, pvcNamespace).
     orReturn (resolveSecretRefFromPVC E pvcName pvcNamespace) Inl (\<lambda>ref.
     orReturn (readCredentialsFromSecret E (ref_SecretName ref) (ref_SecretNamespace ref)) Inl (\<lambda>c.
     ifOk (createSettings ps mountParams gvisor policy) Inl (\<lambda>settings.
     ifOk (resolveCreateVolumeRemoteRoot name ps ref) Inl (\<lambda>(remoteRoot, managedVolume).
       if managedVolume then createManagedDirectoryVolume E cfg req c ref name remoteRoot settings
       else createWorkspaceVolume E req c ref name remoteRoot settings))))))))))"

section \<open>DeleteVolume\<close>

definition resolveDeleteCredentials :: "env \<Rightarrow> string \<Rightarrow> (error + drive9Credentials) prog" where
  "resolveDeleteCredentials E requestVolumeID =
     orReturn (resolveSecretRefFromPV E requestVolumeID) Inl (\<lambda>(name, ns).
       readCredentialsFromSecret E name ns)"

text \<open>The two index files, the name index only for a marker with a name.\<close>

definition removeIndexes :: "env \<Rightarrow> drive9Credentials \<Rightarrow> string \<Rightarrow> volumeMarker \<Rightarrow> error option prog" where
  "removeIndexes E c volumeID marker =
     unlessErr (if vm_Name marker \<noteq> [] then client_removeAll E c (nameIndexPath (vm_Name marker))
                else State_Monad.return None) Some (
       client_removeAll E c (indexPath volumeID))"

definition detachVolume ::
    "env \<Rightarrow> Config \<Rightarrow> drive9Credentials \<Rightarrow> string \<Rightarrow> volumeMarker \<Rightarrow> error option prog" where
  "detachVolume E cfg c volumeID marker =
     (let remoteRoot = vm_RemoteRoot marker in
     orReturn (client_exists E c remoteRoot) Some (\<lambda>present.
     if \<not> present then removeIndexes E c volumeID marker
     else do {
       r \<leftarrow> client_readMarker E c (markerPath remoteRoot);
       unlessErr (State_Monad.return (case r of
             Inl e \<Rightarrow> if status_of e = NotFound then None else Some e
           | Inr rootMarker \<Rightarrow>
               fail_if (vm_VolumeID rootMarker \<noteq> volumeID \<or> vm_RemoteRoot rootMarker \<noteq> remoteRoot
                        \<or> vm_Driver rootMarker \<noteq> cfg_DriverName cfg \<or> vm_Name rootMarker \<noteq> vm_Name marker)
                 (Status FailedPrecondition ''refusing to delete Drive9 path without matching CSI marker''))) Some (
       unlessErr (removeIndexes E c volumeID marker) Some (do {
         client_removeAll E c (markerPath remoteRoot);
         State_Monad.return None })) }))"

definition DeleteVolume :: "env \<Rightarrow> Config \<Rightarrow> string \<Rightarrow> error option prog" where
  "DeleteVolume E cfg requestVolumeID =
     (let volumeID = TrimSpace requestVolumeID in
     if volumeID = [] then State_Monad.return (Some (Status InvalidArgument ''volume id is required''))
     else if isWorkspaceRootVolumeID volumeID then State_Monad.return None
     else
     orReturn (resolveDeleteCredentials E requestVolumeID) Some (\<lambda>c.
     orReturn (client_readMarker E c (indexPath volumeID))
         (\<lambda>e. if status_of e = NotFound then None else Some e) (\<lambda>marker.
     if vm_VolumeID marker \<noteq> volumeID \<or> vm_Driver marker \<noteq> cfg_DriverName cfg
     then State_Monad.return (Some (Status FailedPrecondition
            ''refusing to delete Drive9 path without matching CSI index''))
     else
     ifNil (validateSafeDeleteRoot (vm_RemoteRoot marker))
         (\<lambda>e. Some (Status FailedPrecondition ''unsafe delete root'')) (
       detachVolume E cfg c volumeID marker))))"

end
