(* ===== verification/NodePublish.thy ===== *)
theory NodePublish
  imports Controller
begin

text \<open>
  Publishing and unpublishing of \<open>internal/driver/driver.go\<close>, with the driver's own state and the
  local health check of \<open>node_state_first.go\<close>: a target is bound only under a durable pending
  record of a healthy stage, and its record is removed only when the target was seen unmounted.
\<close>

section \<open>The driver\<close>

text \<open>\<open>Driver\<close>: its configuration and, once the preflight has run, what the node can do.\<close>

record driver =
  d_cfg :: Config
  d_nodeCapabilities :: nodeCapabilities
  d_nodePreflightSet :: bool

definition effectiveNodeCapabilities :: "driver \<Rightarrow> nodeCapabilities" where
  "effectiveNodeCapabilities d =
     (if d_nodePreflightSet d then d_nodeCapabilities d else availableNodeCapabilities)"

definition driver_require :: "driver \<Rightarrow> nodeOperation \<Rightarrow> error option" where
  "driver_require d operation = requireNodeCapabilities (effectiveNodeCapabilities d) operation"

definition stateRepository :: "env \<Rightarrow> driver \<Rightarrow> mountStateRepository" where
  "stateRepository E d = mountStateStore E (newMountStateStore (cfg_StateDir (d_cfg d)))"

definition readMountState :: "env \<Rightarrow> driver \<Rightarrow> string \<Rightarrow> (error + mountState) prog" where
  "readMountState E d volumeID = store_Read E (newMountStateStore (cfg_StateDir (d_cfg d))) volumeID"

text \<open>The mutex of a volume; its name cannot be the path of a locked file.\<close>

definition lockVolume :: "string \<Rightarrow> 'a prog \<Rightarrow> 'a prog" where
  "lockVolume volumeID body = withLock (''volume '' @ volumeID) body"

definition mountStateMatches :: "mountState \<Rightarrow> string \<Rightarrow> string \<Rightarrow> string \<Rightarrow> bool" where
  "mountStateMatches state volumeID remoteRoot stagingTarget \<longleftrightarrow>
     VolumeID state = volumeID
     \<and> (remoteRoot = [] \<or> RemoteRoot state = remoteRoot)
     \<and> Clean (StagingTarget state) = Clean stagingTarget"

definition validatedStagedMountState ::
    "env \<Rightarrow> driver \<Rightarrow> string \<Rightarrow> string \<Rightarrow> string \<Rightarrow> (error + mountState) prog" where
  "validatedStagedMountState E d volumeID remoteRoot stagingTarget =
     orReturn (readMountState E d volumeID)
       (\<lambda>_. Inl (Status FailedPrecondition ''staging target is mounted but no matching Drive9 state exists''))
       (\<lambda>state. State_Monad.return
         (if \<not> mountStateMatches state volumeID remoteRoot stagingTarget
          then Inl (Status FailedPrecondition ''staging target is mounted for a different Drive9 volume'')
          else Inr state))"

definition validateStagedMount :: "env \<Rightarrow> driver \<Rightarrow> string \<Rightarrow> string \<Rightarrow> string \<Rightarrow> error option prog" where
  "validateStagedMount E d volumeID remoteRoot stagingTarget =
     orReturn (validatedStagedMountState E d volumeID remoteRoot stagingTarget) Some
       (\<lambda>_. State_Monad.return None)"

datatype stateStatus = stateMissing | stateMatching | stateMismatched

definition stageStateStatus :: "env \<Rightarrow> driver \<Rightarrow> string \<Rightarrow> string \<Rightarrow> (error + stateStatus) prog" where
  "stageStateStatus E d volumeID stagingTarget =
     orReturn (readMountState E d volumeID)
       (\<lambda>e. if errors_Is e ErrNotExist then Inr stateMissing
            else Inl (Status FailedPrecondition ''read stage state''))
       (\<lambda>state. State_Monad.return (Inr
         (if VolumeID state \<noteq> volumeID \<or> Clean (StagingTarget state) \<noteq> Clean stagingTarget
          then stateMismatched else stateMatching)))"

section \<open>Local health\<close>

definition unhealthy :: "string \<Rightarrow> error" where
  "unhealthy m = Wrap m (Sentinel ErrActiveMountUnhealthy)"

definition verifyActiveMountLocally ::
    "env \<Rightarrow> driver \<Rightarrow> mountState \<Rightarrow> string \<Rightarrow> string \<Rightarrow> string \<Rightarrow> error option prog" where
  "verifyActiveMountLocally E d state volumeID remoteRoot stagingTarget =
     ifNil (driver_require d nodeOperationHealthyStage) Some (
     if Phase state \<noteq> mountStatePhaseActive \<or> \<not> mountStateMatches state volumeID remoteRoot stagingTarget
     then State_Monad.return (Some (unhealthy ''durable active identity does not match''))
     else
     orReturn (IsMountPoint E stagingTarget) (\<lambda>_. Some (unhealthy ''observe staging mount'')) (\<lambda>mounted.
     if \<not> mounted then State_Monad.return (Some (unhealthy ''staging target is not mounted''))
     else
     orReturn (verifyProcessOwnership E (mainExpectation state (PID state) (PIDStartTime state)))
         (\<lambda>_. Some (unhealthy ''process ownership'')) (\<lambda>_.
     orReturn (Lstat E (ControlSocketPath state)) (\<lambda>_. Some (unhealthy ''control socket unavailable'')) (\<lambda>socket.
     if \<not> isRealSocket socket
     then State_Monad.return (Some (unhealthy ''control socket is not a real socket''))
     else
     orReturn (querySystemdUnit E (SystemdUnit state))
         (\<lambda>_. Some (unhealthy ''systemd service query failed'')) (\<lambda>service.
     if so_State service \<noteq> systemdUnitActive
     then State_Monad.return (Some (unhealthy ''systemd service is not active''))
     else
     orReturn (verifySystemdMainPIDOwnership E state)
         (\<lambda>_. Some (unhealthy ''systemd MainPID ownership failed'')) (\<lambda>mainProcess.
       State_Monad.return (fail_if
         (vp_PID mainProcess \<noteq> PID state \<or> vp_PIDStartTime mainProcess \<noteq> PIDStartTime state)
         (unhealthy ''systemd MainPID does not match durable process identity''))))))))"

section \<open>NodePublishVolume\<close>

record nodePublishRequest =
  np_VolumeID :: string
  np_Capability :: "volumeCapability option"
  np_StagingTarget :: string
  np_Target :: string
  np_Readonly :: bool

definition validatePublishStateIdentity ::
    "env \<Rightarrow> driver \<Rightarrow> string \<Rightarrow> string \<Rightarrow> string \<Rightarrow> bool \<Rightarrow> string \<Rightarrow> error option prog" where
  "validatePublishStateIdentity E d volumeID stagingTarget target readonly mode =
     orReturn (readPublishState E (cfg_StateDir (d_cfg d)) target)
       (\<lambda>_. Some (Status FailedPrecondition ''publish target is mounted but no matching Drive9 state exists''))
       (\<lambda>state. State_Monad.return
         (fail_if (\<not> publishStateMatches state volumeID stagingTarget target readonly mode)
           (Status FailedPrecondition ''publish target is mounted for a different Drive9 volume or access mode'')))"

text \<open>Whether the target is mounted, and read-only when that was asked.\<close>

definition observeTarget :: "env \<Rightarrow> string \<Rightarrow> bool \<Rightarrow> (error + bool \<times> bool) prog" where
  "observeTarget E target readonly =
     (if readonly then
        orReturn (ObserveMountPoint E target) (\<lambda>_. Inl (Status Internal ''observe readonly target mount'')) (\<lambda>obs.
          State_Monad.return (Inr (Mounted obs, Readonly obs)))
      else
        orReturn (IsMountPoint E target) (\<lambda>_. Inl (Status Internal ''check target mount'')) (\<lambda>mounted.
          State_Monad.return (Inr (mounted, False))))"

definition pendingPublish :: "string \<Rightarrow> string \<Rightarrow> string \<Rightarrow> bool \<Rightarrow> string \<Rightarrow> time \<Rightarrow> publishState" where
  "pendingPublish volumeID stagingTarget target readonly mode now =
     \<lparr>pub_VolumeID = volumeID, pub_StagingTarget = Clean stagingTarget, pub_Target = Clean target,
      pub_Readonly = readonly, pub_AccessMode = mode, pub_Status = publishStatusPending,
      pub_PublishedAt = timeRFC3339 now\<rparr>"

text \<open>A target without a record: it must not be mounted, and the volume's other targets must allow it.\<close>

definition beginPublish ::
    "env \<Rightarrow> driver \<Rightarrow> nodePublishRequest \<Rightarrow> string \<Rightarrow> string \<Rightarrow> string \<Rightarrow> accessMode \<Rightarrow> bool \<Rightarrow>
     (error + publishState) prog" where
  "beginPublish E d req volumeID stagingTarget target mode mounted =
     (if mounted
      then State_Monad.return (Inl (Status FailedPrecondition
             ''publish target is mounted without durable Drive9 state''))
      else
      orReturn (hasActivePublishTargets E (cfg_StateDir (d_cfg d)) volumeID stagingTarget)
          (\<lambda>_. Inl (Status FailedPrecondition ''publish state scan'')) (\<lambda>active.
      ifNil (checkMultiTargetAccess active mode) Inl (do {
        now \<leftarrow> Now E;
        let publish = pendingPublish volumeID stagingTarget target (np_Readonly req) (accessMode_String mode) now;
        ifNil (validatePublishStatusTransition [] (pub_Status publish))
            (\<lambda>_. Inl (Status Internal ''validate pending publish transition'')) (
        unlessErr (writePublishStateFile E (cfg_StateDir (d_cfg d)) publish)
            (\<lambda>_. Inl (Status Internal ''write pending publish state'')) (
          State_Monad.return (Inr publish))) })))"

text \<open>A mounted target must be the one of the record, and read-only when that was asked.\<close>

definition confirmMounted ::
    "env \<Rightarrow> driver \<Rightarrow> nodePublishRequest \<Rightarrow> string \<Rightarrow> string \<Rightarrow> string \<Rightarrow> accessMode \<Rightarrow> bool \<Rightarrow> error option prog" where
  "confirmMounted E d req volumeID stagingTarget target mode mountReadonly =
     unlessErr (validatePublishStateIdentity E d volumeID stagingTarget target (np_Readonly req)
         (accessMode_String mode)) Some (
       State_Monad.return (fail_if (np_Readonly req \<and> \<not> mountReadonly)
         (Status FailedPrecondition ''readonly publish target is mounted read-write'')))"

definition finishPublish ::
    "env \<Rightarrow> driver \<Rightarrow> nodePublishRequest \<Rightarrow> string \<Rightarrow> string \<Rightarrow> string \<Rightarrow> accessMode \<Rightarrow> bool \<Rightarrow> bool \<Rightarrow>
     publishState \<Rightarrow> error option prog" where
  "finishPublish E d req volumeID stagingTarget target mode mounted mountReadonly publish =
     (if pub_Status publish = publishStatusPending then
        unlessErr (if mounted then confirmMounted E d req volumeID stagingTarget target mode mountReadonly
            else unlessErr (BindMount E stagingTarget target (np_Readonly req))
                   (\<lambda>_. Some (Status Internal ''bind mount publish target'')) (State_Monad.return None)) Some (
        ifNil (validatePublishStatusTransition (pub_Status publish) publishStatusPublished)
            (\<lambda>_. Some (Status Internal ''validate publish promotion'')) (
        unlessErr (writePublishStateFile E (cfg_StateDir (d_cfg d)) (publish\<lparr>pub_Status := publishStatusPublished\<rparr>))
            (\<lambda>_. Some (Status Internal ''write publish state'')) (State_Monad.return None)))
      else if pub_Status publish = publishStatusPublished then
        (if \<not> mounted
         then State_Monad.return (Some (Status FailedPrecondition
                ''published target is not mounted; workload Pod must be rebuilt''))
         else confirmMounted E d req volumeID stagingTarget target mode mountReadonly)
      else if pub_Status publish = publishStatusUnpublishing
      then State_Monad.return (Some (Status FailedPrecondition ''publish target cleanup is in progress''))
      else State_Monad.return (Some (Status FailedPrecondition ''unsupported publish status'')))"

definition capabilityMode :: "volumeCapability option \<Rightarrow> accessMode" where
  "capabilityMode cap = (case cap of None \<Rightarrow> UNKNOWN | Some c \<Rightarrow> vc_Mode c)"

definition publishTarget ::
    "env \<Rightarrow> driver \<Rightarrow> nodePublishRequest \<Rightarrow> string \<Rightarrow> string \<Rightarrow> string \<Rightarrow> accessMode \<Rightarrow> error option prog" where
  "publishTarget E d req volumeID stagingTarget target mode =
     orReturn (do { r \<leftarrow> readPublishState E (cfg_StateDir (d_cfg d)) target;
          State_Monad.return (case r of
              Inr publish \<Rightarrow> Inr (Some publish)
            | Inl e \<Rightarrow> if errors_Is e ErrNotExist then Inr None
                       else Inl (Status FailedPrecondition ''read publish state'')) }) Some (\<lambda>existing.
     if existing \<noteq> None \<and> \<not> publishStateMatches (the existing) volumeID stagingTarget target
          (np_Readonly req) (accessMode_String mode)
     then State_Monad.return (Some (Status FailedPrecondition
            ''publish target state belongs to a different Drive9 volume or access mode''))
     else
     orReturn (observeTarget E target (np_Readonly req)) Some (\<lambda>(mounted, mountReadonly).
     orReturn (case existing of
         Some publish \<Rightarrow> State_Monad.return (Inr publish)
       | None \<Rightarrow> beginPublish E d req volumeID stagingTarget target mode mounted) Some (\<lambda>publish.
       finishPublish E d req volumeID stagingTarget target mode mounted mountReadonly publish)))"

definition NodePublishVolume :: "env \<Rightarrow> driver \<Rightarrow> nodePublishRequest \<Rightarrow> error option prog" where
  "NodePublishVolume E d req =
     (let volumeID = TrimSpace (np_VolumeID req) in
     if volumeID = [] then State_Monad.return (Some (Status InvalidArgument ''volume id is required''))
     else lockVolume volumeID (
     ifNil (validateVolumeCapabilities [np_Capability req]) Some (
     let stagingTarget = TrimSpace (np_StagingTarget req); target = TrimSpace (np_Target req) in
     if stagingTarget = [] \<or> target = []
     then State_Monad.return (Some (Status InvalidArgument ''staging target path and target path are required''))
     else if \<not> IsAbs stagingTarget \<or> \<not> IsAbs target
     then State_Monad.return (Some (Status InvalidArgument ''staging target path and target path must be absolute''))
     else
     ifNil (driver_require d nodeOperationPublish) Some (
     orReturn (readMountState E d volumeID)
         (\<lambda>_. Some (Status FailedPrecondition ''read active stage state'')) (\<lambda>state.
     unlessErr (verifyActiveMountLocally E d state volumeID [] stagingTarget)
         (\<lambda>_. Some (Status FailedPrecondition ''staging target is not locally healthy'')) (
       publishTarget E d req volumeID stagingTarget target (capabilityMode (np_Capability req))))))))"

section \<open>NodeUnpublishVolume\<close>

definition unmountTarget :: "env \<Rightarrow> driver \<Rightarrow> string \<Rightarrow> error option prog" where
  "unmountTarget E d target =
     orReturn (IsMountPoint E target) (\<lambda>_. Some (Status Internal ''check target mount'')) (\<lambda>mounted.
     if \<not> mounted then State_Monad.return None
     else
     ifNil (driver_require d nodeOperationUnpublish) Some (
     unlessErr (UnmountPath E target) (\<lambda>_. Some (Status Internal ''unpublish unmount'')) (
     orReturn (IsMountPoint E target) (\<lambda>_. Some (Status Internal ''verify target unmounted'')) (\<lambda>mounted.
       State_Monad.return (fail_if mounted (Status Internal ''publish target remains mounted after unmount''))))))"

text \<open>The record with its status, written when it is not yet unpublishing.\<close>

definition beginUnpublish :: "env \<Rightarrow> driver \<Rightarrow> publishState \<Rightarrow> (error + publishState) prog" where
  "beginUnpublish E d publish =
     (if pub_Status publish = publishStatusPending \<or> pub_Status publish = publishStatusPublished then
        ifNil (validatePublishStatusTransition (pub_Status publish) publishStatusUnpublishing)
            (\<lambda>_. Inl (Status Internal ''validate unpublish transition'')) (
        let unpublishing = publish\<lparr>pub_Status := publishStatusUnpublishing\<rparr> in
        unlessErr (writePublishStateFile E (cfg_StateDir (d_cfg d)) unpublishing)
            (\<lambda>_. Inl (Status Internal ''write unpublishing state'')) (State_Monad.return (Inr unpublishing)))
      else if pub_Status publish = publishStatusUnpublishing then State_Monad.return (Inr publish)
      else State_Monad.return (Inl (Status FailedPrecondition ''unsupported publish status'')))"

definition unpublishTarget :: "env \<Rightarrow> driver \<Rightarrow> string \<Rightarrow> publishState \<Rightarrow> error option prog" where
  "unpublishTarget E d target publish =
     orReturn (beginUnpublish E d publish) Some (\<lambda>publish.
     unlessErr (unmountTarget E d target) Some (
     ifNil (validatePublishStatusTransition (pub_Status publish) [])
         (\<lambda>_. Some (Status Internal ''validate publish state removal'')) (
     unlessErr (removePublishStateFile E (cfg_StateDir (d_cfg d)) target)
         (\<lambda>_. Some (Status Internal ''remove publish state'')) (State_Monad.return None))))"

definition NodeUnpublishVolume :: "env \<Rightarrow> driver \<Rightarrow> string \<Rightarrow> string \<Rightarrow> error option prog" where
  "NodeUnpublishVolume E d requestVolumeID requestTarget =
     (let volumeID = TrimSpace requestVolumeID; target = TrimSpace requestTarget in
     if volumeID = [] then State_Monad.return (Some (Status InvalidArgument ''volume id is required''))
     else lockVolume volumeID (
     if target = [] then State_Monad.return (Some (Status InvalidArgument ''target path is required''))
     else if \<not> IsAbs target then State_Monad.return (Some (Status InvalidArgument ''target path must be absolute''))
     else do {
       r \<leftarrow> readPublishState E (cfg_StateDir (d_cfg d)) target;
       case r of
         Inl e \<Rightarrow>
           if errors_Is e ErrNotExist then
             orReturn (IsMountPoint E target) (\<lambda>_. Some (Status Internal ''check target mount'')) (\<lambda>mounted.
               State_Monad.return (fail_if mounted (Status FailedPrecondition
                 ''publish target is mounted without durable Drive9 state'')))
           else State_Monad.return (Some (Status FailedPrecondition ''read publish state''))
       | Inr publish \<Rightarrow>
           if pub_VolumeID publish \<noteq> volumeID \<or> Clean (pub_Target publish) \<noteq> Clean target
           then State_Monad.return (Some (Status FailedPrecondition
                  ''publish target state belongs to a different Drive9 volume or path''))
           else unpublishTarget E d target publish }))"

end
