(* ===== verification/PublishSafety.thy ===== *)
theory PublishSafety
  imports NodePublish
begin

text \<open>
  What publishing and unpublishing guarantee: the life cycle of a publish record, the sharing of a
  volume by several targets, the order of durable record and bind mount, and that a record is
  removed only when its target has been seen unmounted.
\<close>

section \<open>The life cycle of a publish record\<close>

definition sameTarget :: "publishState \<Rightarrow> publishState \<Rightarrow> bool" where
  "sameTarget s t \<longleftrightarrow> t\<lparr>pub_Status := pub_Status s\<rparr> = s"

text \<open>The writes the handlers make: a first record, and the same record with a new status.\<close>

definition publishWrite :: "publishState option \<Rightarrow> publishState \<Rightarrow> bool" where
  "publishWrite c s \<longleftrightarrow> validatePublishStatus (pub_Status s) = None
     \<and> validatePublishStatusTransition (case c of None \<Rightarrow> [] | Some t \<Rightarrow> pub_Status t) (pub_Status s) = None
     \<and> (case c of None \<Rightarrow> True | Some t \<Rightarrow> sameTarget t s)"

lemma publish_status_simps [simp]: "publishStatusPending \<noteq> []" "publishStatusPublished \<noteq> []"
  "publishStatusUnpublishing \<noteq> []" "publishStatusPending \<noteq> publishStatusPublished"
  "publishStatusPublished \<noteq> publishStatusPending" "publishStatusPending \<noteq> publishStatusUnpublishing"
  "publishStatusUnpublishing \<noteq> publishStatusPending" "publishStatusPublished \<noteq> publishStatusUnpublishing"
  "publishStatusUnpublishing \<noteq> publishStatusPublished" "[] \<noteq> publishStatusPending"
  "[] \<noteq> publishStatusPublished" "[] \<noteq> publishStatusUnpublishing"
  by (simp_all add: publishStatusPending_def publishStatusPublished_def publishStatusUnpublishing_def)

definition publishKey :: "publishState \<Rightarrow> string \<times> string \<times> string \<times> bool \<times> string \<times> string" where
  "publishKey s = (pub_VolumeID s, pub_StagingTarget s, pub_Target s, pub_Readonly s, pub_AccessMode s, pub_PublishedAt s)"

lemma sameTarget_key: "sameTarget s t \<longleftrightarrow> publishKey t = publishKey s"
  by (cases s; cases t) (auto simp: sameTarget_def publishKey_def)

interpretation publish_lifecycle: record_lifecycle publishWrite "\<lambda>s. validatePublishStatus (pub_Status s) = None"
  "\<lambda>s. pub_Status s = publishStatusPending" publishKey
  by unfold_locales
    (auto simp: publishWrite_def sameTarget_key validatePublishStatusTransition_def)

lemma publishWrite_stuck:
  "publishWrite (Some s) t \<Longrightarrow> pub_Status s = publishStatusUnpublishing \<Longrightarrow> t = s"
  by (cases s; cases t)
    (auto simp: publishWrite_def sameTarget_def validatePublishStatusTransition_def validatePublishStatus_def split: if_splits)

section \<open>Sharing a volume\<close>

text \<open>
  The records of the targets that use one stage: a target is added when the access check lets it,
  with the mode it asked for, and any target may be removed.
\<close>

inductive sharing :: "publishState list \<Rightarrow> bool" where
  unshared: "sharing []"
| sharing_added: "sharing (active1 @ active2) \<Longrightarrow> checkMultiTargetAccess (active1 @ active2) mode = None \<Longrightarrow>
    pub_AccessMode s = accessMode_String mode \<Longrightarrow> sharing (active1 @ s # active2)"
| sharing_removed: "sharing (active1 @ s # active2) \<Longrightarrow> sharing (active1 @ active2)"

definition sharable :: "publishState list \<Rightarrow> bool" where
  "sharable active \<longleftrightarrow> length active \<le> 1
     \<or> (\<exists>mode\<in>{SINGLE_NODE_MULTI_WRITER, MULTI_NODE_MULTI_WRITER}.
          \<forall>s\<in>set active. pub_AccessMode s = accessMode_String mode)"

lemma checkMultiTargetAccess_None:
  "checkMultiTargetAccess active mode = None \<longleftrightarrow> active = []
     \<or> mode \<in> {SINGLE_NODE_MULTI_WRITER, MULTI_NODE_MULTI_WRITER}
       \<and> (\<forall>s\<in>set active. pub_AccessMode s = accessMode_String mode)"
  by (auto simp: checkMultiTargetAccess_def list_ex_iff)

lemma sharing_sharable: "sharing active \<Longrightarrow> sharable active"
proof (induction rule: sharing.induct)
  case (sharing_added active1 active2 mode s)
  then show ?case by (auto simp: checkMultiTargetAccess_None sharable_def)
qed (auto simp: sharable_def)

section \<open>Evidence\<close>

text \<open>What the history shows of the publish record of a target.\<close>

definition sawPublish :: "env \<Rightarrow> string \<Rightarrow> string \<Rightarrow> publishState option \<Rightarrow> event list \<Rightarrow> bool" where
  "sawPublish E dir target c n \<longleftrightarrow>
     (case c of
        None \<Rightarrow> \<exists>e. errors_Is e ErrNotExist \<and> EvReadFile (publishStateFilePath dir target) (Inl e) \<in> set n
      | Some st \<Rightarrow> \<exists>body. EvReadFile (publishStateFilePath dir target) (Inr body) \<in> set n
          \<and> decodePublishState E body = Inr st)"

definition publishDurable :: "string \<Rightarrow> publishState \<Rightarrow> event list \<Rightarrow> bool" where
  "publishDurable dir st n \<longleftrightarrow>
     (\<exists>later m earlier. n = later @ m @ earlier
        \<and> replaced dir (publishStateFilePath dir (pub_Target st)) (marshalPublishState st @ [CHR 0x0A]) None m)"

definition targetSeen :: "string \<Rightarrow> bool \<Rightarrow> bool \<Rightarrow> event list \<Rightarrow> bool" where
  "targetSeen target readonly mounted n \<longleftrightarrow>
     (if readonly then \<exists>obs. EvObserveMountPoint target (Inr obs) \<in> set n \<and> Mounted obs = mounted
      else EvIsMountPoint target (Inr mounted) \<in> set n)"

text \<open>A healthy stage: mounted, run by the recorded process under its unit, with its control socket.\<close>

definition locallyHealthy :: "env \<Rightarrow> mountState \<Rightarrow> string \<Rightarrow> event list \<Rightarrow> bool" where
  "locallyHealthy E state stagingTarget n \<longleftrightarrow>
     Phase state = mountStatePhaseActive \<and> Clean (StagingTarget state) = Clean stagingTarget
     \<and> EvIsMountPoint stagingTarget (Inr True) \<in> set n
     \<and> (\<exists>v. ownershipVerified E (mainExpectation state (PID state) (PIDStartTime state)) v n)
     \<and> (\<exists>info. EvLstat (ControlSocketPath state) (Inr info) \<in> set n \<and> isRealSocket info)
     \<and> sawUnit (SystemdUnit state) systemdUnitActive n
     \<and> (\<exists>v. mainVerified state v n \<and> vp_PID v = PID state \<and> vp_PIDStartTime v = PIDStartTime state)"

lemma sawPublish_append [seen_append]:
  "sawPublish E dir target c (n2 @ n1) \<longleftrightarrow> sawPublish E dir target c n2 \<or> sawPublish E dir target c n1"
  by (auto simp: sawPublish_def split: option.splits)

lemma sawPublish_Cons: "sawPublish E dir target c n \<Longrightarrow> sawPublish E dir target c (e # n)"
  "sawPublish E dir target c n \<Longrightarrow> sawPublish E dir target c (e # e' # n @ n1)"
  by (auto simp: sawPublish_def split: option.splits)

lemma publishDurable_append:
  "publishDurable dir st n2 \<or> publishDurable dir st n1 \<Longrightarrow> publishDurable dir st (n2 @ n1)"
  unfolding publishDurable_def by (metis append_assoc)

lemma publishDurable_Cons: "publishDurable dir st n \<Longrightarrow> publishDurable dir st (e # n)"
  using publishDurable_append [of dir st "[e]" n] by simp

lemma targetSeen_append [seen_append]:
  "targetSeen t ro m (n2 @ n1) \<longleftrightarrow> targetSeen t ro m n2 \<or> targetSeen t ro m n1"
  by (auto simp: targetSeen_def)

lemma locallyHealthy_append: "locallyHealthy E state s n2 \<or> locallyHealthy E state s n1 \<Longrightarrow> locallyHealthy E state s (n2 @ n1)"
  unfolding locallyHealthy_def
  by (auto simp: seen_append dest: ownershipVerified_append mainVerified_append)

section \<open>The programs\<close>

lemma decodePublishState_error: "decodePublishState E body = Inl e \<Longrightarrow> \<not> errors_Is e ErrNotExist"
  by (auto simp: decodePublishState_def validatePublishStatus_def fail_if_def echeck_def split: option.splits if_splits)

lemma decodePublishState_valid:
  "decodePublishState E body = Inr st \<Longrightarrow> validatePublishStatus (pub_Status st) = None"
  by (auto simp: decodePublishState_def split: option.splits)

lemma emits_readPublishState:
  "emits (readPublishState E dir target) (\<lambda>r n. list_all hostObservation n
     \<and> (\<forall>st. r = Inr st \<longrightarrow> sawPublish E dir target (Some st) n \<and> validatePublishStatus (pub_Status st) = None)
     \<and> (\<forall>e. r = Inl e \<longrightarrow> errors_Is e ErrNotExist \<longrightarrow> sawPublish E dir target None n))"
  unfolding readPublishState_def host_defs
  by (intro emits_wp) (auto simp: sawPublish_def dest: decodePublishState_error decodePublishState_valid)

lemma publishStateFilePath_child:
  "\<exists>c. publishStateFilePath dir target = path_Join [dir, c] \<and> goodComp c \<and> hd c \<noteq> CHR ''.''"
proof -
  let ?c = "''published-'' @ take 32 (sha256hex (Clean target)) @ ''.json''"
  have "CHR ''/'' \<notin> set (take 32 (sha256hex (Clean target)))"
    using take_sha256hex_hex [of 32 "Clean target"] by (auto simp: hexDigits_def list_all_iff isLowerHex_def isDigit_def)
  then have "goodComp ?c" by (auto simp: goodComp_def)
  then show ?thesis by (intro exI [of _ ?c]) (simp add: publishStateFilePath_def)
qed

lemma publishStateFilePath_Clean [simp]:
  "IsAbs target \<Longrightarrow> publishStateFilePath dir (Clean target) = publishStateFilePath dir target"
  by (simp add: publishStateFilePath_def Clean_Clean)

definition publishWritten :: "string \<Rightarrow> publishState \<Rightarrow> error option \<Rightarrow> event list \<Rightarrow> bool" where
  "publishWritten dir st r n \<longleftrightarrow>
     list_all storeEvent n \<and> (r = None \<longrightarrow> publishDurable dir st n)"

lemma emits_writePublishStateFile:
  assumes "cleanAbs dir"
  shows "emits (writePublishStateFile E dir st) (publishWritten dir st)"
proof -
  let ?p = "publishStateFilePath dir (pub_Target st)"
  obtain c where c: "?p = path_Join [dir, c]" "goodComp c" "hd c \<noteq> CHR ''.''"
    using publishStateFilePath_child by blast
  have atomic: "emits (writeAtomicStateFile E dir ?p kind body) (replaced dir ?p body)" for kind body
    using atomicTempPath_neq [OF assms c(2,3)] c(1) by (intro emits_writeAtomicStateFile) simp
  have durable: "emits (writePublishStateFile E dir st) (\<lambda>r n. r = None \<longrightarrow> publishDurable dir st n)"
    unfolding writePublishStateFile_def Let_def
  proof (intro emits_ifNil emits_withLock emits_conseq [OF atomic], goal_cases)
    case (2 r n)
    then show ?case
      unfolding publishDurable_def by (intro impI exI [of _ "[EvUnlock ?p]"] exI [of _ n] exI [of _ "[EvLock ?p]"]) auto
  qed simp
  have events: "emits_only storeEvent (writePublishStateFile E dir st)"
    unfolding writePublishStateFile_def store_programs host_defs Let_def
    by (intro emits_intro emits_only_writeHostFile; simp)
  show ?thesis
    using emits_conj [OF emits_list_all [OF events] durable] by (simp add: publishWritten_def [abs_def])
qed

lemma evidence_Cons: "ownershipVerified E x v n \<Longrightarrow> ownershipVerified E x v (e # n)"
  "mainVerified s v n \<Longrightarrow> mainVerified s v (e # n)"
  using ownershipVerified_append(1) [of E x v n "[e]"] mainVerified_append(1) [of s v n "[e]"] by simp_all

lemmas evidence_intros = evidence_Cons ownershipVerified_append mainVerified_append

lemma emits_verifyActiveMountLocally:
  "emits (verifyActiveMountLocally E d state v rr s) (\<lambda>r n. list_all hostObservation n
     \<and> (r = None \<longrightarrow> VolumeID state = v \<and> (rr \<noteq> [] \<longrightarrow> RemoteRoot state = rr) \<and> locallyHealthy E state s n))"
  unfolding verifyActiveMountLocally_def host_defs
  by (intro emits_wp emits_orReturn [OF emits_process_ownership] emits_orReturn [OF emits_querySystemdUnit]
      emits_orReturn [OF emits_verifySystemdMainPIDOwnership])
    (auto simp: mountStateMatches_def locallyHealthy_def seen_append intro!: exI intro: evidence_intros)

lemma emits_observeTarget:
  "emits (observeTarget E target ro) (\<lambda>r n. list_all hostObservation n
     \<and> (\<forall>m mro. r = Inr (m, mro) \<longrightarrow> targetSeen target ro m n))"
  unfolding observeTarget_def host_defs by (intro emits_wp) (auto simp: targetSeen_def)

lemma emits_scanPublishStates:
  "emits (scanPublishStates E dir v s entries) (\<lambda>r n. list_all hostObservation n)"
proof (induction entries)
  case (Cons entry entries)
  then show ?case
    unfolding scanPublishStates.simps host_defs
    by (intro emits_wp emits_orReturn [OF Cons] emits_conseq [OF Cons]) auto
qed (auto intro: emits_return)

lemma emits_hasActivePublishTargets:
  "emits (hasActivePublishTargets E dir v s) (\<lambda>r n. list_all hostObservation n)"
  unfolding hasActivePublishTargets_def host_defs
  by (intro emits_wp emits_conseq [OF emits_scanPublishStates]) auto

fun isBind :: "event \<Rightarrow> bool" where
  "isBind (EvBind source target readonly r) = True"
| "isBind e = False"

definition bindFree :: "event list \<Rightarrow> bool" where
  "bindFree n \<longleftrightarrow> list_all (\<lambda>e. \<not> isBind e) n"

lemma bindFree_simps [simp]: "bindFree []" "bindFree (e # n) \<longleftrightarrow> \<not> isBind e \<and> bindFree n"
  "bindFree (n2 @ n1) \<longleftrightarrow> bindFree n2 \<and> bindFree n1"
  by (simp_all add: bindFree_def)

lemma bindFree_intros: "list_all hostObservation n \<Longrightarrow> bindFree n" "list_all storeEvent n \<Longrightarrow> bindFree n"
proof -
  have "hostObservation e \<Longrightarrow> \<not> isBind e" "storeEvent e \<Longrightarrow> \<not> isBind e" for e by (cases e; simp)+
  then show "list_all hostObservation n \<Longrightarrow> bindFree n" "list_all storeEvent n \<Longrightarrow> bindFree n"
    by (auto simp: bindFree_def list_all_iff)
qed

lemma readEvents_observations: "readEvents n \<Longrightarrow> list_all hostObservation n"
  unfolding readEvents_def list_all_iff by (intro ballI) (drule (1) bspec, elim disjE exE, simp_all)

lemma bindFree_split: "bindFree n \<Longrightarrow> n \<noteq> later @ EvBind a b c r # earlier"
  by auto

lemma emits_beginPublish:
  assumes "cleanAbs dir" and "dir = cfg_StateDir (d_cfg d)" and "IsAbs staging" and "IsAbs target"
  shows "emits (beginPublish E d req v staging target mode mounted) (\<lambda>r n. bindFree n
     \<and> (\<forall>st. r = Inr st \<longrightarrow> \<not> mounted \<and> pub_Status st = publishStatusPending \<and> publishDurable dir st n
          \<and> publishStateMatches st v staging target (np_Readonly req) (accessMode_String mode)))"
  unfolding beginPublish_def host_defs
  by (intro emits_wp emits_orReturn [OF emits_hasActivePublishTargets]
      emits_unlessErr [OF emits_writePublishStateFile [OF assms(1), unfolded assms(2)]])
    (use assms(3,4) in \<open>auto simp: pendingPublish_def publishStateMatches_def Clean_Clean publishWritten_def assms(2)
      intro: bindFree_intros publishDurable_append\<close>)

lemma emits_confirmMounted:
  "emits (confirmMounted E d req v staging target mode ro) (\<lambda>r n. list_all hostObservation n)"
  unfolding confirmMounted_def validatePublishStateIdentity_def
  by (intro emits_wp emits_unlessErr [where \<Phi> = "\<lambda>r n. list_all hostObservation n"]
      emits_orReturn [OF emits_readPublishState]) auto

text \<open>
  The last part binds at most once, only a pending and unmounted target, and ends in success with
  the published record durable and the target mounted.
\<close>

definition boundAtMost :: "string \<Rightarrow> string \<Rightarrow> bool \<Rightarrow> event list \<Rightarrow> bool" where
  "boundAtMost staging target readonly n \<longleftrightarrow>
     (\<forall>later a b c r earlier. n = later @ EvBind a b c r # earlier \<longrightarrow>
        a = staging \<and> b = target \<and> c = readonly \<and> earlier = [])"

lemma boundAtMost_free: "bindFree n \<Longrightarrow> boundAtMost s t ro n"
  unfolding boundAtMost_def using bindFree_split by blast

lemma boundAtMost_free2: "bindFree n2 \<Longrightarrow> bindFree n1 \<Longrightarrow> boundAtMost s t ro (n2 @ n1)"
  by (intro boundAtMost_free) simp

lemma boundAtMost_bind: "bindFree n \<Longrightarrow> boundAtMost s t ro (n @ [EvBind s t ro r])"
  unfolding boundAtMost_def
proof (intro allI impI)
  fix later a b c r' earlier
  assume free: "bindFree n" and n: "n @ [EvBind s t ro r] = later @ EvBind a b c r' # earlier"
  show "a = s \<and> b = t \<and> c = ro \<and> earlier = []"
  proof (cases earlier rule: rev_cases)
    case Nil
    then show ?thesis using n by simp
  next
    case (snoc xs x)
    then have "n = later @ EvBind a b c r' # xs" using n by simp
    then show ?thesis using free bindFree_split by blast
  qed
qed

lemma emits_finishPublish:
  assumes "cleanAbs dir" and "dir = cfg_StateDir (d_cfg d)"
  shows "emits (finishPublish E d req v staging target mode mounted mro st) (\<lambda>r n.
     boundAtMost staging target (np_Readonly req) n
     \<and> (mounted \<or> pub_Status st \<noteq> publishStatusPending \<longrightarrow> bindFree n)
     \<and> (r = None \<longrightarrow>
          pub_Status st = publishStatusPublished \<and> mounted
          \<or> pub_Status st = publishStatusPending
            \<and> publishDurable dir (st\<lparr>pub_Status := publishStatusPublished\<rparr>) n
            \<and> (mounted \<or> EvBind staging target (np_Readonly req) None \<in> set n)))"
proof -
  have mount: "emits (if mounted then confirmMounted E d req v staging target mode mro
        else unlessErr (BindMount E staging target (np_Readonly req))
               (\<lambda>_. Some (Status Internal ''bind mount publish target'')) (State_Monad.return None))
      (\<lambda>r n. if mounted then bindFree n
         else \<exists>x. n = [EvBind staging target (np_Readonly req) x] \<and> (r = None \<longrightarrow> x = None))"
    unfolding host_defs
    by (intro emits_wp emits_conseq [OF emits_confirmMounted]) (auto intro: bindFree_intros)
  show ?thesis
    unfolding finishPublish_def
    by (intro emits_wp emits_unlessErr [OF mount] emits_conseq [OF emits_confirmMounted]
        emits_unlessErr [OF emits_writePublishStateFile [OF assms(1), unfolded assms(2)]])
      (auto simp: publishWritten_def assms(2) split: if_splits
        intro: boundAtMost_free boundAtMost_free2 boundAtMost_bind [where n = "[]", simplified] boundAtMost_bind
          bindFree_intros publishDurable_append)
qed

lemma bound_split:
  assumes "boundAtMost s t ro n2" and "bindFree n1" and "n2 @ n1 = later @ EvBind a b c r # earlier"
  shows "a = s \<and> b = t \<and> c = ro \<and> earlier = n1"
proof -
  from append_eq_Cons_append [OF assms(3)] consider x where "n1 = x @ EvBind a b c r # earlier"
    | x where "n2 = later @ EvBind a b c r # x" "earlier = x @ n1"
    using assms(3) by (auto simp: append_eq_append_conv2 Cons_eq_append_conv)
  then show ?thesis
  proof cases
    case 1
    then show ?thesis using assms(2) by simp
  next
    case 2
    then show ?thesis using assms(1) unfolding boundAtMost_def by simp
  qed
qed

text \<open>The record under which a target is bound, and the one a successful publication leaves.\<close>

definition recordOf :: "env \<Rightarrow> driver \<Rightarrow> nodePublishRequest \<Rightarrow> string \<Rightarrow> event list \<Rightarrow> bool" where
  "recordOf E d req status n \<longleftrightarrow>
     (\<exists>st. pub_Status st = status
        \<and> publishStateMatches st (TrimSpace (np_VolumeID req)) (TrimSpace (np_StagingTarget req))
            (TrimSpace (np_Target req)) (np_Readonly req) (accessMode_String (capabilityMode (np_Capability req)))
        \<and> (publishDurable (cfg_StateDir (d_cfg d)) st n
           \<or> sawPublish E (cfg_StateDir (d_cfg d)) (TrimSpace (np_Target req)) (Some st) n))"

lemma recordOf_append: "recordOf E d req status n2 \<or> recordOf E d req status n1 \<Longrightarrow> recordOf E d req status (n2 @ n1)"
  unfolding recordOf_def by (auto simp: seen_append intro: publishDurable_append)

definition bindOk :: "env \<Rightarrow> driver \<Rightarrow> nodePublishRequest \<Rightarrow> event list \<Rightarrow> bool" where
  "bindOk E d req h \<longleftrightarrow> targetSeen (TrimSpace (np_Target req)) (np_Readonly req) False h
     \<and> recordOf E d req publishStatusPending h"

definition publishedOk :: "env \<Rightarrow> driver \<Rightarrow> nodePublishRequest \<Rightarrow> event list \<Rightarrow> bool" where
  "publishedOk E d req n \<longleftrightarrow> recordOf E d req publishStatusPublished n
     \<and> (targetSeen (TrimSpace (np_Target req)) (np_Readonly req) True n
        \<or> EvBind (TrimSpace (np_StagingTarget req)) (TrimSpace (np_Target req)) (np_Readonly req) None \<in> set n)"

definition publishRun ::
    "env \<Rightarrow> driver \<Rightarrow> nodePublishRequest \<Rightarrow> error option \<Rightarrow> event list \<Rightarrow> bool" where
  "publishRun E d req r n \<longleftrightarrow>
     (\<forall>later a b c x earlier. n = later @ EvBind a b c x # earlier \<longrightarrow>
        a = TrimSpace (np_StagingTarget req) \<and> b = TrimSpace (np_Target req) \<and> c = np_Readonly req
        \<and> bindFree earlier \<and> bindOk E d req earlier)
     \<and> (r = None \<longrightarrow> publishedOk E d req n)"

lemma publishRun_early: "bindFree n \<Longrightarrow> r \<noteq> None \<Longrightarrow> publishRun E d req r n"
  by (auto simp: publishRun_def)

lemma emits_publishTarget:
  assumes "cleanAbs (cfg_StateDir (d_cfg d))"
    and req: "staging = TrimSpace (np_StagingTarget req)" "target = TrimSpace (np_Target req)"
      "v = TrimSpace (np_VolumeID req)" "mode = capabilityMode (np_Capability req)"
    and "IsAbs staging" and "IsAbs target"
  shows "emits (publishTarget E d req v staging target mode) (publishRun E d req)"
proof -
  let ?dir = "cfg_StateDir (d_cfg d)"
  let ?matches = "\<lambda>st. publishStateMatches st v staging target (np_Readonly req) (accessMode_String mode)"
  have existing: "emits (do { r \<leftarrow> readPublishState E ?dir target;
          State_Monad.return (case r of
              Inr publish \<Rightarrow> Inr (Some publish)
            | Inl e \<Rightarrow> if errors_Is e ErrNotExist then Inr None
                       else Inl (Status FailedPrecondition ''read publish state'')) })
      (\<lambda>r n. list_all hostObservation n \<and> (\<forall>st. r = Inr (Some st) \<longrightarrow> sawPublish E ?dir target (Some st) n))"
    by (intro emits_bind_pre [OF emits_readPublishState] emits_return) (auto split: sum.splits if_splits)
  have start: "emits (case existing of Some publish \<Rightarrow> State_Monad.return (Inr publish)
         | None \<Rightarrow> beginPublish E d req v staging target mode mounted)
      (\<lambda>r n. bindFree n \<and> (\<forall>st. r = Inr st \<longrightarrow> ?matches st
         \<and> (publishDurable ?dir st n \<and> \<not> mounted \<and> pub_Status st = publishStatusPending \<or> existing = Some st)))"
    if "existing = None \<or> ?matches (the existing)" for existing mounted
    using that emits_beginPublish [OF assms(1) refl assms(6,7), of E req v mode mounted]
    by (intro emits_wp_option) (auto intro: emits_return elim!: emits_conseq split: option.splits)
  have finish: "emits (finishPublish E d req v staging target mode mounted mro st) (\<lambda>r n. publishRun E d req r (n @ h))"
    if "bindFree h" "?matches st" "targetSeen target (np_Readonly req) mounted h"
      "publishDurable ?dir st h \<or> sawPublish E ?dir target (Some st) h" for mounted mro st h
  proof (rule emits_conseq [OF emits_finishPublish [OF assms(1) refl]], goal_cases)
    case (1 r n)
    have rec: "recordOf E d req (pub_Status st) h" using that unfolding recordOf_def req by blast
    have pending: "pub_Status st = publishStatusPending \<and> \<not> mounted" if "\<not> bindFree n" using 1 that by blast
    have split: "a = staging \<and> b = target \<and> c = np_Readonly req \<and> earlier = h \<and> \<not> bindFree n"
      if n: "n @ h = later @ EvBind a b c x # earlier" for later a b c x earlier
      using bound_split [OF _ \<open>bindFree h\<close> n] 1 n \<open>bindFree h\<close> bindFree_split [of "n @ h"] by auto
    have pub: "publishedOk E d req (n @ h)" if "r = None"
    proof -
      have "recordOf E d req publishStatusPublished (n @ h)"
      proof (cases "pub_Status st = publishStatusPublished")
        case True
        then show ?thesis using rec by (intro recordOf_append) simp
      next
        case False
        then have "publishDurable ?dir (st\<lparr>pub_Status := publishStatusPublished\<rparr>) n" using 1 \<open>r = None\<close> by blast
        then show ?thesis using \<open>?matches st\<close> unfolding recordOf_def req
          by (intro exI [of _ "st\<lparr>pub_Status := publishStatusPublished\<rparr>"])
            (auto simp: publishStateMatches_def intro: publishDurable_append)
      qed
      moreover have "mounted \<or> EvBind staging target (np_Readonly req) None \<in> set n" using 1 \<open>r = None\<close> by blast
      ultimately show ?thesis using that(1) \<open>targetSeen target (np_Readonly req) mounted h\<close>
        unfolding publishedOk_def req [symmetric] by (auto simp: seen_append)
    qed
    show ?case unfolding publishRun_def
      using split pending rec pub that unfolding bindOk_def req [symmetric] by metis
  qed
  show ?thesis
    unfolding publishTarget_def
  proof (intro emits_wp emits_orReturn [OF existing] emits_orReturn [OF emits_observeTarget]
      emits_orReturn [OF start], goal_cases)
    case (6 existing n1 seen n2 mounted mro st n3)
    then show ?case
      by (intro emits_conseq [OF finish [of "n3 @ n2 @ n1"]])
        (auto simp: seen_append intro: bindFree_intros publishDurable_append)
  qed (auto intro!: publishRun_early intro: bindFree_intros)
qed

text \<open>A bind mount only ever follows a verified stage of the volume.\<close>

definition stageVerified :: "env \<Rightarrow> nodePublishRequest \<Rightarrow> event list \<Rightarrow> bool" where
  "stageVerified E req n \<longleftrightarrow>
     (\<exists>state. VolumeID state = TrimSpace (np_VolumeID req)
        \<and> locallyHealthy E state (TrimSpace (np_StagingTarget req)) n)"

lemma bindOk_append: "bindOk E d req n2 \<or> bindOk E d req n1 \<Longrightarrow> bindOk E d req (n2 @ n1)"
  by (auto simp: bindOk_def seen_append intro: recordOf_append)

lemma publishedOk_append: "publishedOk E d req n2 \<or> publishedOk E d req n1 \<Longrightarrow> publishedOk E d req (n2 @ n1)"
  by (auto simp: publishedOk_def seen_append intro: recordOf_append)

lemma publishRun_extend:
  assumes "publishRun E d req r n" and "bindFree n2" and "bindFree n1"
  shows "publishRun E d req r (n2 @ n @ n1)"
proof -
  have "a = TrimSpace (np_StagingTarget req) \<and> b = TrimSpace (np_Target req) \<and> c = np_Readonly req
      \<and> bindFree earlier \<and> bindOk E d req earlier"
    if "n2 @ n @ n1 = later @ EvBind a b c x # earlier" for later a b c x earlier
  proof -
    from that consider y where "n2 = later @ EvBind a b c x # y"
      | y z where "n = y @ EvBind a b c x # z" "earlier = z @ n1" | y where "n1 = y @ EvBind a b c x # earlier"
      by (auto simp: append_eq_append_conv2 append_eq_Cons_conv Cons_eq_append_conv)
    then show ?thesis
    proof cases
      case 2
      then show ?thesis using assms unfolding publishRun_def by (auto intro: bindOk_append)
    qed (use assms in auto)
  qed
  then show ?thesis using assms(1) unfolding publishRun_def by (blast intro: publishedOk_append)
qed

text \<open>The run of the whole handler.\<close>

definition publishVerified ::
    "env \<Rightarrow> driver \<Rightarrow> nodePublishRequest \<Rightarrow> error option \<Rightarrow> event list \<Rightarrow> bool" where
  "publishVerified E d req r n \<longleftrightarrow> publishRun E d req r n
     \<and> (r = None \<longrightarrow> stageVerified E req n)
     \<and> (\<forall>later a b c x earlier. n = later @ EvBind a b c x # earlier \<longrightarrow> stageVerified E req earlier)"

lemma publishVerified_early: "bindFree n \<Longrightarrow> r \<noteq> None \<Longrightarrow> publishVerified E d req r n"
  by (auto simp: publishVerified_def publishRun_early)

lemma stageVerified_append: "stageVerified E req n2 \<or> stageVerified E req n1 \<Longrightarrow> stageVerified E req (n2 @ n1)"
  unfolding stageVerified_def by (blast intro: locallyHealthy_append)

lemma publishVerified_late:
  assumes run: "publishRun E d req r n" and "bindFree n2" and "bindFree n1" and "stageVerified E req n1"
  shows "publishVerified E d req r (n2 @ n @ n1)"
proof -
  have "stageVerified E req earlier" if "n2 @ n @ n1 = later @ EvBind a b c x # earlier" for later a b c x earlier
  proof -
    from that assms(2,3) obtain z where "earlier = z @ n1"
      by (auto simp: append_eq_append_conv2 append_eq_Cons_conv Cons_eq_append_conv)
    then show ?thesis using assms(4) stageVerified_append by blast
  qed
  then show ?thesis
    using publishRun_extend [OF assms(1-3)] assms(4) stageVerified_append
    unfolding publishVerified_def by blast
qed

lemma emits_NodePublishVolume:
  assumes "cleanAbs (cfg_StateDir (d_cfg d))"
  shows "emits (NodePublishVolume E d req) (publishVerified E d req)"
  unfolding NodePublishVolume_def lockVolume_def readMountState_def Let_def
proof (intro emits_wp_if emits_withLock emits_ifNil emits_orReturn [OF emits_store_Read]
    emits_unlessErr [OF emits_verifyActiveMountLocally] emits_return, goal_cases)
  case (8 state n1 n2)
  let ?lock = "[EvLock (''volume '' @ TrimSpace (np_VolumeID req))]"
  have "bindFree (n2 @ n1 @ ?lock)" using 8 by (auto intro: bindFree_intros readEvents_observations)
  moreover have "stageVerified E req (n2 @ n1 @ ?lock)"
    unfolding stageVerified_def using 8 by (auto intro!: exI [of _ state] locallyHealthy_append)
  ultimately show ?case
    using 8 publishVerified_late [of E d req _ _ "[EvUnlock (''volume '' @ TrimSpace (np_VolumeID req))]" "n2 @ n1 @ ?lock"]
    by (intro emits_conseq [OF emits_publishTarget [OF assms refl refl refl refl]]) auto
qed (auto intro!: publishVerified_early dest!: bindFree_intros dest: readEvents_observations)

section \<open>Unpublishing\<close>

text \<open>The durable intent to unpublish the target.\<close>

definition unpublishing :: "env \<Rightarrow> string \<Rightarrow> string \<Rightarrow> string \<Rightarrow> event list \<Rightarrow> bool" where
  "unpublishing E dir v target n \<longleftrightarrow>
     (\<exists>st. pub_Status st = publishStatusUnpublishing \<and> pub_VolumeID st = v \<and> Clean (pub_Target st) = Clean target
        \<and> (publishDurable dir st n \<or> sawPublish E dir target (Some st) n))"

lemma unpublishing_append: "unpublishing E dir v target n2 \<or> unpublishing E dir v target n1 \<Longrightarrow>
    unpublishing E dir v target (n2 @ n1)"
  unfolding unpublishing_def by (auto simp: seen_append intro: publishDurable_append)

text \<open>
  An unmount needs the intent; the removal of the record needs the intent and, as the last thing
  before the lock of the record was taken, a look at the target that shows it unmounted.
\<close>

fun unpublishGuard :: "env \<Rightarrow> string \<Rightarrow> string \<Rightarrow> string \<Rightarrow> event \<Rightarrow> event list \<Rightarrow> bool" where
  "unpublishGuard E dir v target (EvUnmount t r) h = (t = target \<and> unpublishing E dir v target h)"
| "unpublishGuard E dir v target (EvRemove p r) h =
     (p = publishStateFilePath dir target \<longrightarrow>
        unpublishing E dir v target h
        \<and> (\<exists>h'. h = EvLock p # EvIsMountPoint target (Inr False) # h'))"
| "unpublishGuard E dir v target e h = True"

lemma unpublishGuard_observation: "hostObservation e \<Longrightarrow> unpublishGuard E dir v target e h"
  by (cases e) auto

lemma guarded_observations: "list_all hostObservation n \<Longrightarrow> guarded (\<lambda>e h. unpublishGuard E dir v target e (h @ n1)) n"
  by (rule guarded_free) (auto simp: list_all_iff unpublishGuard_observation)

lemma guarded_observations0: "list_all hostObservation n \<Longrightarrow> guarded (unpublishGuard E dir v target) n"
  using guarded_observations [of n E dir v target "[]"] by simp

lemma replaced_keeps:
  assumes "replaced dir p body r m" and "e \<in> set m"
  shows "e \<noteq> EvRemove p x"
  using assms unfolding replaced_def quiet_def by (auto dest!: bspec [where x = "EvRemove p x"])

lemma guarded_store:
  assumes "list_all storeEvent n" and "\<forall>x. EvRemove (publishStateFilePath dir target) x \<notin> set n"
  shows "guarded (\<lambda>e h. unpublishGuard E dir v target e (h @ n1)) n"
proof (rule guarded_free, intro ballI allI)
  fix e h
  assume "e \<in> set n"
  then have "storeEvent e" "\<forall>x. e \<noteq> EvRemove (publishStateFilePath dir target) x"
    using assms by (auto simp: list_all_iff)
  then show "unpublishGuard E dir v target e (h @ n1)" by (cases e) auto
qed

lemma emits_write_keeps:
  assumes "cleanAbs dir"
  shows "emits (writePublishStateFile E dir st) (\<lambda>r n. publishWritten dir st r n
     \<and> (\<forall>x. EvRemove (publishStateFilePath dir (pub_Target st)) x \<notin> set n))"
proof -
  let ?p = "publishStateFilePath dir (pub_Target st)"
  obtain c where c: "?p = path_Join [dir, c]" "goodComp c" "hd c \<noteq> CHR ''.''"
    using publishStateFilePath_child by blast
  have atomic: "emits (writeAtomicStateFile E dir ?p kind body) (replaced dir ?p body)" for kind body
    using atomicTempPath_neq [OF assms c(2,3)] c(1) by (intro emits_writeAtomicStateFile) simp
  have "emits (writePublishStateFile E dir st) (\<lambda>r n. \<forall>x. EvRemove ?p x \<notin> set n)"
    unfolding writePublishStateFile_def Let_def
    by (intro emits_ifNil emits_withLock emits_conseq [OF atomic]) (auto dest: replaced_keeps)
  then show ?thesis by (rule emits_conj [OF emits_writePublishStateFile [OF assms]])
qed

lemma emits_beginUnpublish:
  assumes "cleanAbs dir" and "dir = cfg_StateDir (d_cfg d)" and "IsAbs target"
    and st: "pub_VolumeID st = v" "Clean (pub_Target st) = Clean target"
    and h: "sawPublish E dir target (Some st) h"
  shows "emits (beginUnpublish E d st) (\<lambda>r n. guarded (\<lambda>e h'. unpublishGuard E dir v target e (h' @ h)) n
     \<and> (\<forall>st'. r = Inr st' \<longrightarrow> pub_Status st' = publishStatusUnpublishing \<and> unpublishing E dir v target (n @ h)))"
proof -
  have p: "publishStateFilePath dir (pub_Target st) = publishStateFilePath dir target"
    using st(2) by (simp add: publishStateFilePath_def)
  have durable: "unpublishing E dir v target (n @ h)"
    if "publishDurable dir (st\<lparr>pub_Status := publishStatusUnpublishing\<rparr>) n" for n
    unfolding unpublishing_def
    using that st publishDurable_append by (intro exI [of _ "st\<lparr>pub_Status := publishStatusUnpublishing\<rparr>"]) auto
  have known: "pub_Status st = publishStatusUnpublishing \<Longrightarrow> unpublishing E dir v target h"
    using h st unfolding unpublishing_def by blast
  show ?thesis
    unfolding beginUnpublish_def Let_def
    by (intro emits_wp emits_unlessErr [OF emits_write_keeps [OF assms(1), unfolded assms(2)]])
      (use durable known in \<open>auto simp: publishWritten_def assms(2) intro!: guarded_store simp: p [unfolded assms(2)]\<close>)
qed

lemma emits_unmountTarget:
  assumes "unpublishing E dir v target h"
  shows "emits (unmountTarget E d target) (\<lambda>r n. guarded (\<lambda>e h'. unpublishGuard E dir v target e (h' @ h)) n
     \<and> (r = None \<longrightarrow> (\<exists>h'. n = EvIsMountPoint target (Inr False) # h')))"
  using assms unfolding unmountTarget_def host_defs
  by (intro emits_wp) (auto intro: unpublishing_append unpublishing_append [of E dir v target "[_]", simplified])

definition recordGone :: "string \<Rightarrow> string \<Rightarrow> event list \<Rightarrow> bool" where
  "recordGone dir target n \<longleftrightarrow>
     (\<exists>later x earlier. n = later @ EvRemove (publishStateFilePath dir target) x # earlier
        \<and> (\<forall>e. x = Some e \<longrightarrow> errors_Is e ErrNotExist) \<and> EvFileSync dir None \<in> set later)"

lemma emits_removePublishStateFile:
  assumes "h = EvIsMountPoint target (Inr False) # h0" and "unpublishing E dir v target h0"
  shows "emits (removePublishStateFile E dir target) (\<lambda>r n.
     guarded (\<lambda>e h'. unpublishGuard E dir v target e (h' @ h)) n \<and> (r = None \<longrightarrow> recordGone dir target (n @ h)))"
proof -
  let ?p = "publishStateFilePath dir target"
  have intent: "unpublishing E dir v target (EvLock ?p # EvIsMountPoint target (Inr False) # h0)"
    using unpublishing_append [of E dir v target "[EvLock ?p, EvIsMountPoint target (Inr False)]" h0] assms(2) by simp
  have gone: "recordGone dir target (EvUnlock ?p # n @ EvRemove ?p x # EvLock ?p # h)"
    if "EvFileSync dir None \<in> set n" "\<And>e. x = Some e \<Longrightarrow> errors_Is e ErrNotExist" for n x
    unfolding recordGone_def
    using that by (intro exI [of _ "EvUnlock ?p # n"] exI [of _ x] exI [of _ "EvLock ?p # h"]) auto
  have sync: "emits (syncDirectory E dir kind) (\<lambda>r n. (r = None \<longrightarrow> EvFileSync dir None \<in> set n)
      \<and> guarded (\<lambda>e h'. unpublishGuard E dir v target e (h' @ h1)) n)" for kind h1
    unfolding syncDirectory_def host_defs by (intro emits_wp) auto
  show ?thesis
    unfolding removePublishStateFile_def Let_def host_defs
    by (intro emits_withLock emits_wp emits_conseq [OF sync]) (use intent gone assms(1) in auto)
qed

definition unpublishRun :: "env \<Rightarrow> string \<Rightarrow> string \<Rightarrow> string \<Rightarrow> error option \<Rightarrow> event list \<Rightarrow> bool" where
  "unpublishRun E dir v target r n \<longleftrightarrow> guarded (unpublishGuard E dir v target) n
     \<and> (r = None \<longrightarrow> EvIsMountPoint target (Inr False) \<in> set n
          \<and> (sawPublish E dir target None n \<or> recordGone dir target n))"

lemma emits_unpublishTarget:
  assumes "cleanAbs dir" and "dir = cfg_StateDir (d_cfg d)" and "IsAbs target"
    and st: "pub_VolumeID st = v" "Clean (pub_Target st) = Clean target"
    and base: "sawPublish E dir target (Some st) base"
  shows "emits (unpublishTarget E d target st) (\<lambda>r n.
     guarded (\<lambda>e h. unpublishGuard E dir v target e (h @ base)) n
     \<and> (r = None \<longrightarrow> EvIsMountPoint target (Inr False) \<in> set n \<and> recordGone dir target (n @ base)))"
  unfolding unpublishTarget_def
proof (intro emits_orReturn [OF emits_beginUnpublish [OF assms]], goal_cases)
  case (2 st' n1)
  then have i: "unpublishing E dir v target (n1 @ base)" by blast
  have removal: "emits (removePublishStateFile E (cfg_StateDir (d_cfg d)) target) (\<lambda>r n.
        guarded (\<lambda>e h'. unpublishGuard E dir v target e (h' @ n2 @ n1 @ base)) n
        \<and> (r = None \<longrightarrow> recordGone dir target (n @ n2 @ n1 @ base)))"
    if "\<exists>h'. n2 = EvIsMountPoint target (Inr False) # h'" for n2
    using that i assms(2) by (auto intro!: emits_removePublishStateFile unpublishing_append)
  show ?case
    by (intro emits_unlessErr [OF emits_unmountTarget [OF i]] emits_ifNil emits_unlessErr [OF removal] emits_return)
      (use 2 in auto)
qed auto

lemma recordGone_Cons: "recordGone dir target n \<Longrightarrow> recordGone dir target (e # n)"
  unfolding recordGone_def by (metis append_Cons list.set_intros(2))

lemma emits_NodeUnpublishVolume:
  assumes "cleanAbs (cfg_StateDir (d_cfg d))"
  shows "emits (NodeUnpublishVolume E d v0 t0)
     (unpublishRun E (cfg_StateDir (d_cfg d)) (TrimSpace v0) (TrimSpace t0))"
proof -
  let ?dir = "cfg_StateDir (d_cfg d)" and ?v = "TrimSpace v0" and ?t = "TrimSpace t0"
  have target: "emits (unpublishTarget E d ?t st) (\<lambda>r n.
      unpublishRun E ?dir ?v ?t r (EvUnlock x # n @ h @ [EvLock x]))"
    if h: "list_all hostObservation h" "sawPublish E ?dir ?t (Some st) h" and t: "IsAbs ?t"
      and st: "pub_VolumeID st = ?v" "Clean (pub_Target st) = Clean ?t" for st h x
    using h by (intro emits_conseq [OF emits_unpublishTarget [OF assms refl t st, of E "h @ [EvLock x]"]])
      (auto simp: seen_append unpublishRun_def guarded_observations intro: recordGone_Cons)
  show ?thesis
    unfolding NodeUnpublishVolume_def lockVolume_def Let_def host_defs
  proof (intro emits_wp_if emits_withLock emits_bind_pre [OF emits_readPublishState] emits_wp emits_return, goal_cases)
    case (8 r n1 st)
    then show ?case using target [of n1 st "''volume '' @ TrimSpace v0"] by simp
  qed (auto simp: unpublishRun_def guarded_observations intro: sawPublish_Cons)
qed

section \<open>A node that publishes a volume\<close>

text \<open>The mount of \<open>exActive\<close> is healthy, nothing is published, and every write succeeds.\<close>

definition exPub :: env where
  "exPub = exLive
     \<lparr>e_ReadFile := \<lambda>tr p. if HasPrefix p ''/s/published-'' then Inl (Sentinel ErrNotExist) else e_ReadFile exLive tr p,
      e_IsMountPoint := \<lambda>tr p. Inr (p = exTarget)\<rparr>"

definition exDriver :: driver where
  "exDriver = \<lparr>d_cfg = \<lparr>cfg_Endpoint = [], cfg_NodeID = [], cfg_DriverName = ''csi.drive9.ai'', cfg_Version = [],
       cfg_StateDir = ''/s'', cfg_Drive9Binary = [], cfg_RecoverNodeMounts = [], cfg_ServiceMode = []\<rparr>,
     d_nodeCapabilities = [], d_nodePreflightSet = False\<rparr>"

definition exPublish :: nodePublishRequest where
  "exPublish = \<lparr>np_VolumeID = exVolume,
     np_Capability = Some \<lparr>vc_Mount = Some \<lparr>mv_FsType = [], mv_MountFlags = []\<rparr>, vc_Mode = SINGLE_NODE_WRITER\<rparr>,
     np_StagingTarget = exTarget, np_Target = ''/pod'', np_Readonly = False\<rparr>"

lemma exPub_answers [simp]:
  "e_ReadFile exPub tr ''/host-proc/7/stat'' = Inr exStat"
  "e_ReadFile exPub tr ''/host-proc/7/cmdline'' = Inr exCmdline"
  "e_ReadFile exPub tr ''/host-proc/7/cgroup'' = Inr exCgroup"
  "e_ReadFile exPub tr (ProcessStatePath exActive) = Inr ''x''"
  "e_ReadFile exPub tr exStatePath = Inr ''x''"
  "HasPrefix p ''/s/published-'' \<Longrightarrow> e_ReadFile exPub tr p = Inl (Sentinel ErrNotExist)"
  "e_Readlink exPub tr p = Inr (BinaryPath exActive)" "e_IsMountPoint exPub tr p = Inr (p = exTarget)"
  "e_Lstat exPub tr p = Inr \<lparr>fi_kind = if p = ControlSocketPath exActive then Socket else Regular,
     fi_perm = perm600, fi_size = 1\<rparr>"
  "e_Exec exPub tr c = (\<lparr>cmd_Stdout = exShow (cmd_Args c), cmd_Stderr = [], cmd_ExitCode = 0\<rparr>, None)"
  "e_DecodeProcess exPub b = Some exProcess" "e_Now exPub tr = 0" "e_ReadDir exPub tr p = Inr []"
  "e_DecodeState exPub b = Some exActive" "e_Bind exPub tr a b' ro = None" "e_NewAttemptID exPub tr = Inr zeroAttempt"
  "e_OpenFile exPub tr p flag mode = None" "e_FileWrite exPub tr p b = Inr (int (length b))" "e_FileSync exPub tr p = None"
  "e_FileClose exPub tr p = None" "e_Chmod exPub tr p mode = None" "e_Rename exPub tr a b' = None"
  by (simp_all add: exPub_def exLive_def calmHost_def ex_defs hostRuntimeDir_def HasPrefix_def exVolume_def exStatePath_def)

lemma exPub_written: "body \<noteq> [] \<Longrightarrow> run_state (writeHostFile exPub f body) tr = (None, EvFileWrite f body (Inr (int (length body))) # tr)"
  by (subst writeHostFile.simps) (simp add: FileWrite_def run_simps writeHostFile.simps [of _ _ "[]"])

lemma exPub_write:
  "validatePublishStatus (pub_Status st) = None \<Longrightarrow>
   \<exists>n. run_state (writePublishStateFile exPub dir st) tr = (None, n @ tr)"
  using attemptIDPattern_zero
  by (simp add: writePublishStateFile_def writeAtomicStateFile_def publishTemp_def syncDirectory_def host_defs run_simps
      exPub_written Let_def)

lemma exPub_path: "HasPrefix (publishStateFilePath ''/s'' target) ''/s/published-''"
proof -
  have "cleanAbs ''/s''" by code_simp
  obtain c where "publishStateFilePath ''/s'' target = path_Join [''/s'', c]" "goodComp c" "HasPrefix c ''published-''"
  proof -
    let ?c = "''published-'' @ take 32 (sha256hex (Clean target)) @ ''.json''"
    have "CHR ''/'' \<notin> set (take 32 (sha256hex (Clean target)))"
      using take_sha256hex_hex [of 32 "Clean target"] by (auto simp: hexDigits_def list_all_iff isLowerHex_def isDigit_def)
    then have "goodComp ?c" by (auto simp: goodComp_def)
    then show ?thesis using that by (simp add: publishStateFilePath_def HasPrefix_def)
  qed
  then show ?thesis using path_Join_child [OF \<open>cleanAbs ''/s''\<close>] by (auto simp: HasPrefix_iff)
qed

lemma ex_paths_differ [simp]: "exStatePath \<noteq> ControlSocketPath exActive" "exStatePath \<noteq> ProcessStatePath exActive"
  "ProcessStatePath exActive \<noteq> ControlSocketPath exActive"
  "ControlSocketPath exActive \<noteq> ProcessStatePath exActive"
  by (simp_all add: ex_defs hostRuntimeDir_def exStatePath_def)

lemma exPub_process: "yields (verifyProcessOwnership exPub exExpectation) (Inr exIdentity)"
  by (simp add: yields_def verifyProcessOwnership_def readDrive9ProcessState_def readHostProcessStartTime_def
      verifyHostPIDOwnership_def stableStartTime_def host_defs run_simps IsRegular_def maxProcessStateLength_def
      exBinary_live exIdentity_def)

definition exDescription :: string where
  "exDescription = ''drive9-csi:'' @ exVolume @ '':'' @ exAttempt (CHR ''1'')"

lemma exShow_answers [simp]:
  "exShow (cmd_Args (hostSystemctlCommand [''show'', ''--property=LoadState'', ''--property=ActiveState'', ''--property=SubState'', ''--'', SystemdUnit exActive]))
     = ''LoadState=loaded'' @ [CHR 0x0A] @ ''ActiveState=active'' @ [CHR 0x0A] @ ''SubState=running''"
  "exShow (cmd_Args (hostSystemctlCommand [''show'', ''--property=Description'', ''--'', SystemdUnit exActive]))
     = ''Description='' @ exDescription"
  "exShow (cmd_Args (hostSystemctlCommand [''show'', ''--property=MainPID'', ''--'', SystemdUnit exActive])) = ''MainPID=7''"
  by (simp_all add: exShow_def hostSystemctlCommand_def hostSystemdManagerCommand_def hostNamespaceCommand_def
      exDescription_def ex_defs)

lemma ex_shown:
  "parseSystemdUnitObservation (''LoadState=loaded'' @ [CHR 0x0A] @ ''ActiveState=active'' @ [CHR 0x0A] @ ''SubState=running'')
     = Inr \<lparr>so_State = systemdUnitActive, so_LoadState = ''loaded'', so_ActiveState = ''active'', so_SubState = ''running''\<rparr>"
  "TrimSuffix (''Description='' @ exDescription) [CHR 0x0A] = ''Description='' @ exDescription"
  "CHR 0x0D \<notin> set (''Description='' @ exDescription)" "CHR 0x0A \<notin> set (''Description='' @ exDescription)"
  "Cut (''Description='' @ exDescription) (CHR ''='') = Some (''Description'', exDescription)" "exDescription \<noteq> []"
  "Cut (TrimSpace ''MainPID=7'') (CHR ''='') = Some (''MainPID'', ''7'')"
  by code_simp+

lemma ex_main_pid: "ParseInt 31 ''7'' = Some 7"
  by (simp add: ParseInt_def ParseUint_def isDigit_def decVal_def digitVal_def)

lemma ex_active_parts [simp]: "systemdUnitPattern (SystemdUnit exActive)" "AttemptID exActive = exAttempt (CHR ''1'')"
  "mountSystemdUnitDescription exActive = Inr exDescription"
  using ex_parts exNames_Inr [of "CHR ''1''"]
  by (simp_all add: ex_defs mountSystemdUnitDescription_def exDescription_def del: append.simps)

lemma exPub_description: "yields (verifyMountSystemdUnitDescription exPub exActive) None"
  using ex_shown
  by (simp add: yields_def verifyMountSystemdUnitDescription_def querySystemdUnitDescription_def runOutput_def host_defs
      run_simps Let_def del: append.simps)

lemma exPub_main_pid: "yields (querySystemdMainPID exPub (SystemdUnit exActive)) (Inr 7)"
  using ex_shown ex_main_pid
  by (simp add: yields_def querySystemdMainPID_def runOutput_def host_defs run_simps del: append.simps)

lemma exPub_start: "yields (readHostProcessStartTime exPub 7) (Inr ''9'')"
  by (simp add: yields_def readHostProcessStartTime_def host_defs run_simps)

lemma exPub_host: "yields (verifyHostPIDOwnership exPub exExpectation ''9'' True)
    (Inr (exIdentity\<lparr>vp_ControlSocketPath := [], vp_ProcessStatePath := []\<rparr>))"
  by (simp add: yields_def readHostProcessStartTime_def verifyHostPIDOwnership_def stableStartTime_def host_defs run_simps
      exBinary_live exIdentity_def)

lemma exPub_expectation: "mainExpectation exActive 7 ''9'' = exExpectation"
  by (simp add: mainExpectation_def exExpectation_def)

lemma exPub_unit: "yields (verifySystemdMainPIDOwnership exPub exActive) (Inr exIdentity)"
  unfolding verifySystemdMainPIDOwnership_def
  by (intro yields_unlessErr [OF exPub_description] yields_orReturn [OF exPub_main_pid])
    (auto simp: exPub_expectation withRuntimePaths_def orEmpty_def exIdentity_def yields_return
      intro!: yields_orReturn [OF exPub_start] yields_orReturn [OF exPub_host])

lemma exPub_query: "yields (querySystemdUnit exPub (SystemdUnit exActive))
    (Inr \<lparr>so_State = systemdUnitActive, so_LoadState = ''loaded'', so_ActiveState = ''active'', so_SubState = ''running''\<rparr>)"
  using ex_shown
  by (simp add: yields_def querySystemdUnit_def runOutput_def host_defs run_simps del: append.simps)

lemma exDriver_simps [simp]: "cfg_StateDir (d_cfg exDriver) = ''/s''" "driver_require exDriver nodeOperationPublish = None"
  "driver_require exDriver nodeOperationHealthyStage = None" "driver_require exDriver nodeOperationUnpublish = None"
  by (simp add: exDriver_def) code_simp+

lemma exPub_socket: "yields (Lstat exPub (ControlSocketPath exActive))
    (Inr \<lparr>fi_kind = Socket, fi_perm = perm600, fi_size = 1\<rparr>)"
  unfolding Lstat_def by (rule yields_perform) simp

lemma exPub_mounted: "yields (IsMountPoint exPub p) (Inr (p = exTarget))"
  unfolding IsMountPoint_def by (rule yields_perform) simp

lemma exPub_healthy: "yields (verifyActiveMountLocally exPub exDriver exActive exVolume [] exTarget) None"
  unfolding verifyActiveMountLocally_def
  by (auto simp: mountStateMatches_def exPub_expectation isRealSocket_def exIdentity_def
      intro!: yields_ifs yields_orReturn [OF exPub_process] yields_orReturn [OF exPub_query] yields_orReturn [OF exPub_unit]
        yields_orReturn [OF exPub_socket] yields_orReturn [OF exPub_mounted] yields_return)

lemma exPub_state: "yields (readMountState exPub exDriver exVolume) (Inr exActive)"
  using exActive_valid
  by (simp add: yields_def readMountState_def store_Read_def host_defs run_simps IsRegular_def maxMountStateLength_def
      decodeMountState_def)

lemma exPub_none: "yields (readPublishState exPub ''/s'' target) (Inl (Sentinel ErrNotExist))"
  using exPub_path by (simp add: yields_def readPublishState_def host_defs run_simps)

lemma exPub_writes: "validatePublishStatus (pub_Status st) = None \<Longrightarrow> yields (writePublishStateFile exPub ''/s'' st) None"
  using exPub_write by (simp add: yields_def)

lemma ex_status: "validatePublishStatus publishStatusPending = None" "validatePublishStatus publishStatusPublished = None"
  "validatePublishStatusTransition [] publishStatusPending = None"
  "validatePublishStatusTransition publishStatusPending publishStatusPublished = None"
  by code_simp+

lemma ex_publish_fields [simp]: "np_VolumeID exPublish = exVolume" "np_StagingTarget exPublish = exTarget"
  "np_Target exPublish = ''/pod''" "np_Readonly exPublish = False"
  by (simp_all add: exPublish_def)

definition exPending :: publishState where
  "exPending = pendingPublish exVolume exTarget ''/pod'' False (accessMode_String SINGLE_NODE_WRITER) 0"

lemma exPub_begin:
  "yields (beginPublish exPub exDriver exPublish exVolume exTarget ''/pod'' SINGLE_NODE_WRITER False) (Inr exPending)"
  unfolding beginPublish_def hasActivePublishTargets_def host_defs
  by (auto simp: checkMultiTargetAccess_def exPending_def pendingPublish_def ex_status
      intro!: yields_orReturn [where x = "[]"] yields_bind [where x = "Inr []"] yields_bind [where x = "0::time"] yields_let
        yields_ifs yields_perform yields_return yields_unlessErr [OF exPub_writes])

lemma exPending_fields [simp]: "pub_VolumeID exPending = exVolume" "pub_StagingTarget exPending = exTarget"
  "pub_Target exPending = ''/pod''" "pub_Status exPending = publishStatusPending"
  "pub_AccessMode exPending = accessMode_String SINGLE_NODE_WRITER"
proof -
  have "Clean exTarget = exTarget" "Clean ''/pod'' = ''/pod''"
    by code_simp+
  then show "pub_VolumeID exPending = exVolume" "pub_StagingTarget exPending = exTarget"
    "pub_Target exPending = ''/pod''" "pub_Status exPending = publishStatusPending"
    "pub_AccessMode exPending = accessMode_String SINGLE_NODE_WRITER"
    by (simp_all add: exPending_def pendingPublish_def)
qed

abbreviation exBind :: event where
  "exBind \<equiv> EvBind exTarget ''/pod'' False None"

lemma exPub_finish: "does (finishPublish exPub exDriver exPublish exVolume exTarget ''/pod'' SINGLE_NODE_WRITER False
    mro exPending) None exBind"
proof -
  have "does (unlessErr (BindMount exPub exTarget ''/pod'' False)
      (\<lambda>_. Some (Status Internal ''bind mount publish target'')) (State_Monad.return None)) None exBind"
    unfolding BindMount_def by (intro does_now(3) does_perform yields_return) auto
  then show ?thesis
    unfolding finishPublish_def
    by (auto simp: exPending_def pendingPublish_def ex_status
        intro!: does_now(3) yields_ifs yields_return yields_unlessErr [OF exPub_writes])
qed

lemma exPub_publish: "does (publishTarget exPub exDriver exPublish exVolume exTarget ''/pod'' SINGLE_NODE_WRITER) None exBind"
proof -
  have "yields (do { r \<leftarrow> readPublishState exPub ''/s'' ''/pod'';
          State_Monad.return (case r of
              Inr publish \<Rightarrow> Inr (Some publish)
            | Inl e \<Rightarrow> if errors_Is e ErrNotExist then Inr None
                       else Inl (Status FailedPrecondition ''read publish state'')) }) (Inr None)"
    by (rule yields_bind [OF exPub_none]) (simp add: yields_return)
  moreover have "yields (observeTarget exPub ''/pod'' False) (Inr (False, False))"
    unfolding observeTarget_def IsMountPoint_def
    by (auto intro!: yields_orReturn [where x = False] yields_perform yields_return simp: exTarget_def)
  ultimately show ?thesis
    unfolding publishTarget_def
    by (auto intro!: does_later(2) [where x = None] does_later(2) [where x = "(False, False)"]
        does_later(2) [OF exPub_begin] exPub_finish)
qed

lemma exPub_run: "does (NodePublishVolume exPub exDriver exPublish) None exBind"
proof -
  have v: "TrimSpace exVolume = exVolume" "exVolume \<noteq> []" "TrimSpace exTarget = exTarget" "exTarget \<noteq> []" "IsAbs exTarget"
    "TrimSpace ''/pod'' = ''/pod''" "IsAbs ''/pod''" "validateVolumeCapabilities [np_Capability exPublish] = None"
    "capabilityMode (np_Capability exPublish) = SINGLE_NODE_WRITER"
    by code_simp+
  show ?thesis
    unfolding NodePublishVolume_def lockVolume_def Let_def ex_publish_fields v
    by (auto simp: v intro!: does_withLock does_ifs does_later(2) [OF exPub_state] does_later(3) [OF exPub_healthy]
        exPub_publish)
qed

lemma ex_clean: "cleanAbs (cfg_StateDir (d_cfg exDriver))"
  by code_simp

section \<open>A node that unpublishes a volume\<close>

text \<open>The same node with a published record of a target that is no longer mounted.\<close>

definition exUnpub :: env where
  "exUnpub = exPub
     \<lparr>e_ReadFile := \<lambda>tr p. Inr ''x'',
      e_DecodePublish := \<lambda>b. Some (exPending\<lparr>pub_Status := publishStatusUnpublishing\<rparr>),
      e_Remove := \<lambda>tr p. None\<rparr>"

lemma exUnpub_answers [simp]:
  "e_ReadFile exUnpub tr p = Inr ''x''" "e_DecodePublish exUnpub b = Some (exPending\<lparr>pub_Status := publishStatusUnpublishing\<rparr>)"
  "e_Remove exUnpub tr p = None" "e_IsMountPoint exUnpub tr p = Inr (p = exTarget)" "e_OpenFile exUnpub tr p flag mode = None"
  "e_FileSync exUnpub tr p = None" "e_FileClose exUnpub tr p = None"
  by (simp_all add: exUnpub_def exPub_def exLive_def calmHost_def)

abbreviation exGoneEvent :: event where
  "exGoneEvent \<equiv> EvRemove (publishStateFilePath ''/s'' ''/pod'') None"

lemma exUnpub_read: "yields (readPublishState exUnpub ''/s'' ''/pod'') (Inr (exPending\<lparr>pub_Status := publishStatusUnpublishing\<rparr>))"
proof -
  have "decodePublishState exUnpub ''x'' = Inr (exPending\<lparr>pub_Status := publishStatusUnpublishing\<rparr>)"
    by (simp add: decodePublishState_def applyLegacyDefaults_def validatePublishStatus_def)
  then show ?thesis by (simp add: yields_def readPublishState_def host_defs run_simps)
qed

lemma exUnpub_run: "does (NodeUnpublishVolume exUnpub exDriver exVolume ''/pod'') None exGoneEvent"
proof -
  have v: "TrimSpace exVolume = exVolume" "exVolume \<noteq> []" "TrimSpace ''/pod'' = ''/pod''" "IsAbs ''/pod''"
    "''/pod'' \<noteq> exTarget"
    "validatePublishStatusTransition publishStatusUnpublishing [] = None"
    by code_simp+
  have removed: "does (removePublishStateFile exUnpub ''/s'' ''/pod'') None exGoneEvent"
    by (auto simp: removePublishStateFile_def Let_def syncDirectory_def host_defs
        intro!: does_withLock does_now(1) [where x = None] does_perform yields_unlessErr yields_bind yields_perform yields_return)
  have unmounted: "yields (unmountTarget exUnpub exDriver ''/pod'') None"
    using v by (simp add: yields_def unmountTarget_def host_defs run_simps)
  have "does (unpublishTarget exUnpub exDriver ''/pod'' (exPending\<lparr>pub_Status := publishStatusUnpublishing\<rparr>)) None exGoneEvent"
    using v unfolding unpublishTarget_def beginUnpublish_def
    by (auto intro!: does_later(2) [where x = "exPending\<lparr>pub_Status := publishStatusUnpublishing\<rparr>"] yields_return
        does_later(3) [OF unmounted] does_ifs does_now(3) [OF removed])
  then show ?thesis
    using v unfolding NodeUnpublishVolume_def lockVolume_def Let_def
    by (auto intro!: does_withLock does_later(1) [OF exUnpub_read])
qed

section \<open>Properties\<close>

text \<open>
  C7: a bind mount is only made on the request's own targets, at most one of them, and before it the
  run has verified the stage of that very volume (mounted, its recorded process running under its
  unit, its control socket there), seen the target unmounted, and a matching pending record is
  durable: written atomically by this run or read back from disk.
\<close>

theorem publish_binds_durably:
  assumes "cleanAbs (cfg_StateDir (d_cfg d))"
    and "run_state (NodePublishVolume E d req) tr = (r, later @ EvBind source target readonly x # earlier @ tr)"
  shows "source = TrimSpace (np_StagingTarget req) \<and> target = TrimSpace (np_Target req) \<and> readonly = np_Readonly req
    \<and> bindFree earlier \<and> bindOk E d req earlier \<and> stageVerified E req earlier"
proof -
  have run: "run_state (NodePublishVolume E d req) tr = (r, (later @ EvBind source target readonly x # earlier) @ tr)"
    by (simp only: assms(2) append_assoc append_Cons)
  note verified = emits_ran [OF emits_NodePublishVolume [OF assms(1)] run]
  then have "publishRun E d req r (later @ EvBind source target readonly x # earlier)"
    and "stageVerified E req earlier"
    by (simp_all only: publishVerified_def)
  then show ?thesis by (simp only: publishRun_def)
qed

theorem publish_binds_durably_witness:
  "\<exists>earlier. bindOk exPub exDriver exPublish earlier \<and> stageVerified exPub exPublish earlier"
proof -
  obtain later earlier where "run_state (NodePublishVolume exPub exDriver exPublish) [] = (None, later @ exBind # earlier @ [])"
    using does_run [OF exPub_run, of "[]"] by auto
  from publish_binds_durably [OF ex_clean this] show ?thesis by blast
qed

text \<open>
  C13: a successful publication leaves a durable published record that matches the request, of a
  verified stage, and the target mounted: seen mounted, or bound by this run.
\<close>

theorem publish_success:
  assumes "cleanAbs (cfg_StateDir (d_cfg d))"
    and "run_state (NodePublishVolume E d req) tr = (None, n @ tr)"
  shows "publishedOk E d req n \<and> stageVerified E req n"
  using emits_ran [OF emits_NodePublishVolume [OF assms(1)] assms(2)]
  unfolding publishVerified_def publishRun_def by auto

theorem publish_success_witness: "\<exists>n. publishedOk exPub exDriver exPublish n \<and> stageVerified exPub exPublish n"
proof -
  obtain later earlier where "run_state (NodePublishVolume exPub exDriver exPublish) [] = (None, (later @ exBind # earlier) @ [])"
    using does_run [OF exPub_run, of "[]"] by auto
  then show ?thesis using publish_success [OF ex_clean] by blast
qed

text \<open>
  C8: unpublishing unmounts nothing but the target, and only once the record of that target and
  volume says unpublishing durably; it removes the record only after that intent and straight after
  a look that shows the target unmounted; and it reports success only when the target was seen
  unmounted and the record is absent, with its removal synced.
\<close>

theorem unpublish_removes_last:
  assumes "cleanAbs (cfg_StateDir (d_cfg d))" and "dir = cfg_StateDir (d_cfg d)"
    and "run_state (NodeUnpublishVolume E d volumeID requestTarget) tr = (r, n @ tr)"
  shows "(\<forall>later t x earlier. n = later @ EvUnmount t x # earlier \<longrightarrow>
        t = TrimSpace requestTarget \<and> unpublishing E dir (TrimSpace volumeID) t earlier)
    \<and> (\<forall>later x earlier. n = later @ EvRemove (publishStateFilePath dir (TrimSpace requestTarget)) x # earlier \<longrightarrow>
        unpublishing E dir (TrimSpace volumeID) (TrimSpace requestTarget) earlier
        \<and> (\<exists>lock h. earlier = EvLock lock # EvIsMountPoint (TrimSpace requestTarget) (Inr False) # h))
    \<and> (r = None \<longrightarrow> EvIsMountPoint (TrimSpace requestTarget) (Inr False) \<in> set n
        \<and> (sawPublish E dir (TrimSpace requestTarget) None n \<or> recordGone dir (TrimSpace requestTarget) n))"
proof -
  note ran = emits_ran [OF emits_NodeUnpublishVolume [OF assms(1)] assms(3), folded assms(2), unfolded unpublishRun_def]
  show ?thesis
    using conjunct2 [OF ran] guarded_split [of "unpublishGuard E dir (TrimSpace volumeID) (TrimSpace requestTarget)"] conjunct1 [OF ran]
    by (intro conjI allI impI) (fastforce | blast)+
qed

theorem unpublish_removes_last_witness:
  "\<exists>earlier. unpublishing exUnpub ''/s'' exVolume ''/pod'' earlier \<and> EvIsMountPoint ''/pod'' (Inr False) \<in> set earlier"
proof -
  have v: "TrimSpace exVolume = exVolume" "TrimSpace ''/pod'' = ''/pod''"
    by code_simp+
  obtain later earlier where run: "run_state (NodeUnpublishVolume exUnpub exDriver exVolume ''/pod'') []
      = (None, (later @ exGoneEvent # earlier) @ [])"
    using does_run [OF exUnpub_run, of "[]"] by auto
  have "cfg_StateDir (d_cfg exDriver) = ''/s''" by simp
  from conjunct1 [OF conjunct2 [OF unpublish_removes_last [OF ex_clean this [symmetric] run], unfolded v]]
  have "unpublishing exUnpub ''/s'' exVolume ''/pod'' earlier
      \<and> (\<exists>lock h. earlier = EvLock lock # EvIsMountPoint ''/pod'' (Inr False) # h)"
    by blast
  then show ?thesis by auto
qed



text \<open>
  C29: however targets are added under the access check and removed, the targets that share a stage
  are one at most, or all of the same multi-writer access mode.
\<close>

theorem multi_target_sharing:
  assumes "sharing active"
  shows "length active \<le> 1 \<or> (\<exists>mode\<in>{SINGLE_NODE_MULTI_WRITER, MULTI_NODE_MULTI_WRITER}.
    \<forall>s\<in>set active. pub_AccessMode s = accessMode_String mode)"
  using sharing_sharable [OF assms] by (simp only: sharable_def)

theorem multi_target_sharing_witness:
  "sharing [exPending] \<and> \<not> sharing [exPending, exPending]"
proof -
  have "sharing [exPending]"
    using sharing_added [of "[]" "[]" SINGLE_NODE_WRITER exPending] unshared
    by (auto simp: checkMultiTargetAccess_def exPending_def pendingPublish_def)
  moreover have "accessMode_String SINGLE_NODE_WRITER \<noteq> accessMode_String SINGLE_NODE_MULTI_WRITER"
    "accessMode_String SINGLE_NODE_WRITER \<noteq> accessMode_String MULTI_NODE_MULTI_WRITER"
    by code_simp+
  ultimately show ?thesis using multi_target_sharing [of "[exPending, exPending]"] by auto
qed

end
