(* ===== verification/Promotion.thy ===== *)
theory Promotion
  imports LaunchRecord PublishSafety
begin

text \<open>
  When an attempt becomes active: only after its mount, its process, its socket and its unit were
  seen, and with the active record durable.
\<close>

section \<open>An attempt becomes active when it was seen ready\<close>

text \<open>
  The evidence that \<open>v\<close> serves the attempt \<open>s\<close>: the target is mounted, the process file and
  /proc show the owner, its control socket is a socket, and the unit of the attempt runs with that
  main process.
\<close>

definition readyEvidence :: "env \<Rightarrow> mountState \<Rightarrow> verifiedProcessIdentity \<Rightarrow> event list \<Rightarrow> bool" where
  "readyEvidence E s v n \<longleftrightarrow>
     EvIsMountPoint (StagingTarget s) (Inr True) \<in> set n
     \<and> ownershipVerified E (recordedExpectation s) v n
     \<and> (\<exists>info. EvLstat (vp_ControlSocketPath v) (Inr info) \<in> set n \<and> isRealSocket info)
     \<and> sawDescription (SystemdUnit s) (attemptDescription s) n
     \<and> sawMainPID (SystemdUnit s) (vp_PID v) n"

definition promoted :: "env \<Rightarrow> (mountState \<Rightarrow> event list \<Rightarrow> bool) \<Rightarrow> mountState set \<Rightarrow> event list \<Rightarrow> bool" where
  "promoted E durable D n \<longleftrightarrow>
     (\<exists>s v now l w b. n = l @ w @ b \<and> (s \<in> D \<or> recorded durable s b)
        \<and> durable (activeState s v now) w \<and> readyEvidence E s v b)"

lemma readyEvidence_later: "readyEvidence E s v n \<Longrightarrow> readyEvidence E s v (n @ b)"
  unfolding readyEvidence_def ownershipVerified_def processEvidence_def by (fastforce simp: seen_append)

lemma promoted_append: "promoted E durable D n \<Longrightarrow> promoted E durable D (l @ n @ b)"
  unfolding promoted_def
proof (elim exE conjE)
  fix s v now l' w b'
  assume "n = l' @ w @ b'" "s \<in> D \<or> recorded durable s b'" "durable (activeState s v now) w" "readyEvidence E s v b'"
  then have "l @ n @ b = (l @ l') @ w @ (b' @ b)" "s \<in> D \<or> recorded durable s (b' @ b)" "readyEvidence E s v (b' @ b)"
    using recorded_append [of durable s b' "[]" b] readyEvidence_later by auto
  then show "\<exists>s v now l' w b'. l @ n @ b = l' @ w @ b' \<and> (s \<in> D \<or> recorded durable s b')
      \<and> durable (activeState s v now) w \<and> readyEvidence E s v b'"
    using \<open>durable _ w\<close> by blast
qed

lemma promoted_recorded: "promoted E durable (insert s D) n \<Longrightarrow> durable s b \<Longrightarrow> promoted E durable D (n @ b)"
  unfolding promoted_def
proof (elim exE conjE)
  fix s' v now l w b'
  assume p: "durable s b" "n = l @ w @ b'" "s' \<in> insert s D \<or> recorded durable s' b'" "durable (activeState s' v now) w" "readyEvidence E s' v b'"
  then have "s' \<in> D \<or> recorded durable s' (b' @ b)"
    using recorded_append [of durable s' b' "[]" b] unfolding recorded_def by (metis append.right_neutral append_Nil insert_iff)
  then show "\<exists>s v now l w b'. n @ b = l @ w @ b' \<and> (s \<in> D \<or> recorded durable s b')
      \<and> durable (activeState s v now) w \<and> readyEvidence E s v b'"
    using p readyEvidence_later [of E s' v b' b] by (metis append.assoc)
qed

text \<open>A reconciliation that reports a promotion has promoted.\<close>

definition reports :: "env \<Rightarrow> (mountState \<Rightarrow> event list \<Rightarrow> bool) \<Rightarrow> mountState set \<Rightarrow> startingOutcome \<Rightarrow> event list \<Rightarrow> bool" where
  "reports E durable D r n \<longleftrightarrow> (r = Some (startingReconcilePromoted, None) \<longrightarrow> promoted E durable D n)"

lemma reports_extensive: "extensive (reports E durable D)"
  using promoted_append [of E durable D _ "[]"] by (auto simp: extensive_def reports_def)

lemma reports_none [simp]: "reports E durable D None n" "reports E durable D (keep e) n" "reports E durable D (degraded e) n"
  "r \<noteq> startingReconcilePromoted \<Longrightarrow> reports E durable D (Some (r, x)) n"
  by (simp_all add: reports_def outcome_defs)

lemma emits_socket:
  "emits (validateReadyControlSocket E p) (\<lambda>r n. r = None \<longrightarrow> (\<exists>info. EvLstat p (Inr info) \<in> set n \<and> isRealSocket info))"
  unfolding validateReadyControlSocket_def host_defs by (intro emits_wp) auto

lemma emits_readyUnit:
  "emits (verifyStartingSystemdOwnership E s service v) (\<lambda>r n. r = None \<longrightarrow>
     sawDescription (SystemdUnit s) (attemptDescription s) n \<and> sawMainPID (SystemdUnit s) (vp_PID v) n)"
  unfolding verifyStartingSystemdOwnership_def
  by (intro emits_wp emits_orReturn [OF emits_verifyStartingSystemdMainPIDOwnership])
    (auto simp: mainVerified_def launcherVerified_def split: option.splits if_splits)

context mount_state_repository
begin

lemma emits_promoteActive:
  "emits (promoteActive E states s v) (\<lambda>r n. \<forall>a. r = Inr a \<longrightarrow>
     (\<exists>now w b. n = w @ b \<and> durable (activeState s v now) w \<and> a = activeState s v now))"
  unfolding promoteActive_def Let_def host_defs
  by (intro emits_wp emits_unlessErr [OF emits_removeAttemptStartupFiles] emits_unlessErr [OF write_law]) auto

lemma emits_promoting:
  assumes "EvIsMountPoint (StagingTarget s) (Inr True) \<in> set n0" and "ownershipVerified E (recordedExpectation s) v n0"
    and "\<exists>info. EvLstat (vp_ControlSocketPath v) (Inr info) \<in> set n0 \<and> isRealSocket info"
    and "sawDescription (SystemdUnit s) (attemptDescription s) n0" and "sawMainPID (SystemdUnit s) (vp_PID v) n0"
  shows "emits (promoteActive E states s v) (\<lambda>r n. (\<exists>a. r = Inr a) \<longrightarrow> promoted E durable {s} (n @ n0))"
proof (rule emits_conseq [OF emits_promoteActive], intro impI)
  fix r n
  assume "\<forall>a. r = Inr a \<longrightarrow> (\<exists>now w b. n = w @ b \<and> durable (activeState s v now) w \<and> a = activeState s v now)" "\<exists>a. r = Inr a"
  then obtain now w b where "n = w @ b" "durable (activeState s v now) w" by blast
  moreover have "readyEvidence E s v (b @ n0)"
    using assms unfolding readyEvidence_def ownershipVerified_def processEvidence_def by (fastforce simp: seen_append)
  ultimately show "promoted E durable {s} (n @ n0)"
    unfolding promoted_def by (metis append.assoc append_Nil singletonI)
qed

end

lemma ownershipVerified_later: "ownershipVerified E e v n \<Longrightarrow> ownershipVerified E e v (l @ n)"
  unfolding ownershipVerified_def processEvidence_def by (fastforce simp: seen_append)

lemma ownershipVerified_mid: "ownershipVerified E e v n \<Longrightarrow> ownershipVerified E e v (l @ n @ b)"
  unfolding ownershipVerified_def processEvidence_def by (fastforce simp: seen_append)

context mount_state_repository
begin

lemma emits_promoteReady:
  assumes "EvIsMountPoint (StagingTarget s) (Inr True) \<in> set n0" and "ownershipVerified E (recordedExpectation s) v n0"
  shows "emits (promoteReady E states s v) (\<lambda>r n. (\<exists>a. r = Inr a) \<longrightarrow> promoted E durable {s} (n @ n0))"
  unfolding promoteReady_def
  by (intro emits_unlessErr [OF emits_socket] emits_orReturn [OF emits_querySystemdUnit] emits_unlessErr [OF emits_readyUnit])
    (use assms in \<open>auto intro!: emits_promoting ownershipVerified_later simp: seen_append\<close>)

lemma emits_reconcileReady:
  assumes "EvIsMountPoint (StagingTarget s) (Inr True) \<in> set n0" and "ownershipVerified E (recordedExpectation s) v n0"
  shows "emits (reconcileReady E states s observation v) (\<lambda>r n. reports E durable {s} r (n @ n0))"
proof -
  have promoting: "emits (orReturn (promoteActive E states s v) keep (\<lambda>_. State_Monad.return (Some (startingReconcilePromoted, None))))
      (\<lambda>r n'. reports E durable {s} r (n' @ n))"
    if "EvIsMountPoint (StagingTarget s) (Inr True) \<in> set n" "ownershipVerified E (recordedExpectation s) v n"
      "\<exists>info. EvLstat (vp_ControlSocketPath v) (Inr info) \<in> set n \<and> isRealSocket info"
      "sawDescription (SystemdUnit s) (attemptDescription s) n" "sawMainPID (SystemdUnit s) (vp_PID v) n" for n
    by (rule emits_orReturn [OF emits_promoting [OF that]]) (auto intro: emits_return simp: reports_def outcome_defs)
  show ?thesis
    unfolding reconcileReady_def
    by (intro emits_unlessErr [OF emits_socket] emits_unlessErr [OF emits_readyUnit])
      (use assms in \<open>auto intro!: promoting ownershipVerified_later simp: seen_append\<close>)
qed

lemma emits_observeReadiness:
  "emits (observeReadiness E states s p) (\<lambda>r n. \<forall>a. r = Inl (Inr a) \<longrightarrow> promoted E durable {s} n)"
  unfolding observeReadiness_def host_defs
  by (intro emits_wp emits_orReturn [OF emits_verifyProcessOwnership] emits_bind_pre [OF emits_promoteReady])
    (auto simp: seen_append)

lemma emits_waitReady:
  "emits (waitReady E states s deadline p fuel) (\<lambda>r n. \<forall>a. r = Some (Inr a) \<longrightarrow> promoted E durable {s} n)"
proof (induction fuel)
  case 0
  then show ?case by (simp add: waitReady.simps emits_return)
next
  case (Suc fuel)
  have skip: "emits m (\<lambda>_ _. True) \<Longrightarrow> emits (State_Monad.bind m (\<lambda>e. State_Monad.return (Some (Inl e)))) (\<lambda>r n. \<forall>a. r = Some (Inr a) \<longrightarrow> P a n)"
    for m :: "error prog" and P :: "mountState \<Rightarrow> event list \<Rightarrow> bool"
    by (erule emits_bind_pre) (simp add: emits_return)
  have "grows (classifyReadinessFailure E s)"
    unfolding classifyReadinessFailure_def by (intro emits_intro)
  then have failure: "emits (classifyReadinessFailure E s) (\<lambda>_ _. True)" by (simp add: emits_only_def)
  show ?case
    unfolding waitReady.simps host_defs
    by (intro emits_bind_pre [OF emits_observeReadiness] emits_wp skip [OF failure] emits_conseq [OF Suc])
      (auto intro: promoted_append [of _ _ _ _ "[]", simplified])
qed

lemma emits_waiting:
  "emits (waitForMountAndPromote E fuel states s) (\<lambda>r n. \<forall>a. r = Some (Inr a) \<longrightarrow> promoted E durable {s} n)"
  unfolding waitForMountAndPromote_def by (intro emits_wp emits_waitReady) auto

end

context mount_state_repository
begin

lemma grows_reconciling:
  "grows (resumeStarting E fuel states s c)" "grows (repo_Read states v')"
  unfolding resumeStarting_def Let_def
  by (intro emits_intro grows_wait grows_repository; simp)+

lemma promoted_member: "promoted E durable' {s} n \<Longrightarrow> s \<in> D \<Longrightarrow> promoted E durable' D n"
  unfolding promoted_def by blast

lemma reports_resume:
  assumes "state \<in> D"
  shows "emits (resumeStarting E fuel states state credentials) (reports E durable D)"
proof -
  have waited: "emits (whenDone (waitForMountAndPromote E fuel states state) (\<lambda>result. State_Monad.return (case result of
      Inl e \<Rightarrow> keep e | Inr active \<Rightarrow> if Phase active = mountStatePhaseActive then Some (startingReconcilePromoted, None)
        else Some (startingReconcileResumed, None)))) (reports E durable D)"
    by (rule establish_whenDone [OF reports_extensive emits_waiting])
      (use assms in \<open>auto intro!: emits_return split: sum.split simp: reports_def outcome_defs intro: promoted_member\<close>)
  show ?thesis
    unfolding resumeStarting_def Let_def
    by (intro waited establish_intro reports_extensive emits_intro) simp_all
qed

lemma reports_switch: "emits (switchToFallback E fuel states state credentials) (reports E durable D)"
proof -
  have resumed: "emits (whenDone (resumeStarting E fuel states s credentials) (\<lambda>(result, err).
      State_Monad.return (Some (if err \<noteq> None then (startingReconcileSwitched, err) else (result, None)))))
      (\<lambda>r n. reports E durable D r (n @ w))" if "durable s w" for s w
    by (rule emits_conseq [where \<Phi> = "reports E durable (insert s D)"],
        rule establish_whenDone [OF reports_extensive reports_resume [of s "insert s D"]])
      (use promoted_recorded [where durable = durable, OF _ that] in \<open>auto intro!: emits_return simp: reports_def split: prod.split\<close>)
  have written: "emits (unlessErr (repo_Write states s) (\<lambda>e. keep (h e)) (whenDone (resumeStarting E fuel states s credentials) (\<lambda>(result, err).
      State_Monad.return (Some (if err \<noteq> None then (startingReconcileSwitched, err) else (result, None))))))
      (reports E durable D)" for s and h :: "error \<Rightarrow> error"
    by (rule emits_unlessErr [OF write_law]) (auto intro: resumed simp del: not_None_eq)
  show ?thesis
    unfolding switchToFallback_def Let_def
    by (intro written establish_intro reports_extensive emits_intro) (simp_all add: host_defs emits_intro)
qed

lemma reports_absent: "state \<in> D \<Longrightarrow>
  emits (handleAbsentStarting E fuel states state credentials process mounted failed remaining) (reports E durable D)"
  unfolding handleAbsentStarting_def
  by (intro reports_resume reports_switch establish_intro reports_extensive emits_intro grows_repository)
    (simp_all add: host_defs emits_intro)

lemma reports_expiry: "state \<in> D \<Longrightarrow>
  emits (failExpiredStarting E fuel states state credentials process service) (reports E durable D)"
  unfolding failExpiredStarting_def
  by (intro reports_absent establish_intro reports_extensive emits_intro grows_cleanup) simp_all

lemma reports_units:
  assumes "state \<in> D"
  shows "emits (reconcileDeadUnit E fuel states state credentials allowCleanup process mounted remaining) (reports E durable D)"
    "emits (reconcileNoUnit E fuel states state credentials allowCleanup process mounted remaining) (reports E durable D)"
  unfolding reconcileDeadUnit_def reconcileNoUnit_def
  by (intro reports_absent assms establish_intro reports_extensive emits_intro grows_cleanup; simp)+

lemma reports_reconcile:
  assumes "state \<in> D"
  shows "emits (Starting_Reconcile E fuel states state credentials allowCleanup rounds) (reports E durable D)"
proof (induction rounds)
  case 0
  show ?case by (simp add: Starting_Reconcile.simps emits_return)
next
  case (Suc rounds)
  have cases: "emits (case s of systemdUnitActive \<Rightarrow> a | systemdUnitActivating \<Rightarrow> b | systemdUnitInactive \<Rightarrow> c
     | systemdUnitFailed \<Rightarrow> d | systemdUnitNotFound \<Rightarrow> e | systemdUnitQueryError \<Rightarrow> f) Q"
    if "emits a Q" "emits b Q" "emits c Q" "emits d Q" "emits e Q" "emits f Q"
    for s Q and a b c d e f :: "startingOutcome prog"
    using that by (cases s) simp_all
  have undecided: "emits m (\<lambda>r n. reports E durable D r (n @ b))" if "emits m (reports E durable D)" for m b
    by (rule emits_conseq [OF that]) (use reports_extensive [of E durable D] in \<open>simp add: extensive_def\<close>)
  have ready: "emits (reconcileReady E states state observation v) (\<lambda>r n'. reports E durable D r (n' @ n))"
    if "EvIsMountPoint (StagingTarget state) (Inr True) \<in> set n" "ownershipVerified E (recordedExpectation state) v n" for observation v n
    by (rule emits_conseq [OF emits_reconcileReady [OF that]]) (use assms in \<open>auto simp: reports_def intro: promoted_member\<close>)
  have waited: "emits (whenDone (waitForMountAndPromote E fuel states state) (\<lambda>result.
       case result of
         Inr active \<Rightarrow>
           State_Monad.return (Some
             (if Phase active = mountStatePhaseActive then startingReconcilePromoted
              else startingReconcileResumed, None))
       | Inl e \<Rightarrow> do {
           ctx \<leftarrow> CtxErr E;
           if ctx \<noteq> None then State_Monad.return (keep e)
           else do {
             now' \<leftarrow> Now E;
             if remainingStartupTimeout state now' = Inr 0
             then Starting_Reconcile E fuel states state credentials allowCleanup rounds
             else State_Monad.return (keep e) }})) (reports E durable D)"
  proof (rule establish_whenDone [OF reports_extensive emits_waiting], goal_cases)
    case (2 x n)
    show ?case
    proof (cases x)
      case (Inl e)
      have "emits (do {
           ctx \<leftarrow> CtxErr E;
           if ctx \<noteq> None then State_Monad.return (keep e)
           else do {
             now' \<leftarrow> Now E;
             if remainingStartupTimeout state now' = Inr 0
             then Starting_Reconcile E fuel states state credentials allowCleanup rounds
             else State_Monad.return (keep e) }}) (reports E durable D)"
        by (intro establish_intro reports_extensive Suc) (simp_all add: host_defs emits_intro)
      then show ?thesis using Inl undecided by simp
    next
      case (Inr active)
      then show ?thesis using 2 assms by (auto intro!: emits_return intro: promoted_member simp: reports_def)
    qed
  qed simp
  show ?case
    unfolding Starting_Reconcile.simps host_defs
    by (intro emits_wp emits_orReturn [OF emits_observeStartingProcess] emits_orReturn [OF emits_querySystemdUnit] cases)
      (use assms in \<open>auto intro!: ready undecided [OF waited [unfolded host_defs]] undecided [OF reports_expiry]
        undecided [OF reports_units(1)] undecided [OF reports_units(2)] ownershipVerified_mid
        simp: startingObserved_def simp del: not_None_eq\<close>)
qed

end

section \<open>An attempt that is ready\<close>

text \<open>The host of \<open>exActive\<close>, on which the record still says starting.\<close>

definition exReady :: env where
  "exReady = exLive\<lparr>e_DecodeState := \<lambda>body. Some exStarting\<rparr>"

lemma exReady_answers [simp]:
  "e_ReadFile exReady tr ''/host-proc/7/stat'' = Inr exStat"
  "e_ReadFile exReady tr ''/host-proc/7/cmdline'' = Inr exCmdline"
  "e_ReadFile exReady tr ''/host-proc/7/cgroup'' = Inr exCgroup"
  "e_ReadFile exReady tr (ProcessStatePath exActive) = Inr ''x''"
  "e_ReadFile exReady tr exStatePath = Inr ''x''"
  "e_Readlink exReady tr p = Inr (BinaryPath exActive)" "e_IsMountPoint exReady tr p = Inr True"
  "e_Lstat exReady tr p = Inr \<lparr>fi_kind = if p = ControlSocketPath exActive then Socket else Regular,
     fi_perm = perm600, fi_size = 1\<rparr>"
  "e_Exec exReady tr c = (\<lparr>cmd_Stdout = exShow (cmd_Args c), cmd_Stderr = [], cmd_ExitCode = 0\<rparr>, None)"
  "e_DecodeProcess exReady b = Some exProcess" "e_Now exReady tr = 0" "e_CtxErr exReady tr = None"
  "e_DecodeState exReady b = Some exStarting" "e_NewAttemptID exReady tr = Inr zeroAttempt" "e_Remove exReady tr p = None"
  "e_OpenFile exReady tr p flag mode = None" "e_FileWrite exReady tr p b = Inr (int (length b))" "e_FileSync exReady tr p = None"
  "e_FileClose exReady tr p = None" "e_Chmod exReady tr p mode = None" "e_Rename exReady tr a b' = None"
  by (simp_all add: exReady_def exLive_def calmHost_def ex_defs hostRuntimeDir_def exStatePath_def)

lemma ex_same: "StagingTarget exStarting = exTarget" "SystemdUnit exStarting = SystemdUnit exActive"
  "VolumeID exStarting = VolumeID exActive" "AttemptID exStarting = AttemptID exActive" "BinaryPath exStarting = BinaryPath exActive"
  "StagingTarget exActive = exTarget"
  by (simp_all add: ex_defs)

definition exUnknown :: processOwnershipExpectation where
  "exUnknown = exExpectation\<lparr>exp_PID := 0, exp_PIDStartTime := []\<rparr>"

lemma exUnknown_valid [simp]: "validateProcessOwnershipExpectation exUnknown = Inr exTarget"
  "exUnknown\<lparr>exp_PID := 7, exp_PIDStartTime := ''9''\<rparr> = exExpectation" "exp_PID exUnknown = 0"
  "exp_PIDStartTime exUnknown = []" "exp_StagingTarget exUnknown = exTarget" "exp_EffectiveUID exUnknown = ''0''"
  using ex_parts drive9ControlSocketPath_root [OF ex_parts(6)]
  by (simp_all add: validateProcessOwnershipExpectation_def exUnknown_def exExpectation_def ex_defs del: append.simps)

lemma ex_same_unit: "recordedExpectation exStarting = exUnknown" "mainExpectation exStarting 7 ''9'' = exExpectation"
  "mountSystemdUnitDescription exStarting = Inr exDescription"
proof -
  show "mountSystemdUnitDescription exStarting = Inr exDescription"
    using ex_parts exNames_Inr [of "CHR ''1''"]
    by (simp add: ex_defs mountSystemdUnitDescription_def exDescription_def del: append.simps)
qed (simp_all add: recordedExpectation_def exUnknown_def mainExpectation_def exExpectation_def ex_same ex_defs)

lemma exReady_process: "yields (verifyProcessOwnership exReady exUnknown) (Inr exIdentity)"
  by (simp add: yields_def verifyProcessOwnership_def readDrive9ProcessState_def readHostProcessStartTime_def
      verifyHostPIDOwnership_def stableStartTime_def host_defs run_simps IsRegular_def maxProcessStateLength_def
      exBinary_live exIdentity_def)

lemma exReady_observed: "yields (observeStartingProcess exReady exStarting)
    (Inr \<lparr>sp_State = startingProcessVerified, sp_Verified = exIdentity\<rparr>)"
  by (simp add: yields_def observeStartingProcess_def drive9SupervisorIdentityAlive_def verifyProcessOwnership_def
      readDrive9ProcessState_def readHostProcessStartTime_def verifyHostPIDOwnership_def stableStartTime_def host_defs run_simps
      IsRegular_def maxProcessStateLength_def exBinary_live exIdentity_def ex_same ex_same_unit)

lemma exReady_unit: "yields (querySystemdUnit exReady (SystemdUnit exActive))
    (Inr \<lparr>so_State = systemdUnitActive, so_LoadState = ''loaded'', so_ActiveState = ''active'', so_SubState = ''running''\<rparr>)"
  "yields (verifyMountSystemdUnitDescription exReady exStarting) None"
  "yields (querySystemdMainPID exReady (SystemdUnit exActive)) (Inr 7)"
  using ex_shown ex_main_pid
  by (simp_all add: yields_def querySystemdUnit_def verifyMountSystemdUnitDescription_def querySystemdUnitDescription_def
      querySystemdMainPID_def runOutput_def host_defs run_simps Let_def ex_same ex_same_unit del: append.simps)

lemma exReady_main: "yields (verifyStartingSystemdMainPIDOwnership exReady exStarting) (Inr (Some exIdentity))"
proof -
  have start: "yields (readHostProcessStartTime exReady 7) (Inr ''9'')"
    by (simp add: yields_def readHostProcessStartTime_def host_defs run_simps)
  have host: "yields (verifyHostPIDOwnership exReady exExpectation ''9'' True)
      (Inr (exIdentity\<lparr>vp_ControlSocketPath := [], vp_ProcessStatePath := []\<rparr>))"
    by (simp add: yields_def readHostProcessStartTime_def verifyHostPIDOwnership_def stableStartTime_def host_defs run_simps
        exBinary_live exIdentity_def)
  show ?thesis
    unfolding verifyStartingSystemdMainPIDOwnership_def
    by (auto simp: ex_same ex_same_unit withRuntimePaths_def orEmpty_def exIdentity_def
        intro!: yields_unlessErr [OF exReady_unit(2)] yields_orReturn [OF exReady_unit(3)] yields_orReturn [OF start]
          yields_bind [OF host] yields_return)
qed

lemma exReady_active: "activeState exStarting exIdentity 0 = exActive"
  by (simp add: activeState_def exIdentity_def ex_defs)

lemma exReady_path: "statePath ''/s'' exVolume = Inr exStatePath" "VolumeID exStarting = exVolume" "VolumeID exActive = exVolume"
  using exHost_path(1) by (simp_all add: ex_defs exPath_def exStatePath_def)

lemma exReady_write: "yields (store_Write exReady ''/s'' exActive) None"
proof -
  have legal: "validateMountStateTransition (Some exStarting) exActive = None" using ex_writes(2) by (simp add: mountWrite_def)
  have current: "run_state (store_Current exReady ''/s'' exVolume) tr =
      (Inr (Some exStarting), EvReadFile exStatePath (Inr ''x'')
        # EvLstat exStatePath (Inr \<lparr>fi_kind = Regular, fi_perm = perm600, fi_size = 1\<rparr>) # tr)" for tr
    using exStarting_valid exReady_path
    by (simp add: store_Current_def store_Read_def host_defs run_simps IsRegular_def maxMountStateLength_def decodeMountState_def)
  have small: "\<not> maxMountStateLength < Suc (Suc 0)" by (simp add: maxMountStateLength_def)
  have content: "body \<noteq> [] \<Longrightarrow> run_state (writeHostFile exReady f body) tr = (None, EvFileWrite f body (Inr (int (length body))) # tr)" for f body tr
    by (subst writeHostFile.simps) (simp add: FileWrite_def run_simps writeHostFile.simps [of _ _ "[]"])
  have encoded: "e_MarshalState exReady s = ''x''" for s by (simp add: exReady_def exLive_def calmHost_def)
  show ?thesis
    unfolding yields_def store_Write_def writeAtomicStateFile_def publishTemp_def syncDirectory_def host_defs
    using exHost_path(2) exReady_path
    by (simp add: run_simps exActive_valid legal small current content encoded Let_def)
qed

lemma exReady_removed: "yields (removeAttemptStartupFiles exReady exStarting) None"
  using ex_parts exNames_Inr [of "CHR ''1''"]
  by (simp add: yields_def removeAttemptStartupFiles_def removalErrors_def host_defs run_simps ex_defs del: append.simps)

lemma exReady_promoted: "yields (promoteActive exReady (mountStateStore exReady (newMountStateStore ''/s'')) exStarting exIdentity) (Inr exActive)"
proof -
  have stored: "yields (repo_Write (mountStateStore exReady (newMountStateStore ''/s'')) exActive) None"
    using exReady_write exHost_path(2) by (simp add: mountStateStore_def newMountStateStore_def)
  have now: "yields (Now exReady) 0" by (simp add: Now_def yields_perform)
  show ?thesis
    unfolding promoteActive_def
    by (intro yields_unlessErr [OF exReady_removed] yields_bind [OF now] yields_let; unfold exReady_active)
      (intro yields_unlessErr [OF stored] yields_return)
qed

lemma exReady_reconciled:
  "yields (Starting_Reconcile exReady 361 (mountStateStore exReady (newMountStateStore ''/s'')) exStarting None False 2)
     (Some (startingReconcilePromoted, None))"
proof -
  have looks: "yields (CtxErr exReady) None" "yields (IsMountPoint exReady p) (Inr True)" for p
    by (simp_all add: host_defs yields_perform)
  have socket: "yields (validateReadyControlSocket exReady (ControlSocketPath exActive)) None"
    by (simp add: yields_def validateReadyControlSocket_def host_defs run_simps isRealSocket_def)
  have running: "serviceRunning \<lparr>so_State = systemdUnitActive, so_LoadState = ''loaded'', so_ActiveState = ''active'', so_SubState = ''running''\<rparr>"
    by (simp add: serviceRunning_def)
  have unit: "yields (verifyStartingSystemdOwnership exReady exStarting
      \<lparr>so_State = systemdUnitActive, so_LoadState = ''loaded'', so_ActiveState = ''active'', so_SubState = ''running''\<rparr> exIdentity) None"
    unfolding verifyStartingSystemdOwnership_def using running
    by (auto intro!: yields_orReturn [OF exReady_main] yields_return simp: exIdentity_def)
  have same: "vp_ControlSocketPath exIdentity = ControlSocketPath exActive" by (simp add: exIdentity_def)
  have ready: "yields (reconcileReady exReady (mountStateStore exReady (newMountStateStore ''/s'')) exStarting
      \<lparr>so_State = systemdUnitActive, so_LoadState = ''loaded'', so_ActiveState = ''active'', so_SubState = ''running''\<rparr> exIdentity)
      (Some (startingReconcilePromoted, None))"
    unfolding reconcileReady_def same
    by (intro yields_unlessErr [OF socket] yields_unlessErr [OF unit] yields_orReturn [OF exReady_promoted] yields_return)
  have "validateMountState exStarting = None \<and> Phase exStarting = mountStatePhaseStarting"
    using exStarting_valid ex_phases(1) by simp
  then show ?thesis
    unfolding numeral_2_eq_2 Starting_Reconcile.simps ex_same(2)
    by (intro yields_unlessErr [OF looks(1)] yields_if yields_orReturn [OF looks(2)] yields_orReturn [OF exReady_observed]
        yields_orReturn [OF exReady_unit(1)]) (simp_all del: newMountStateStore_def, use ready in simp)
qed

section \<open>Properties\<close>

text \<open>
  C2: an attempt is reported as promoted only if it was. The active record of the recorded attempt,
  or of the fallback that was recorded in its place, became durable, and before that this
  reconciliation saw the target mounted, the process-state file and /proc naming one live owner of
  the recorded executable, its control socket, and the unit with the description of the attempt
  and that owner as its main process.
\<close>

theorem promotion_verified:
  assumes "run_state (Starting_Reconcile E fuel (mountStateStore E (newMountStateStore dir)) state credentials allowCleanup rounds) tr
    = (Some (startingReconcilePromoted, None), n @ tr)"
  shows "\<exists>s v now later w earlier. n = later @ w @ earlier
    \<and> (s = state \<or> recorded (stateDurable E (newMountStateStore dir)) s earlier)
    \<and> stateDurable E (newMountStateStore dir) (activeState s v now) w \<and> readyEvidence E s v earlier"
  using emits_ran [OF node_store.reports_reconcile [of state "{state}"] assms]
  by (auto simp: reports_def promoted_def)

theorem promotion_verified_witness:
  "\<exists>s v now w earlier. (s = exStarting \<or> recorded (stateDurable exReady (newMountStateStore ''/s'')) s earlier)
     \<and> stateDurable exReady (newMountStateStore ''/s'') (activeState s v now) w \<and> readyEvidence exReady s v earlier"
proof -
  obtain n where "run_state (Starting_Reconcile exReady 361 (mountStateStore exReady (newMountStateStore ''/s'')) exStarting None False 2) []
      = (Some (startingReconcilePromoted, None), n @ [])"
    using exReady_reconciled unfolding yields_def by blast
  from promotion_verified [OF this] show ?thesis by blast
qed

end
