(* ===== verification/NoState.thy ===== *)
theory NoState
  imports MountStop
begin

text \<open>
  \<open>internal/driver/node_no_state.go\<close>: a volume without a durable record. Before a mount is staged
  anew, whatever a lost record has left on the host is observed, must be provably dead, and is
  removed; the cleanup is checked to have converged.
\<close>

record noStateMountObservation =
  UnitState :: systemdUnitState
  DeadRuntimeArtifacts :: bool

definition NeedsCleanup :: "noStateMountObservation \<Rightarrow> bool" where
  "NeedsCleanup obs \<longleftrightarrow>
     DeadRuntimeArtifacts obs \<or> UnitState obs = systemdUnitInactive \<or> UnitState obs = systemdUnitFailed"

text \<open>The unit of the volume: it must not run, and if it is there it must be the volume's.\<close>

definition observeNoStateUnit :: "env \<Rightarrow> string \<Rightarrow> string \<Rightarrow> (error + systemdUnitState) prog" where
  "observeNoStateUnit E unitName volumeID =
     orReturn (querySystemdUnit E unitName) Inl (\<lambda>unit.
     if serviceRunning unit
     then State_Monad.return (Inl (ownershipError ''live systemd service exists without durable state''))
     else
     unlessErr (if so_State unit = systemdUnitInactive \<or> so_State unit = systemdUnitFailed
                then verifySystemdUnitDescriptionForVolume E unitName volumeID else State_Monad.return None) Inl (
       State_Monad.return (Inr (so_State unit))))"

definition observeNoStateProcess :: "env \<Rightarrow> string \<Rightarrow> string \<Rightarrow> string \<Rightarrow> (error + bool) prog" where
  "observeNoStateProcess E stagingTarget processStatePath controlSocketPath = do {
     r \<leftarrow> Lstat E processStatePath;
     case r of
       Inl e \<Rightarrow>
         if errors_Is e ErrNotExist then State_Monad.return (Inr False)
         else State_Monad.return (Inl (Wrap ''inspect no-state process artifact'' e))
     | Inr info \<Rightarrow>
         orReturn (readDrive9ProcessState E processStatePath) Inl (\<lambda>processState.
         if validateDrive9SupervisorProcessState processState stagingTarget controlSocketPath \<noteq> None
         then State_Monad.return (Inl (ownershipError ''no-state process artifact identity mismatch''))
         else
         orReturn (drive9SupervisorIdentityAlive E processState)
             (\<lambda>_. Inl (ownershipError ''cannot prove no-state process is dead'')) (\<lambda>alive.
         if alive then State_Monad.return (Inl (ownershipError ''live process exists without durable state''))
         else State_Monad.return (Inr True))) }"

definition observeNoStateSocket :: "env \<Rightarrow> string \<Rightarrow> (error + bool) prog" where
  "observeNoStateSocket E controlSocketPath = do {
     r \<leftarrow> Lstat E controlSocketPath;
     case r of
       Inr info \<Rightarrow>
         if \<not> isRealSocket info
         then State_Monad.return (Inl (ownershipError ''no-state control socket is not a real Unix socket''))
         else State_Monad.return (Inr True)
     | Inl e \<Rightarrow>
         if errors_Is e ErrNotExist then State_Monad.return (Inr False)
         else State_Monad.return (Inl (Wrap ''inspect no-state control socket'' e)) }"

definition observeNoStateMount :: "env \<Rightarrow> string \<Rightarrow> string \<Rightarrow> (error + noStateMountObservation) prog" where
  "observeNoStateMount E volumeID stagingTarget =
     ifOk (newVolumeHostNames volumeID zeroAttempt) Inl (\<lambda>names.
     if canonicalStagingTarget stagingTarget \<noteq> Inr stagingTarget
     then State_Monad.return (Inl (Errorf ''invalid no-state staging target''))
     else
     orReturn (IsMountPoint E stagingTarget) (\<lambda>e. Inl (Wrap ''observe no-state mount'' e)) (\<lambda>mounted.
     if mounted
     then State_Monad.return (Inl (ownershipError ''staging target is mounted without durable state''))
     else
     orReturn (observeNoStateUnit E (names_SystemdUnit names) volumeID) Inl (\<lambda>unitState.
     ifOk (drive9ProcessStatePath stagingTarget) Inl (\<lambda>processStatePath.
     ifOk (drive9ControlSocketPath stagingTarget ''0'') Inl (\<lambda>controlSocketPath.
     orReturn (observeNoStateProcess E stagingTarget processStatePath controlSocketPath) Inl (\<lambda>process.
     orReturn (observeNoStateSocket E controlSocketPath) Inl (\<lambda>socket.
       State_Monad.return (Inr \<lparr>UnitState = unitState, DeadRuntimeArtifacts = process \<or> socket\<rparr>))))))))"

definition noStateIdentity :: "string \<Rightarrow> string \<Rightarrow> volumeHostNames \<Rightarrow> mountState" where
  "noStateIdentity volumeID stagingTarget names =
     noMountState\<lparr>VolumeID := volumeID, StagingTarget := stagingTarget, SystemdUnit := names_SystemdUnit names\<rparr>"

definition resetNoStateUnit :: "env \<Rightarrow> mountState \<Rightarrow> error option prog" where
  "resetNoStateUnit E state =
     unlessErr (resetFailedUnit E state) Some (
     orReturn (querySystemdUnit E (SystemdUnit state))
         (\<lambda>e. Some (Wrap ''no-state unit cleanup incomplete'' e)) (\<lambda>unit.
       State_Monad.return (fail_if (so_State unit \<noteq> systemdUnitNotFound)
         (Wrap ''no-state unit cleanup incomplete'' (Errorf ''unit remains'')))))"

definition reconcileNoStateMount :: "env \<Rightarrow> string \<Rightarrow> string \<Rightarrow> noStateMountObservation \<Rightarrow> error option prog" where
  "reconcileNoStateMount E volumeID stagingTarget expected =
     orReturn (observeNoStateMount E volumeID stagingTarget) Some (\<lambda>current.
     if current \<noteq> expected
     then State_Monad.return (Some (ownershipError ''no-state runtime changed before cleanup''))
     else
     ifOk (newVolumeHostNames volumeID zeroAttempt) Some (\<lambda>names.
     let state = noStateIdentity volumeID stagingTarget names in
     unlessErr (if UnitState current = systemdUnitInactive \<or> UnitState current = systemdUnitFailed
                then resetNoStateUnit E state else State_Monad.return None) Some (
     unlessErr (if DeadRuntimeArtifacts current then removeVerifiedDeadRuntimeArtifacts E state
                else State_Monad.return None) Some (
     orReturn (observeNoStateMount E volumeID stagingTarget) Some (\<lambda>final.
       State_Monad.return (fail_if (UnitState final \<noteq> systemdUnitNotFound \<or> NeedsCleanup final)
         (Errorf ''no-state runtime cleanup did not converge'')))))))"

section \<open>What is observed\<close>

text \<open>An observation of a volume without a record shows that nothing of it is alive.\<close>

definition nothingAlive :: "env \<Rightarrow> string \<Rightarrow> string \<Rightarrow> noStateMountObservation \<Rightarrow> event list \<Rightarrow> bool" where
  "nothingAlive E volumeID stagingTarget obs n \<longleftrightarrow>
     (\<exists>names p c. newVolumeHostNames volumeID zeroAttempt = Inr names
        \<and> canonicalStagingTarget stagingTarget = Inr stagingTarget
        \<and> drive9ProcessStatePath stagingTarget = Inr p \<and> drive9ControlSocketPath stagingTarget ''0'' = Inr c
        \<and> EvIsMountPoint stagingTarget (Inr False) \<in> set n
        \<and> sawUnit (names_SystemdUnit names) (UnitState obs) n
        \<and> UnitState obs \<noteq> systemdUnitActive \<and> UnitState obs \<noteq> systemdUnitActivating
        \<and> (UnitState obs = systemdUnitInactive \<or> UnitState obs = systemdUnitFailed \<longrightarrow>
             (\<exists>a. attemptIDPattern a
                \<and> sawDescription (names_SystemdUnit names) (''drive9-csi:'' @ volumeID @ '':'' @ a) n))
        \<and> (sawDeadSupervisor E stagingTarget p c n \<or> (\<exists>e. EvLstat p (Inl e) \<in> set n \<and> errors_Is e ErrNotExist))
        \<and> (\<not> DeadRuntimeArtifacts obs \<longrightarrow>
             (\<forall>path\<in>{p, c}. \<exists>e. EvLstat path (Inl e) \<in> set n \<and> errors_Is e ErrNotExist)))"

lemma nothingAlive_append [intro]:
  "nothingAlive E v t obs n1 \<Longrightarrow> nothingAlive E v t obs (n2 @ n1)"
  "nothingAlive E v t obs n2 \<Longrightarrow> nothingAlive E v t obs (n2 @ n1)"
  unfolding nothingAlive_def by (fastforce simp: seen_append)+

lemma emits_observeNoStateUnit:
  "emits (observeNoStateUnit E u v) (\<lambda>r n. list_all hostObservation n
     \<and> (\<forall>s. r = Inr s \<longrightarrow> sawUnit u s n \<and> s \<noteq> systemdUnitActive \<and> s \<noteq> systemdUnitActivating
          \<and> (s = systemdUnitInactive \<or> s = systemdUnitFailed \<longrightarrow>
               (\<exists>a. attemptIDPattern a \<and> sawDescription u (''drive9-csi:'' @ v @ '':'' @ a) n))))"
proof -
  have d: "emits (if s = systemdUnitInactive \<or> s = systemdUnitFailed
        then verifySystemdUnitDescriptionForVolume E u v else State_Monad.return None)
      (\<lambda>r n. list_all hostObservation n \<and> (r = None \<longrightarrow> s = systemdUnitInactive \<or> s = systemdUnitFailed \<longrightarrow>
         (\<exists>a. attemptIDPattern a \<and> sawDescription u (''drive9-csi:'' @ v @ '':'' @ a) n)))" for s
    by (intro emits_wp_if emits_conseq [OF emits_verifySystemdUnitDescriptionForVolume] emits_return) auto
  show ?thesis
    unfolding observeNoStateUnit_def
    by (intro emits_wp emits_orReturn [OF emits_querySystemdUnit] emits_unlessErr [OF d])
      (auto simp: seen_append serviceRunning_def)
qed

lemma emits_observeNoStateProcess:
  "emits (observeNoStateProcess E t p c) (\<lambda>r n. list_all hostObservation n
     \<and> (r = Inr True \<longrightarrow> sawDeadSupervisor E t p c n)
     \<and> (r = Inr False \<longrightarrow> (\<exists>e. EvLstat p (Inl e) \<in> set n \<and> errors_Is e ErrNotExist)))"
  unfolding observeNoStateProcess_def host_defs
  by (intro emits_wp emits_orReturn [OF emits_read_process] emits_orReturn [OF emits_alive])
    (auto simp: sawDeadSupervisor_def seen_append)

lemma emits_observeNoStateSocket:
  "emits (observeNoStateSocket E c) (\<lambda>r n. list_all hostObservation n
     \<and> (r = Inr False \<longrightarrow> (\<exists>e. EvLstat c (Inl e) \<in> set n \<and> errors_Is e ErrNotExist)))"
  unfolding observeNoStateSocket_def host_defs by (intro emits_wp) auto

lemma emits_observeNoStateMount:
  "emits (observeNoStateMount E v t) (\<lambda>r n. list_all hostObservation n
     \<and> (\<forall>obs. r = Inr obs \<longrightarrow> nothingAlive E v t obs n))"
  unfolding observeNoStateMount_def host_defs
  by (intro emits_wp emits_orReturn [OF emits_observeNoStateUnit] emits_orReturn [OF emits_observeNoStateProcess]
      emits_orReturn [OF emits_observeNoStateSocket])
    (auto simp: nothingAlive_def seen_append)

section \<open>The cleanup converges\<close>

definition noLiveState :: noStateMountObservation where
  "noLiveState = \<lparr>UnitState = systemdUnitNotFound, DeadRuntimeArtifacts = False\<rparr>"

text \<open>What the cleanup does besides observing: reset the unit, remove the two files of the supervisor.\<close>

definition cleansNoState :: "string \<Rightarrow> string \<Rightarrow> event list \<Rightarrow> bool" where
  "cleansNoState volumeID stagingTarget n \<longleftrightarrow>
     (\<forall>e\<in>set n. hostObservation e
        \<or> (\<exists>names. newVolumeHostNames volumeID zeroAttempt = Inr names \<and> resets (names_SystemdUnit names) e)
        \<or> (\<exists>p c. drive9ProcessStatePath stagingTarget = Inr p \<and> drive9ControlSocketPath stagingTarget ''0'' = Inr c
             \<and> removesOnly {p, c} e))"

lemma cleansNoState_append [simp]:
  "cleansNoState v t (n2 @ n1) \<longleftrightarrow> cleansNoState v t n2 \<and> cleansNoState v t n1" "cleansNoState v t []"
  by (auto simp: cleansNoState_def)

lemma cleansNoState_observations: "list_all hostObservation n \<Longrightarrow> cleansNoState v t n"
  by (auto simp: cleansNoState_def list_all_iff)

lemma noStateIdentity_simps [simp]: "StagingTarget (noStateIdentity v t names) = t"
  "SystemdUnit (noStateIdentity v t names) = names_SystemdUnit names"
  by (simp_all add: noStateIdentity_def noMountState_def)

lemma emits_resetNoStateUnit:
  assumes "newVolumeHostNames v zeroAttempt = Inr names"
  shows "emits (resetNoStateUnit E (noStateIdentity v t names)) (\<lambda>r n. cleansNoState v t n)"
  unfolding resetNoStateUnit_def resetFailedUnit_def
  using assms
  by (intro emits_wp emits_unlessErr [OF emits_runOk] emits_orReturn [OF emits_querySystemdUnit])
    (auto simp: cleansNoState_def list_all_iff)

lemma emits_removeNoState:
  "emits (removeVerifiedDeadRuntimeArtifacts E (noStateIdentity v t names)) (\<lambda>r n. cleansNoState v t n)"
proof (rule emits_conseq [OF emits_removeVerifiedDeadRuntimeArtifacts])
  fix r n
  assume "cleanupRun E (noStateIdentity v t names) r n"
  then show "cleansNoState v t n"
    unfolding cleanupRun_def cleanedArtifacts_def cleansNoState_def by (fastforce simp: list_all_iff)
qed

lemma noLiveState_iff:
  "UnitState final = systemdUnitNotFound \<and> \<not> NeedsCleanup final \<longleftrightarrow> final = noLiveState"
  by (cases final) (auto simp: NeedsCleanup_def noLiveState_def)

lemma emits_reconcileNoStateMount:
  "emits (reconcileNoStateMount E v t expected) (\<lambda>r n. cleansNoState v t n
     \<and> (r = None \<longrightarrow> (\<exists>final earlier. n = final @ earlier \<and> list_all hostObservation final
          \<and> nothingAlive E v t noLiveState final)))"
proof -
  have reset: "emits (if b then resetNoStateUnit E (noStateIdentity v t names) else State_Monad.return None)
      (\<lambda>r n. cleansNoState v t n)" if "newVolumeHostNames v zeroAttempt = Inr names" for b names
    using emits_resetNoStateUnit [OF that] by (simp add: emits_return)
  have remove: "emits (if b then removeVerifiedDeadRuntimeArtifacts E (noStateIdentity v t names) else State_Monad.return None)
      (\<lambda>r n. cleansNoState v t n)" for b names
    using emits_removeNoState by (simp add: emits_return)
  show ?thesis
    unfolding reconcileNoStateMount_def Let_def
  proof (intro emits_wp emits_orReturn [OF emits_observeNoStateMount] emits_unlessErr [OF reset]
      emits_unlessErr [OF remove], goal_cases)
    case (8 current n1 names n2 n3 final n4)
    then have "fail_if (UnitState final \<noteq> systemdUnitNotFound \<or> NeedsCleanup final) e = None \<Longrightarrow> final = noLiveState" for e :: error
      by (simp add: noLiveState_iff [symmetric])
    with 8 show ?case by (fastforce intro: cleansNoState_observations)
  qed (auto intro: cleansNoState_observations)
qed

text \<open>
  C18: a volume without a durable record is only taken over when nothing of it is alive: the cleanup
  observes, resets the volume's unit and removes the two files of its dead supervisor, nothing
  else; and when it reports success, its last observations show the staging target unmounted, the
  unit unknown to systemd, and no process-state file or control socket.
\<close>

theorem no_state_cleanup_converges:
  assumes "run_state (reconcileNoStateMount E volumeID stagingTarget expected) tr = (r, n @ tr)"
  shows "cleansNoState volumeID stagingTarget n
    \<and> (r = None \<longrightarrow> (\<exists>final earlier. n = final @ earlier \<and> list_all hostObservation final
         \<and> nothingAlive E volumeID stagingTarget noLiveState final))"
  using emits_run [OF emits_reconcileNoStateMount assms] by auto

text \<open>On the empty host of the witnesses nothing is left of the volume.\<close>

definition exNoState :: "event list" where
  "exNoState = [EvLstat (ControlSocketPath exActive) (Inl (Sentinel ErrNotExist)),
     EvLstat (ProcessStatePath exActive) (Inl (Sentinel ErrNotExist)), exQuery, EvIsMountPoint exTarget (Inr False)]"

lemma exGone_no_state_unit:
  "run_state (observeNoStateUnit exGone (names_SystemdUnit (exNames (CHR ''0''))) v) tr = (Inr systemdUnitNotFound, exQuery # tr)"
proof -
  have unit: "names_SystemdUnit (exNames (CHR ''0'')) = SystemdUnit exActive" by (simp add: ex_defs)
  show ?thesis
    unfolding unit by (simp add: observeNoStateUnit_def serviceRunning_def run_simps exGone_query exNotFound_def)
qed

lemmas exGone_no_state_run = exGone_no_state_unit [simplified]

lemma exGone_no_state:
  "run_state (observeNoStateMount exGone exVolume exTarget) tr = (Inr noLiveState, exNoState @ tr)"
  using ex_parts(6)
  by (simp add: observeNoStateMount_def observeNoStateProcess_def observeNoStateSocket_def
      host_defs run_simps exGone_no_state_run exNoState_def noLiveState_def)

lemma exGone_no_state_cleanup:
  "run_state (reconcileNoStateMount exGone exVolume exTarget noLiveState) [] = (None, (exNoState @ exNoState) @ [])"
  by (simp add: reconcileNoStateMount_def run_simps exGone_no_state noLiveState_def NeedsCleanup_def Let_def)

theorem no_state_cleanup_converges_witness:
  "cleansNoState exVolume exTarget (exNoState @ exNoState)
     \<and> (\<exists>final earlier. exNoState @ exNoState = final @ earlier \<and> nothingAlive exGone exVolume exTarget noLiveState final)"
  using no_state_cleanup_converges [OF exGone_no_state_cleanup] by blast

end
