(* ===== verification/NodeStage.thy ===== *)
theory NodeStage
  imports NodePublish ActiveRecovery NoState
begin

text \<open>
  Staging and unstaging of \<open>internal/driver/driver.go\<close>: the node handlers that put the pieces of the
  driver together. Staging reads the durable record of the volume, finishes whatever transaction it
  describes, and launches a new mount only once no record and no trace of an older mount is left.

  \<open>None\<close> is a run that has not returned within the fuel of its waits (see \<open>MountLaunch\<close>).
\<close>

section \<open>The mount request of a volume\<close>

definition mountPerfDir :: "Config \<Rightarrow> string \<Rightarrow> mountPerf \<Rightarrow> string" where
  "mountPerfDir cfg volumeID perf = (if PerfEnabled perf then drive9PerfDir cfg volumeID else [])"

definition validateRecoveredVolumeIdentity :: "string \<Rightarrow> string \<Rightarrow> params \<Rightarrow> error option" where
  "validateRecoveredVolumeIdentity volumeID remoteRoot attrs =
     (if isWorkspaceRootVolumeID volumeID then first_error
        [map_option (Wrap ''remoteRoot'') (validateMountRoot remoteRoot),
         fail_if (TrimSpace (mapGet attrs ''volumeName'') = [])
           (Errorf ''workspace root volume attributes missing volumeName''),
         fail_if (volumeIDForWorkspaceRoot (TrimSpace (mapGet attrs ''volumeName'')) remoteRoot \<noteq> volumeID)
           (Errorf ''volume id does not match workspace root volume attributes'')]
      else first_error
        [map_option (Wrap ''remoteRoot'') (validateVolumeRoot remoteRoot),
         fail_if (volumeIDForRemoteRoot remoteRoot \<noteq> volumeID) (Errorf ''volume id does not match remoteRoot'')])"

definition drive9MountRequestFromAttributes ::
    "Config \<Rightarrow> string \<Rightarrow> string \<Rightarrow> params \<Rightarrow> drive9Credentials \<Rightarrow> error + drive9MountRequest" where
  "drive9MountRequestFromAttributes cfg volumeID stagingTarget attrs creds =
     (let rawRemoteRoot = TrimSpace (mapGet attrs ''remoteRoot'') in
      if rawRemoteRoot = [] then Inl (Errorf ''volume attributes missing remoteRoot'')
      else case normalizeRemotePath rawRemoteRoot of
        Inl e \<Rightarrow> Inl (Wrap ''remoteRoot'' e)
      | Inr remoteRoot \<Rightarrow>
          echeck (validateRecoveredVolumeIdentity volumeID remoteRoot attrs) (
          ebind (effectiveMountTTLs attrs) (\<lambda>ttls.
          ebind (effectiveMountPerf attrs) (\<lambda>perf.
          ebind (effectiveMountGVisor attrs) (\<lambda>gvisor.
          ebind (effectiveMountPathPolicy attrs) (\<lambda>policy.
          ebind (effectiveMountTuning attrs) (\<lambda>tuning.
            Inr \<lparr>req_VolumeID = volumeID, req_Server = cred_Server creds, req_APIKey = cred_APIKey creds,
                 req_RemoteRoot = remoteRoot, req_StagingTarget = Clean stagingTarget,
                 req_Profile = TrimSpace (mapGet attrs ''profile''),
                 req_Durability = durabilityFromParameters attrs,
                 req_AttrTTL = AttrTTL ttls, req_EntryTTL = EntryTTL ttls, req_DirTTL = DirTTL ttls,
                 req_PerfDir = mountPerfDir cfg volumeID perf, req_Tuning = tuning,
                 req_GVisorCompat = GVisorEnabled gvisor, req_Policy = policy\<rparr>)))))))"

definition driver_drive9MountArgs :: "driver \<Rightarrow> drive9MountRequest \<Rightarrow> string list" where
  "driver_drive9MountArgs d request =
     drive9MountArgs (d_cfg d) request (mountCacheDir (d_cfg d) (req_VolumeID request))"

definition launchMountV2 ::
    "env \<Rightarrow> nat \<Rightarrow> nat \<Rightarrow> driver \<Rightarrow> drive9MountRequest \<Rightarrow> (error + mountState) option prog" where
  "launchMountV2 E fuel rounds d request =
     Launch E fuel rounds (stateRepository E d)
       \<lparr>ml_VolumeID = req_VolumeID request, ml_RemoteRoot = req_RemoteRoot request,
        ml_StagingTarget = req_StagingTarget request, ml_Server = req_Server request,
        ml_APIKey = req_APIKey request, ml_MountArgs = driver_drive9MountArgs d request,
        ml_Reason = mountStartReasonStage, ml_FallbackBinaryPath = [], ml_FallbackMountArgs = []\<rparr>"

section \<open>Credentials and the remote side\<close>

definition resolveNodeStageCredentials :: "env \<Rightarrow> params \<Rightarrow> (error + drive9Credentials) prog" where
  "resolveNodeStageCredentials E volCtx =
     (let secretName = TrimSpace (mapGet volCtx attrSecretName);
          secretNamespace = TrimSpace (mapGet volCtx attrSecretNamespace) in
      if secretName = [] \<or> secretNamespace = []
      then State_Monad.return (Inl (Status InvalidArgument ''volume context missing secretName/secretNamespace''))
      else readCredentialsFromSecret E secretName secretNamespace)"

definition validateNodeStageRemote ::
    "env \<Rightarrow> driver \<Rightarrow> drive9Credentials \<Rightarrow> bool \<Rightarrow> string \<Rightarrow> string \<Rightarrow> error option prog" where
  "validateNodeStageRemote E d creds workspaceRootVolume volumeID remoteRoot =
     (if workspaceRootVolume then ensureRemotePathExists E creds remoteRoot
      else validateRemoteVolumeMarker E (d_cfg d) creds volumeID remoteRoot)"

section \<open>The stage request\<close>

record nodeStageRequest =
  ns_VolumeID :: string
  ns_Capability :: "volumeCapability option"
  ns_StagingTarget :: string
  ns_Context :: params

definition stageRemoteRoot :: "string \<Rightarrow> params \<Rightarrow> error + string" where
  "stageRemoteRoot volumeID ctx =
     (let rawRemoteRoot = TrimSpace (mapGet ctx ''remoteRoot'');
          volumeName = TrimSpace (mapGet ctx ''volumeName'');
          invalid = (\<lambda>_. Status InvalidArgument ''remoteRoot'') in
      if rawRemoteRoot = [] then Inl (Status InvalidArgument ''volume context remoteRoot is required'')
      else case normalizeRemotePath rawRemoteRoot of
        Inl e \<Rightarrow> Inl (invalid e)
      | Inr remoteRoot \<Rightarrow>
          echeck (if isWorkspaceRootVolumeID volumeID then first_error
              [map_option invalid (validateMountRoot remoteRoot),
               fail_if (volumeName = [])
                 (Status InvalidArgument ''volume context volumeName is required for workspace root volumes''),
               fail_if (volumeIDForWorkspaceRoot volumeName remoteRoot \<noteq> volumeID)
                 (Status FailedPrecondition ''volume id does not match volume context'')]
            else first_error
              [map_option invalid (validateVolumeRoot remoteRoot),
               fail_if (volumeIDForRemoteRoot remoteRoot \<noteq> volumeID)
                 (Status FailedPrecondition ''volume id does not match volume context remoteRoot'')])
            (Inr remoteRoot))"

definition validateStageSettings :: "params \<Rightarrow> error option" where
  "validateStageSettings ctx = first_error
     [err_of (effectiveMountTTLs ctx), err_of (effectiveMountPerf ctx), err_of (effectiveMountGVisor ctx),
      err_of (effectiveMountPathPolicy ctx), err_of (effectiveMountTuning ctx)]"

text \<open>The remote root of a well-formed request.\<close>

definition validateStageRequest :: "nodeStageRequest \<Rightarrow> error + string" where
  "validateStageRequest req =
     (let stagingTarget = TrimSpace (ns_StagingTarget req) in
      echeck (first_error
        [validateVolumeCapabilities [ns_Capability req],
         fail_if (stagingTarget = []) (Status InvalidArgument ''staging target path is required''),
         fail_if (\<not> IsAbs stagingTarget) (Status InvalidArgument ''staging target path must be absolute'')])
      (ebind (stageRemoteRoot (TrimSpace (ns_VolumeID req)) (ns_Context req)) (\<lambda>remoteRoot.
        echeck (validateStageSettings (ns_Context req)) (Inr remoteRoot))))"

section \<open>A record of another staging target\<close>

definition stopRecorded ::
    "env \<Rightarrow> mountStateRepository \<Rightarrow> mountState \<Rightarrow> mountStopIntent \<Rightarrow> mountStopIntent \<Rightarrow>
     (mountStopResult \<times> error option) prog" where
  "stopRecorded E repository state activeIntent startingIntent =
     (case Phase state of
        mountStatePhaseActive \<Rightarrow> Stop E repository
          \<lparr>stop_State = state, stop_PublishConsumers = 0, stop_Intent = activeIntent\<rparr>
      | mountStatePhaseStarting \<Rightarrow> Stop E repository
          \<lparr>stop_State = state, stop_PublishConsumers = 0, stop_Intent = startingIntent\<rparr>
      | mountStatePhaseStopping \<Rightarrow> Stop_Reconcile E repository state
      | _ \<Rightarrow> State_Monad.return (mountStopPreserved, Some (Errorf ''unsupported durable mount phase'')))"

definition reconcileStaleStageStateForMount ::
    "env \<Rightarrow> driver \<Rightarrow> mountState \<Rightarrow> string \<Rightarrow> string \<Rightarrow> string \<Rightarrow> error option prog" where
  "reconcileStaleStageStateForMount E d state volumeID remoteRoot stagingTarget =
     (if VolumeID state \<noteq> volumeID \<or> RemoteRoot state \<noteq> remoteRoot
      then State_Monad.return (Some (Status FailedPrecondition ''durable mount state belongs to a different volume''))
      else if Clean (StagingTarget state) = Clean stagingTarget
      then State_Monad.return (Some (Status FailedPrecondition
             ''durable mount state identity does not match the stage request''))
      else
      orReturn (hasActivePublishTargets E (cfg_StateDir (d_cfg d)) volumeID (StagingTarget state))
          (\<lambda>_. Some (Status FailedPrecondition ''recorded staging target publish state scan'')) (\<lambda>active.
      if active \<noteq> []
      then State_Monad.return (Some (Status FailedPrecondition ''recorded staging target has active publish targets''))
      else
      orReturn (IsMountPoint E (StagingTarget state))
          (\<lambda>_. Some (Status Internal ''check recorded staging mount'')) (\<lambda>mounted.
      if mounted
      then State_Monad.return (Some (Status FailedPrecondition ''volume remains staged at a different target''))
      else
      ifNil (driver_require d nodeOperationUnstage) Some (do {
        (result, err) \<leftarrow> stopRecorded E (stateRepository E d) state mountStopIntentRecovery mountStopIntentCancelStart;
        State_Monad.return (fail_if (err \<noteq> None \<or> result \<noteq> mountStopCleaned)
          (Status FailedPrecondition ''reconcile absent recorded staging target'')) }))))"

section \<open>The transaction a record describes\<close>

text \<open>
  What staging has found and finished: the mount is there, no record is left, an active mount must be
  recovered, a starting attempt needs credentials to go on, or it must be left alone.
\<close>

datatype stageProgress =
    stageFinished
  | stageGone
  | stageRecover mountState activeRecoveryObservation
  | stageResume mountState
  | stageIncomplete

definition err_is :: "error option \<Rightarrow> sentinel \<Rightarrow> bool" where
  "err_is err s = (case err of None \<Rightarrow> False | Some e \<Rightarrow> errors_Is e s)"

definition classifyActive :: "env \<Rightarrow> mountState \<Rightarrow> (error + stageProgress) prog" where
  "classifyActive E state =
     orReturn (observeActiveRecovery E state)
         (\<lambda>_. Inl (Status FailedPrecondition ''classify active mount recovery'')) (\<lambda>observation.
     ifOk (decideActiveRecovery observation)
         (\<lambda>_. Inl (Status FailedPrecondition ''classify active mount recovery'')) (\<lambda>actions.
       State_Monad.return (Inr
         (if actions = [activeRecoverySkip] then stageFinished else stageRecover state observation))))"

definition examineActive ::
    "env \<Rightarrow> driver \<Rightarrow> mountState \<Rightarrow> string \<Rightarrow> string \<Rightarrow> string \<Rightarrow> (error + stageProgress) prog" where
  "examineActive E d state volumeID remoteRoot stagingTarget =
     ifNil (driver_require d nodeOperationHealthyStage) Inl (do {
       health \<leftarrow> verifyActiveMountLocally E d state volumeID remoteRoot stagingTarget;
       if health = None then State_Monad.return (Inr stageFinished) else classifyActive E state })"

text \<open>Reconciling without credentials, with cleanup only when the node may.\<close>

definition reconcileStarting ::
    "env \<Rightarrow> nat \<Rightarrow> nat \<Rightarrow> driver \<Rightarrow> mountState \<Rightarrow> (error + startingReconcileResult \<times> error option) option prog" where
  "reconcileStarting E fuel rounds d state =
     whenDone (Starting_Reconcile E fuel (stateRepository E d) state None False rounds) (\<lambda>(result, err).
       if err_is err ErrStartingCleanupRequired then
         ifNil (driver_require d nodeOperationUnstage) (\<lambda>e. Some (Inl e))
           (whenDone (Starting_Reconcile E fuel (stateRepository E d) state None True rounds) (\<lambda>r.
             State_Monad.return (Some (Inr r))))
       else State_Monad.return (Some (Inr (result, err))))"

definition startingProgress :: "mountState \<Rightarrow> startingReconcileResult \<times> error option \<Rightarrow> error + stageProgress" where
  "startingProgress state r =
     (if fst r = startingReconcilePromoted then Inr stageFinished
      else if fst r = startingReconcileDeleted then Inr stageGone
      else if err_is (snd r) ErrStartingCredentialsRequired then Inr (stageResume state)
      else if snd r \<noteq> None then Inl (Status FailedPrecondition ''reconcile starting mount'')
      else Inr stageIncomplete)"

definition examineStarting ::
    "env \<Rightarrow> nat \<Rightarrow> nat \<Rightarrow> driver \<Rightarrow> mountState \<Rightarrow> (error + stageProgress) option prog" where
  "examineStarting E fuel rounds d state =
     ifNil (driver_require d nodeOperationHealthyStage) (\<lambda>e. Some (Inl e))
       (whenDone (reconcileStarting E fuel rounds d state) (\<lambda>r.
         State_Monad.return (Some (ebind r (startingProgress state)))))"

definition examineStopping :: "env \<Rightarrow> driver \<Rightarrow> mountState \<Rightarrow> (error + stageProgress) prog" where
  "examineStopping E d state =
     ifNil (driver_require d nodeOperationUnstage) Inl (do {
       (result, err) \<leftarrow> Stop_Reconcile E (stateRepository E d) state;
       State_Monad.return (if err \<noteq> None \<or> result \<noteq> mountStopCleaned
         then Inl (Status FailedPrecondition ''finish stopping mount'') else Inr stageGone) })"

definition returned :: "'a prog \<Rightarrow> 'a option prog" where
  "returned m = do { x \<leftarrow> m; State_Monad.return (Some x) }"

definition examineRecorded ::
    "env \<Rightarrow> nat \<Rightarrow> nat \<Rightarrow> driver \<Rightarrow> mountState \<Rightarrow> string \<Rightarrow> string \<Rightarrow> string \<Rightarrow>
     (error + stageProgress) option prog" where
  "examineRecorded E fuel rounds d state volumeID remoteRoot stagingTarget =
     (case Phase state of
        mountStatePhaseActive \<Rightarrow> returned (examineActive E d state volumeID remoteRoot stagingTarget)
      | mountStatePhaseStarting \<Rightarrow> examineStarting E fuel rounds d state
      | mountStatePhaseStopping \<Rightarrow> returned (examineStopping E d state)
      | _ \<Rightarrow> State_Monad.return (Some (Inl (Status FailedPrecondition ''unsupported durable mount phase''))))"

definition examineStage ::
    "env \<Rightarrow> nat \<Rightarrow> nat \<Rightarrow> driver \<Rightarrow> string \<Rightarrow> string \<Rightarrow> string \<Rightarrow> (error + stageProgress) option prog" where
  "examineStage E fuel rounds d volumeID remoteRoot stagingTarget = do {
     r \<leftarrow> readMountState E d volumeID;
     case r of
       Inl e \<Rightarrow> State_Monad.return (Some
         (if errors_Is e ErrNotExist then Inr stageGone
          else Inl (Status FailedPrecondition ''read durable mount state'')))
     | Inr state \<Rightarrow>
         if \<not> mountStateMatches state volumeID remoteRoot stagingTarget
         then unlessErr (reconcileStaleStageStateForMount E d state volumeID remoteRoot stagingTarget)
                (\<lambda>e. Some (Inl e)) (State_Monad.return (Some (Inr stageGone)))
         else examineRecorded E fuel rounds d state volumeID remoteRoot stagingTarget }"

section \<open>NodeStageVolume\<close>

text \<open>A run that waits and returns an error or none.\<close>

type_synonym stageOutcome = "error option option"

definition failed :: "error \<Rightarrow> stageOutcome" where
  "failed e = Some (Some e)"

definition stageDirectories :: "driver \<Rightarrow> drive9MountRequest \<Rightarrow> string \<Rightarrow> string list" where
  "stageDirectories d request profile =
     (let localRoot = drive9LocalRoot (d_cfg d) (req_VolumeID request) in
      filter (\<lambda>directory. directory \<noteq> [] \<and> \<not> (directory = localRoot \<and> profile \<noteq> ''coding-agent''))
        [mountCacheDir (d_cfg d) (req_VolumeID request), localRoot, req_PerfDir request])"

fun makeDirectories :: "env \<Rightarrow> string list \<Rightarrow> error option prog" where
  "makeDirectories E [] = State_Monad.return None"
| "makeDirectories E (directory # directories) =
     unlessErr (MkdirAll E directory 448) (\<lambda>_. Some (Status Internal ''create mount runtime directory''))
       (makeDirectories E directories)"

text \<open>No record is left: clear what a lost record may have left, and launch.\<close>

definition stageAnew ::
    "env \<Rightarrow> nat \<Rightarrow> nat \<Rightarrow> driver \<Rightarrow> string \<Rightarrow> string \<Rightarrow> drive9MountRequest \<Rightarrow> noStateMountObservation \<Rightarrow>
     stageOutcome prog" where
  "stageAnew E fuel rounds d stagingTarget profile request observation =
     unlessErr (reconcileNoStateMount E (req_VolumeID request) stagingTarget observation)
         (\<lambda>_. failed (Status FailedPrecondition ''reconcile runtime without durable mount state'')) (
     unlessErr (MkdirAll E stagingTarget 493) (\<lambda>_. failed (Status Internal ''create staging target'')) (
     unlessErr (makeDirectories E (stageDirectories d request profile)) failed (
     whenDone (launchMountV2 E fuel rounds d request) (\<lambda>r.
       State_Monad.return (case r of
           Inl _ \<Rightarrow> failed (Status Internal ''launch Drive9 mount transaction'')
         | Inr active \<Rightarrow> Some None)))))"

definition stageRecovery ::
    "env \<Rightarrow> nat \<Rightarrow> driver \<Rightarrow> mountState \<Rightarrow> activeRecoveryObservation \<Rightarrow> string \<Rightarrow> drive9Credentials \<Rightarrow>
     drive9MountRequest \<Rightarrow> stageOutcome prog" where
  "stageRecovery E fuel d state observation remoteRoot creds request =
     (let volumeID = req_VolumeID request in
     orReturn (resolveVolumeContextFromPV E (cfg_DriverName (d_cfg d)) volumeID)
         (\<lambda>_. failed (Status FailedPrecondition ''resolve PV for active recovery'')) (\<lambda>pvAttributes.
     if normalizeRemotePath (mapGet pvAttributes ''remoteRoot'') \<noteq> Inr remoteRoot
     then State_Monad.return (failed (Status FailedPrecondition ''PV identity changed before active recovery''))
     else
     unlessErr (validateNodeStageRemote E d creds (isWorkspaceRootVolumeID volumeID) volumeID remoteRoot) failed (
     orReturn (validateDesiredDrive9Content E)
         (\<lambda>_. failed (Status FailedPrecondition ''snapshot desired Drive9 binary'')) (\<lambda>desiredBinary.
     whenDone (coordinateActiveRecovery state desiredBinary observation (Some
         (driverActiveRecoveryExecutor E fuel (stateRepository E d)
            \<lparr>lc_Server = cred_Server creds, lc_APIKey = cred_APIKey creds\<rparr> (driver_drive9MountArgs d request))))
       (\<lambda>(result, err). State_Monad.return (Some
         (if err \<noteq> None then Some (Status FailedPrecondition ''active mount recovery degraded'')
          else fail_if (result \<noteq> activeRecoveryHealthy \<and> result \<noteq> activeRecoveryRecovered)
            (Status FailedPrecondition ''active mount recovery is degraded''))))))))"

text \<open>\<open>observed\<close> is the look at the host without a record, if it was taken already.\<close>

definition stageUnrecorded ::
    "env \<Rightarrow> nat \<Rightarrow> nat \<Rightarrow> driver \<Rightarrow> string \<Rightarrow> string \<Rightarrow> drive9MountRequest \<Rightarrow> noStateMountObservation option \<Rightarrow>
     (error option prog) \<Rightarrow> stageOutcome prog" where
  "stageUnrecorded E fuel rounds d stagingTarget profile request observed validateRemote =
     orReturn (case observed of
         Some observation \<Rightarrow> State_Monad.return (Inr observation)
       | None \<Rightarrow> observeNoStateMount E (req_VolumeID request) stagingTarget)
         (\<lambda>_. failed (Status FailedPrecondition ''inspect runtime after mount-state cleanup'')) (\<lambda>observation.
     unlessErr validateRemote failed (stageAnew E fuel rounds d stagingTarget profile request observation))"

definition resumeStage ::
    "env \<Rightarrow> nat \<Rightarrow> nat \<Rightarrow> driver \<Rightarrow> mountState \<Rightarrow> string \<Rightarrow> string \<Rightarrow> string \<Rightarrow> drive9Credentials \<Rightarrow>
     drive9MountRequest \<Rightarrow> stageOutcome prog" where
  "resumeStage E fuel rounds d state remoteRoot stagingTarget profile creds request =
     unlessErr (validateNodeStageRemote E d creds (isWorkspaceRootVolumeID (req_VolumeID request))
         (req_VolumeID request) remoteRoot) failed (
     whenDone (Starting_Reconcile E fuel (stateRepository E d) state
         (Some \<lparr>lc_Server = cred_Server creds, lc_APIKey = cred_APIKey creds\<rparr>) True rounds) (\<lambda>(result, err).
       if result = startingReconcilePromoted then State_Monad.return (Some None)
       else if result = startingReconcileDeleted
       then stageUnrecorded E fuel rounds d stagingTarget profile request None (State_Monad.return None)
       else State_Monad.return (failed (if err \<noteq> None
         then Status FailedPrecondition ''resume starting mount''
         else Status FailedPrecondition ''durable mount transaction remains incomplete''))))"

text \<open>What remains once the record has been examined.\<close>

definition completeStage ::
    "env \<Rightarrow> nat \<Rightarrow> nat \<Rightarrow> driver \<Rightarrow> params \<Rightarrow> string \<Rightarrow> string \<Rightarrow> string \<Rightarrow> stageProgress \<Rightarrow>
     noStateMountObservation option \<Rightarrow> stageOutcome prog" where
  "completeStage E fuel rounds d ctx volumeID remoteRoot stagingTarget progress observed =
     ifNil (driver_require d nodeOperationCreate) failed (
     orReturn (resolveNodeStageCredentials E ctx) failed (\<lambda>creds.
     ifOk (drive9MountRequestFromAttributes (d_cfg d) volumeID stagingTarget ctx creds)
         (\<lambda>_. failed (Status FailedPrecondition ''build mount request'')) (\<lambda>request.
     case progress of
       stageRecover state observation \<Rightarrow> stageRecovery E fuel d state observation remoteRoot creds request
     | stageResume state \<Rightarrow>
         resumeStage E fuel rounds d state remoteRoot stagingTarget (profileFromParameters ctx) creds request
     | stageGone \<Rightarrow>
         stageUnrecorded E fuel rounds d stagingTarget (profileFromParameters ctx) request observed
           (validateNodeStageRemote E d creds (isWorkspaceRootVolumeID volumeID) volumeID remoteRoot)
     | _ \<Rightarrow> State_Monad.return (failed (Status FailedPrecondition
              ''durable mount transaction remains incomplete'')))))"

definition stageVolume ::
    "env \<Rightarrow> nat \<Rightarrow> nat \<Rightarrow> driver \<Rightarrow> params \<Rightarrow> string \<Rightarrow> string \<Rightarrow> string \<Rightarrow> stageOutcome prog" where
  "stageVolume E fuel rounds d ctx volumeID remoteRoot stagingTarget =
     whenDone (examineStage E fuel rounds d volumeID remoteRoot stagingTarget) (\<lambda>r.
     ifOk r failed (\<lambda>progress.
     if progress = stageFinished then State_Monad.return (Some None)
     else if progress = stageGone then
       ifNil (driver_require d nodeOperationCreate) failed (
       orReturn (observeNoStateMount E volumeID stagingTarget)
           (\<lambda>_. failed (Status FailedPrecondition ''inspect runtime without durable mount state'')) (\<lambda>observation.
         completeStage E fuel rounds d ctx volumeID remoteRoot stagingTarget progress (Some observation)))
     else completeStage E fuel rounds d ctx volumeID remoteRoot stagingTarget progress None))"

definition NodeStageVolume ::
    "env \<Rightarrow> nat \<Rightarrow> nat \<Rightarrow> driver \<Rightarrow> nodeStageRequest \<Rightarrow> stageOutcome prog" where
  "NodeStageVolume E fuel rounds d req =
     (let volumeID = TrimSpace (ns_VolumeID req) in
      if volumeID = [] then State_Monad.return (failed (Status InvalidArgument ''volume id is required''))
      else lockVolume volumeID (
        ifOk (validateStageRequest req) failed (\<lambda>remoteRoot.
          stageVolume E fuel rounds d (ns_Context req) volumeID remoteRoot (TrimSpace (ns_StagingTarget req)))))"

section \<open>NodeUnstageVolume\<close>

text \<open>The record of the target is stopped, or its stop finished.\<close>

definition unstageRecorded ::
    "env \<Rightarrow> driver \<Rightarrow> mountState \<Rightarrow> string \<Rightarrow> string \<Rightarrow> error option prog" where
  "unstageRecorded E d state volumeID stagingTarget =
     (if \<not> mountStateMatches state volumeID [] stagingTarget
      then State_Monad.return (Some (Status FailedPrecondition
             ''stage target state belongs to a different Drive9 volume or path''))
      else
      ifNil (driver_require d nodeOperationUnstage) Some (do {
        (result, err) \<leftarrow> stopRecorded E (stateRepository E d) state mountStopIntentUnstage mountStopIntentCancelStart;
        State_Monad.return (fail_if (err \<noteq> None \<or> result \<noteq> mountStopCleaned)
          (Status FailedPrecondition ''complete unstage transaction'')) }))"

definition NodeUnstageVolume :: "env \<Rightarrow> driver \<Rightarrow> string \<Rightarrow> string \<Rightarrow> error option prog" where
  "NodeUnstageVolume E d requestVolumeID requestStagingTarget =
     (let volumeID = TrimSpace requestVolumeID; stagingTarget = TrimSpace requestStagingTarget in
     if volumeID = [] then State_Monad.return (Some (Status InvalidArgument ''volume id is required''))
     else lockVolume volumeID (
     if stagingTarget = []
     then State_Monad.return (Some (Status InvalidArgument ''staging target path is required''))
     else if \<not> IsAbs stagingTarget
     then State_Monad.return (Some (Status InvalidArgument ''staging target path must be absolute''))
     else
     orReturn (hasActivePublishTargets E (cfg_StateDir (d_cfg d)) volumeID stagingTarget)
         (\<lambda>_. Some (Status FailedPrecondition ''publish state scan'')) (\<lambda>active.
     if active \<noteq> []
     then State_Monad.return (Some (Status FailedPrecondition ''volume has active publish targets''))
     else
     orReturn (IsMountPoint E stagingTarget) (\<lambda>_. Some (Status Internal ''check staging mount'')) (\<lambda>mounted. do {
       r \<leftarrow> readMountState E d volumeID;
       case r of
         Inl e \<Rightarrow> State_Monad.return
           (if errors_Is e ErrNotExist
            then fail_if mounted (Status FailedPrecondition ''staging target is mounted without durable Drive9 state'')
            else Some (Status FailedPrecondition ''read durable mount state''))
       | Inr state \<Rightarrow> unstageRecorded E d state volumeID stagingTarget }))))"

end
