(* ===== verification/BinaryGC.thy ===== *)
theory BinaryGC
  imports MountStop NodePreflight "HOL-Library.Char_ord" "HOL-Library.List_Lexorder"
begin

text \<open>
  \<open>internal/driver/binary_gc.go\<close>: the content-addressed binaries no mount refers to are removed. An
  inventory of the durable records, the runtime files, the systemd units and the recorded processes
  says which to keep; anything in it that cannot be explained, and any change while it was taken,
  makes the collector skip. What it never does is remove a binary that is in use.
\<close>

section \<open>The collector\<close>

record binaryGCResult =
  gcr_Skipped :: bool
  gcr_Reason :: "error option"
  gcr_Removed :: "string list"

record binaryGarbageCollector =
  gc_stateDir :: string
  gc_binDir :: string
  gc_runDir :: string

record binaryGCStateSnapshot =
  snap_names :: "string list"
  snap_bodies :: "(string \<times> bytes) list"
  snap_states :: "mountState list"

definition newBinaryGarbageCollector :: "string \<Rightarrow> string \<Rightarrow> string \<Rightarrow> binaryGarbageCollector" where
  "newBinaryGarbageCollector stateDir binDir runDir =
     \<lparr>gc_stateDir = Clean stateDir, gc_binDir = Clean binDir, gc_runDir = Clean runDir\<rparr>"

definition binaryGCSkip :: "error \<Rightarrow> binaryGCResult \<times> error option" where
  "binaryGCSkip e = (\<lparr>gcr_Skipped = True, gcr_Reason = Some e, gcr_Removed = []\<rparr>, None)"

section \<open>The inventory\<close>

definition readDesiredBinaryName :: "env \<Rightarrow> binaryGarbageCollector \<Rightarrow> (error + string) prog" where
  "readDesiredBinaryName E g =
     (let path = path_Join [gc_binDir g, ''drive9''] in
     orReturn (Lstat E path) Inl (\<lambda>info.
     if fi_kind info \<noteq> Symlink
     then State_Monad.return (Inl (Errorf ''desired Drive9 path is not a symlink''))
     else
     orReturn (Readlink E path) (\<lambda>_. Inl (Errorf ''desired Drive9 symlink target is invalid'')) (\<lambda>target.
     if target \<noteq> path_Base target \<or> \<not> binaryNamePattern target
     then State_Monad.return (Inl (Errorf ''desired Drive9 symlink target is invalid''))
     else
     orReturn (Lstat E (path_Join [gc_binDir g, target]))
         (\<lambda>_. Inl (Errorf ''desired Drive9 target is not a regular file'')) (\<lambda>targetInfo.
       State_Monad.return (if \<not> IsRegular targetInfo
         then Inl (Errorf ''desired Drive9 target is not a regular file'') else Inr target)))))"

definition mountStateEntry :: "dirEntry \<Rightarrow> bool" where
  "mountStateEntry entry \<longleftrightarrow>
     \<not> IsDir entry \<and> HasSuffix (de_name entry) ''.json'' \<and> \<not> HasPrefix (de_name entry) ''published-''"

definition readStateEntry :: "env \<Rightarrow> string \<Rightarrow> string \<Rightarrow> (error + bytes \<times> mountState) prog" where
  "readStateEntry E stateDir name =
     orReturn (Lstat E (path_Join [stateDir, name])) (\<lambda>_. Inl (Errorf ''unsafe mount state'')) (\<lambda>info.
     if \<not> IsRegular info \<or> fi_perm info \<noteq> perm600
     then State_Monad.return (Inl (Errorf ''unsafe mount state''))
     else
     orReturn (ReadFile E (path_Join [stateDir, name])) Inl (\<lambda>body.
       State_Monad.return (case decodeMountState E body of
           Inl e \<Rightarrow> Inl (Errorf ''uncorrelated mount state'')
         | Inr state \<Rightarrow>
             if name \<noteq> VolumeID state @ ''.json'' then Inl (Errorf ''uncorrelated mount state'')
             else Inr (body, state))))"

fun readStateEntries ::
    "env \<Rightarrow> string \<Rightarrow> dirEntry list \<Rightarrow> (error + (string \<times> bytes \<times> mountState) list) prog" where
  "readStateEntries E stateDir [] = State_Monad.return (Inr [])"
| "readStateEntries E stateDir (entry # entries) =
     (if \<not> mountStateEntry entry then readStateEntries E stateDir entries
      else
      orReturn (readStateEntry E stateDir (de_name entry)) Inl (\<lambda>found.
      orReturn (readStateEntries E stateDir entries) Inl (\<lambda>rest.
        State_Monad.return (Inr ((de_name entry, found) # rest)))))"

text \<open>A later body of the same name would replace an earlier one.\<close>

definition snapshotOf :: "(string \<times> bytes \<times> mountState) list \<Rightarrow> binaryGCStateSnapshot" where
  "snapshotOf found =
     \<lparr>snap_names = sort (map fst found), snap_bodies = rev (map (\<lambda>(name, body, state). (name, body)) found),
      snap_states = map (\<lambda>(name, body, state). state) found\<rparr>"

definition readStateSnapshot :: "env \<Rightarrow> binaryGarbageCollector \<Rightarrow> (error + binaryGCStateSnapshot) prog" where
  "readStateSnapshot E g =
     orReturn (ReadDir E (gc_stateDir g)) Inl (\<lambda>entries.
     orReturn (readStateEntries E (gc_stateDir g) entries) Inl (\<lambda>found.
       State_Monad.return (Inr (snapshotOf found))))"

definition classifyRuntimeArtifact :: "dirEntry \<Rightarrow> error + bool" where
  "classifyRuntimeArtifact entry =
     (let name = de_name entry;
          shaped = (\<lambda>pattern m. if IsDir entry \<or> \<not> pattern name then Inl (Errorf m) else Inr True) in
      if HasPrefix name ''drive9-mount-'' \<and> HasSuffix name ''.pid''
      then shaped drive9ProcessStateNamePattern ''malformed Drive9 process-state artifact''
      else if HasPrefix name ''drive9-mount-'' \<and> HasSuffix name ''.sock''
      then shaped drive9ControlSocketNamePattern ''malformed Drive9 control-socket artifact''
      else if HasSuffix name ''.env'' \<or> HasSuffix name ''.args''
           \<or> HasSuffix name ''.env.tmp'' \<or> HasSuffix name ''.args.tmp''
      then shaped mountStartupFileNamePattern ''malformed mount startup artifact''
      else Inr False)"

fun selectRuntimeArtifacts :: "dirEntry list \<Rightarrow> error + string list" where
  "selectRuntimeArtifacts [] = Inr []"
| "selectRuntimeArtifacts (entry # entries) =
     ebind (classifyRuntimeArtifact entry) (\<lambda>artifact.
     ebind (selectRuntimeArtifacts entries) (\<lambda>names.
       Inr (if artifact then de_name entry # names else names)))"

definition listRuntimeArtifacts :: "env \<Rightarrow> binaryGarbageCollector \<Rightarrow> (error + string list) prog" where
  "listRuntimeArtifacts E g =
     orReturn (ReadDir E (gc_runDir g)) Inl (\<lambda>entries.
       State_Monad.return (ebind (selectRuntimeArtifacts entries) (\<lambda>names. Inr (sort names))))"

fun parseUnitListing :: "string list \<Rightarrow> error + string list" where
  "parseUnitListing [] = Inr []"
| "parseUnitListing (line # lines) =
     (if TrimSpace line = [] then parseUnitListing lines
      else case Fields line of
          [] \<Rightarrow> Inl (Errorf ''malformed Drive9 systemd unit listing'')
        | unit # _ \<Rightarrow>
            if \<not> systemdUnitPattern unit then Inl (Errorf ''malformed Drive9 systemd unit listing'')
            else ebind (parseUnitListing lines) (\<lambda>units. Inr (unit # units)))"

definition listUnitsCommand :: hostCommand where
  "listUnitsCommand = hostSystemctlCommand
     [''list-units'', ''--all'', ''--plain'', ''--no-legend'', ''--no-pager'', ''drive9-mount-*.service'']"

definition listDrive9SystemdUnits :: "env \<Rightarrow> (error + string list) prog" where
  "listDrive9SystemdUnits E =
     orReturn (runOutput E listUnitsCommand (Errorf ''list Drive9 systemd units'')) Inl (\<lambda>stdout.
       State_Monad.return (ebind (parseUnitListing (Split (CHR 0x0A) (TrimSpace stdout)))
         (\<lambda>units. Inr (sort units))))"

section \<open>What the records explain\<close>

record gcIndex =
  ix_Keep :: "string list"
  ix_Units :: "(string \<times> mountState) list"
  ix_Artifacts :: "(string \<times> mountState) list"

text \<open>The binaries a record refers to.\<close>

definition recordedBinaries :: "mountState \<Rightarrow> string list" where
  "recordedBinaries state =
     path_Base (BinaryPath state)
     # (if FallbackBinaryPath state \<noteq> [] then [path_Base (FallbackBinaryPath state)] else [])"

definition recordedArtifacts :: "mountState \<Rightarrow> error + string list" where
  "recordedArtifacts state =
     ebind (drive9ProcessStatePath (StagingTarget state)) (\<lambda>processPath.
     ebind (drive9ControlSocketPath (StagingTarget state) ''0'') (\<lambda>controlSocketPath.
       Inr (path_Base processPath # path_Base controlSocketPath
            # concat (map (\<lambda>p. if p \<noteq> [] then [path_Base p, path_Base (p @ ''.tmp'')] else [])
                [EnvPath state, ArgsPath state]))))"

text \<open>Assignments to a map: the last one to a key counts.\<close>

fun indexStates :: "mountState list \<Rightarrow> gcIndex \<Rightarrow> error + gcIndex" where
  "indexStates [] ix = Inr ix"
| "indexStates (state # states) ix =
     echeck (case map_of (ix_Units ix) (SystemdUnit state) of
         Some previous \<Rightarrow> fail_if (VolumeID previous \<noteq> VolumeID state) (Errorf ''duplicate systemd unit ownership'')
       | None \<Rightarrow> None) (
     ebind (recordedArtifacts state) (\<lambda>names. indexStates states
       \<lparr>ix_Keep = recordedBinaries state @ ix_Keep ix, ix_Units = (SystemdUnit state, state) # ix_Units ix,
        ix_Artifacts = map (\<lambda>name. (name, state)) names @ ix_Artifacts ix\<rparr>))"

section \<open>Checking the inventory\<close>

text \<open>Each check returns the binaries it found in use.\<close>

fun checkArtifacts :: "env \<Rightarrow> bool \<Rightarrow> gcIndex \<Rightarrow> string list \<Rightarrow> (error + string list) prog" where
  "checkArtifacts E hostDir ix [] = State_Monad.return (Inr [])"
| "checkArtifacts E hostDir ix (name # names) =
     (case map_of (ix_Artifacts ix) name of
        None \<Rightarrow> State_Monad.return (Inl (Errorf ''uncorrelated process-state artifact''))
      | Some state \<Rightarrow>
          orReturn (if hostDir \<and> drive9ProcessStateNamePattern name then
              orReturn (observeStartingProcess E state)
                  (\<lambda>_. Inl (Errorf ''unverifiable process-state artifact'')) (\<lambda>process.
                State_Monad.return
                  (if sp_State process = startingProcessMismatch
                   then Inl (Errorf ''unverifiable process-state artifact'')
                   else Inr (if sp_State process = startingProcessVerified then [path_Base (BinaryPath state)] else [])))
            else State_Monad.return (Inr [])) Inl (\<lambda>used.
          orReturn (checkArtifacts E hostDir ix names) Inl (\<lambda>rest.
            State_Monad.return (Inr (used @ rest)))))"

fun checkUnits :: "env \<Rightarrow> gcIndex \<Rightarrow> string list \<Rightarrow> (error + string list) prog" where
  "checkUnits E ix [] = State_Monad.return (Inr [])"
| "checkUnits E ix (unit # units) =
     (case map_of (ix_Units ix) unit of
        None \<Rightarrow> State_Monad.return (Inl (Errorf ''uncorrelated Drive9 systemd unit''))
      | Some state \<Rightarrow>
          unlessErr (verifyMountSystemdUnitDescription E state) Inl (
          orReturn (querySystemdMainPID E unit) Inl (\<lambda>mainPID.
          orReturn (if mainPID = 0 then State_Monad.return (Inr [])
            else orReturn (verifySystemdMainPIDOwnership E state) Inl (\<lambda>verified.
              State_Monad.return (if vp_PID verified \<noteq> mainPID
                then Inl (Errorf ''verified systemd PID changed during GC inventory'')
                else Inr [path_Base (BinaryPath state)]))) Inl (\<lambda>used.
          orReturn (checkUnits E ix units) Inl (\<lambda>rest.
            State_Monad.return (Inr (used @ rest)))))))"

definition checkRecordedPID :: "env \<Rightarrow> mountState \<Rightarrow> (error + string list) prog" where
  "checkRecordedPID E state =
     (if PID state \<le> 0 \<or> PIDStartTime state = [] then State_Monad.return (Inr [])
      else do {
        r \<leftarrow> readHostProcessStartTime E (PID state);
        case r of
          Inl e \<Rightarrow> State_Monad.return
            (if errors_Is e ErrNotExist then Inr [] else Inl (Errorf ''unverifiable live PID''))
        | Inr startTime \<Rightarrow>
            if startTime \<noteq> PIDStartTime state then State_Monad.return (Inl (Errorf ''unverifiable live PID''))
            else
              orReturn (verifyProcessOwnership E (mainExpectation state (PID state) (PIDStartTime state))) Inl (\<lambda>_.
                State_Monad.return (Inr [path_Base (BinaryPath state)])) })"

fun checkRecordedPIDs :: "env \<Rightarrow> mountState list \<Rightarrow> (error + string list) prog" where
  "checkRecordedPIDs E [] = State_Monad.return (Inr [])"
| "checkRecordedPIDs E (state # states) =
     orReturn (checkRecordedPID E state) Inl (\<lambda>used.
     orReturn (checkRecordedPIDs E states) Inl (\<lambda>rest.
       State_Monad.return (Inr (used @ rest))))"

definition verifyInventoryUnchanged ::
    "env \<Rightarrow> binaryGarbageCollector \<Rightarrow> string \<Rightarrow> binaryGCStateSnapshot \<Rightarrow> string list \<Rightarrow> string list \<Rightarrow>
     error option prog" where
  "verifyInventoryUnchanged E g desiredName snapshot runtimeArtifacts units =
     orReturn (readDesiredBinaryName E g)
         (\<lambda>_. Some (Errorf ''desired binary changed during GC inventory'')) (\<lambda>currentDesired.
     if currentDesired \<noteq> desiredName
     then State_Monad.return (Some (Errorf ''desired binary changed during GC inventory''))
     else
     orReturn (readStateSnapshot E g)
         (\<lambda>_. Some (Errorf ''mount state inventory changed during GC'')) (\<lambda>current.
     if snap_names current \<noteq> snap_names snapshot
     then State_Monad.return (Some (Errorf ''mount state inventory changed during GC''))
     else if \<exists>name\<in>set (snap_names snapshot). map_of (snap_bodies current) name \<noteq> map_of (snap_bodies snapshot) name
     then State_Monad.return (Some (Errorf ''mount state changed during GC''))
     else
     orReturn (listRuntimeArtifacts E g)
         (\<lambda>_. Some (Errorf ''process-state inventory changed during GC'')) (\<lambda>currentArtifacts.
     if currentArtifacts \<noteq> runtimeArtifacts
     then State_Monad.return (Some (Errorf ''process-state inventory changed during GC''))
     else
     orReturn (listDrive9SystemdUnits E)
         (\<lambda>_. Some (Errorf ''systemd unit inventory changed during GC'')) (\<lambda>currentUnits.
       State_Monad.return (fail_if (currentUnits \<noteq> units)
         (Errorf ''systemd unit inventory changed during GC''))))))"

section \<open>The run\<close>

text \<open>The binaries to keep, once the inventory is explained and has not changed.\<close>

definition gcInventory :: "env \<Rightarrow> binaryGarbageCollector \<Rightarrow> (error + string list) prog" where
  "gcInventory E g =
     orReturn (readDesiredBinaryName E g) Inl (\<lambda>desiredName.
     orReturn (readStateSnapshot E g) Inl (\<lambda>snapshot.
     ifOk (indexStates (snap_states snapshot) \<lparr>ix_Keep = [desiredName], ix_Units = [], ix_Artifacts = []\<rparr>) Inl (\<lambda>ix.
     orReturn (listRuntimeArtifacts E g) Inl (\<lambda>runtimeArtifacts.
     orReturn (checkArtifacts E (gc_runDir g = hostRuntimeDir) ix runtimeArtifacts) Inl (\<lambda>used1.
     orReturn (listDrive9SystemdUnits E) Inl (\<lambda>units.
     orReturn (checkUnits E ix units) Inl (\<lambda>used2.
     orReturn (checkRecordedPIDs E (snap_states snapshot)) Inl (\<lambda>used3.
     unlessErr (verifyInventoryUnchanged E g desiredName snapshot runtimeArtifacts units) Inl (
       State_Monad.return (Inr (used1 @ used2 @ used3 @ ix_Keep ix)))))))))))"

fun sweepBinaries ::
    "env \<Rightarrow> string \<Rightarrow> string list \<Rightarrow> string list \<Rightarrow> dirEntry list \<Rightarrow> (binaryGCResult \<times> error option) prog" where
  "sweepBinaries E binDir keeping removed [] = State_Monad.return
     (\<lparr>gcr_Skipped = False, gcr_Reason = None, gcr_Removed = sort removed\<rparr>, None)"
| "sweepBinaries E binDir keeping removed (entry # entries) =
     (if \<not> binaryNamePattern (de_name entry) then sweepBinaries E binDir keeping removed entries
      else
        let path = path_Join [binDir, de_name entry] in
        orReturn (Lstat E path) binaryGCSkip (\<lambda>info.
        if \<not> IsRegular info \<or> de_name entry \<in> set keeping
        then sweepBinaries E binDir keeping removed entries
        else
        unlessErr (Remove E path)
            (\<lambda>e. (\<lparr>gcr_Skipped = False, gcr_Reason = None, gcr_Removed = removed\<rparr>, Some e))
          (sweepBinaries E binDir keeping (removed @ [path]) entries)))"

definition gc_Run :: "env \<Rightarrow> binaryGarbageCollector \<Rightarrow> (binaryGCResult \<times> error option) prog" where
  "gc_Run E g =
     withLock ''mountStateInventory'' (
     orReturn (gcInventory E g) binaryGCSkip (\<lambda>keeping.
     orReturn (ReadDir E (gc_binDir g)) binaryGCSkip (\<lambda>entries.
       sweepBinaries E (gc_binDir g) keeping [] entries)))"

section \<open>What a run keeps\<close>

text \<open>Looking at the host removes nothing.\<close>

abbreviation keepsFiles :: "event list \<Rightarrow> bool" where
  "keepsFiles n \<equiv> list_all (\<lambda>e. \<not> removal e) n"

lemma observation_keeps: "hostObservation e \<Longrightarrow> \<not> removal e"
  by (cases e) auto

lemma observations_keep: "list_all hostObservation n \<Longrightarrow> keepsFiles n" "\<forall>e\<in>set n. hostObservation e \<Longrightarrow> keepsFiles n"
  by (auto simp: list_all_iff observation_keeps)

text \<open>The record of a volume, read from its file.\<close>

definition recordSeen :: "env \<Rightarrow> string \<Rightarrow> string \<Rightarrow> mountState \<Rightarrow> event list \<Rightarrow> bool" where
  "recordSeen E dir name state n \<longleftrightarrow>
     (\<exists>body. EvReadFile (path_Join [dir, name]) (Inr body) \<in> set n \<and> decodeMountState E body = Inr state
        \<and> name = VolumeID state @ ''.json'')"

lemma recordSeen_append [seen_append]:
  "recordSeen E dir name state (n2 @ n1) \<longleftrightarrow> recordSeen E dir name state n2 \<or> recordSeen E dir name state n1"
  by (auto simp: recordSeen_def)

lemma recordSeen_Cons: "recordSeen E dir name state n \<Longrightarrow> recordSeen E dir name state (e # n)"
  by (auto simp: recordSeen_def)

lemma emits_readDesiredBinaryName:
  "emits (readDesiredBinaryName E g) (\<lambda>r n. keepsFiles n
     \<and> (\<forall>desired. r = Inr desired \<longrightarrow> EvReadlink (path_Join [gc_binDir g, ''drive9'']) (Inr desired) \<in> set n))"
  unfolding readDesiredBinaryName_def Let_def host_defs by (intro emits_wp) auto

lemma emits_readStateEntry:
  "emits (readStateEntry E dir name) (\<lambda>r n. keepsFiles n
     \<and> (\<forall>body state. r = Inr (body, state) \<longrightarrow> recordSeen E dir name state n))"
  unfolding readStateEntry_def host_defs
  by (intro emits_wp) (auto simp: recordSeen_def split: sum.splits if_splits)

lemma emits_readStateEntries:
  "emits (readStateEntries E dir entries) (\<lambda>r n. keepsFiles n
     \<and> (\<forall>found. r = Inr found \<longrightarrow> (\<forall>entry\<in>set entries. mountStateEntry entry \<longrightarrow>
          (\<exists>body state. (de_name entry, body, state) \<in> set found \<and> recordSeen E dir (de_name entry) state n))))"
proof (induction entries)
  case (Cons entry entries)
  have rest: "emits (readStateEntries E dir entries) (\<lambda>r n. keepsFiles n
     \<and> (\<forall>found. r = Inr found \<longrightarrow> (\<forall>entry\<in>set entries. mountStateEntry entry \<longrightarrow>
          (\<exists>body state. (de_name entry, body, state) \<in> set found \<and> recordSeen E dir (de_name entry) state n))))"
    by (rule Cons.IH)
  show ?case
    unfolding readStateEntries.simps
    by (intro emits_wp_if emits_conseq [OF rest] emits_orReturn [OF emits_readStateEntry] emits_orReturn [OF rest]
        emits_return) (auto simp: seen_append, blast+)
qed (simp add: emits_return)

lemma emits_readStateSnapshot:
  "emits (readStateSnapshot E g) (\<lambda>r n. keepsFiles n
     \<and> (\<forall>snapshot. r = Inr snapshot \<longrightarrow> (\<exists>entries. EvReadDir (gc_stateDir g) (Inr entries) \<in> set n
          \<and> (\<forall>entry\<in>set entries. mountStateEntry entry \<longrightarrow>
               (\<exists>state\<in>set (snap_states snapshot). recordSeen E (gc_stateDir g) (de_name entry) state n)))))"
proof -
  have states: "(name, body, state) \<in> set found \<Longrightarrow> state \<in> set (snap_states (snapshotOf found))" for name body state found
    by (force simp: snapshotOf_def)
  show ?thesis
    unfolding readStateSnapshot_def host_defs
    by (intro emits_wp emits_orReturn [OF emits_readStateEntries])
      (fastforce dest: states intro: recordSeen_append [THEN iffD2] simp: seen_append)+
qed

lemma emits_listRuntimeArtifacts: "emits (listRuntimeArtifacts E g) (\<lambda>_ n. keepsFiles n)"
  unfolding listRuntimeArtifacts_def host_defs by (intro emits_wp) auto

lemma emits_listDrive9SystemdUnits: "emits (listDrive9SystemdUnits E) (\<lambda>_ n. keepsFiles n)"
  unfolding listDrive9SystemdUnits_def by (intro emits_wp emits_orReturn [OF emits_runOutput]) auto

lemma keeping_only:
  "emits m (\<lambda>r n. list_all hostObservation n \<and> P r n) \<Longrightarrow> emits_only (\<lambda>e. \<not> removal e) m"
  "emits m (\<lambda>r n. (\<forall>e\<in>set n. hostObservation e) \<and> P' r n) \<Longrightarrow> emits_only (\<lambda>e. \<not> removal e) m"
  unfolding emits_only_def by (erule emits_conseq, simp add: list_all_iff observation_keeps)+

lemmas gc_looks = emits_observeStartingProcess [THEN keeping_only(1)]
  emits_verifyMountSystemdUnitDescription [THEN keeping_only(1)] emits_querySystemdMainPID [THEN keeping_only(1)]
  emits_verifySystemdMainPIDOwnership [THEN keeping_only(1)] emits_readHostProcessStartTime [THEN keeping_only(2)]
  emits_verifyProcessOwnership [THEN keeping_only(2)]

lemma keepsFiles_only: "emits_only (\<lambda>e. \<not> removal e) m \<Longrightarrow> emits m (\<lambda>_ n. keepsFiles n)"
  by (simp add: emits_only_def list_all_iff)

lemma emits_checkArtifacts: "emits (checkArtifacts E hostDir ix names) (\<lambda>_ n. keepsFiles n)"
  by (rule keepsFiles_only, induction names) (auto intro!: emits_intro gc_looks)

lemma emits_checkUnits: "emits (checkUnits E ix units) (\<lambda>_ n. keepsFiles n)"
  by (rule keepsFiles_only, induction units) (auto intro!: emits_intro gc_looks)

lemma emits_checkRecordedPIDs: "emits (checkRecordedPIDs E states) (\<lambda>_ n. keepsFiles n)"
  by (rule keepsFiles_only, induction states) (auto simp: checkRecordedPID_def intro!: emits_intro gc_looks)

lemma emits_verifyInventoryUnchanged: "emits (verifyInventoryUnchanged E g d s a u) (\<lambda>_ n. keepsFiles n)"
  unfolding verifyInventoryUnchanged_def
  by (intro emits_wp emits_orReturn [OF emits_readDesiredBinaryName] emits_orReturn [OF emits_readStateSnapshot]
      emits_orReturn [OF emits_listRuntimeArtifacts] emits_orReturn [OF emits_listDrive9SystemdUnits]) auto

lemma indexStates_keep:
  "indexStates states ix = Inr ix' \<Longrightarrow> set (ix_Keep ix) \<subseteq> set (ix_Keep ix')
     \<and> (\<forall>state\<in>set states. set (recordedBinaries state) \<subseteq> set (ix_Keep ix'))"
proof (induction states arbitrary: ix)
  case (Cons state states)
  then obtain names where "indexStates states \<lparr>ix_Keep = recordedBinaries state @ ix_Keep ix,
      ix_Units = (SystemdUnit state, state) # ix_Units ix,
      ix_Artifacts = map (\<lambda>name. (name, state)) names @ ix_Artifacts ix\<rparr> = Inr ix'"
    by (auto simp: echeck_def ebind_def split: sum.splits option.splits)
  from Cons.IH [OF this] show ?case by auto
qed simp

text \<open>The binaries of the desired link and of every record are kept.\<close>

definition inventoried :: "env \<Rightarrow> binaryGarbageCollector \<Rightarrow> string list \<Rightarrow> event list \<Rightarrow> bool" where
  "inventoried E g keeping n \<longleftrightarrow>
     (\<exists>desired\<in>set keeping. EvReadlink (path_Join [gc_binDir g, ''drive9'']) (Inr desired) \<in> set n)
     \<and> (\<exists>entries. EvReadDir (gc_stateDir g) (Inr entries) \<in> set n
          \<and> (\<forall>entry\<in>set entries. mountStateEntry entry \<longrightarrow>
               (\<exists>state. recordSeen E (gc_stateDir g) (de_name entry) state n
                  \<and> set (recordedBinaries state) \<subseteq> set keeping)))"

lemma inventoried_append: "inventoried E g keeping n \<Longrightarrow> inventoried E g keeping (n2 @ n @ n1)"
  unfolding inventoried_def by (simp add: seen_append) blast

lemma emits_gcInventory:
  "emits (gcInventory E g) (\<lambda>r n. keepsFiles n \<and> (\<forall>keeping. r = Inr keeping \<longrightarrow> inventoried E g keeping n))"
  unfolding gcInventory_def
proof (intro emits_orReturn [OF emits_readDesiredBinaryName] emits_orReturn [OF emits_readStateSnapshot] emits_ifOk
    emits_orReturn [OF emits_listRuntimeArtifacts] emits_orReturn [OF emits_checkArtifacts]
    emits_orReturn [OF emits_listDrive9SystemdUnits] emits_orReturn [OF emits_checkUnits]
    emits_orReturn [OF emits_checkRecordedPIDs] emits_unlessErr [OF emits_verifyInventoryUnchanged] emits_return, goal_cases)
  case (10 desired n1 snapshot n2 ix artifacts n3 used1 n4 units n5 used2 n6 used3 n7 n8)
  let ?keeping = "used1 @ used2 @ used3 @ ix_Keep ix"
  have keep: "desired \<in> set ?keeping" "\<forall>state\<in>set (snap_states snapshot). set (recordedBinaries state) \<subseteq> set ?keeping"
    using indexStates_keep [OF 10(3)] by auto
  obtain entries where entries: "EvReadDir (gc_stateDir g) (Inr entries) \<in> set n2"
    and records: "\<And>entry. entry \<in> set entries \<Longrightarrow> mountStateEntry entry \<Longrightarrow>
      \<exists>state\<in>set (snap_states snapshot). recordSeen E (gc_stateDir g) (de_name entry) state n2"
    using 10(2) by blast
  have "\<exists>state. recordSeen E (gc_stateDir g) (de_name entry) state (n2 @ n1) \<and> set (recordedBinaries state) \<subseteq> set ?keeping"
    if "entry \<in> set entries" "mountStateEntry entry" for entry
    using records [OF that] keep(2) by (blast intro: recordSeen_append [THEN iffD2])
  then have "inventoried E g ?keeping (n2 @ n1)"
    using 10(1) keep(1) entries unfolding inventoried_def by (intro conjI bexI [of _ desired] exI [of _ entries]) simp_all
  then have "inventoried E g ?keeping ((n8 @ n7 @ n6 @ n5 @ n4 @ n3) @ (n2 @ n1) @ [])"
    by (rule inventoried_append)
  with 10 show ?case by auto
qed auto

text \<open>A removal is of a regular file with the name of a binary that is not kept.\<close>

fun sweepGuard :: "string \<Rightarrow> string list \<Rightarrow> event \<Rightarrow> event list \<Rightarrow> bool" where
  "sweepGuard binDir keeping (EvRemove p r) h =
     (\<exists>name info. p = path_Join [binDir, name] \<and> binaryNamePattern name \<and> name \<notin> set keeping
        \<and> EvLstat p (Inr info) \<in> set h \<and> IsRegular info)"
| "sweepGuard binDir keeping e h = True"

lemma sweepGuard_more: "sweepGuard binDir keeping e h \<Longrightarrow> sweepGuard binDir keeping e (h @ n1)"
  by (cases e) auto

lemma emits_sweepBinaries:
  "emits (sweepBinaries E binDir keeping removed entries) (\<lambda>_ n. guarded (sweepGuard binDir keeping) n)"
proof (induction entries arbitrary: removed)
  case (Cons entry entries)
  have rest: "emits (sweepBinaries E binDir keeping removed entries) (\<lambda>_ n. guarded (\<lambda>e h. sweepGuard binDir keeping e (h @ n1)) n)"
    for removed n1
    by (rule emits_conseq [OF Cons.IH]) (erule guarded_mono, erule sweepGuard_more)
  show ?case
    unfolding sweepBinaries.simps Let_def host_defs
    by (intro emits_wp emits_conseq [OF Cons.IH] emits_conseq [OF rest]) (auto simp: rest)
qed (simp add: emits_return)

definition gcRun :: "env \<Rightarrow> binaryGarbageCollector \<Rightarrow> event \<Rightarrow> event list \<Rightarrow> bool" where
  "gcRun E g e h \<longleftrightarrow> removal e \<longrightarrow>
     (\<exists>keeping earlier. sweepGuard (gc_binDir g) keeping e h \<and> (\<exists>later. h = later @ earlier) \<and> inventoried E g keeping earlier)"

lemma gcRun_keeps: "keepsFiles n \<Longrightarrow> guarded (gcRun E g) n" "keepsFiles n \<Longrightarrow> guarded (\<lambda>e h. gcRun E g e (h @ n1)) n"
  by (auto intro!: guarded_free simp: list_all_iff gcRun_def)

lemma emits_gc_Run: "emits (gc_Run E g) (\<lambda>_ n. guarded (gcRun E g) n)"
proof -
  have sweep: "emits (sweepBinaries E (gc_binDir g) keeping [] entries)
      (\<lambda>_ n. guarded (\<lambda>e h. gcRun E g e (h @ listed # n1 @ [EvLock x])) n)"
    if "inventoried E g keeping n1" for keeping entries listed n1 x
  proof (rule emits_conseq [OF emits_sweepBinaries], erule guarded_mono)
    fix e h
    assume "sweepGuard (gc_binDir g) keeping e h"
    then have "sweepGuard (gc_binDir g) keeping e (h @ listed # n1 @ [EvLock x])"
      by (rule sweepGuard_more)
    moreover have "inventoried E g keeping (n1 @ [EvLock x])"
      using inventoried_append [OF that, of "[]"] by simp
    ultimately show "gcRun E g e (h @ listed # n1 @ [EvLock x])"
      unfolding gcRun_def by (intro impI exI [of _ keeping] exI [of _ "n1 @ [EvLock x]"] conjI exI [of _ "h @ [listed]"]) simp_all
  qed
  show ?thesis
    unfolding gc_Run_def host_defs
    by (intro emits_withLock emits_orReturn [OF emits_gcInventory] emits_wp emits_conseq [OF sweep])
      (auto simp: gcRun_keeps gcRun_def [where e = "EvLock _"] gcRun_def [where e = "EvUnlock _"] gcRun_def [where e = "EvReadDir _ _"])
qed

section \<open>A node with a binary nobody uses\<close>

definition exOldBinary :: string where "exOldBinary = ''drive9-'' @ replicate 64 (CHR ''0'')"
definition exNewBinary :: string where "exNewBinary = ''drive9-'' @ replicate 64 (CHR ''b'')"

definition exCollector :: binaryGarbageCollector where
  "exCollector = \<lparr>gc_stateDir = ''/s'', gc_binDir = ''/b'', gc_runDir = ''/r''\<rparr>"

definition exTrash :: env where
  "exTrash = (calmHost (\<lambda>s. ''x'') (\<lambda>body. Some exActive))
     \<lparr>e_ReadDir := \<lambda>tr p. Inr
        (if p = ''/s'' then [\<lparr>de_name = exVolume @ ''.json'', de_kind = Regular\<rparr>]
         else if p = ''/b'' then [\<lparr>de_name = exNewBinary, de_kind = Regular\<rparr>, \<lparr>de_name = exOldBinary, de_kind = Regular\<rparr>]
         else []),
      e_Readlink := \<lambda>tr p. Inr exNewBinary,
      e_Lstat := \<lambda>tr p. Inr \<lparr>fi_kind = if p = ''/b/drive9'' then Symlink else Regular, fi_perm = perm600, fi_size = 1\<rparr>,
      e_ReadFile := \<lambda>tr p. if p = exStatePath then Inr ''x'' else Inl (Sentinel ErrNotExist)\<rparr>"

lemma exTrash_answers [simp]:
  "e_ReadDir exTrash tr ''/s'' = Inr [\<lparr>de_name = exVolume @ ''.json'', de_kind = Regular\<rparr>]"
  "e_ReadDir exTrash tr ''/b'' = Inr [\<lparr>de_name = exNewBinary, de_kind = Regular\<rparr>, \<lparr>de_name = exOldBinary, de_kind = Regular\<rparr>]"
  "e_ReadDir exTrash tr ''/r'' = Inr []" "e_Readlink exTrash tr p = Inr exNewBinary"
  "e_Lstat exTrash tr p = Inr \<lparr>fi_kind = if p = ''/b/drive9'' then Symlink else Regular, fi_perm = perm600, fi_size = 1\<rparr>"
  "e_ReadFile exTrash tr exStatePath = Inr ''x''" "e_ReadFile exTrash tr ''/host-proc/7/stat'' = Inl (Sentinel ErrNotExist)"
  "e_DecodeState exTrash body = Some exActive" "e_Remove exTrash tr p = None"
  "e_Exec exTrash tr c = (\<lparr>cmd_Stdout = [], cmd_Stderr = [], cmd_ExitCode = 0\<rparr>, None)"
  by (simp_all add: exTrash_def calmHost_def)

lemma exCollector_simps [simp]: "gc_stateDir exCollector = ''/s''" "gc_binDir exCollector = ''/b''" "gc_runDir exCollector = ''/r''"
  by (simp_all add: exCollector_def)

lemma ex_gc_names:
  "path_Join [''/b'', ''drive9''] = ''/b/drive9''" "path_Join [''/b'', exNewBinary] \<noteq> ''/b/drive9''"
  "path_Join [''/b'', exOldBinary] \<noteq> ''/b/drive9''" "path_Base exNewBinary = exNewBinary"
  "binaryNamePattern exNewBinary" "binaryNamePattern exOldBinary" "exOldBinary \<noteq> exNewBinary"
  "path_Join [''/s'', exVolume @ ''.json''] = exStatePath" "exStatePath \<noteq> ''/b/drive9''"
  "path_Base (exBinary (CHR ''b'')) = exNewBinary" "HasSuffix (exVolume @ ''.json'') ''.json''"
  "\<not> HasPrefix (exVolume @ ''.json'') ''published-''"
  by code_simp+

lemma exTrash_desired: "yields (readDesiredBinaryName exTrash exCollector) (Inr exNewBinary)"
  using ex_gc_names
  by (simp add: yields_def readDesiredBinaryName_def host_defs run_simps Let_def IsRegular_def del: append.simps)

lemma ex_volume_id: "VolumeID exActive = exVolume"
  by (simp add: ex_defs)

definition exSnapshot :: binaryGCStateSnapshot where
  "exSnapshot = snapshotOf [(exVolume @ ''.json'', ''x'', exActive)]"

lemma exTrash_snapshot: "yields (readStateSnapshot exTrash exCollector) (Inr exSnapshot)"
  using ex_gc_names exActive_valid
  by (simp add: yields_def readStateSnapshot_def readStateEntry_def mountStateEntry_def IsDir_def host_defs run_simps
      IsRegular_def decodeMountState_def ex_volume_id exSnapshot_def del: append.simps)

lemma exTrash_artifacts: "yields (listRuntimeArtifacts exTrash exCollector) (Inr [])"
  by (simp add: yields_def listRuntimeArtifacts_def host_defs run_simps)

lemma exTrash_units: "yields (listDrive9SystemdUnits exTrash) (Inr [])"
proof -
  have "parseUnitListing (Split (CHR 0x0A) (TrimSpace [])) = Inr []"
    by code_simp
  then show ?thesis by (simp add: yields_def listDrive9SystemdUnits_def runOutput_def host_defs run_simps)
qed

lemma exTrash_pids: "yields (checkRecordedPIDs exTrash [exActive]) (Inr [])"
  by (simp add: yields_def checkRecordedPID_def readHostProcessStartTime_def host_defs run_simps)

lemma exTrash_unchanged: "yields (verifyInventoryUnchanged exTrash exCollector exNewBinary exSnapshot [] []) None"
  unfolding verifyInventoryUnchanged_def
  by (intro yields_orReturn [OF exTrash_desired] yields_if yields_orReturn [OF exTrash_snapshot]
      yields_orReturn [OF exTrash_artifacts] yields_orReturn [OF exTrash_units]) (simp_all add: yields_return)

lemma exTrash_keeping: "\<exists>keeping. set keeping = {exNewBinary} \<and> yields (gcInventory exTrash exCollector) (Inr keeping)"
proof -
  obtain names where names: "recordedArtifacts exActive = Inr names"
    using drive9ControlSocketPath_root [OF ex_parts(6)] drive9ProcessStatePath_Inr [OF ex_parts(6)]
    by (simp add: recordedArtifacts_def ex_defs ebind_def)
  obtain ix where ix: "indexStates (snap_states exSnapshot) \<lparr>ix_Keep = [exNewBinary], ix_Units = [], ix_Artifacts = []\<rparr> = Inr ix"
    and keep: "ix_Keep ix = [exNewBinary, exNewBinary]"
    using names ex_gc_names by (simp add: exSnapshot_def snapshotOf_def echeck_def ebind_def recordedBinaries_def ex_defs)
  have states: "snap_states exSnapshot = [exActive]"
    by (simp add: exSnapshot_def snapshotOf_def)
  have "yields (gcInventory exTrash exCollector) (Inr (ix_Keep ix))"
    unfolding gcInventory_def
    by (intro yields_orReturn [OF exTrash_desired] yields_orReturn [OF exTrash_snapshot] yields_ifs(2) [OF ix]
        yields_orReturn [OF exTrash_artifacts] yields_orReturn [OF exTrash_units] yields_unlessErr [OF exTrash_unchanged]
        yields_orReturn [where x = "[]"])
      (simp_all add: yields_return states exTrash_pids del: checkRecordedPIDs.simps(2))
  with keep show ?thesis by force
qed

lemma exTrash_run: "\<exists>r. does (gc_Run exTrash exCollector) r (EvRemove (path_Join [''/b'', exOldBinary]) None)"
proof -
  obtain keeping where keeping: "set keeping = {exNewBinary}" "yields (gcInventory exTrash exCollector) (Inr keeping)"
    using exTrash_keeping by blast
  obtain r where "does (sweepBinaries exTrash ''/b'' keeping []
      [\<lparr>de_name = exNewBinary, de_kind = Regular\<rparr>, \<lparr>de_name = exOldBinary, de_kind = Regular\<rparr>]) r
      (EvRemove (path_Join [''/b'', exOldBinary]) None)"
    using keeping(1) ex_gc_names by (simp add: does_def host_defs run_simps Let_def IsRegular_def del: append.simps)
  then have "does (gc_Run exTrash exCollector) r (EvRemove (path_Join [''/b'', exOldBinary]) None)"
    unfolding gc_Run_def host_defs
    by (intro does_withLock does_later(2) [OF keeping(2)] does_later(2) [OF yields_perform]) (simp_all del: sweepBinaries.simps)
  then show ?thesis ..
qed

section \<open>Properties\<close>

text \<open>
  C11: the collector removes only regular files with the name of a content-addressed binary, and
  before it removes one it has, under the lock of the inventory, seen the desired link name another
  binary and read the record of every state file in the state directory, none of which names it.
\<close>

theorem gc_keeps_used_binaries:
  assumes "run_state (gc_Run E g) tr = (r, (later @ EvRemove p x # earlier) @ tr)"
  shows "\<exists>name info desired entries. p = path_Join [gc_binDir g, name] \<and> binaryNamePattern name
    \<and> EvLstat p (Inr info) \<in> set earlier \<and> IsRegular info
    \<and> EvReadlink (path_Join [gc_binDir g, ''drive9'']) (Inr desired) \<in> set earlier \<and> name \<noteq> desired
    \<and> EvReadDir (gc_stateDir g) (Inr entries) \<in> set earlier
    \<and> (\<forall>entry\<in>set entries. mountStateEntry entry \<longrightarrow>
         (\<exists>state. recordSeen E (gc_stateDir g) (de_name entry) state earlier \<and> name \<notin> set (recordedBinaries state)))"
proof -
  have "gcRun E g (EvRemove p x) earlier"
    using guarded_split [OF emits_ran [OF emits_gc_Run assms]] .
  then obtain keeping h later' name info where h: "earlier = later' @ h" "inventoried E g keeping h"
    and name: "p = path_Join [gc_binDir g, name]" "binaryNamePattern name" "name \<notin> set keeping"
      "EvLstat p (Inr info) \<in> set earlier" "IsRegular info"
    unfolding gcRun_def by auto
  from inventoried_append [OF h(2), of later' "[]"] have "inventoried E g keeping earlier"
    by (simp add: h(1))
  then obtain desired entries where "desired \<in> set keeping"
      "EvReadlink (path_Join [gc_binDir g, ''drive9'']) (Inr desired) \<in> set earlier"
      "EvReadDir (gc_stateDir g) (Inr entries) \<in> set earlier"
      "\<forall>entry\<in>set entries. mountStateEntry entry \<longrightarrow>
         (\<exists>state. recordSeen E (gc_stateDir g) (de_name entry) state earlier \<and> set (recordedBinaries state) \<subseteq> set keeping)"
    unfolding inventoried_def by blast
  with name show ?thesis
    by (intro exI [of _ name] exI [of _ info] exI [of _ desired] exI [of _ entries] conjI) blast+
qed

theorem gc_keeps_used_binaries_witness:
  "\<exists>name desired earlier. path_Join [''/b'', name] = path_Join [''/b'', exOldBinary] \<and> binaryNamePattern name
     \<and> EvReadlink ''/b/drive9'' (Inr desired) \<in> set earlier \<and> name \<noteq> desired"
proof -
  obtain r where "does (gc_Run exTrash exCollector) r (EvRemove (path_Join [''/b'', exOldBinary]) None)"
    using exTrash_run by blast
  from does_run [OF this, of "[]"] obtain later earlier where
    run: "run_state (gc_Run exTrash exCollector) [] = (r, (later @ EvRemove (path_Join [''/b'', exOldBinary]) None # earlier) @ [])"
    by auto
  show ?thesis
    using gc_keeps_used_binaries [OF run, unfolded exCollector_simps ex_gc_names(1)] by metis
qed

end
