(* ===== verification/NodeRecovery.thy ===== *)
theory NodeRecovery
  imports NodeStage BinaryGC
begin

text \<open>
  \<open>internal/driver/node_recovery.go\<close>: when the node plugin starts, every recorded mount is looked
  at again and the transaction its record describes is carried on, volume by volume and without a
  request; then the unused binaries are collected. Nothing is returned: a problem is logged and the
  record is left for the next start. The warning that is logged is the value of the model.
\<close>

section \<open>The mode\<close>

definition normalizeNodeRecoveryMode :: "string \<Rightarrow> string" where
  "normalizeNodeRecoveryMode mode =
     (let m = ToLower (TrimSpace mode) in if m = [] then nodeRecoveryAuto else m)"

definition validateNodeRecoveryMode :: "string \<Rightarrow> error option" where
  "validateNodeRecoveryMode mode =
     fail_if (mode \<noteq> nodeRecoveryAuto \<and> mode \<noteq> nodeRecoveryEnabled \<and> mode \<noteq> nodeRecoveryDisabled)
       (Errorf ''recover-node-mounts must be one of auto, enabled, or disabled'')"

definition shouldRecoverNodeMounts :: "driver \<Rightarrow> error + bool" where
  "shouldRecoverNodeMounts d =
     (let mode = cfg_RecoverNodeMounts (d_cfg d) in
      if mode = nodeRecoveryDisabled then Inr False
      else if mode = nodeRecoveryEnabled \<or> mode = nodeRecoveryAuto then Inr True
      else case validateNodeRecoveryMode mode of Some e \<Rightarrow> Inl e | None \<Rightarrow> Inr False)"

section \<open>What recovery may trust\<close>

definition credentialsFromVolumeAttributes :: "env \<Rightarrow> params \<Rightarrow> (error + drive9Credentials) prog" where
  "credentialsFromVolumeAttributes E attrs =
     (let secretName = TrimSpace (mapGet attrs attrSecretName);
          secretNamespace = TrimSpace (mapGet attrs attrSecretNamespace) in
      if secretName = [] \<or> secretNamespace = []
      then State_Monad.return (Inl (Status FailedPrecondition ''volume attributes missing secretName/secretNamespace''))
      else readCredentialsFromSecret E secretName secretNamespace)"

text \<open>The contract of a record does not include the settings a restart may change.\<close>

definition contractAttrs :: "params \<Rightarrow> params" where
  "contractAttrs attrs =
     filter (\<lambda>(key, value). key \<notin> {paramAttrTTL, paramEntryTTL, paramDirTTL, paramPerfEnabled}) attrs"

definition validateRecoveryVolumeContext :: "Config \<Rightarrow> mountState \<Rightarrow> params \<Rightarrow> error option" where
  "validateRecoveryVolumeContext cfg state attrs =
     (case drive9MountRequestFromAttributes cfg (VolumeID state) (StagingTarget state) (contractAttrs attrs)
             \<lparr>cred_Server = [], cred_APIKey = []\<rparr> of
        Inl e \<Rightarrow> Some e
      | Inr request \<Rightarrow>
          fail_if (req_RemoteRoot request \<noteq> RemoteRoot state)
            (Errorf ''PV remote root does not match durable state''))"

fun collectStates :: "env \<Rightarrow> string \<Rightarrow> dirEntry list \<Rightarrow> mountState list prog" where
  "collectStates E stateDir [] = State_Monad.return []"
| "collectStates E stateDir (entry # entries) =
     (if \<not> mountStateEntry entry then collectStates E stateDir entries
      else do {
        r \<leftarrow> ReadFile E (path_Join [stateDir, de_name entry]);
        rest \<leftarrow> collectStates E stateDir entries;
        State_Monad.return (case ebind r (decodeMountState E) of Inl e \<Rightarrow> rest | Inr state \<Rightarrow> state # rest) })"

definition listMountStates :: "env \<Rightarrow> string \<Rightarrow> mountState list prog" where
  "listMountStates E stateDir =
     orReturn (ReadDir E stateDir) (\<lambda>_. []) (\<lambda>entries. collectStates E stateDir entries)"

section \<open>One record\<close>

text \<open>The warning a run logs, if any; \<open>None\<close> outside is a run that has not returned.\<close>

type_synonym recoveryOutcome = "error option option"

definition recoverStopping :: "env \<Rightarrow> driver \<Rightarrow> mountState \<Rightarrow> error option prog" where
  "recoverStopping E d state =
     ifNil (driver_require d nodeOperationUnstage) Some (do {
       (result, err) \<leftarrow> Stop_Reconcile E (stateRepository E d) state;
       State_Monad.return err })"

text \<open>Credentials and the remote side, before anything is started.\<close>

definition recoveryCredentials ::
    "env \<Rightarrow> driver \<Rightarrow> mountState \<Rightarrow> params \<Rightarrow> (error + drive9Credentials) prog" where
  "recoveryCredentials E d state attrs =
     ifNil (driver_require d nodeOperationCreate) Inl (
     orReturn (credentialsFromVolumeAttributes E attrs) Inl (\<lambda>creds.
     unlessErr (validateNodeStageRemote E d creds (isWorkspaceRootVolumeID (VolumeID state)) (VolumeID state)
         (RemoteRoot state)) Inl (State_Monad.return (Inr creds))))"

definition recoverStarting ::
    "env \<Rightarrow> nat \<Rightarrow> nat \<Rightarrow> driver \<Rightarrow> mountState \<Rightarrow> params \<Rightarrow> recoveryOutcome prog" where
  "recoverStarting E fuel rounds d state attrs =
     ifNil (driver_require d nodeOperationHealthyStage) failed (
     whenDone (reconcileStarting E fuel rounds d state) (\<lambda>r.
     ifOk r failed (\<lambda>(result, err).
     if result = startingReconcilePromoted \<or> result = startingReconcileDeleted then State_Monad.return (Some None)
     else if err \<noteq> None \<and> \<not> err_is err ErrStartingCredentialsRequired then State_Monad.return (Some err)
     else
     orReturn (recoveryCredentials E d state attrs) failed (\<lambda>creds.
     whenDone (Starting_Reconcile E fuel (stateRepository E d) state
         (Some \<lparr>lc_Server = cred_Server creds, lc_APIKey = cred_APIKey creds\<rparr>) True rounds) (\<lambda>(result, err).
       State_Monad.return (Some err))))))"

definition recoverActive ::
    "env \<Rightarrow> nat \<Rightarrow> driver \<Rightarrow> mountState \<Rightarrow> params \<Rightarrow> recoveryOutcome prog" where
  "recoverActive E fuel d state attrs =
     ifNil (driver_require d nodeOperationHealthyStage) failed (do {
       health \<leftarrow> verifyActiveMountLocally E d state (VolumeID state) (RemoteRoot state) (StagingTarget state);
       if health = None then State_Monad.return (Some None)
       else
       orReturn (observeActiveRecovery E state) failed (\<lambda>observation.
       ifOk (decideActiveRecovery observation) failed (\<lambda>actions.
       if actions = [activeRecoverySkip] then State_Monad.return (Some None)
       else
       orReturn (recoveryCredentials E d state attrs) failed (\<lambda>creds.
       ifOk (drive9MountRequestFromAttributes (d_cfg d) (VolumeID state) (StagingTarget state) attrs creds) failed (\<lambda>request.
       orReturn (validateDesiredDrive9Content E) failed (\<lambda>desiredBinary.
       whenDone (coordinateActiveRecovery state desiredBinary observation (Some
           (driverActiveRecoveryExecutor E fuel (stateRepository E d)
              \<lparr>lc_Server = cred_Server creds, lc_APIKey = cred_APIKey creds\<rparr> (driver_drive9MountArgs d request))))
         (\<lambda>(result, err). State_Monad.return (Some err))))))) })"

definition recoverRecorded ::
    "env \<Rightarrow> nat \<Rightarrow> nat \<Rightarrow> driver \<Rightarrow> mountState \<Rightarrow> recoveryOutcome prog" where
  "recoverRecorded E fuel rounds d state =
     (if \<not> pathUnderRoot (StagingTarget state) defaultKubeletRoot
      then State_Monad.return (failed (Errorf ''staging target is outside the kubelet root''))
      else if Phase state = mountStatePhaseStarting \<or> Phase state = mountStatePhaseActive then
        orReturn (resolveRecoveryVolumeContextFromPV E (cfg_DriverName (d_cfg d)) (VolumeID state)) failed (\<lambda>(attrs, _).
        ifNil (validateRecoveryVolumeContext (d_cfg d) state attrs) failed (
        if Phase state = mountStatePhaseStarting then recoverStarting E fuel rounds d state attrs
        else recoverActive E fuel d state attrs))
      else if Phase state = mountStatePhaseStopping then returned (recoverStopping E d state)
      else State_Monad.return (failed (Errorf ''unsupported mount phase'')))"

definition recoverOneNodeMount :: "env \<Rightarrow> nat \<Rightarrow> nat \<Rightarrow> driver \<Rightarrow> mountState \<Rightarrow> recoveryOutcome prog" where
  "recoverOneNodeMount E fuel rounds d state =
     (if TrimSpace (VolumeID state) = []
      then State_Monad.return (failed (Errorf ''skipping mount state with empty volumeID''))
      else lockVolume (VolumeID state) (do {
        r \<leftarrow> readMountState E d (VolumeID state);
        case r of
          Inl e \<Rightarrow> State_Monad.return (Some (if errors_Is e ErrNotExist then None else Some e))
        | Inr current \<Rightarrow> recoverRecorded E fuel rounds d current }))"

section \<open>All records\<close>

fun recoverEach :: "env \<Rightarrow> nat \<Rightarrow> nat \<Rightarrow> driver \<Rightarrow> mountState list \<Rightarrow> bool option prog" where
  "recoverEach E fuel rounds d [] = State_Monad.return (Some True)"
| "recoverEach E fuel rounds d (state # states) = do {
     e \<leftarrow> CtxErr E;
     if e \<noteq> None then State_Monad.return (Some False)
     else whenDone (recoverOneNodeMount E fuel rounds d state) (\<lambda>_. recoverEach E fuel rounds d states) }"

text \<open>The records, and then the collection of the binaries, unless the context ended first.\<close>

definition recoverNodeMounts ::
    "env \<Rightarrow> nat \<Rightarrow> nat \<Rightarrow> driver \<Rightarrow> (binaryGCResult \<times> error option) option option prog" where
  "recoverNodeMounts E fuel rounds d = do {
     states \<leftarrow> listMountStates E (cfg_StateDir (d_cfg d));
     whenDone (recoverEach E fuel rounds d states) (\<lambda>finished.
       if \<not> finished then State_Monad.return (Some None)
       else do {
         result \<leftarrow> gc_Run E (newBinaryGarbageCollector (cfg_StateDir (d_cfg d)) hostBinaryDir hostRuntimeDir);
         State_Monad.return (Some (Some result)) }) }"

end
