(* ===== verification/Launcher.thy ===== *)
theory Launcher
  imports StartingReconcile
begin

text \<open>
  \<open>cmd/drive9-csi-launcher\<close>: the process that the transient unit of an attempt starts. It reads the
  two startup files, removes them and becomes the Drive9 binary; with \<open>host-unmount\<close> it unmounts a
  kubelet target instead. The program has its own runtime interface and so its own events.
\<close>

section \<open>The runtime\<close>

datatype launcherEvent =
    LaLstat string "error + fileInfo"
  | LaReadFile string "error + bytes"
  | LaRemove string "error option"
  | LaExec string "string list" "string list" "error option"
  | LaUnmount string bool "error option"

type_synonym 'a launcherProg = "(launcherEvent, 'a) runs"

record launcherRuntime =
  la_Lstat :: "launcherEvent list \<Rightarrow> string \<Rightarrow> error + fileInfo"
  la_ReadFile :: "launcherEvent list \<Rightarrow> string \<Rightarrow> error + bytes"
  la_Remove :: "launcherEvent list \<Rightarrow> string \<Rightarrow> error option"
  la_Exec :: "launcherEvent list \<Rightarrow> string \<Rightarrow> string list \<Rightarrow> string list \<Rightarrow> error option"
  la_Unmount :: "launcherEvent list \<Rightarrow> string \<Rightarrow> bool \<Rightarrow> error option"

definition launcher_Lstat :: "launcherRuntime \<Rightarrow> string \<Rightarrow> (error + fileInfo) launcherProg" where
  "launcher_Lstat L path = perform (\<lambda>h. la_Lstat L h path) (LaLstat path)"

definition launcher_ReadFile :: "launcherRuntime \<Rightarrow> string \<Rightarrow> (error + bytes) launcherProg" where
  "launcher_ReadFile L path = perform (\<lambda>h. la_ReadFile L h path) (LaReadFile path)"

definition launcher_Remove :: "launcherRuntime \<Rightarrow> string \<Rightarrow> error option launcherProg" where
  "launcher_Remove L path = perform (\<lambda>h. la_Remove L h path) (LaRemove path)"

text \<open>\<open>execve\<close> does not come back when it succeeds; \<open>None\<close> is that end of the process.\<close>

definition launcher_Exec :: "launcherRuntime \<Rightarrow> string \<Rightarrow> string list \<Rightarrow> string list \<Rightarrow> error option launcherProg" where
  "launcher_Exec L path argv env = perform (\<lambda>h. la_Exec L h path argv env) (LaExec path argv env)"

text \<open>The unmount system call, with the flag MNT_DETACH when lazy.\<close>

definition performHostUnmount :: "launcherRuntime \<Rightarrow> string \<Rightarrow> bool \<Rightarrow> error option launcherProg" where
  "performHostUnmount L target lazy = perform (\<lambda>h. la_Unmount L h target lazy) (LaUnmount target lazy)"

lemmas launcher_ops = launcher_Lstat_def launcher_ReadFile_def launcher_Remove_def launcher_Exec_def performHostUnmount_def

section \<open>Startup files\<close>

definition maxLauncherInputBytes :: nat where "maxLauncherInputBytes = 1048576"

definition readLauncherInput :: "launcherRuntime \<Rightarrow> string \<Rightarrow> (error + bytes) launcherProg" where
  "readLauncherInput L path =
     orReturn (launcher_Lstat L path) Inl (\<lambda>info.
     if \<not> IsRegular info
     then State_Monad.return (Inl (Errorf ''input must be a regular file, not a symlink''))
     else if fi_size info < 0 \<or> int maxLauncherInputBytes < fi_size info
     then State_Monad.return (Inl (Errorf ''input exceeds 1048576 bytes''))
     else
     orReturn (launcher_ReadFile L path) Inl (\<lambda>body.
     State_Monad.return (
       if maxLauncherInputBytes < length body then Inl (Errorf ''input exceeds 1048576 bytes'')
       else if int (length body) \<noteq> fi_size info then Inl (Errorf ''input changed while being read'')
       else Inr body)))"

definition parseNULTerminatedEntries :: "bytes \<Rightarrow> error + string list" where
  "parseNULTerminatedEntries body =
     (if body = [] then Inl (Errorf ''input is empty'')
      else if last body \<noteq> CHR 0x00 then Inl (Errorf ''input is not NUL-terminated'')
      else Inr (Split (CHR 0x00) (butlast body)))"

fun checkEnvironmentKeys :: "string set \<Rightarrow> string list \<Rightarrow> error option" where
  "checkEnvironmentKeys seen [] = None"
| "checkEnvironmentKeys seen (entry # entries) =
     (case IndexByte entry (CHR ''='') of
        None \<Rightarrow> Some (Errorf ''invalid environment input: each entry requires a non-empty key'')
      | Some separator \<Rightarrow>
          if separator = 0 then Some (Errorf ''invalid environment input: each entry requires a non-empty key'')
          else if take separator entry \<in> seen then Some (Errorf ''invalid environment input: duplicate key'')
          else checkEnvironmentKeys (insert (take separator entry) seen) entries)"

definition parseLauncherEnvironment :: "bytes \<Rightarrow> error + string list" where
  "parseLauncherEnvironment body =
     (case parseNULTerminatedEntries body of
        Inl e \<Rightarrow> Inl (Wrap ''invalid environment input'' e)
      | Inr entries \<Rightarrow> echeck (checkEnvironmentKeys {} entries) (Inr entries))"

definition parseLauncherArguments :: "bytes \<Rightarrow> error + string list" where
  "parseLauncherArguments body =
     (case parseNULTerminatedEntries body of
        Inl e \<Rightarrow> Inl (Wrap ''invalid argument input'' e)
      | Inr argv \<Rightarrow>
          if argv = [] \<or> argv ! 0 = [] then Inl (Errorf ''invalid argument input: argv[0] is required'')
          else Inr argv)"

fun removeInputs :: "launcherRuntime \<Rightarrow> string list \<Rightarrow> error list launcherProg" where
  "removeInputs L [] = State_Monad.return []"
| "removeInputs L (path # paths) = do {
     err \<leftarrow> launcher_Remove L path;
     errs \<leftarrow> removeInputs L paths;
     State_Monad.return (case err of
         None \<Rightarrow> errs
       | Some e \<Rightarrow> if errors_Is e ErrNotExist then errs else e # errs) }"

definition removeLauncherInputs :: "launcherRuntime \<Rightarrow> string list \<Rightarrow> error option launcherProg" where
  "removeLauncherInputs L paths = do { errs \<leftarrow> removeInputs L paths; State_Monad.return (errors_Join errs) }"

section \<open>The commands\<close>

text \<open>Once both files have been read.\<close>

definition execLauncher :: "launcherRuntime \<Rightarrow> bytes \<Rightarrow> bytes \<Rightarrow> error option launcherProg" where
  "execLauncher L envBody argsBody =
     ifOk (parseLauncherEnvironment envBody) Some (\<lambda>env.
     ifOk (parseLauncherArguments argsBody) Some (\<lambda>argv.
     unlessErr (launcher_Exec L (argv ! 0) argv env) (\<lambda>e. Some (Wrap ''execve failed'' e))
       (State_Monad.return None)))"

definition runLauncher :: "launcherRuntime \<Rightarrow> string list \<Rightarrow> error option launcherProg" where
  "runLauncher L args =
     (if length args \<noteq> 2
      then State_Monad.return (Some (Errorf ''exactly two startup file paths are required''))
      else
        let envPath = Clean (args ! 0); argsPath = Clean (args ! 1) in
        if envPath = argsPath
        then State_Monad.return (Some (Errorf ''environment and argument paths must differ''))
        else
        orReturn (readLauncherInput L envPath) (\<lambda>e. Some (Wrap ''read environment input'' e)) (\<lambda>envBody. do {
        r \<leftarrow> readLauncherInput L argsPath;
        case r of
          Inl e \<Rightarrow> do {
            cleanupErr \<leftarrow> removeLauncherInputs L [envPath];
            State_Monad.return (Some (Joined (Wrap ''read argument input'' e # err_list cleanupErr))) }
        | Inr argsBody \<Rightarrow>
            unlessErr (removeLauncherInputs L [envPath, argsPath]) (\<lambda>e. Some (Wrap ''remove startup inputs'' e))
              (execLauncher L envBody argsBody) }))"

definition unmountTargetAllowed :: "string \<Rightarrow> bool" where
  "unmountTargetAllowed target \<longleftrightarrow>
     (let relative = Rel ''/var/lib/kubelet'' target
      in relative \<noteq> ''.'' \<and> relative \<noteq> ''..'' \<and> \<not> HasPrefix relative ''../'')"

definition runHostUnmount :: "launcherRuntime \<Rightarrow> string list \<Rightarrow> error option launcherProg" where
  "runHostUnmount L args =
     (let plain = length args = 2 \<and> args ! 0 = ''--'';
          lazy = length args = 3 \<and> args ! 0 = ''--lazy'' \<and> args ! 1 = ''--'' in
      if \<not> plain \<and> \<not> lazy
      then State_Monad.return (Some (Errorf ''host-unmount requires [--lazy] -- <kubelet-target>''))
      else
        let target = last args in
        if \<not> IsAbs target \<or> Clean target \<noteq> target
        then State_Monad.return (Some (Errorf ''host-unmount target must be a clean absolute path''))
        else if \<not> unmountTargetAllowed target
        then State_Monad.return (Some (Errorf ''host-unmount target must be below /var/lib/kubelet''))
        else unlessErr (performHostUnmount L target lazy) (\<lambda>e. Some (Wrap ''host-unmount'' e))
               (State_Monad.return None))"

definition runLauncherCommand :: "launcherRuntime \<Rightarrow> string list \<Rightarrow> error option launcherProg" where
  "runLauncherCommand L args =
     (if args \<noteq> [] \<and> args ! 0 = ''host-unmount'' then runHostUnmount L (drop 1 args) else runLauncher L args)"

section \<open>The encoding of the startup files is read back\<close>

lemma encodeNULTerminated_Join:
  "xs \<noteq> [] \<Longrightarrow> encodeNULTerminated xs = Join xs [CHR 0x00] @ [CHR 0x00]"
  by (induction xs "[CHR 0x00]" rule: Join.induct) (auto simp: encodeNULTerminated_def)

lemma entries_encoded:
  "xs \<noteq> [] \<Longrightarrow> \<forall>v\<in>set xs. CHR 0x00 \<notin> set v \<Longrightarrow> parseNULTerminatedEntries (encodeNULTerminated xs) = Inr xs"
  by (simp add: parseNULTerminatedEntries_def encodeNULTerminated_Join Split_Join)

lemma IndexByte_key: "b \<notin> set key \<Longrightarrow> IndexByte (key @ b # v) b = Some (length key)"
  by (induction key) auto

lemma environment_entry:
  "CHR ''='' \<notin> set key \<Longrightarrow> key \<noteq> [] \<Longrightarrow> checkEnvironmentKeys seen ((key @ CHR ''='' # v) # entries) =
     (if key \<in> seen then Some (Errorf ''invalid environment input: duplicate key'')
      else checkEnvironmentKeys (insert key seen) entries)"
  by (simp add: IndexByte_key)

text \<open>A content-addressed path is its directory and its name, so it holds no NUL.\<close>

lemma cleanAbs_split:
  assumes "cleanAbs p" and "path_Dir p \<noteq> ''/''"
  shows "p = path_Dir p @ ''/'' @ path_Base p"
proof -
  obtain cs where p: "p = CHR ''/'' # Join cs ''/''" and good: "\<forall>c\<in>set cs. goodComp c"
    using assms(1) by (rule cleanAbsE)
  have root: "path_Dir ''/'' = ''/''" by code_simp
  with p assms(2) obtain ds c where cs: "cs = ds @ [c]" by (cases cs rule: rev_cases) auto
  have c: "CHR ''/'' \<notin> set c" "goodComp c" using good cs by (auto simp: goodComp_def)
  have "ds \<noteq> []"
  proof
    assume "ds = []"
    then have "p = CHR ''/'' # c" using p cs by simp
    moreover have "dropWhile (\<lambda>x. x \<noteq> CHR ''/'') (rev (CHR ''/'' # c)) = ''/''"
      using c(1) by (simp add: dropWhile_append)
    ultimately have "path_Dir p = Clean ''/''" by (simp add: path_Dir_def)
    then show False using assms(2) root by (simp add: path_Dir_def)
  qed
  let ?d = "CHR ''/'' # Join ds ''/''"
  have "p = ?d @ ''/'' @ c" using p cs \<open>ds \<noteq> []\<close> by (simp add: Join_snoc)
  moreover have "cleanAbs ?d" using good cs by (intro cleanAbs_comps) simp
  moreover have "?d \<noteq> ''/''" using \<open>ds \<noteq> []\<close> good cs by (cases ds; cases "tl ds") (auto simp: goodComp_def)
  ultimately show ?thesis using path_Dir_child [of ?d c] path_Base_child [of c ?d] c(2) by simp
qed

lemma content_path_plain: "validateContentAddressedBinaryPath p = None \<Longrightarrow> CHR 0x00 \<notin> set p \<and> p \<noteq> []"
proof -
  assume p: "validateContentAddressedBinaryPath p = None"
  then have "cleanAbs p" "path_Dir p = hostBinaryDir" and base: "binaryNamePattern (path_Base p)"
    by (auto simp: validateContentAddressedBinaryPath_def cleanAbs_def)
  moreover have dir: "hostBinaryDir \<noteq> ''/''" "CHR 0x00 \<notin> set hostBinaryDir" by code_simp+
  ultimately have "p = hostBinaryDir @ ''/'' @ path_Base p" using cleanAbs_split [of p] by simp
  moreover have "CHR 0x00 \<notin> set (path_Base p)"
  proof -
    obtain h where h: "path_Base p = ''drive9-'' @ h" "hexDigits 64 (take 64 h)" "length h = 64"
      using base by (auto simp: binaryNamePattern_def hexNamed_def HasPrefix_iff)
    have "\<not> isLowerHex (CHR 0x00)" by code_simp
    then have "CHR 0x00 \<notin> set h" using h(2,3) by (auto simp: hexDigits_def list_all_iff)
    then show ?thesis using h(1) by simp
  qed
  ultimately have "p = hostBinaryDir @ ''/'' @ path_Base p" and base: "CHR 0x00 \<notin> set (path_Base p)" by blast+
  moreover have "CHR 0x00 \<notin> set (hostBinaryDir @ ''/'' @ path_Base p)" "hostBinaryDir @ ''/'' @ path_Base p \<noteq> []"
    using dir base by auto
  ultimately show ?thesis by metis
qed

text \<open>Files the launcher can read and remove, and the command line it is started with.\<close>

definition launcherHolds :: "launcherRuntime \<Rightarrow> string \<Rightarrow> bytes \<Rightarrow> bool" where
  "launcherHolds L path body \<longleftrightarrow> length body \<le> maxLauncherInputBytes
     \<and> (\<forall>h. la_Lstat L h path = Inr \<lparr>fi_kind = Regular, fi_perm = perm600, fi_size = int (length body)\<rparr>
          \<and> la_ReadFile L h path = Inr body \<and> la_Remove L h path = None)"

lemma environment_keys:
  "checkEnvironmentKeys {} (startupEnvironment server apiKey) = None"
proof -
  have "startupEnvironment server apiKey =
      [''DRIVE9_SERVER'' @ CHR ''='' # server, ''DRIVE9_API_KEY'' @ CHR ''='' # apiKey, ''HOME'' @ CHR ''='' # path_Dir hostBinaryDir,
       ''TMPDIR'' @ CHR ''='' # hostRuntimeDir, ''XDG_RUNTIME_DIR'' @ CHR ''='' # hostRuntimeDir,
       ''PATH'' @ CHR ''='' # ''/usr/sbin:/usr/bin:/sbin:/bin'']"
    by (simp add: startupEnvironment_def hostMountRuntimeEnvironment_def)
  then show ?thesis by (simp only: environment_entry) (simp add: environment_entry [where entries = "[]"])
qed

lemma environment_plain:
  "CHR 0x00 \<notin> set server \<Longrightarrow> CHR 0x00 \<notin> set apiKey \<Longrightarrow> v \<in> set (startupEnvironment server apiKey) \<Longrightarrow> CHR 0x00 \<notin> set v"
proof -
  have "\<forall>v\<in>set hostMountRuntimeEnvironment. CHR 0x00 \<notin> set v" by code_simp
  then show "CHR 0x00 \<notin> set server \<Longrightarrow> CHR 0x00 \<notin> set apiKey \<Longrightarrow> v \<in> set (startupEnvironment server apiKey) \<Longrightarrow> ?thesis"
    by (auto simp: startupEnvironment_def)
qed

lemma startup_paths_clean:
  assumes "newVolumeHostNames v a = Inr n"
  shows "Clean (names_EnvPath n) = names_EnvPath n" "Clean (names_ArgsPath n) = names_ArgsPath n"
    "names_EnvPath n \<noteq> names_ArgsPath n"
proof -
  have dir: "cleanAbs hostRuntimeDir" "hostRuntimeDir \<noteq> ''/''" by code_simp+
  have a: "attemptIDPattern a" using assms by (simp add: newVolumeHostNames_Inr)
  have "cleanAbs (hostRuntimeDir @ ''/'' @ truncatedSHA256 v @ ''-'' @ a @ ext)" if "CHR ''/'' \<notin> set ext" for ext
    using child_path(1) [OF dir startup_name_good [OF a that, of v]] by simp
  from this [of "''.env''"] this [of "''.args''"] show "Clean (names_EnvPath n) = names_EnvPath n"
      "Clean (names_ArgsPath n) = names_ArgsPath n"
    using startup_paths [OF assms] by (simp_all add: cleanAbs_def)
  show "names_EnvPath n \<noteq> names_ArgsPath n" using startup_paths [OF assms] by simp
qed

lemma reads_held:
  "launcherHolds L path body \<Longrightarrow> run_state (readLauncherInput L path) h = (Inr body,
     LaReadFile path (Inr body) # LaLstat path (Inr \<lparr>fi_kind = Regular, fi_perm = perm600, fi_size = int (length body)\<rparr>) # h)"
  by (simp add: readLauncherInput_def launcherHolds_def launcher_ops run_simps IsRegular_def)

lemma starting_names:
  assumes "validateMountState s = None" and "Phase s = mountStatePhaseStarting"
  obtains n where "newVolumeHostNames (VolumeID s) (AttemptID s) = Inr n" "EnvPath s = names_EnvPath n" "ArgsPath s = names_ArgsPath n"
  using assms by (auto simp: validateMountState_None validateStartingMountState_def)

lemma valid_argv:
  assumes "validateMountState s = None" and "v \<in> set (BinaryPath s # MountArgs s)"
  shows "CHR 0x00 \<notin> set v"
proof -
  have "validateContentAddressedBinaryPath (BinaryPath s) = None"
    "validateMountStateArgs (MountArgs s) (RemoteRoot s) (StagingTarget s) = None"
    using validMountState [OF assms(1)] by auto
  then have "validateContentAddressedBinaryPath (BinaryPath s) = None" "first_error (map mountArgError (MountArgs s)) = None"
    by (auto simp: validateMountStateArgs_def split: if_splits option.splits)
  moreover have "mountArgError v = None \<Longrightarrow> CHR 0x00 \<notin> set v" for v
    by (simp only: mountArgError_def split: if_splits) simp_all
  ultimately show ?thesis
    using assms(2) content_path_plain [of "BinaryPath s"] by (auto simp only: first_error_None set_map list.set)
qed

section \<open>Properties\<close>

text \<open>
  C22: the launcher becomes exactly the recorded attempt. Started with the two file names of the
  unit's command, on files that hold what \<open>startAttempt\<close> publishes for a valid starting record, it
  removes both files and then executes the recorded binary with the recorded arguments and the
  environment of the credentials, entry by entry.
\<close>

theorem launcher_runs_attempt:
  assumes "validateMountState s = None" and "Phase s = mountStatePhaseStarting"
    and "CHR 0x00 \<notin> set server" and "CHR 0x00 \<notin> set apiKey"
    and "launcherHolds L (EnvPath s) (encodeNULTerminated (startupEnvironment server apiKey))"
    and "launcherHolds L (ArgsPath s) (encodeNULTerminated (BinaryPath s # MountArgs s))"
  shows "\<exists>r x looks. run_state (runLauncherCommand L [EnvPath s, ArgsPath s]) tr =
    (r, LaExec (BinaryPath s) (BinaryPath s # MountArgs s) (startupEnvironment server apiKey) x
        # LaRemove (ArgsPath s) None # LaRemove (EnvPath s) None # looks @ tr)"
proof -
  obtain n where n: "newVolumeHostNames (VolumeID s) (AttemptID s) = Inr n" "EnvPath s = names_EnvPath n" "ArgsPath s = names_ArgsPath n"
    using starting_names [OF assms(1,2)] .
  note paths = startup_paths_clean [OF n(1), folded n(2,3)]
  have command: "EnvPath s \<noteq> ''host-unmount''"
    using startup_paths(1) [OF n(1)] n(2) by (simp add: hostRuntimeDir_def)
  have env: "parseLauncherEnvironment (encodeNULTerminated (startupEnvironment server apiKey)) = Inr (startupEnvironment server apiKey)"
    using environment_plain [OF assms(3,4)] environment_keys
    by (simp add: parseLauncherEnvironment_def entries_encoded startupEnvironment_def)
  have argv: "parseLauncherArguments (encodeNULTerminated (BinaryPath s # MountArgs s)) = Inr (BinaryPath s # MountArgs s)"
    using valid_argv [OF assms(1)] content_path_plain validMountState [OF assms(1)]
    by (simp add: parseLauncherArguments_def entries_encoded)
  have removed: "la_Remove L h (EnvPath s) = None" "la_Remove L h (ArgsPath s) = None" for h
    using assms(5,6) by (simp_all add: launcherHolds_def)
  show ?thesis
    using paths command env argv removed
    by (auto simp: runLauncherCommand_def runLauncher_def Let_def run_simps reads_held [OF assms(5)] reads_held [OF assms(6)]
        removeLauncherInputs_def launcher_ops execLauncher_def split: option.split)
qed

text \<open>The startup files of \<open>exStarting\<close>.\<close>

definition exEnvBody :: bytes where "exEnvBody = encodeNULTerminated (startupEnvironment ''https://drive9'' ''key'')"
definition exArgsBody :: bytes where "exArgsBody = encodeNULTerminated (exBinary (CHR ''b'') # exArgs)"

definition exStartup :: launcherRuntime where
  "exStartup =
     \<lparr>la_Lstat = \<lambda>h p. Inr \<lparr>fi_kind = Regular, fi_perm = perm600,
        fi_size = int (length (if p = EnvPath exStarting then exEnvBody else exArgsBody))\<rparr>,
      la_ReadFile = \<lambda>h p. Inr (if p = EnvPath exStarting then exEnvBody else exArgsBody),
      la_Remove = \<lambda>h p. None, la_Exec = \<lambda>h p argv env. None, la_Unmount = \<lambda>h p lazy. None\<rparr>"

theorem launcher_runs_attempt_witness:
  "\<exists>r x looks. run_state (runLauncherCommand exStartup [EnvPath exStarting, ArgsPath exStarting]) [] =
    (r, LaExec (exBinary (CHR ''b'')) (exBinary (CHR ''b'') # exArgs) (startupEnvironment ''https://drive9'' ''key'') x
        # LaRemove (ArgsPath exStarting) None # LaRemove (EnvPath exStarting) None # looks @ [])"
proof -
  have "length exEnvBody < 500" "length exArgsBody < 500" by code_simp+
  then have small: "length exEnvBody \<le> maxLauncherInputBytes" "length exArgsBody \<le> maxLauncherInputBytes"
    by (simp_all add: maxLauncherInputBytes_def)
  obtain n where n: "newVolumeHostNames (VolumeID exStarting) (AttemptID exStarting) = Inr n"
      "EnvPath exStarting = names_EnvPath n" "ArgsPath exStarting = names_ArgsPath n"
    using starting_names [OF exStarting_valid ex_phases(1)] .
  then have differ: "EnvPath exStarting \<noteq> ArgsPath exStarting" using startup_paths_clean(3) [OF n(1)] by simp
  have parts: "BinaryPath exStarting = exBinary (CHR ''b'')" "MountArgs exStarting = exArgs" by (simp_all add: ex_defs)
  have "launcherHolds exStartup (EnvPath exStarting) (encodeNULTerminated (startupEnvironment ''https://drive9'' ''key''))"
    "launcherHolds exStartup (ArgsPath exStarting) (encodeNULTerminated (BinaryPath exStarting # MountArgs exStarting))"
    using small differ unfolding parts by (simp_all add: launcherHolds_def exStartup_def exEnvBody_def exArgsBody_def)
  from launcher_runs_attempt [OF exStarting_valid ex_phases(1) _ _ this, of "[]"] show ?thesis unfolding parts by simp
qed

end
