(* ===== verification/Installer.thy ===== *)
theory Installer
  imports NodePreflight
begin

text \<open>
  \<open>cmd/drive9-csi/install_host_binaries.go\<close>: the init container that puts the Drive9 binary, under
  the name of its digest, the launcher and the link to the desired version into the host's binary
  directory. It uses the \<open>os\<close> package directly, so its operations are events of their own; the ELF
  parser of \<open>debug/elf\<close> is a parameter that gives the header fields the checks read.

  The fault injection of the tests is a parameter too: \<open>None\<close> is the nil function of production.
\<close>

section \<open>Operations\<close>

record elfFile =
  elf_Class :: nat
  elf_Data :: nat
  elf_OSABI :: nat
  elf_Type :: nat
  elf_Machine :: nat
  elf_Progs :: "nat list"

datatype installerEvent =
    InLstat string "error + fileInfo"
  | InReadFile string "error + bytes"
  | InReadlink string "error + string"
  | InMkdir string nat "error option"
  | InChmod string nat "error option"
  | InOpenDir string "error option"
  | InFlock string "error option"
  | InFunlock string
  | InCreateTemp string string "error + string"
  | InWrite string bytes "error + int"
  | InSync string "error option"
  | InClose string "error option"
  | InRemove string "error option"
  | InRename string string "error option"
  | InSymlink string string "error option"

type_synonym installerHistory = "installerEvent list"
type_synonym 'a installerProg = "(installerEvent, 'a) runs"

record installerRuntime =
  in_Lstat :: "installerHistory \<Rightarrow> string \<Rightarrow> error + fileInfo"
  in_ReadFile :: "installerHistory \<Rightarrow> string \<Rightarrow> error + bytes"
  in_Readlink :: "installerHistory \<Rightarrow> string \<Rightarrow> error + string"
  in_Mkdir :: "installerHistory \<Rightarrow> string \<Rightarrow> nat \<Rightarrow> error option"
  in_Chmod :: "installerHistory \<Rightarrow> string \<Rightarrow> nat \<Rightarrow> error option"
  in_OpenDir :: "installerHistory \<Rightarrow> string \<Rightarrow> error option"
  in_Flock :: "installerHistory \<Rightarrow> string \<Rightarrow> error option"
  in_CreateTemp :: "installerHistory \<Rightarrow> string \<Rightarrow> string \<Rightarrow> error + string"
  in_Write :: "installerHistory \<Rightarrow> string \<Rightarrow> bytes \<Rightarrow> error + int"
  in_Sync :: "installerHistory \<Rightarrow> string \<Rightarrow> error option"
  in_Close :: "installerHistory \<Rightarrow> string \<Rightarrow> error option"
  in_Remove :: "installerHistory \<Rightarrow> string \<Rightarrow> error option"
  in_Rename :: "installerHistory \<Rightarrow> string \<Rightarrow> string \<Rightarrow> error option"
  in_Symlink :: "installerHistory \<Rightarrow> string \<Rightarrow> string \<Rightarrow> error option"
  in_ParseELF :: "bytes \<Rightarrow> elfFile option"

abbreviation "os_Lstat I p \<equiv> perform (\<lambda>h. in_Lstat I h p) (InLstat p)"
abbreviation "os_ReadFile I p \<equiv> perform (\<lambda>h. in_ReadFile I h p) (InReadFile p)"
abbreviation "os_Readlink I p \<equiv> perform (\<lambda>h. in_Readlink I h p) (InReadlink p)"
abbreviation "os_Mkdir I p mode \<equiv> perform (\<lambda>h. in_Mkdir I h p mode) (InMkdir p mode)"
abbreviation "os_Chmod I p mode \<equiv> perform (\<lambda>h. in_Chmod I h p mode) (InChmod p mode)"
abbreviation "os_Open I p \<equiv> perform (\<lambda>h. in_OpenDir I h p) (InOpenDir p)"
abbreviation "unix_Flock I p \<equiv> perform (\<lambda>h. in_Flock I h p) (InFlock p)"
abbreviation "unix_Funlock p \<equiv> perform (\<lambda>h. ()) (\<lambda>_. InFunlock p)"
abbreviation "os_CreateTemp I dir pattern \<equiv> perform (\<lambda>h. in_CreateTemp I h dir pattern) (InCreateTemp dir pattern)"
abbreviation "file_Write I p body \<equiv> perform (\<lambda>h. in_Write I h p body) (InWrite p body)"
abbreviation "file_Sync I p \<equiv> perform (\<lambda>h. in_Sync I h p) (InSync p)"
abbreviation "file_Close I p \<equiv> perform (\<lambda>h. in_Close I h p) (InClose p)"
abbreviation "os_Remove I p \<equiv> perform (\<lambda>h. in_Remove I h p) (InRemove p)"
abbreviation "os_Rename I a b \<equiv> perform (\<lambda>h. in_Rename I h a b) (InRename a b)"
abbreviation "os_Symlink I target p \<equiv> perform (\<lambda>h. in_Symlink I h target p) (InSymlink target p)"

section \<open>Steps and options\<close>

datatype installerStep =
    installerStepNone
  | installerStepDrive9Temp | installerStepDrive9Write | installerStepDrive9FileSync | installerStepDrive9Rename
  | installerStepDrive9DirSync | installerStepLauncherTemp | installerStepLauncherWrite | installerStepLauncherFileSync
  | installerStepLauncherRename | installerStepLauncherDirSync | installerStepDesiredTemp | installerStepDesiredRename
  | installerStepDesiredDirSync

type_synonym installerFault = "(installerStep \<Rightarrow> error option) option"

text \<open>An injected fault comes before the action; the forms for actions with and without a value.\<close>

definition stepFault :: "installerFault \<Rightarrow> installerStep \<Rightarrow> error option" where
  "stepFault fault step =
     (case fault of None \<Rightarrow> None | Some f \<Rightarrow> if step = installerStepNone then None else f step)"

definition runInstallerStep :: "installerFault \<Rightarrow> installerStep \<Rightarrow> error option installerProg \<Rightarrow> error option installerProg" where
  "runInstallerStep fault step action = ifNil (stepFault fault step) Some action"

definition runInstallerStepValue :: "installerFault \<Rightarrow> installerStep \<Rightarrow> (error + 'a) installerProg \<Rightarrow> (error + 'a) installerProg" where
  "runInstallerStepValue fault step action = ifNil (stepFault fault step) Inl action"

record installHostBinariesOptions =
  opt_HostStateDir :: string
  opt_Drive9Source :: string
  opt_LauncherSource :: string
  opt_TargetArch :: string

record installHostBinariesResult =
  res_Digest :: string
  res_Drive9Path :: string
  res_LauncherPath :: string

definition validateInstallHostBinariesOptions :: "installHostBinariesOptions \<Rightarrow> error option" where
  "validateInstallHostBinariesOptions options = first_error
     (concat (map (\<lambda>path. [fail_if (TrimSpace path = []) (Errorf ''install-host-binaries: path is required''),
                           fail_if (\<not> IsAbs path) (Errorf ''install-host-binaries: path must be absolute'')])
        [opt_HostStateDir options, opt_Drive9Source options, opt_LauncherSource options])
      @ [fail_if (opt_TargetArch options \<notin> {''amd64'', ''arm64''})
           (Errorf ''install-host-binaries: unsupported target architecture'')])"

definition validateDirectory :: "installerRuntime \<Rightarrow> string \<Rightarrow> error option installerProg" where
  "validateDirectory I path =
     orReturn (os_Lstat I path) (\<lambda>e. Some (Wrap ''directory'' e)) (\<lambda>info.
       State_Monad.return (fail_if (fi_kind info \<noteq> Directory) (Errorf ''must be a real directory'')))"

definition ensureInstallerBinDir :: "installerRuntime \<Rightarrow> string \<Rightarrow> error option installerProg" where
  "ensureInstallerBinDir I path = do {
     made \<leftarrow> os_Mkdir I path 493;
     ifNil (case made of Some e \<Rightarrow> if errors_Is e ErrExist then None else Some e | None \<Rightarrow> None)
         (\<lambda>e. Some (Wrap ''create host binary directory'' e)) (
     orReturn (os_Lstat I path) (\<lambda>e. Some (Wrap ''inspect host binary directory'' e)) (\<lambda>info.
     if fi_kind info \<noteq> Directory then State_Monad.return (Some (Errorf ''host binary directory must be a real directory''))
     else unlessErr (os_Chmod I path 493) (\<lambda>e. Some (Wrap ''set host binary directory mode'' e))
            (State_Monad.return None))) }"

section \<open>Sources\<close>

definition elfMachineForArch :: "string \<Rightarrow> error + nat" where
  "elfMachineForArch targetArch =
     (if targetArch = ''amd64'' then Inr 62
      else if targetArch = ''arm64'' then Inr 183
      else Inl (Errorf ''unsupported target architecture''))"

text \<open>ELFCLASS64 is 2, ELFDATA2LSB 1, the OS ABIs 0 and 3, ET_EXEC 2, ET_DYN 3 and PT_INTERP 3.\<close>

definition validateLinuxELF :: "installerRuntime \<Rightarrow> bytes \<Rightarrow> string \<Rightarrow> error option" where
  "validateLinuxELF I body targetArch =
     (case in_ParseELF I body of
        None \<Rightarrow> Some (Errorf ''parse ELF'')
      | Some file \<Rightarrow>
          if elf_Class file \<noteq> 2 then Some (Errorf ''ELF class is not ELFCLASS64'')
          else if elf_Data file \<noteq> 1 then Some (Errorf ''ELF data encoding is not little-endian'')
          else if elf_OSABI file \<noteq> 0 \<and> elf_OSABI file \<noteq> 3 then Some (Errorf ''ELF OS ABI is not Linux-compatible'')
          else if elf_Type file \<noteq> 2 \<and> elf_Type file \<noteq> 3 then Some (Errorf ''ELF type is not executable'')
          else case elfMachineForArch targetArch of
              Inl e \<Rightarrow> Some e
            | Inr wantMachine \<Rightarrow>
                if elf_Machine file \<noteq> wantMachine then Some (Errorf ''ELF machine does not match'')
                else if 3 \<in> set (elf_Progs file)
                then Some (Errorf ''ELF contains PT_INTERP and is dynamically linked'')
                else None)"

definition readValidatedELF :: "installerRuntime \<Rightarrow> string \<Rightarrow> string \<Rightarrow> (error + bytes \<times> string) installerProg" where
  "readValidatedELF I path targetArch =
     orReturn (os_Lstat I path) Inl (\<lambda>info.
     if \<not> IsRegular info then State_Monad.return (Inl (Errorf ''source must be a regular file, not a symlink''))
     else if \<not> anyExecute info then State_Monad.return (Inl (Errorf ''source must be executable''))
     else
     orReturn (os_ReadFile I path) Inl (\<lambda>body.
     if int (length body) \<noteq> fi_size info then State_Monad.return (Inl (Errorf ''source changed while being read''))
     else ifNil (validateLinuxELF I body targetArch) Inl (State_Monad.return (Inr (body, sha256hex body)))))"

section \<open>Temporary files\<close>

text \<open>
  \<open>writeFull\<close>. A writer never reports more bytes than it was given; Go's slice expression would
  panic if it did, \<open>drop\<close> gives the empty rest.
\<close>

function writeFull :: "installerRuntime \<Rightarrow> string \<Rightarrow> bytes \<Rightarrow> error option installerProg" where
  "writeFull I path body =
     (if body = [] then State_Monad.return None
      else orReturn (file_Write I path body) Some (\<lambda>written.
             if written \<le> 0 then State_Monad.return (Some (Sentinel ErrShortWrite))
             else writeFull I path (drop (nat written) body)))"
  by pat_completeness auto
termination by (relation "measure (\<lambda>(I, path, body). length body)") auto

declare writeFull.simps [simp del]

text \<open>The deferred \<open>Close\<close> and \<open>Remove\<close> of a temporary file that is not handed out.\<close>

definition discardTemp :: "installerRuntime \<Rightarrow> string \<Rightarrow> error \<Rightarrow> (error + string) installerProg" where
  "discardTemp I path e = do { file_Close I path; os_Remove I path; State_Monad.return (Inl e) }"

definition writeInstallerTemp ::
    "installerRuntime \<Rightarrow> string \<Rightarrow> string \<Rightarrow> bytes \<Rightarrow> installerStep \<Rightarrow> installerStep \<Rightarrow> installerStep \<Rightarrow> installerFault \<Rightarrow>
     (error + string) installerProg" where
  "writeInstallerTemp I dir base body tempStep writeStep syncStep fault =
     orReturn (runInstallerStepValue fault tempStep (os_CreateTemp I dir (''.'' @ base @ ''.tmp-''))) Inl (\<lambda>path. do {
       chmodded \<leftarrow> os_Chmod I path 493;
       case chmodded of
         Some e \<Rightarrow> discardTemp I path e
       | None \<Rightarrow> do {
       written \<leftarrow> runInstallerStep fault writeStep (writeFull I path body);
       case written of
         Some e \<Rightarrow> discardTemp I path e
       | None \<Rightarrow> do {
       synced \<leftarrow> runInstallerStep fault syncStep (file_Sync I path);
       case synced of
         Some e \<Rightarrow> discardTemp I path e
       | None \<Rightarrow> do {
       closed \<leftarrow> file_Close I path;
       case closed of
         Some e \<Rightarrow> discardTemp I path e
       | None \<Rightarrow> State_Monad.return (Inr path) }}}})"

definition newInstallerTempPath :: "installerRuntime \<Rightarrow> string \<Rightarrow> string \<Rightarrow> (error + string) installerProg" where
  "newInstallerTempPath I dir pattern =
     orReturn (os_CreateTemp I dir pattern) Inl (\<lambda>path. do {
       closeErr \<leftarrow> file_Close I path;
       removeErr \<leftarrow> os_Remove I path;
       State_Monad.return (
         if closeErr \<noteq> None \<or> removeErr \<noteq> None then Inl (Joined (err_list closeErr @ err_list removeErr)) else Inr path) })"

definition removeAndSync :: "installerRuntime \<Rightarrow> string \<Rightarrow> string \<Rightarrow> error option installerProg" where
  "removeAndSync I path dir = do {
     removed \<leftarrow> os_Remove I path;
     syncErr \<leftarrow> file_Sync I dir;
     State_Monad.return (errors_Join
       ((case removed of Some e \<Rightarrow> if errors_Is e ErrNotExist then [] else [e] | None \<Rightarrow> []) @ err_list syncErr)) }"

text \<open>\<open>defer os.Remove(tempPath)\<close> around what returns an error only.\<close>

definition thenRemove :: "installerRuntime \<Rightarrow> string \<Rightarrow> error option installerProg \<Rightarrow> error option installerProg" where
  "thenRemove I tempPath m = do { r \<leftarrow> m; os_Remove I tempPath; State_Monad.return r }"

section \<open>The versioned binary\<close>

definition validateExistingVersionedDrive9 :: "installerRuntime \<Rightarrow> string \<Rightarrow> string \<Rightarrow> (error + bool) installerProg" where
  "validateExistingVersionedDrive9 I path digest = do {
     r \<leftarrow> os_Lstat I path;
     case r of
       Inl e \<Rightarrow> State_Monad.return (if errors_Is e ErrNotExist then Inr False
                                   else Inl (Wrap ''inspect versioned Drive9 destination'' e))
     | Inr info \<Rightarrow>
         if \<not> IsRegular info then State_Monad.return (Inl (Errorf ''versioned Drive9 destination must be a regular file''))
         else if \<not> anyExecute info then State_Monad.return (Inl (Errorf ''versioned Drive9 destination is not executable''))
         else
         orReturn (os_ReadFile I path) (\<lambda>e. Inl (Wrap ''read versioned Drive9 destination'' e)) (\<lambda>body.
           State_Monad.return (if sha256hex body \<noteq> digest then Inl (Errorf ''versioned Drive9 destination digest mismatch'')
                               else Inr True)) }"

definition joinRollback :: "error \<Rightarrow> error option \<Rightarrow> error option" where
  "joinRollback e rollbackErr = Some (Joined (e # err_list rollbackErr))"

definition installVersionedDrive9 ::
    "installerRuntime \<Rightarrow> string \<Rightarrow> string \<Rightarrow> bytes \<Rightarrow> string \<Rightarrow> installerFault \<Rightarrow> error option installerProg" where
  "installVersionedDrive9 I dir path body digest fault =
     orReturn (validateExistingVersionedDrive9 I path digest) Some (\<lambda>exists.
     if exists then State_Monad.return None
     else
     orReturn (writeInstallerTemp I (path_Dir path) (path_Base path) body installerStepDrive9Temp installerStepDrive9Write
         installerStepDrive9FileSync fault) (\<lambda>e. Some (Wrap ''prepare versioned Drive9 binary'' e)) (\<lambda>tempPath.
     thenRemove I tempPath (
     unlessErr (runInstallerStep fault installerStepDrive9Rename (os_Rename I tempPath path))
         (\<lambda>e. Some (Wrap ''publish versioned Drive9 binary'' e)) (do {
       synced \<leftarrow> runInstallerStep fault installerStepDrive9DirSync (file_Sync I dir);
       case synced of
         None \<Rightarrow> State_Monad.return None
       | Some e \<Rightarrow> do {
           rollbackErr \<leftarrow> removeAndSync I path dir;
           State_Monad.return (joinRollback (Wrap ''sync versioned Drive9 publication'' e) rollbackErr) } }))))"

section \<open>The launcher\<close>

record regularFileSnapshot =
  snap_exists :: bool
  snap_body :: bytes
  snap_mode :: nat

definition noSnapshot :: regularFileSnapshot where
  "noSnapshot = \<lparr>snap_exists = False, snap_body = [], snap_mode = 0\<rparr>"

definition snapshotRegularDestination :: "installerRuntime \<Rightarrow> string \<Rightarrow> (error + regularFileSnapshot) installerProg" where
  "snapshotRegularDestination I path = do {
     r \<leftarrow> os_Lstat I path;
     case r of
       Inl e \<Rightarrow> State_Monad.return (if errors_Is e ErrNotExist then Inr noSnapshot else Inl e)
     | Inr info \<Rightarrow>
         if \<not> IsRegular info then State_Monad.return (Inl (Errorf ''destination must be a regular file''))
         else if \<not> anyExecute info then State_Monad.return (Inl (Errorf ''destination must be executable''))
         else
         orReturn (os_ReadFile I path) Inl (\<lambda>body.
           State_Monad.return (Inr \<lparr>snap_exists = True, snap_body = body, snap_mode = fi_perm info\<rparr>)) }"

definition restoreRegularDestination ::
    "installerRuntime \<Rightarrow> string \<Rightarrow> regularFileSnapshot \<Rightarrow> string \<Rightarrow> error option installerProg" where
  "restoreRegularDestination I path previous dir =
     (if \<not> snap_exists previous then removeAndSync I path dir
      else
      orReturn (writeInstallerTemp I (path_Dir path) (path_Base path @ ''.rollback'') (snap_body previous)
          installerStepNone installerStepNone installerStepNone None) (\<lambda>e. Some (Wrap ''prepare rollback'' e)) (\<lambda>temp.
      thenRemove I temp (
      unlessErr (os_Chmod I temp (snap_mode previous)) (\<lambda>e. Some (Wrap ''restore mode'' e)) (
      unlessErr (os_Rename I temp path) (\<lambda>e. Some (Wrap ''restore'' e)) (
      unlessErr (file_Sync I dir) (\<lambda>e. Some (Wrap ''sync rollback'' e)) (State_Monad.return None))))))"

record regularBinaryInstallerSteps =
  step_temp :: installerStep
  step_write :: installerStep
  step_fileSync :: installerStep
  step_rename :: installerStep
  step_dirSync :: installerStep

definition replaceRegularBinary ::
    "installerRuntime \<Rightarrow> string \<Rightarrow> string \<Rightarrow> bytes \<Rightarrow> regularBinaryInstallerSteps \<Rightarrow> installerFault \<Rightarrow> error option installerProg" where
  "replaceRegularBinary I dir path body steps fault =
     orReturn (snapshotRegularDestination I path) (\<lambda>e. Some (Wrap ''inspect destination'' e)) (\<lambda>previous.
     orReturn (writeInstallerTemp I (path_Dir path) (path_Base path) body (step_temp steps) (step_write steps)
         (step_fileSync steps) fault) (\<lambda>e. Some (Wrap ''prepare'' e)) (\<lambda>tempPath.
     thenRemove I tempPath (
     unlessErr (runInstallerStep fault (step_rename steps) (os_Rename I tempPath path)) (\<lambda>e. Some (Wrap ''publish'' e)) (do {
       synced \<leftarrow> runInstallerStep fault (step_dirSync steps) (file_Sync I dir);
       case synced of
         None \<Rightarrow> State_Monad.return None
       | Some e \<Rightarrow> do {
           rollbackErr \<leftarrow> restoreRegularDestination I path previous dir;
           State_Monad.return (joinRollback (Wrap ''sync publication'' e) rollbackErr) } }))))"

definition replaceLauncher :: "installerRuntime \<Rightarrow> string \<Rightarrow> string \<Rightarrow> bytes \<Rightarrow> installerFault \<Rightarrow> error option installerProg" where
  "replaceLauncher I dir path body fault =
     replaceRegularBinary I dir path body
       \<lparr>step_temp = installerStepLauncherTemp, step_write = installerStepLauncherWrite,
        step_fileSync = installerStepLauncherFileSync, step_rename = installerStepLauncherRename,
        step_dirSync = installerStepLauncherDirSync\<rparr> fault"

section \<open>The desired link\<close>

definition versionedDrive9NamePattern :: "string \<Rightarrow> bool" where
  "versionedDrive9NamePattern = hexNamed ''drive9-'' 64 ''''"

text \<open>The target of the link, \<open>None\<close> when there is no link.\<close>

definition snapshotDesiredSymlink :: "installerRuntime \<Rightarrow> string \<Rightarrow> (error + string option) installerProg" where
  "snapshotDesiredSymlink I path = do {
     r \<leftarrow> os_Lstat I path;
     case r of
       Inl e \<Rightarrow> State_Monad.return (if errors_Is e ErrNotExist then Inr None else Inl (Wrap ''inspect desired symlink'' e))
     | Inr info \<Rightarrow>
         if fi_kind info \<noteq> Symlink
         then State_Monad.return (Inl (Errorf ''desired Drive9 destination must be a symlink''))
         else
         orReturn (os_Readlink I path) (\<lambda>e. Inl (Wrap ''read desired symlink'' e)) (\<lambda>target.
         if IsAbs target \<or> \<not> versionedDrive9NamePattern target
         then State_Monad.return (Inl (Errorf ''existing desired symlink target is unsafe''))
         else
         orReturn (os_Lstat I (path_Join [path_Dir path, target])) (\<lambda>e. Inl (Wrap ''inspect existing desired target'' e)) (\<lambda>info.
           State_Monad.return (if \<not> IsRegular info then Inl (Errorf ''existing desired target must be a regular file'')
                               else Inr (Some target)))) }"

definition restoreDesiredSymlink :: "installerRuntime \<Rightarrow> string \<Rightarrow> string option \<Rightarrow> string \<Rightarrow> error option installerProg" where
  "restoreDesiredSymlink I path previous dir =
     (case previous of
        None \<Rightarrow> removeAndSync I path dir
      | Some target \<Rightarrow>
          orReturn (newInstallerTempPath I (path_Dir path) ''.drive9-link.rollback.tmp-'')
              (\<lambda>e. Some (Wrap ''allocate desired rollback path'' e)) (\<lambda>tempPath.
          thenRemove I tempPath (
          unlessErr (os_Symlink I target tempPath) (\<lambda>e. Some (Wrap ''create desired rollback symlink'' e)) (
          unlessErr (os_Rename I tempPath path) (\<lambda>e. Some (Wrap ''restore desired symlink'' e)) (
          unlessErr (file_Sync I dir) (\<lambda>e. Some (Wrap ''sync desired symlink rollback'' e)) (State_Monad.return None))))))"

text \<open>The removal is deferred only once the temporary link exists.\<close>

definition replaceDesiredSymlink ::
    "installerRuntime \<Rightarrow> string \<Rightarrow> string \<Rightarrow> string \<Rightarrow> installerFault \<Rightarrow> error option installerProg" where
  "replaceDesiredSymlink I dir path target fault =
     (if \<not> versionedDrive9NamePattern target \<or> IsAbs target
      then State_Monad.return (Some (Errorf ''invalid desired Drive9 target''))
      else
      orReturn (snapshotDesiredSymlink I path) Some (\<lambda>previous.
      if previous = Some target then State_Monad.return None
      else
      orReturn (newInstallerTempPath I (path_Dir path) ''.drive9-link.tmp-'')
          (\<lambda>e. Some (Wrap ''allocate desired symlink temp path'' e)) (\<lambda>tempPath.
      unlessErr (runInstallerStep fault installerStepDesiredTemp (os_Symlink I target tempPath))
          (\<lambda>e. Some (Wrap ''create desired symlink'' e)) (
      thenRemove I tempPath (
      unlessErr (runInstallerStep fault installerStepDesiredRename (os_Rename I tempPath path))
          (\<lambda>e. Some (Wrap ''publish desired symlink'' e)) (do {
        synced \<leftarrow> runInstallerStep fault installerStepDesiredDirSync (file_Sync I dir);
        case synced of
          None \<Rightarrow> State_Monad.return None
        | Some e \<Rightarrow> do {
            rollbackErr \<leftarrow> restoreDesiredSymlink I path previous dir;
            State_Monad.return (joinRollback (Wrap ''sync desired symlink publication'' e) rollbackErr) } }))))))"

section \<open>The installation\<close>

text \<open>With the directory open and locked; the deferred unlock and close come after it.\<close>

definition installLocked ::
    "installerRuntime \<Rightarrow> installHostBinariesOptions \<Rightarrow> string \<Rightarrow> installerFault \<Rightarrow>
     (error + installHostBinariesResult) installerProg" where
  "installLocked I options binDir fault =
     orReturn (readValidatedELF I (opt_Drive9Source options) (opt_TargetArch options))
         (\<lambda>e. Inl (Wrap ''validate Drive9 source'' e)) (\<lambda>(drive9Body, drive9Digest).
     orReturn (readValidatedELF I (opt_LauncherSource options) (opt_TargetArch options))
         (\<lambda>e. Inl (Wrap ''validate launcher source'' e)) (\<lambda>(launcherBody, _).
       let drive9Name = ''drive9-'' @ drive9Digest;
           drive9Path = path_Join [binDir, drive9Name];
           launcherPath = path_Join [binDir, ''drive9-csi-launcher''];
           desiredPath = path_Join [binDir, ''drive9''] in
       unlessErr (installVersionedDrive9 I binDir drive9Path drive9Body drive9Digest fault) Inl (
       unlessErr (replaceLauncher I binDir launcherPath launcherBody fault) Inl (
       unlessErr (replaceDesiredSymlink I binDir desiredPath drive9Name fault) Inl (
         State_Monad.return (Inr \<lparr>res_Digest = drive9Digest, res_Drive9Path = drive9Path,
           res_LauncherPath = launcherPath\<rparr>))))))"

definition installHostBinariesWithFault ::
    "installerRuntime \<Rightarrow> installHostBinariesOptions \<Rightarrow> installerFault \<Rightarrow> (error + installHostBinariesResult) installerProg" where
  "installHostBinariesWithFault I options fault =
     ifNil (validateInstallHostBinariesOptions options) Inl (
     unlessErr (validateDirectory I (opt_HostStateDir options)) Inl (
       let binDir = path_Join [opt_HostStateDir options, ''bin''] in
       unlessErr (ensureInstallerBinDir I binDir) Inl (
       unlessErr (os_Open I binDir) (\<lambda>e. Inl (Wrap ''open host binary directory'' e)) (do {
         locked \<leftarrow> unix_Flock I binDir;
         case locked of
           Some e \<Rightarrow> do { file_Close I binDir; State_Monad.return (Inl (Wrap ''lock host binary directory'' e)) }
         | None \<Rightarrow> do {
             r \<leftarrow> installLocked I options binDir fault;
             unix_Funlock binDir;
             file_Close I binDir;
             State_Monad.return r } }))))"

definition installHostBinaries ::
    "installerRuntime \<Rightarrow> installHostBinariesOptions \<Rightarrow> (error + installHostBinariesResult) installerProg" where
  "installHostBinaries I options = installHostBinariesWithFault I options None"

section \<open>What an installation has published\<close>

text \<open>The bytes written to a file, in the order they were written; the newest event is first.\<close>

fun writtenBytes :: "string \<Rightarrow> installerHistory \<Rightarrow> bytes" where
  "writtenBytes p [] = []"
| "writtenBytes p (InWrite q b (Inr w) # h) = writtenBytes p h @ (if q = p then take (nat w) b else [])"
| "writtenBytes p (e # h) = writtenBytes p h"

text \<open>A new temporary file received exactly \<open>body\<close> and was synced.\<close>

definition tempHolds :: "string \<Rightarrow> bytes \<Rightarrow> installerHistory \<Rightarrow> bool" where
  "tempHolds path body h \<longleftrightarrow> (\<exists>l c b d pat. h = l @ InSync path None # c @ InCreateTemp d pat (Inr path) # b
     \<and> writtenBytes path c = body)"

text \<open>It was moved to its place and the directory was synced.\<close>

definition published :: "string \<Rightarrow> string \<Rightarrow> bytes \<Rightarrow> installerHistory \<Rightarrow> bool" where
  "published dir path body h \<longleftrightarrow> (\<exists>tmp l b. h = l @ InRename tmp path None # b \<and> InSync dir None \<in> set l \<and> tempHolds tmp body b)"

definition versionReady :: "string \<Rightarrow> string \<Rightarrow> string \<Rightarrow> installerHistory \<Rightarrow> bool" where
  "versionReady dir path digest h \<longleftrightarrow>
     (\<exists>body. sha256hex body = digest \<and> (InReadFile path (Inr body) \<in> set h \<or> published dir path body h))"

lemma writtenBytes_append: "writtenBytes p (n @ h) = writtenBytes p h @ writtenBytes p n"
  by (induction p n rule: writtenBytes.induct) auto

lemma tempHolds_append: "tempHolds p body h \<Longrightarrow> tempHolds p body (n @ h @ b)"
  unfolding tempHolds_def
proof (elim exE conjE)
  fix l c b' d pat
  assume "h = l @ InSync p None # c @ InCreateTemp d pat (Inr p) # b'" "writtenBytes p c = body"
  then have "n @ h @ b = (n @ l) @ InSync p None # c @ InCreateTemp d pat (Inr p) # (b' @ b) \<and> writtenBytes p c = body" by simp
  then show "\<exists>l c b' d pat. n @ h @ b = l @ InSync p None # c @ InCreateTemp d pat (Inr p) # b' \<and> writtenBytes p c = body" by blast
qed

lemma published_append: "published dir path body h \<Longrightarrow> published dir path body (n @ h @ b)"
  unfolding published_def
proof (elim exE conjE)
  fix tmp l b'
  assume "h = l @ InRename tmp path None # b'" "InSync dir None \<in> set l" "tempHolds tmp body b'"
  then have "n @ h @ b = (n @ l) @ InRename tmp path None # (b' @ b) \<and> InSync dir None \<in> set (n @ l) \<and> tempHolds tmp body (b' @ b)"
    using tempHolds_append [of tmp body b' "[]" b] by simp
  then show "\<exists>tmp l b'. n @ h @ b = l @ InRename tmp path None # b' \<and> InSync dir None \<in> set l \<and> tempHolds tmp body b'" by blast
qed

text \<open>Events that neither make a link nor release the lock.\<close>

fun quiet :: "installerEvent \<Rightarrow> bool" where
  "quiet (InSymlink target path x) = False"
| "quiet (InFunlock path) = False"
| "quiet e = True"

text \<open>The lock is held: its release does not follow it.\<close>

fun holdsLock :: "string \<Rightarrow> installerHistory \<Rightarrow> bool" where
  "holdsLock dir [] = False"
| "holdsLock dir (e # h) = (e = InFlock dir None \<or> (e \<noteq> InFunlock dir \<and> holdsLock dir h))"

lemma holdsLock_append: "holdsLock dir h \<Longrightarrow> list_all quiet n \<Longrightarrow> holdsLock dir (n @ h)"
  by (induction n) auto

lemma emits_writeFull: "emits (writeFull I path body) (\<lambda>r n. list_all quiet n \<and> (r = None \<longrightarrow> writtenBytes path n = body))"
proof (induction I path body rule: writeFull.induct)
  case (1 I path body)
  show ?case
  proof (cases "body = []")
    case True
    then show ?thesis by (subst writeFull.simps) (simp add: emits_return)
  next
    case False
    have step: "emits (writeFull I path (drop (nat w) body)) (\<lambda>r n. list_all quiet (n @ [InWrite path body (Inr w)])
        \<and> (r = None \<longrightarrow> writtenBytes path (n @ [InWrite path body (Inr w)]) = body))" if "\<not> w \<le> 0" for w
      by (rule emits_conseq [OF 1 [OF False that]]) (auto simp: writtenBytes_append)
    show ?thesis
      using False by (subst writeFull.simps) (auto intro!: emits_wp intro: step)
  qed
qed

text \<open>A step with a fault before it.\<close>

lemma emits_bind_step:
  assumes "emits m \<Phi>" and "\<And>e. emits (f (Some e)) \<Omega>"
    and "\<And>r n. \<Phi> r n \<Longrightarrow> emits (f r) (\<lambda>b n2. \<Omega> b (n2 @ n))"
  shows "emits (State_Monad.bind (runInstallerStep fault step m) f) \<Omega>"
  by (rule emits_bind_pre [where \<Phi> = "\<lambda>r n. \<Phi> r n \<or> n = [] \<and> r \<noteq> None"])
    (use assms in \<open>auto simp: runInstallerStep_def intro!: emits_ifNil elim!: emits_conseq\<close>)

lemma emits_unlessErr_step:
  assumes "emits m \<Phi>" and "\<And>e. \<Omega> (h e) []" and "\<And>e n. \<Phi> (Some e) n \<Longrightarrow> \<Omega> (h e) n"
    and "\<And>n. \<Phi> None n \<Longrightarrow> emits k (\<lambda>b n2. \<Omega> b (n2 @ n))"
  shows "emits (unlessErr (runInstallerStep fault step m) h k) \<Omega>"
  unfolding unlessErr_def
  by (rule emits_bind_step [OF assms(1)]) (use assms(2-) in \<open>auto intro: emits_return split: option.splits\<close>)

lemma emits_orReturn_step:
  assumes "emits m \<Phi>" and "\<And>e. \<Omega> (h e) []" and "\<And>e n. \<Phi> (Inl e) n \<Longrightarrow> \<Omega> (h e) n"
    and "\<And>x n. \<Phi> (Inr x) n \<Longrightarrow> emits (k x) (\<lambda>b n2. \<Omega> b (n2 @ n))"
  shows "emits (orReturn (runInstallerStepValue fault step m) h k) \<Omega>"
  by (rule emits_orReturn [where \<Phi> = "\<lambda>r n. \<Phi> r n \<or> n = [] \<and> isl r"])
    (use assms in \<open>auto simp: runInstallerStepValue_def intro!: emits_ifNil elim!: emits_conseq\<close>)

lemma emits_discardTemp: "emits (discardTemp I path e) (\<lambda>r n. r = Inl e \<and> list_all quiet n)"
  unfolding discardTemp_def by (intro emits_wp) auto

lemma emits_newInstallerTempPath: "emits (newInstallerTempPath I dir pattern) (\<lambda>r n. list_all quiet n)"
  unfolding newInstallerTempPath_def by (intro emits_wp) auto

lemma emits_removeAndSync: "emits (removeAndSync I path dir) (\<lambda>r n. list_all quiet n)"
  unfolding removeAndSync_def by (intro emits_wp) auto

lemma tempHolds_written:
  "writtenBytes path n = body \<Longrightarrow>
   tempHolds path body (InClose path x # InSync path None # n @ [InChmod path mode y, InCreateTemp d pat (Inr path)])"
  unfolding tempHolds_def
  by (rule exI [of _ "[InClose path x]"], rule exI [of _ "n @ [InChmod path mode y]"]) (auto simp: writtenBytes_append)

lemma emits_writeInstallerTemp:
  "emits (writeInstallerTemp I dir base body s1 s2 s3 fault)
     (\<lambda>r n. list_all quiet n \<and> (\<forall>path. r = Inr path \<longrightarrow> tempHolds path body n))"
  unfolding writeInstallerTemp_def
  by (intro emits_orReturn_step [OF emits_op] emits_wp emits_bind_step [OF emits_writeFull] emits_bind_step [OF emits_op]
      emits_conseq [OF emits_discardTemp]) (auto intro: tempHolds_written)

lemma tempHolds_more: "tempHolds p body h \<Longrightarrow> tempHolds p body (n @ h)"
  using tempHolds_append [of p body h n "[]"] by simp

lemma publishedI:
  assumes "tempHolds tmp body b"
  shows "published dir path body (InRemove tmp x # InSync dir None # InRename tmp path None # b @ n)"
  unfolding published_def
  by (rule exI [of _ tmp], rule exI [of _ "[InRemove tmp x, InSync dir None]"])
    (use tempHolds_append [OF assms, of "[]" n] in auto)

text \<open>A publication: the rename, the sync of the directory, and a rollback that reports its error.\<close>

lemma emits_publication:
  assumes "\<And>e. emits (rollback e) (\<lambda>r n. r \<noteq> None \<and> list_all quiet n)" and "\<And>e. h e \<noteq> None"
  shows "emits (thenRemove I temp (unlessErr (runInstallerStep fault s1 (os_Rename I temp path)) h
      (State_Monad.bind (runInstallerStep fault s2 (file_Sync I dir))
        (\<lambda>synced. case synced of None \<Rightarrow> State_Monad.return None | Some e \<Rightarrow> rollback e))))
    (\<lambda>r n. list_all quiet n \<and> (r = None \<longrightarrow> (\<exists>x. n = [InRemove temp x, InSync dir None, InRename temp path None])))"
proof -
  have "emits (unlessErr (runInstallerStep fault s1 (os_Rename I temp path)) h
      (State_Monad.bind (runInstallerStep fault s2 (file_Sync I dir))
        (\<lambda>synced. case synced of None \<Rightarrow> State_Monad.return None | Some e \<Rightarrow> rollback e)))
    (\<lambda>r n. list_all quiet n \<and> (r = None \<longrightarrow> n = [InSync dir None, InRename temp path None]))"
    by (intro emits_unlessErr_step [OF emits_op] emits_bind_step [OF emits_op] emits_wp_option emits_return
        emits_conseq [OF assms(1)]) (use assms(2) in auto)
  then show ?thesis
    unfolding thenRemove_def by (elim emits_bind_pre) (auto intro!: emits_wp)
qed

lemma emits_validateExistingVersionedDrive9:
  "emits (validateExistingVersionedDrive9 I path digest) (\<lambda>r n. list_all quiet n
     \<and> (r = Inr True \<longrightarrow> (\<exists>body. sha256hex body = digest \<and> InReadFile path (Inr body) \<in> set n)))"
  unfolding validateExistingVersionedDrive9_def by (intro emits_wp) auto

lemma versionReady_read:
  "InReadFile path (Inr body) \<in> set h \<Longrightarrow> sha256hex body = digest \<Longrightarrow> versionReady dir path digest h"
  unfolding versionReady_def by auto

lemma versionReady_new:
  "tempHolds tmp body b \<Longrightarrow>
   versionReady dir path (sha256hex body) (InRemove tmp x # InSync dir None # InRename tmp path None # b @ n)"
  unfolding versionReady_def by (auto intro: publishedI)

lemma emits_installVersionedDrive9:
  "emits (installVersionedDrive9 I dir path body (sha256hex body) fault)
     (\<lambda>r n. list_all quiet n \<and> (r = None \<longrightarrow> versionReady dir path (sha256hex body) n))"
  unfolding installVersionedDrive9_def
  by (intro emits_orReturn [OF emits_validateExistingVersionedDrive9] emits_orReturn [OF emits_writeInstallerTemp]
      emits_conseq [OF emits_publication] emits_wp_if emits_return emits_bind_pre [OF emits_removeAndSync])
    (auto simp: joinRollback_def intro: versionReady_read versionReady_new)

lemma emits_snapshotRegularDestination: "emits (snapshotRegularDestination I path) (\<lambda>r n. list_all quiet n)"
  unfolding snapshotRegularDestination_def by (intro emits_wp) auto

lemma emits_thenRemove:
  "emits m (\<lambda>r n. list_all quiet n) \<Longrightarrow> emits (thenRemove I temp m) (\<lambda>r n. list_all quiet n)"
  unfolding thenRemove_def by (elim emits_bind_pre) (auto intro!: emits_wp)

lemma emits_restoreRegularDestination: "emits (restoreRegularDestination I path previous dir) (\<lambda>r n. list_all quiet n)"
  unfolding restoreRegularDestination_def
  by (intro emits_wp_if emits_removeAndSync emits_orReturn [OF emits_writeInstallerTemp] emits_conseq [OF emits_thenRemove])
    (auto intro!: emits_wp)

lemma emits_replaceLauncher:
  "emits (replaceLauncher I dir path body fault)
     (\<lambda>r n. list_all quiet n \<and> (r = None \<longrightarrow> published dir path body n))"
  unfolding replaceLauncher_def replaceRegularBinary_def
  by (intro emits_orReturn [OF emits_snapshotRegularDestination] emits_orReturn [OF emits_writeInstallerTemp]
      emits_conseq [OF emits_publication] emits_return emits_bind_pre [OF emits_restoreRegularDestination])
    (auto simp: joinRollback_def intro: publishedI)

section \<open>The link is moved last\<close>

lemma emits_snapshotDesiredSymlink:
  "emits (snapshotDesiredSymlink I path) (\<lambda>r n. list_all quiet n \<and> (\<forall>t. r = Inr (Some t) \<longrightarrow> InReadlink path (Inr t) \<in> set n))"
  unfolding snapshotDesiredSymlink_def by (intro emits_wp) auto

fun linksTo :: "string option \<Rightarrow> installerEvent \<Rightarrow> bool" where
  "linksTo t (InSymlink target path x) = (t = Some target)"
| "linksTo t (InFunlock path) = False"
| "linksTo t e = True"

lemma quiet_linksTo: "quiet e \<Longrightarrow> linksTo t e"
  by (cases e) auto

lemma quiet_list_linksTo: "list_all quiet n \<Longrightarrow> list_all (linksTo t) n"
  by (auto simp: list_all_iff quiet_linksTo)

lemma emits_thenRemove_links:
  "emits m (\<lambda>r n. list_all (linksTo t) n) \<Longrightarrow> emits (thenRemove I temp m) (\<lambda>r n. list_all (linksTo t) n)"
  unfolding thenRemove_def by (elim emits_bind_pre) (auto intro!: emits_wp)

lemma emits_restoreDesiredSymlink:
  "emits (restoreDesiredSymlink I path previous dir) (\<lambda>r n. list_all (linksTo previous) n)"
  unfolding restoreDesiredSymlink_def
  by (intro emits_wp_option emits_conseq [OF emits_removeAndSync] emits_orReturn [OF emits_newInstallerTempPath]
      emits_conseq [OF emits_thenRemove_links [where t = previous]])
    (auto intro: quiet_list_linksTo intro!: emits_wp)

text \<open>A link points to the version that is installed or, in a rollback, to what was read before.\<close>

fun linkGuard :: "string \<Rightarrow> string \<Rightarrow> installerEvent \<Rightarrow> installerHistory \<Rightarrow> bool" where
  "linkGuard path version (InSymlink target temp x) h = (target = version \<or> InReadlink path (Inr target) \<in> set h)"
| "linkGuard path version (InFunlock p) h = False"
| "linkGuard path version e h = True"

lemma linkGuard_quiet: "quiet e \<Longrightarrow> linkGuard path version e h"
  by (cases e) auto

lemma guarded_quiet: "list_all quiet n \<Longrightarrow> guarded (linkGuard path version) n"
  by (rule guarded_free) (auto simp: list_all_iff linkGuard_quiet)

lemma guarded_quiet_at: "list_all quiet n \<Longrightarrow> guarded (\<lambda>e h. linkGuard path version e (f e h)) n"
  by (rule guarded_free) (auto simp: list_all_iff linkGuard_quiet)

lemma linkGuard_linksTo: "linksTo t e \<Longrightarrow> (\<And>target. t = Some target \<Longrightarrow> InReadlink path (Inr target) \<in> set h) \<Longrightarrow> linkGuard path version e h"
  by (cases e) auto

lemma guarded_split_mono:
  "guarded G n \<Longrightarrow> (\<And>l e h. n = l @ e # h \<Longrightarrow> G e h \<Longrightarrow> G' e h) \<Longrightarrow> guarded G' n"
proof (induction n)
  case (Cons e n)
  then have "guarded G' n" by (metis append_Cons guarded.simps(2))
  then show ?case using Cons.prems by (metis append_Nil guarded.simps(2))
qed simp

lemma guarded_linksTo:
  "list_all (linksTo t) n \<Longrightarrow> (\<And>target. t = Some target \<Longrightarrow> InReadlink path (Inr target) \<in> set n1) \<Longrightarrow>
   guarded (\<lambda>e h. linkGuard path version e (h @ n1)) n"
  by (rule guarded_free) (auto simp: list_all_iff intro: linkGuard_linksTo)

lemma emits_publishLink:
  assumes "\<And>e. emits (rollback e) (\<lambda>r n. list_all (linksTo t) n)"
  shows "emits (thenRemove I temp (unlessErr (runInstallerStep fault s1 (os_Rename I temp path)) h
      (State_Monad.bind (runInstallerStep fault s2 (file_Sync I dir))
        (\<lambda>synced. case synced of None \<Rightarrow> State_Monad.return None | Some e \<Rightarrow> rollback e))))
    (\<lambda>r n. list_all (linksTo t) n)"
  by (intro emits_thenRemove_links emits_unlessErr_step [OF emits_op] emits_bind_step [OF emits_op] emits_wp_option
      emits_return emits_conseq [OF assms]) auto

lemma emits_replaceDesiredSymlink:
  "emits (replaceDesiredSymlink I dir path target fault) (\<lambda>r n. guarded (linkGuard path target) n)"
proof -
  have rollback: "emits (State_Monad.bind (restoreDesiredSymlink I path previous dir) (\<lambda>x. State_Monad.return (f x)))
      (\<lambda>r n. list_all (linksTo previous) n)" for previous and f :: "error option \<Rightarrow> error option"
    by (intro emits_bind_pre [OF emits_restoreDesiredSymlink] emits_return) simp
  show ?thesis
    unfolding replaceDesiredSymlink_def
    by (intro emits_wp_if emits_return emits_orReturn [OF emits_snapshotDesiredSymlink]
        emits_orReturn [OF emits_newInstallerTempPath] emits_unlessErr_step [OF emits_op]
        emits_conseq [OF emits_publishLink [OF rollback]])
      (auto intro: guarded_linksTo simp: guarded_quiet guarded_quiet_at)
qed

text \<open>What holds whenever a link is made.\<close>

definition sourceRead :: "installerRuntime \<Rightarrow> string \<Rightarrow> string \<Rightarrow> bytes \<Rightarrow> installerHistory \<Rightarrow> bool" where
  "sourceRead I path arch body h \<longleftrightarrow> InReadFile path (Inr body) \<in> set h \<and> validateLinuxELF I body arch = None"

definition installed :: "installerRuntime \<Rightarrow> installHostBinariesOptions \<Rightarrow> string \<Rightarrow> bytes \<Rightarrow> bytes \<Rightarrow> installerHistory \<Rightarrow> bool" where
  "installed I options binDir body launcher h \<longleftrightarrow>
     sourceRead I (opt_Drive9Source options) (opt_TargetArch options) body h \<and>
     sourceRead I (opt_LauncherSource options) (opt_TargetArch options) launcher h \<and>
     versionReady binDir (path_Join [binDir, ''drive9-'' @ sha256hex body]) (sha256hex body) h \<and>
     published binDir (path_Join [binDir, ''drive9-csi-launcher'']) launcher h"

lemma versionReady_append: "versionReady dir path digest h \<Longrightarrow> versionReady dir path digest (n @ h @ b)"
  unfolding versionReady_def using published_append [of dir path _ h n b] by auto

lemma installed_append: "installed I options binDir body launcher h \<Longrightarrow> installed I options binDir body launcher (n @ h @ b)"
  unfolding installed_def sourceRead_def using versionReady_append published_append by auto

lemma emits_readValidatedELF:
  "emits (readValidatedELF I path arch) (\<lambda>r n. list_all quiet n
     \<and> (\<forall>body digest. r = Inr (body, digest) \<longrightarrow> digest = sha256hex body \<and> sourceRead I path arch body n))"
  unfolding readValidatedELF_def sourceRead_def by (intro emits_wp) auto

fun installGuard :: "installerRuntime \<Rightarrow> installHostBinariesOptions \<Rightarrow> string \<Rightarrow> installerEvent \<Rightarrow> installerHistory \<Rightarrow> bool" where
  "installGuard I options binDir (InSymlink target temp x) h = (\<exists>body launcher. installed I options binDir body launcher h
     \<and> (target = ''drive9-'' @ sha256hex body \<or> InReadlink (path_Join [binDir, ''drive9'']) (Inr target) \<in> set h))"
| "installGuard I options binDir (InFunlock p) h = False"
| "installGuard I options binDir e h = True"

lemma installGuard_quiet: "list_all quiet n \<Longrightarrow> guarded (\<lambda>e h. installGuard I options binDir e (f e h)) n"
proof (rule guarded_free, intro ballI allI)
  fix e h
  assume "list_all quiet n" "e \<in> set n"
  then have "quiet e" by (simp add: list_all_iff)
  then show "installGuard I options binDir e (f e h)" by (cases e) auto
qed

lemma installGuard_link:
  "installed I options binDir body launcher h1 \<Longrightarrow>
   linkGuard (path_Join [binDir, ''drive9'']) (''drive9-'' @ sha256hex body) e h \<Longrightarrow> installGuard I options binDir e (h @ h1)"
  using installed_append [of I options binDir body launcher h1 h "[]"] by (cases e) auto

lemma emits_installLocked:
  "emits (installLocked I options binDir fault) (\<lambda>r n. guarded (installGuard I options binDir) n)"
proof -
  have link: "guarded (\<lambda>e h. installGuard I options binDir e (h @ n2 @ n1 @ h0)) n"
    if "guarded (linkGuard (path_Join [binDir, ''drive9'']) (''drive9-'' @ sha256hex body)) n"
      "sourceRead I (opt_Drive9Source options) (opt_TargetArch options) body h0"
      "sourceRead I (opt_LauncherSource options) (opt_TargetArch options) launcher h0"
      "versionReady binDir (path_Join [binDir, ''drive9-'' @ sha256hex body]) (sha256hex body) n1"
      "published binDir (path_Join [binDir, ''drive9-csi-launcher'']) launcher n2" for n body launcher h0 n1 n2
  proof -
    have "installed I options binDir body launcher (n2 @ n1 @ h0)"
      unfolding installed_def sourceRead_def
      using that(2,3) versionReady_append [OF that(4), of n2 h0] published_append [OF that(5), of "[]" "n1 @ h0"]
      by (simp add: sourceRead_def)
    from guarded_mono [OF that(1) installGuard_link [OF this]] show ?thesis .
  qed
  have rest: "emits (unlessErr (installVersionedDrive9 I binDir (path_Join [binDir, ''drive9-'' @ sha256hex body]) body (sha256hex body) fault) Inl (
       unlessErr (replaceLauncher I binDir (path_Join [binDir, ''drive9-csi-launcher'']) launcher fault) Inl (
       unlessErr (replaceDesiredSymlink I binDir (path_Join [binDir, ''drive9'']) (''drive9-'' @ sha256hex body) fault) Inl (
         State_Monad.return result))))
       (\<lambda>r n. guarded (\<lambda>e h. installGuard I options binDir e (h @ h0)) n)"
    if "sourceRead I (opt_Drive9Source options) (opt_TargetArch options) body h0"
      "sourceRead I (opt_LauncherSource options) (opt_TargetArch options) launcher h0"
    for body launcher h0 and result :: "error + installHostBinariesResult"
    by (intro emits_unlessErr [OF emits_installVersionedDrive9] emits_unlessErr [OF emits_replaceLauncher]
        emits_unlessErr [OF emits_replaceDesiredSymlink] emits_return)
      (use that in \<open>auto simp: installGuard_quiet intro: link\<close>)
  show ?thesis
    unfolding installLocked_def Let_def
  proof (intro emits_orReturn [OF emits_readValidatedELF] emits_wp_prod, goal_cases)
    case (3 x n drive9Body drive9Digest r n2 launcherBody d)
    then have "sourceRead I (opt_Drive9Source options) (opt_TargetArch options) drive9Body (n2 @ n)"
      "sourceRead I (opt_LauncherSource options) (opt_TargetArch options) launcherBody (n2 @ n)"
      and q: "list_all quiet n" "list_all quiet n2" "drive9Digest = sha256hex drive9Body"
      by (auto simp: sourceRead_def)
    show ?case
      unfolding q(3) by (rule emits_conseq [OF rest [OF \<open>sourceRead I (opt_Drive9Source options) _ _ _\<close>
            \<open>sourceRead I (opt_LauncherSource options) _ _ _\<close>]]) (use q in \<open>auto simp: installGuard_quiet\<close>)
  qed (auto simp: installGuard_quiet)
qed

lemma guarded_locked:
  "guarded (installGuard I options binDir) n \<Longrightarrow>
   guarded (\<lambda>e h. \<forall>target temp x. e = InSymlink target temp x \<longrightarrow>
     installGuard I options binDir e h \<and> holdsLock binDir (h @ InFlock binDir None # h0)) n"
proof (induction n)
  case (Cons e n)
  have "holdsLock binDir (n @ InFlock binDir None # h0)"
    if "guarded (installGuard I options binDir) n"
    using that
  proof (induction n)
    case (Cons e n)
    then show ?case by (cases e) auto
  qed simp
  then show ?case using Cons by auto
qed simp

definition linkMoved :: "installerRuntime \<Rightarrow> installHostBinariesOptions \<Rightarrow> string \<Rightarrow> installerEvent \<Rightarrow> installerHistory \<Rightarrow> bool" where
  "linkMoved I options binDir e h \<longleftrightarrow> (\<forall>target temp x. e = InSymlink target temp x \<longrightarrow>
     installGuard I options binDir e h \<and> holdsLock binDir h)"

lemma linkMoved_quiet: "quiet e \<Longrightarrow> linkMoved I options binDir e h"
  by (cases e) (auto simp: linkMoved_def)

lemma linkMoved_locked:
  assumes "guarded (installGuard I options binDir) n"
  shows "guarded (\<lambda>e h. linkMoved I options binDir e (h @ InFlock binDir None # h0)) n"
proof (rule guarded_mono [OF guarded_locked [OF assms, of h0]])
  fix e h
  assume g: "\<forall>target temp x. e = InSymlink target temp x \<longrightarrow>
    installGuard I options binDir e h \<and> holdsLock binDir (h @ InFlock binDir None # h0)"
  have "installGuard I options binDir (InSymlink target temp x) (h @ h1)"
    if "installGuard I options binDir (InSymlink target temp x) h" for target temp x h1
    using that installed_append [of I options binDir _ _ h "[]" h1] by auto
  with g show "linkMoved I options binDir e (h @ InFlock binDir None # h0)"
    unfolding linkMoved_def by blast
qed

lemma guarded_linkMoved_quiet: "list_all quiet n \<Longrightarrow> guarded (\<lambda>e h. linkMoved I options binDir e (f e h)) n"
  by (rule guarded_free) (auto simp: list_all_iff linkMoved_quiet)

lemma linkMoved_unlock: "linkMoved I options binDir (InFunlock p) h"
  by (simp add: linkMoved_def)

lemma emits_binDir: "emits (validateDirectory I path) (\<lambda>r n. list_all quiet n)"
  "emits (ensureInstallerBinDir I path) (\<lambda>r n. list_all quiet n)"
  unfolding validateDirectory_def ensureInstallerBinDir_def by (intro emits_wp; simp)+

lemma emits_install:
  "emits (installHostBinariesWithFault I options fault)
     (\<lambda>r n. guarded (linkMoved I options (path_Join [opt_HostStateDir options, ''bin''])) n)"
  unfolding installHostBinariesWithFault_def Let_def
  by (intro emits_ifNil emits_unlessErr [OF emits_binDir(1)] emits_unlessErr [OF emits_binDir(2)]
      emits_bind_pre [OF emits_installLocked] emits_wp)
    (auto simp: guarded_linkMoved_quiet linkMoved_quiet linkMoved_unlock intro: linkMoved_locked)

text \<open>
  C12: The desired version is changed last, and only to what is in place. Whenever the installer makes
  a symbolic link, for the new version or for a rollback, and whatever fails or is injected before,
  it holds the lock of the binary directory; it has read the Drive9 binary and the launcher, and both
  are static ELF executables for the target architecture; the versioned binary of that content is
  in place (it was read back with the same digest, or a temporary file received exactly these bytes,
  was synced, renamed to its place, and the directory was synced after it), the new launcher was
  published in the same way; and the link names that version or is a target it had before.
\<close>

theorem install_link_last:
  assumes "run_state (installHostBinariesWithFault I options fault) tr = (r, later @ InSymlink target temp x # earlier @ tr)"
    and "binDir = path_Join [opt_HostStateDir options, ''bin'']"
  shows "holdsLock binDir earlier \<and>
    (\<exists>body launcher.
       sourceRead I (opt_Drive9Source options) (opt_TargetArch options) body earlier \<and>
       sourceRead I (opt_LauncherSource options) (opt_TargetArch options) launcher earlier \<and>
       versionReady binDir (path_Join [binDir, ''drive9-'' @ sha256hex body]) (sha256hex body) earlier \<and>
       published binDir (path_Join [binDir, ''drive9-csi-launcher'']) launcher earlier \<and>
       (target = ''drive9-'' @ sha256hex body \<or> InReadlink (path_Join [binDir, ''drive9'']) (Inr target) \<in> set earlier))"
proof -
  have "guarded (linkMoved I options binDir) (later @ InSymlink target temp x # earlier)"
    using emits_ran [OF emits_install, of I options fault tr r "later @ InSymlink target temp x # earlier"] assms by simp
  from guarded_split [OF this] show ?thesis
    unfolding linkMoved_def by (simp add: installed_def)
qed

text \<open>
  A first installation, for amd64: the directories are there, the sources are one byte long, and
  nothing is in the binary directory. The answers to \<open>Lstat\<close> follow from how much has happened.
\<close>

definition exInstaller :: installerRuntime where
  "exInstaller =
     \<lparr>in_Lstat = \<lambda>h p.
        if length h \<le> 2 then Inr \<lparr>fi_kind = Directory, fi_perm = 493, fi_size = 0\<rparr>
        else if length h \<le> 8 then Inr \<lparr>fi_kind = Regular, fi_perm = 493, fi_size = 1\<rparr>
        else Inl (Sentinel ErrNotExist),
      in_ReadFile = \<lambda>h p. Inr ''x'', in_Readlink = \<lambda>h p. Inl (Sentinel ErrNotExist), in_Mkdir = \<lambda>h p mode. None,
      in_Chmod = \<lambda>h p mode. None, in_OpenDir = \<lambda>h p. None, in_Flock = \<lambda>h p. None,
      in_CreateTemp = \<lambda>h dir pattern. Inr ''/s/bin/tmp'', in_Write = \<lambda>h p body. Inr (int (length body)),
      in_Sync = \<lambda>h p. None, in_Close = \<lambda>h p. None, in_Remove = \<lambda>h p. None, in_Rename = \<lambda>h a b. None,
      in_Symlink = \<lambda>h target p. None,
      in_ParseELF = \<lambda>body. Some \<lparr>elf_Class = 2, elf_Data = 1, elf_OSABI = 0, elf_Type = 2, elf_Machine = 62, elf_Progs = [1]\<rparr>\<rparr>"

definition exInstallOptions :: installHostBinariesOptions where
  "exInstallOptions = \<lparr>opt_HostStateDir = ''/s'', opt_Drive9Source = ''/image/drive9'',
     opt_LauncherSource = ''/image/launcher'', opt_TargetArch = ''amd64''\<rparr>"

lemma exInstall_name: "versionedDrive9NamePattern (''drive9-'' @ sha256hex body)" "\<not> IsAbs (''drive9-'' @ sha256hex body)"
  by (auto simp: versionedDrive9NamePattern_def hexNamed_def HasPrefix_def HasSuffix_def IsAbs_def hexDigits_def [of 64 "sha256hex body", THEN iffD1, OF sha256hex_hex])

lemma exInstaller_ops:
  "in_Lstat exInstaller h p = (if length h \<le> 2 then Inr \<lparr>fi_kind = Directory, fi_perm = 493, fi_size = 0\<rparr>
     else if length h \<le> 8 then Inr \<lparr>fi_kind = Regular, fi_perm = 493, fi_size = 1\<rparr> else Inl (Sentinel ErrNotExist))"
  "in_ReadFile exInstaller h p = Inr ''x''" "in_Mkdir exInstaller h p mode = None" "in_Chmod exInstaller h p mode = None"
  "in_OpenDir exInstaller h p = None" "in_Flock exInstaller h p = None"
  "in_CreateTemp exInstaller h dir pattern = Inr ''/s/bin/tmp''" "in_Write exInstaller h p body = Inr (int (length body))"
  "in_Sync exInstaller h p = None" "in_Close exInstaller h p = None" "in_Remove exInstaller h p = None"
  "in_Rename exInstaller h a b = None" "in_Symlink exInstaller h target p = None"
  by (simp_all add: exInstaller_def)

lemmas exInstaller_run = run_simps exInstaller_ops runInstallerStep_def runInstallerStepValue_def discardTemp_def thenRemove_def
  removeAndSync_def stepFault_def

lemma exInstaller_write: "run_state (writeFull exInstaller p ''x'') h = (None, InWrite p ''x'' (Inr 1) # h)"
  by (subst writeFull.simps) (simp add: exInstaller_run writeFull.simps [of _ _ "[]"])

lemma exInstaller_temp:
  "run_state (writeInstallerTemp exInstaller dir base ''x'' s1 s2 s3 None) h =
     (Inr ''/s/bin/tmp'', [InClose ''/s/bin/tmp'' None, InSync ''/s/bin/tmp'' None, InWrite ''/s/bin/tmp'' ''x'' (Inr 1),
        InChmod ''/s/bin/tmp'' 493 None, InCreateTemp dir (''.'' @ base @ ''.tmp-'') (Inr ''/s/bin/tmp'')] @ h)"
  by (simp add: writeInstallerTemp_def exInstaller_run exInstaller_write)

lemma exInstaller_version:
  assumes "8 < length h"
  shows "\<exists>n. run_state (installVersionedDrive9 exInstaller dir path ''x'' d None) h = (None, n @ h)"
  using assms by (simp add: installVersionedDrive9_def validateExistingVersionedDrive9_def exInstaller_run exInstaller_temp)

lemma exInstaller_launcher:
  assumes "8 < length h"
  shows "\<exists>n. run_state (replaceLauncher exInstaller dir path ''x'' None) h = (None, n @ h)"
  using assms by (simp add: replaceLauncher_def replaceRegularBinary_def snapshotRegularDestination_def exInstaller_run exInstaller_temp)

lemma exInstaller_link:
  assumes "8 < length h" "versionedDrive9NamePattern target" "\<not> IsAbs target"
  shows "\<exists>n. run_state (replaceDesiredSymlink exInstaller dir path target None) h = (None, n @ h)
    \<and> InSymlink target ''/s/bin/tmp'' None \<in> set n"
  using assms by (simp add: replaceDesiredSymlink_def snapshotDesiredSymlink_def newInstallerTempPath_def exInstaller_run)

lemma exInstaller_source:
  assumes "4 < length h" "length h \<le> 8"
  shows "run_state (readValidatedELF exInstaller path ''amd64'') h =
    (Inr (''x'', sha256hex ''x''), InReadFile path (Inr ''x'') # InLstat path (Inr \<lparr>fi_kind = Regular, fi_perm = 493, fi_size = 1\<rparr>) # h)"
  using assms
  by (simp add: readValidatedELF_def validateLinuxELF_def elfMachineForArch_def exInstaller_run IsRegular_def anyExecute_def
      exInstaller_def)

lemma exInstaller_locked:
  assumes "4 < length h" "length h \<le> 6"
  shows "\<exists>r n. run_state (installLocked exInstaller exInstallOptions binDir None) h = (r, n @ h)
    \<and> InSymlink (''drive9-'' @ sha256hex ''x'') ''/s/bin/tmp'' None \<in> set n"
proof -
  let ?src = "\<lambda>p. [InReadFile p (Inr ''x''), InLstat p (Inr \<lparr>fi_kind = Regular, fi_perm = 493, fi_size = 1\<rparr>)]"
  let ?h = "?src ''/image/launcher'' @ ?src ''/image/drive9'' @ h"
  have long: "8 < length ?h" using assms by simp
  obtain n1 where 1: "run_state (installVersionedDrive9 exInstaller binDir (path_Join [binDir, ''drive9-'' @ sha256hex ''x'']) ''x''
      (sha256hex ''x'') None) ?h = (None, n1 @ ?h)"
    using exInstaller_version [OF long] by blast
  obtain n2 where 2: "run_state (replaceLauncher exInstaller binDir (path_Join [binDir, ''drive9-csi-launcher'']) ''x'' None) (n1 @ ?h)
      = (None, n2 @ n1 @ ?h)"
    using exInstaller_launcher [of "n1 @ ?h"] assms by fastforce
  have long3: "8 < length (n2 @ n1 @ ?h)" using long by simp
  obtain n3 where 3: "run_state (replaceDesiredSymlink exInstaller binDir (path_Join [binDir, ''drive9'']) (''drive9-'' @ sha256hex ''x'') None)
      (n2 @ n1 @ ?h) = (None, n3 @ n2 @ n1 @ ?h)" "InSymlink (''drive9-'' @ sha256hex ''x'') ''/s/bin/tmp'' None \<in> set n3"
    using exInstaller_link [OF long3 exInstall_name] by blast
  show ?thesis
    using assms 1 2 3 by (simp add: installLocked_def exInstallOptions_def run_simps exInstaller_source Let_def)
qed

theorem install_link_last_witness:
  "\<exists>later earlier. snd (run_state (installHostBinariesWithFault exInstaller exInstallOptions None) []) =
       later @ InSymlink (''drive9-'' @ sha256hex ''x'') ''/s/bin/tmp'' None # earlier @ [] \<and>
     holdsLock (path_Join [''/s'', ''bin'']) earlier \<and>
     (\<exists>body. sourceRead exInstaller ''/image/drive9'' ''amd64'' body earlier)"
proof -
  let ?P = "installHostBinariesWithFault exInstaller exInstallOptions None"
  have options: "validateInstallHostBinariesOptions exInstallOptions = None" by code_simp
  let ?dir = "path_Join [''/s'', ''bin'']"
  have steps: "run_state (validateDirectory exInstaller ''/s'') [] = (None, [InLstat ''/s'' (Inr \<lparr>fi_kind = Directory, fi_perm = 493, fi_size = 0\<rparr>)])"
    "length h = 1 \<Longrightarrow> run_state (ensureInstallerBinDir exInstaller dir) h =
       (None, InChmod dir 493 None # InLstat dir (Inr \<lparr>fi_kind = Directory, fi_perm = 493, fi_size = 0\<rparr>) # InMkdir dir 493 None # h)" for dir h
    by (simp_all add: validateDirectory_def ensureInstallerBinDir_def exInstaller_run)
  obtain r n where locked: "run_state (installLocked exInstaller exInstallOptions ?dir None)
      [InFlock ?dir None, InOpenDir ?dir None, InChmod ?dir 493 None, InLstat ?dir (Inr \<lparr>fi_kind = Directory, fi_perm = 493, fi_size = 0\<rparr>),
       InMkdir ?dir 493 None, InLstat ''/s'' (Inr \<lparr>fi_kind = Directory, fi_perm = 493, fi_size = 0\<rparr>)] =
      (r, n @ [InFlock ?dir None, InOpenDir ?dir None, InChmod ?dir 493 None, InLstat ?dir (Inr \<lparr>fi_kind = Directory, fi_perm = 493, fi_size = 0\<rparr>),
       InMkdir ?dir 493 None, InLstat ''/s'' (Inr \<lparr>fi_kind = Directory, fi_perm = 493, fi_size = 0\<rparr>)])"
    and link: "InSymlink (''drive9-'' @ sha256hex ''x'') ''/s/bin/tmp'' None \<in> set n"
    using exInstaller_locked [of "[_, _, _, _, _, _]"] by fastforce
  have state: "opt_HostStateDir exInstallOptions = ''/s''" by (simp add: exInstallOptions_def)
  have "InSymlink (''drive9-'' @ sha256hex ''x'') ''/s/bin/tmp'' None \<in> set (snd (run_state ?P []))"
    using link unfolding installHostBinariesWithFault_def options state Let_def
    by (simp add: run_simps steps exInstaller_ops locked del: append.append_Cons)
  then obtain later earlier where "snd (run_state ?P []) = later @ InSymlink (''drive9-'' @ sha256hex ''x'') ''/s/bin/tmp'' None # earlier @ []"
    by (auto dest: split_list)
  moreover from this have "run_state ?P [] = (fst (run_state ?P []), later @ InSymlink (''drive9-'' @ sha256hex ''x'') ''/s/bin/tmp'' None # earlier @ [])"
    by (metis prod.collapse)
  from install_link_last [OF this refl]
  have "holdsLock (path_Join [''/s'', ''bin'']) earlier \<and> (\<exists>body. sourceRead exInstaller ''/image/drive9'' ''amd64'' body earlier)"
    by (auto simp: exInstallOptions_def)
  ultimately show ?thesis by blast
qed

end
