(* ===== verification/HostLinux.thy ===== *)
theory HostLinux
  imports HostRuntime HostNames MountInfo
begin

text \<open>
  The host runtime of production: \<open>host_runtime.go\<close>, \<open>host_runtime_linux.go\<close> and \<open>mount_linux.go\<close>. The
  rest of the development takes the answers of this layer from its environment; here they are computed
  from the system calls, which are events of their own. The methods that only pass their arguments on
  to package \<open>os\<close> are the operations of \<open>HostRuntime\<close> themselves.
\<close>

section \<open>System calls\<close>

text \<open>The flags of \<open>mount(2)\<close> and \<open>umount2(2)\<close> that the driver uses.\<close>

datatype mountFlag = MS_BIND | MS_REMOUNT | MS_RDONLY

text \<open>How \<open>exec.Cmd.Run\<close> ends: well, with an exit status, or without one.\<close>

datatype runOutcome = RunOk | RunExit error int | RunFailed error

datatype osEvent =
    OsMkdirAll string nat "error option"
  | OsMount string string "mountFlag list" "error option"
  | OsUnmount string bool "error option"
  | OsReadFile string "error + bytes"
  | OsRun hostCommand bytes bytes runOutcome
  | OsContext "error option"
  | OsTimer int "error option"
  | OsRandom "error + nat list"

type_synonym osHistory = "osEvent list"
type_synonym 'a osProg = "(osEvent, 'a) runs"

record osRuntime =
  os_MkdirAll_of :: "osHistory \<Rightarrow> string \<Rightarrow> nat \<Rightarrow> error option"
  os_Mount_of :: "osHistory \<Rightarrow> string \<Rightarrow> string \<Rightarrow> mountFlag list \<Rightarrow> error option"
  os_Unmount_of :: "osHistory \<Rightarrow> string \<Rightarrow> bool \<Rightarrow> error option"
  os_ReadFile_of :: "osHistory \<Rightarrow> string \<Rightarrow> error + bytes"
  os_Run_of :: "osHistory \<Rightarrow> hostCommand \<Rightarrow> bytes \<times> bytes \<times> runOutcome"
  os_Context_of :: "osHistory \<Rightarrow> error option"
  os_Timer_of :: "osHistory \<Rightarrow> int \<Rightarrow> error option"
  os_Random_of :: "osHistory \<Rightarrow> error + nat list"

abbreviation "sys_MkdirAll S p mode \<equiv> perform (\<lambda>h. os_MkdirAll_of S h p mode) (OsMkdirAll p mode)"
abbreviation "sys_Mount S source target flags \<equiv> perform (\<lambda>h. os_Mount_of S h source target flags) (OsMount source target flags)"
abbreviation "sys_Unmount S target lazy \<equiv> perform (\<lambda>h. os_Unmount_of S h target lazy) (OsUnmount target lazy)"
abbreviation "sys_ReadFile S p \<equiv> perform (\<lambda>h. os_ReadFile_of S h p) (OsReadFile p)"

section \<open>Mounts\<close>

definition bindMount :: "osRuntime \<Rightarrow> string \<Rightarrow> string \<Rightarrow> bool \<Rightarrow> error option osProg" where
  "bindMount S source target readonly =
     unlessErr (sys_MkdirAll S target 493) Some (
     unlessErr (sys_Mount S source target [MS_BIND]) Some (
     if readonly then do {
       remounted \<leftarrow> sys_Mount S source target [MS_BIND, MS_REMOUNT, MS_RDONLY];
       case remounted of
         None \<Rightarrow> State_Monad.return None
       | Some e \<Rightarrow> do { sys_Unmount S target False; State_Monad.return (Some e) } }
     else State_Monad.return None))"

definition isMountPoint :: "osRuntime \<Rightarrow> string \<Rightarrow> (error + bool) osProg" where
  "isMountPoint S target =
     orReturn (sys_ReadFile S ''/proc/self/mountinfo'') Inl (\<lambda>body.
       State_Monad.return (Inr (isMountPointIn body target)))"

definition observeMountPoint :: "osRuntime \<Rightarrow> string \<Rightarrow> (error + mountPointObservation) osProg" where
  "observeMountPoint S target =
     orReturn (sys_ReadFile S ''/proc/self/mountinfo'') Inl (\<lambda>body.
       State_Monad.return (parseMountPointObservation body target))"

definition unmountPath :: "osRuntime \<Rightarrow> string \<Rightarrow> error option osProg" where
  "unmountPath S target =
     orReturn (isMountPoint S target) Some (\<lambda>mounted.
       if \<not> mounted then State_Monad.return None else sys_Unmount S target False)"

definition lazyUnmountPath :: "osRuntime \<Rightarrow> string \<Rightarrow> error option osProg" where
  "lazyUnmountPath S target =
     orReturn (isMountPoint S target) Some (\<lambda>mounted.
       if \<not> mounted then State_Monad.return None else sys_Unmount S target True)"

definition isBusyUnmountError :: "error \<Rightarrow> bool" where
  "isBusyUnmountError e = errors_Is e EBUSY"

section \<open>Commands, waiting and identifiers\<close>

definition realExec :: "osRuntime \<Rightarrow> hostCommand \<Rightarrow> (hostCommandResult \<times> error option) osProg" where
  "realExec S command =
     (if cmd_Path command = []
      then State_Monad.return (\<lparr>cmd_Stdout = [], cmd_Stderr = [], cmd_ExitCode = -1\<rparr>, Some (Errorf ''host command path is required''))
      else do {
        (stdout, stderr, outcome) \<leftarrow> perform (\<lambda>h. os_Run_of S h command) (\<lambda>(stdout, stderr, outcome). OsRun command stdout stderr outcome);
        State_Monad.return (case outcome of
            RunOk \<Rightarrow> (\<lparr>cmd_Stdout = stdout, cmd_Stderr = stderr, cmd_ExitCode = 0\<rparr>, None)
          | RunExit e code \<Rightarrow> (\<lparr>cmd_Stdout = stdout, cmd_Stderr = stderr, cmd_ExitCode = code\<rparr>, Some e)
          | RunFailed e \<Rightarrow> (\<lparr>cmd_Stdout = stdout, cmd_Stderr = stderr, cmd_ExitCode = -1\<rparr>, Some e)) })"

text \<open>
  \<open>OsContext\<close> is the look at a context without waiting; \<open>OsTimer\<close> the wait for the timer or the end of
  the context, whichever is taken.
\<close>

definition realWait :: "osRuntime \<Rightarrow> int \<Rightarrow> error option osProg" where
  "realWait S duration =
     (if duration \<le> 0 then perform (os_Context_of S) OsContext
      else perform (\<lambda>h. os_Timer_of S h duration) (OsTimer duration))"

text \<open>\<open>hex.EncodeToString\<close> of bytes as numbers.\<close>

definition hexBytes :: "nat list \<Rightarrow> string" where
  "hexBytes bs = concat (map (\<lambda>b. [hexDigit (b div 16), hexDigit b]) bs)"

text \<open>\<open>rand.Read\<close> fills the sixteen bytes or fails.\<close>

definition newAttemptID :: "osRuntime \<Rightarrow> (error + string) osProg" where
  "newAttemptID S =
     orReturn (perform (os_Random_of S) OsRandom) (\<lambda>e. Inl (Wrap ''generate attempt id'' e)) (\<lambda>bs.
       State_Monad.return (Inr (hexBytes (take 16 (bs @ replicate 16 0)))))"

section \<open>What this layer gives\<close>

lemma hexBytes_hex: "hexDigits (2 * length bs) (hexBytes bs)"
  by (induction bs) (simp_all add: hexBytes_def hexDigits_def)

text \<open>An identifier of an attempt is always well-formed.\<close>

lemma newAttemptID_pattern: "emits (newAttemptID S) (\<lambda>r n. \<forall>a. r = Inr a \<longrightarrow> attemptIDPattern a)"
proof -
  have "attemptIDPattern (hexBytes (take 16 (bs @ replicate 16 0)))" for bs
  proof -
    have "2 * length (take 16 (bs @ replicate 16 0)) = 32" by simp
    then show ?thesis using hexBytes_hex [of "take 16 (bs @ replicate 16 0)"] unfolding attemptIDPattern_def by metis
  qed
  then show ?thesis unfolding newAttemptID_def by (intro emits_wp) auto
qed

text \<open>A read-only bind mount that succeeds was remounted read-only; one that is not was unmounted again.\<close>

lemma bindMount_readonly:
  "emits (bindMount S source target True) (\<lambda>r n.
     (r = None \<longrightarrow> OsMount source target [MS_BIND, MS_REMOUNT, MS_RDONLY] None \<in> set n) \<and>
     (r \<noteq> None \<longrightarrow> OsMount source target [MS_BIND] None \<in> set n \<longrightarrow> (\<exists>x. OsUnmount target False x \<in> set n)))"
  unfolding bindMount_def by (intro emits_wp) auto

text \<open>Nothing is unmounted that the mount table does not show.\<close>

lemma unmountPath_mounted:
  "emits (unmountPath S target) (\<lambda>r n. \<forall>x. OsUnmount target False x \<in> set n \<longrightarrow>
     (\<exists>body. OsReadFile ''/proc/self/mountinfo'' (Inr body) \<in> set n \<and> isMountPointIn body target))"
  unfolding unmountPath_def isMountPoint_def
  by (intro emits_orReturn [where \<Phi> = "\<lambda>r n. \<exists>x. n = [OsReadFile ''/proc/self/mountinfo'' x]
       \<and> (r = Inr True \<longrightarrow> (\<exists>body. x = Inr body \<and> isMountPointIn body target))"] emits_wp
      emits_conseq [OF emits_op]) auto

end
