(* ===== verification/Service.thy ===== *)
theory Service
  imports NodeRecovery
begin

text \<open>
  The service around the handlers (\<open>driver.go\<close>): the checks of \<open>Run\<close>, the endpoint socket, what the
  identity, controller and node services say of themselves, and the server that runs until a signal.

  The handlers run on the histories of one goroutine; the shutdown is about several goroutines, so it
  is a step relation. The gRPC server is a library: its \<open>Serve\<close>, \<open>GracefulStop\<close> and \<open>Stop\<close> return
  when it decides, and what it promises about that is a hypothesis.
\<close>

section \<open>What the services say of themselves\<close>

datatype pluginCapability = PluginCapability_CONTROLLER_SERVICE

datatype controllerCapability =
    ControllerCapability_CREATE_DELETE_VOLUME
  | ControllerCapability_SINGLE_NODE_MULTI_WRITER
  | ControllerCapability_MODIFY_VOLUME

datatype nodeServiceCapability =
    NodeCapability_STAGE_UNSTAGE_VOLUME
  | NodeCapability_SINGLE_NODE_MULTI_WRITER

text \<open>The name and the version.\<close>

definition GetPluginInfo :: "driver \<Rightarrow> string \<times> string" where
  "GetPluginInfo d = (cfg_DriverName (d_cfg d), cfg_Version (d_cfg d))"

definition GetPluginCapabilities :: "driver \<Rightarrow> pluginCapability list" where
  "GetPluginCapabilities d = [PluginCapability_CONTROLLER_SERVICE]"

definition Probe :: "driver \<Rightarrow> error option" where
  "Probe d = None"

definition ControllerGetCapabilities :: "driver \<Rightarrow> controllerCapability list" where
  "ControllerGetCapabilities d =
     [ControllerCapability_CREATE_DELETE_VOLUME, ControllerCapability_SINGLE_NODE_MULTI_WRITER,
      ControllerCapability_MODIFY_VOLUME]"

definition NodeGetInfo :: "driver \<Rightarrow> string" where
  "NodeGetInfo d = cfg_NodeID (d_cfg d)"

definition NodeGetCapabilities :: "driver \<Rightarrow> nodeServiceCapability list" where
  "NodeGetCapabilities d = [NodeCapability_STAGE_UNSTAGE_VOLUME, NodeCapability_SINGLE_NODE_MULTI_WRITER]"

section \<open>The endpoint\<close>

definition removeStaleSocket :: "env \<Rightarrow> string \<Rightarrow> error option prog" where
  "removeStaleSocket E socketPath = do {
     r \<leftarrow> Lstat E socketPath;
     case r of
       Inl e \<Rightarrow> State_Monad.return (if errors_Is e ErrNotExist then None else Some (Wrap ''stat CSI socket path'' e))
     | Inr info \<Rightarrow>
         if fi_kind info \<noteq> Socket then State_Monad.return (Some (Errorf ''CSI socket path exists and is not a unix socket''))
         else unlessErr (Remove E socketPath) (\<lambda>e. Some (Wrap ''remove stale CSI socket'' e)) (State_Monad.return None) }"

definition removeSocket :: "env \<Rightarrow> string \<Rightarrow> unit prog" where
  "removeSocket E socketPath = do {
     r \<leftarrow> Lstat E socketPath;
     case r of
       Inl e \<Rightarrow> State_Monad.return ()
     | Inr info \<Rightarrow>
         if fi_kind info \<noteq> Socket then State_Monad.return ()
         else do { Remove E socketPath; State_Monad.return () } }"

text \<open>\<open>net.Listen\<close> is a parameter; the result is the path that \<open>cleanup\<close> removes.\<close>

definition listenCSIEndpoint :: "env \<Rightarrow> (string \<Rightarrow> error option prog) \<Rightarrow> string \<Rightarrow> (error + string) prog" where
  "listenCSIEndpoint E listen endpoint =
     (if \<not> HasPrefix endpoint ''unix://'' then State_Monad.return (Inl (Errorf ''only unix:// CSI endpoints are supported''))
      else
      let socketPath = TrimPrefix endpoint ''unix://'' in
      if socketPath = [] then State_Monad.return (Inl (Errorf ''unix socket path is empty''))
      else if \<not> IsAbs socketPath then State_Monad.return (Inl (Errorf ''unix socket path must be absolute''))
      else
      unlessErr (MkdirAll E (path_Dir socketPath) 493) (\<lambda>e. Inl (Wrap ''create CSI socket dir'' e)) (
      unlessErr (removeStaleSocket E socketPath) Inl (
      unlessErr (listen socketPath) (\<lambda>e. Inl (Wrap ''listen on CSI socket'' e)) (
      State_Monad.return (Inr socketPath)))))"

text \<open>Only a socket is ever removed at the endpoint.\<close>

lemma removeStaleSocket_sockets:
  "emits (removeStaleSocket E p) (\<lambda>r n. \<forall>q x. EvRemove q x \<in> set n \<longrightarrow>
     q = p \<and> (\<exists>info. EvLstat p (Inr info) \<in> set n \<and> fi_kind info = Socket))"
  "emits (removeSocket E p) (\<lambda>r n. \<forall>q x. EvRemove q x \<in> set n \<longrightarrow>
     q = p \<and> (\<exists>info. EvLstat p (Inr info) \<in> set n \<and> fi_kind info = Socket))"
  unfolding removeStaleSocket_def removeSocket_def host_defs by (intro emits_wp; auto)+

section \<open>Run\<close>

definition validateRunConfig :: "Config \<Rightarrow> driverServiceMode \<Rightarrow> bool \<Rightarrow> error option" where
  "validateRunConfig cfg serviceMode hasClient = first_error
     [fail_if (TrimSpace (cfg_DriverName cfg) = []) (Errorf ''driver name is required''),
      fail_if (serviceMode = driverServiceNode \<and> TrimSpace (cfg_NodeID cfg) = []) (Errorf ''node id is required''),
      fail_if (TrimSpace (cfg_StateDir cfg) = []) (Errorf ''state dir is required''),
      fail_if (TrimSpace (cfg_Drive9Binary cfg) = []) (Errorf ''drive9 binary is required''),
      validateNodeRecoveryMode (cfg_RecoverNodeMounts cfg),
      fail_if (\<not> hasClient) (Errorf ''kubernetes client is required'')]"

record servicePlan =
  plan_driver :: driver
  plan_mode :: driverServiceMode
  plan_recover :: bool

text \<open>
  \<open>serve\<close> is what runs concurrently once everything is prepared: the registered services, the
  recovery if it is planned, and the server until it stops. The deferred clean-up comes after it.
\<close>

definition Run ::
    "env \<Rightarrow> (string \<Rightarrow> error option prog) \<Rightarrow> unit prog \<Rightarrow> (servicePlan \<Rightarrow> error option prog) \<Rightarrow> Config \<Rightarrow> bool \<Rightarrow> error option prog" where
  "Run E listen closeListener serve cfg0 hasClient =
     (let cfg = cfg0\<lparr>cfg_RecoverNodeMounts := normalizeNodeRecoveryMode (cfg_RecoverNodeMounts cfg0)\<rparr> in
      ifOk (resolveDriverServiceMode (cfg_ServiceMode cfg) (cfg_RecoverNodeMounts cfg)) Some (\<lambda>serviceMode.
      ifNil (validateRunConfig cfg serviceMode hasClient) Some (
      unlessErr (MkdirAll E (cfg_StateDir cfg) 448) (\<lambda>e. Some (Wrap ''create state dir'' e)) (
      orReturn (prepareDriverService E serviceMode) Some (\<lambda>(node, capabilities).
      orReturn (listenCSIEndpoint E listen (cfg_Endpoint cfg)) Some (\<lambda>socketPath. do {
        let d = \<lparr>d_cfg = cfg, d_nodeCapabilities = capabilities, d_nodePreflightSet = node\<rparr>;
        result \<leftarrow> (if serviceMode = driverServiceNode
           then ifOk (shouldRecoverNodeMounts d) Some (\<lambda>recover.
                  serve \<lparr>plan_driver = d, plan_mode = serviceMode, plan_recover = recover\<rparr>)
           else serve \<lparr>plan_driver = d, plan_mode = serviceMode, plan_recover = False\<rparr>);
        closeListener;
        removeSocket E socketPath;
        State_Monad.return result }))))))"

section \<open>The server until a signal\<close>

datatype mainPoint =
    Selecting | CancellingRecovery | StoppingServer | AwaitingGraceful | ForcingStop | AwaitingDone | AwaitingServe
  | Finished "error option"

datatype serveCall = Serving | ServeReturned "error option" | ServeReceived "error option"

datatype gracefulCall = GracefulNotCalled | GracefulRunning | GracefulReturned

record serverState =
  sv_main :: mainPoint
  sv_serve :: serveCall
  sv_graceful :: gracefulCall
  sv_stopCalled :: bool
  sv_recoveryCancelled :: bool

definition startedServer :: serverState where
  "startedServer = \<lparr>sv_main = Selecting, sv_serve = Serving, sv_graceful = GracefulNotCalled,
     sv_stopCalled = False, sv_recoveryCancelled = False\<rparr>"

text \<open>\<open>stopped\<close> tells \<open>grpc.ErrServerStopped\<close>.\<close>

definition serveResult :: "(error \<Rightarrow> bool) \<Rightarrow> error option \<Rightarrow> error option" where
  "serveResult stopped v = (case v of None \<Rightarrow> None | Some e \<Rightarrow> if stopped e then None else Some e)"

text \<open>
  One step of the goroutine of \<open>runServerUntilSignal\<close> and \<open>stopGRPCServer\<close>. Both \<open>select\<close> statements
  take either ready case. A signal and the time-out can come at any moment in their \<open>select\<close>.
\<close>

inductive mainStep :: "(error \<Rightarrow> bool) \<Rightarrow> serverState \<Rightarrow> serverState \<Rightarrow> bool" for stopped where
  ServeFirst: "sv_main s = Selecting \<Longrightarrow> sv_serve s = ServeReturned v \<Longrightarrow>
     mainStep stopped s (s\<lparr>sv_serve := ServeReceived v, sv_main := Finished (serveResult stopped v)\<rparr>)"
| SignalFirst: "sv_main s = Selecting \<Longrightarrow> mainStep stopped s (s\<lparr>sv_main := CancellingRecovery\<rparr>)"
| CancelRecovery: "sv_main s = CancellingRecovery \<Longrightarrow>
     mainStep stopped s (s\<lparr>sv_recoveryCancelled := True, sv_main := StoppingServer\<rparr>)"
| CallGracefulStop: "sv_main s = StoppingServer \<Longrightarrow>
     mainStep stopped s (s\<lparr>sv_graceful := GracefulRunning, sv_main := AwaitingGraceful\<rparr>)"
| GracefulInTime: "sv_main s = AwaitingGraceful \<Longrightarrow> sv_graceful s = GracefulReturned \<Longrightarrow>
     mainStep stopped s (s\<lparr>sv_main := AwaitingServe\<rparr>)"
| Timeout: "sv_main s = AwaitingGraceful \<Longrightarrow> mainStep stopped s (s\<lparr>sv_main := ForcingStop\<rparr>)"
| CallStop: "sv_main s = ForcingStop \<Longrightarrow>
     mainStep stopped s (s\<lparr>sv_stopCalled := True, sv_main := AwaitingDone\<rparr>)"
| GracefulAfterStop: "sv_main s = AwaitingDone \<Longrightarrow> sv_graceful s = GracefulReturned \<Longrightarrow>
     mainStep stopped s (s\<lparr>sv_main := AwaitingServe\<rparr>)"
| ServeLast: "sv_main s = AwaitingServe \<Longrightarrow> sv_serve s = ServeReturned v \<Longrightarrow>
     mainStep stopped s (s\<lparr>sv_serve := ServeReceived v, sv_main := Finished (serveResult stopped v)\<rparr>)"

text \<open>The two goroutines that call the server: their calls return.\<close>

inductive libraryStep :: "serverState \<Rightarrow> serverState \<Rightarrow> bool" where
  ServeReturns: "sv_serve s = Serving \<Longrightarrow> libraryStep s (s\<lparr>sv_serve := ServeReturned v\<rparr>)"
| GracefulReturns: "sv_graceful s = GracefulRunning \<Longrightarrow> libraryStep s (s\<lparr>sv_graceful := GracefulReturned\<rparr>)"

definition serverStep :: "(error \<Rightarrow> bool) \<Rightarrow> serverState \<Rightarrow> serverState \<Rightarrow> bool" where
  "serverStep stopped s t \<longleftrightarrow> mainStep stopped s t \<or> libraryStep s t"

code_pred (modes: i \<Rightarrow> i \<Rightarrow> o \<Rightarrow> bool) mainStep .

section \<open>The shutdown ends\<close>

text \<open>What the main goroutine has still to do at most, and with it the steps of the whole service.\<close>

fun pendingMain :: "mainPoint \<Rightarrow> nat" where
  "pendingMain Selecting = 8"
| "pendingMain CancellingRecovery = 7"
| "pendingMain StoppingServer = 6"
| "pendingMain AwaitingGraceful = 4"
| "pendingMain ForcingStop = 3"
| "pendingMain AwaitingDone = 2"
| "pendingMain AwaitingServe = 1"
| "pendingMain (Finished r) = 0"

definition remainingSteps :: "serverState \<Rightarrow> nat" where
  "remainingSteps s = pendingMain (sv_main s) + (if sv_serve s = Serving then 1 else 0)
     + (if sv_graceful s = GracefulRunning then 1 else 0)"

inductive_simps mainStep_iff: "mainStep stopped s t"
inductive_simps libraryStep_iff: "libraryStep s t"

lemmas serverStep_iff = serverStep_def mainStep_iff libraryStep_iff

text \<open>Systems with an invariant, and those whose runs are bounded by a measure.\<close>

locale invariant_system =
  fixes step :: "'s \<Rightarrow> 's \<Rightarrow> bool" and start :: 's and inv :: "'s \<Rightarrow> bool"
  assumes inv_start: "inv start" and inv_step: "step s t \<Longrightarrow> inv s \<Longrightarrow> inv t"
begin

lemma inv_reachable: "rtranclp step start s \<Longrightarrow> inv s"
  by (induction rule: rtranclp_induct) (auto intro: inv_start inv_step)

lemma inv_steps: "(step ^^ n) s t \<Longrightarrow> inv s \<Longrightarrow> inv t"
  by (induction n arbitrary: t) (auto intro: inv_step)

end

locale bounded_system = invariant_system step start inv
  for step :: "'s \<Rightarrow> 's \<Rightarrow> bool" and start :: 's and inv :: "'s \<Rightarrow> bool" +
  fixes remaining :: "'s \<Rightarrow> nat"
  assumes step_remaining: "step s t \<Longrightarrow> remaining t < remaining s"
begin

lemma steps_remaining: "(step ^^ n) s t \<Longrightarrow> n + remaining t \<le> remaining s"
proof (induction n arbitrary: t)
  case (Suc n)
  then obtain u where "(step ^^ n) s u" "step u t" by auto
  from Suc.IH [OF this(1)] step_remaining [OF this(2)] show ?case by simp
qed simp

end

text \<open>What is known at each point of the main goroutine.\<close>

definition shutdownInv :: "(error \<Rightarrow> bool) \<Rightarrow> serverState \<Rightarrow> bool" where
  "shutdownInv stopped s \<longleftrightarrow> (case sv_main s of
      Selecting \<Rightarrow> \<not> sv_recoveryCancelled s \<and> sv_graceful s = GracefulNotCalled
    | CancellingRecovery \<Rightarrow> sv_graceful s = GracefulNotCalled
    | StoppingServer \<Rightarrow> sv_recoveryCancelled s
    | AwaitingGraceful \<Rightarrow> sv_recoveryCancelled s \<and> sv_graceful s \<noteq> GracefulNotCalled
    | ForcingStop \<Rightarrow> sv_recoveryCancelled s \<and> sv_graceful s \<noteq> GracefulNotCalled
    | AwaitingDone \<Rightarrow> sv_recoveryCancelled s \<and> sv_graceful s \<noteq> GracefulNotCalled \<and> sv_stopCalled s
    | AwaitingServe \<Rightarrow> sv_recoveryCancelled s \<and> sv_graceful s = GracefulReturned
    | Finished r \<Rightarrow> (\<exists>v. sv_serve s = ServeReceived v \<and> r = serveResult stopped v)
        \<and> (sv_recoveryCancelled s \<longrightarrow> sv_graceful s = GracefulReturned))
   \<and> ((\<exists>v. sv_serve s = ServeReceived v) \<longleftrightarrow> (\<exists>r. sv_main s = Finished r))"

interpretation server: bounded_system "serverStep stopped" startedServer "shutdownInv stopped" remainingSteps
  for stopped
proof
  show "shutdownInv stopped startedServer" by (simp add: shutdownInv_def startedServer_def)
  show "shutdownInv stopped t" if "serverStep stopped s t" "shutdownInv stopped s" for s t
    using that by (auto simp: serverStep_iff shutdownInv_def split: mainPoint.splits)
  show "remainingSteps t < remainingSteps s" if "serverStep stopped s t" for s t
    using that by (auto simp: serverStep_iff remainingSteps_def)
qed

text \<open>After the signal the recovery is cancelled before the main goroutine can finish.\<close>

definition signalled :: "serverState \<Rightarrow> bool" where
  "signalled s \<longleftrightarrow> sv_main s \<noteq> Selecting \<and> (sv_main s = CancellingRecovery \<or> sv_recoveryCancelled s)"

lemma steps_signalled: "(serverStep stopped ^^ n) s t \<Longrightarrow> signalled s \<Longrightarrow> signalled t"
proof (induction n arbitrary: t)
  case (Suc n)
  then obtain u where "signalled u" "serverStep stopped u t" by auto
  then show ?case by (auto simp: serverStep_iff signalled_def)
qed simp

text \<open>
  What the server promises: \<open>Stop\<close> makes a pending \<open>GracefulStop\<close> return, and \<open>Serve\<close> returns once one
  of them was called.
\<close>

definition serverPromises :: "serverState \<Rightarrow> bool" where
  "serverPromises s \<longleftrightarrow> (sv_stopCalled s \<longrightarrow> sv_graceful s \<noteq> GracefulRunning) \<and>
     (sv_graceful s \<noteq> GracefulNotCalled \<longrightarrow> sv_serve s \<noteq> Serving)"

definition resting :: "(error \<Rightarrow> bool) \<Rightarrow> serverState \<Rightarrow> bool" where
  "resting stopped s \<longleftrightarrow> (\<forall>t. \<not> mainStep stopped s t)"

lemma resting_finished:
  assumes "resting stopped s" "shutdownInv stopped s" "serverPromises s"
  shows "sv_main s = Selecting \<or> (\<exists>r. sv_main s = Finished r)"
proof (cases "sv_main s")
  case CancellingRecovery
  from mainStep.CancelRecovery [OF this] assms(1) show ?thesis by (auto simp: resting_def)
next
  case StoppingServer
  from mainStep.CallGracefulStop [OF this] assms(1) show ?thesis by (auto simp: resting_def)
next
  case AwaitingGraceful
  from mainStep.Timeout [OF this] assms(1) show ?thesis by (auto simp: resting_def)
next
  case ForcingStop
  from mainStep.CallStop [OF this] assms(1) show ?thesis by (auto simp: resting_def)
next
  case AwaitingDone
  then have "sv_graceful s = GracefulReturned"
    using assms(2,3) by (cases "sv_graceful s") (auto simp: shutdownInv_def serverPromises_def)
  from mainStep.GracefulAfterStop [OF AwaitingDone this] assms(1) show ?thesis by (auto simp: resting_def)
next
  case AwaitingServe
  then obtain v where "sv_serve s = ServeReturned v"
    using assms(2,3) by (cases "sv_serve s") (auto simp: shutdownInv_def serverPromises_def)
  from mainStep.ServeLast [OF AwaitingServe this] assms(1) show ?thesis by (auto simp: resting_def)
qed auto

text \<open>
  C21: A signal ends the service. From any state that the running server can reach in which the signal
  was taken, at most eight steps are possible, of all goroutines together and in whatever order.
  When the main goroutine can do no more, and the gRPC server has kept its promises, it has returned:
  the node recovery was cancelled, \<open>GracefulStop\<close> has returned, by itself or by \<open>Stop\<close> after the
  time-out, and the result is the one that \<open>Serve\<close> gave, where the error of a stopped server is no error.
\<close>

theorem shutdown_completes:
  assumes "rtranclp (serverStep stopped) startedServer s" and "sv_main s = CancellingRecovery"
    and "(serverStep stopped ^^ n) s t"
  shows "n \<le> 8 \<and> (resting stopped t \<and> serverPromises t \<longrightarrow>
    (\<exists>v. sv_serve t = ServeReceived v \<and> sv_main t = Finished (serveResult stopped v)) \<and>
    sv_recoveryCancelled t \<and> sv_graceful t = GracefulReturned)"
proof
  have "sv_graceful s = GracefulNotCalled"
    using server.inv_reachable [OF assms(1)] assms(2) by (simp add: shutdownInv_def)
  then have "remainingSteps s \<le> 8" using assms(2) by (simp add: remainingSteps_def)
  then show "n \<le> 8" using server.steps_remaining [OF assms(3)] by simp
  have inv: "shutdownInv stopped t" by (rule server.inv_steps [OF assms(3) server.inv_reachable [OF assms(1)]])
  have after: "signalled t" by (rule steps_signalled [OF assms(3)]) (simp add: signalled_def assms(2))
  show "resting stopped t \<and> serverPromises t \<longrightarrow>
    (\<exists>v. sv_serve t = ServeReceived v \<and> sv_main t = Finished (serveResult stopped v)) \<and>
    sv_recoveryCancelled t \<and> sv_graceful t = GracefulReturned"
    using resting_finished [OF _ inv] inv after by (auto simp: shutdownInv_def signalled_def)
qed

text \<open>A signal, and requests that last longer than the time-out.\<close>

definition afterSignal :: serverState where "afterSignal = startedServer\<lparr>sv_main := CancellingRecovery\<rparr>"

definition afterShutdown :: serverState where
  "afterShutdown = \<lparr>sv_main = Finished None, sv_serve = ServeReceived None, sv_graceful = GracefulReturned,
     sv_stopCalled = True, sv_recoveryCancelled = True\<rparr>"

theorem shutdown_completes_witness:
  "8 \<le> (8::nat) \<and> resting (\<lambda>e. False) afterShutdown \<and> serverPromises afterShutdown \<and>
   (\<exists>v. sv_serve afterShutdown = ServeReceived v \<and> sv_main afterShutdown = Finished (serveResult (\<lambda>e. False) v)) \<and>
   sv_recoveryCancelled afterShutdown \<and> sv_graceful afterShutdown = GracefulReturned"
proof -
  let ?step = "serverStep (\<lambda>e. False)"
  have reach: "rtranclp ?step startedServer afterSignal"
    by (rule r_into_rtranclp) (simp add: serverStep_def mainStep.simps afterSignal_def startedServer_def)
  have main: "sv_main afterSignal = CancellingRecovery" by (simp add: afterSignal_def)
  have "(?step ^^ Suc (Suc (Suc (Suc (Suc (Suc (Suc (Suc 0)))))))) afterSignal afterShutdown"
    unfolding afterSignal_def startedServer_def afterShutdown_def serverStep_def
    by (rule relpowp_Suc_I2, rule disjI1, rule mainStep.CancelRecovery, simp,
        rule relpowp_Suc_I2, rule disjI1, rule mainStep.CallGracefulStop, simp,
        rule relpowp_Suc_I2, rule disjI1, rule mainStep.Timeout, simp,
        rule relpowp_Suc_I2, rule disjI1, rule mainStep.CallStop, simp,
        rule relpowp_Suc_I2, rule disjI2, rule libraryStep.GracefulReturns, simp,
        rule relpowp_Suc_I2, rule disjI2, rule libraryStep.ServeReturns [where v = None], simp,
        rule relpowp_Suc_I2, rule disjI1, rule mainStep.GracefulAfterStop, simp, simp,
        rule relpowp_Suc_I2, rule disjI1, rule mainStep.ServeLast, simp, simp, simp add: serveResult_def)
  moreover have "(8::nat) = Suc (Suc (Suc (Suc (Suc (Suc (Suc (Suc 0)))))))" by simp
  ultimately have run: "(?step ^^ 8) afterSignal afterShutdown" by metis
  have rest: "resting (\<lambda>e. False) afterShutdown" "serverPromises afterShutdown"
    by (simp_all add: resting_def mainStep.simps serverPromises_def afterShutdown_def)
  from shutdown_completes [OF reach main run] rest show ?thesis by simp
qed

end
