(* ===== verification/DeleteSafety.thy ===== *)
theory DeleteSafety
  imports Controller
begin

text \<open>
  What \<open>DeleteVolume\<close> deletes on the Drive9 server. A volume is detached, its data is left alone: only
  the index files and the marker are removed, and only once the index and, where there is a root, its
  marker have shown that the volume is this driver's.
\<close>

section \<open>What the server was asked and has answered\<close>

definition requestsPath :: "env \<Rightarrow> drive9Credentials \<Rightarrow> string \<Rightarrow> string \<Rightarrow> url \<Rightarrow> bool" where
  "requestsPath E c p query u \<longleftrightarrow> (\<exists>encoded base. encodeDrive9FSPath p = Inr encoded \<and> e_ParseURL E (cred_Server c) = Some base
     \<and> u = base\<lparr>url_Path := TrimRight (url_Path base) ''/'' @ encoded, url_RawQuery := query\<rparr>)"

fun isDelete :: "event \<Rightarrow> bool" where
  "isDelete (EvHTTP m u key body a) = (m = ''DELETE'')"
| "isDelete e = False"

definition sawMarker :: "env \<Rightarrow> drive9Credentials \<Rightarrow> string \<Rightarrow> volumeMarker option \<Rightarrow> event list \<Rightarrow> bool" where
  "sawMarker E c p found h \<longleftrightarrow> (\<exists>u. requestsPath E c p [] u \<and> (case found of
      None \<Rightarrow> \<exists>x. EvHTTP ''GET'' u (cred_APIKey c) [] (Response 404 x) \<in> set h
    | Some marker \<Rightarrow> \<exists>code body. code < 300 \<and> EvHTTP ''GET'' u (cred_APIKey c) [] (Response code (Inr body)) \<in> set h
        \<and> decodeMarker E (take 65536 body) = Inr marker))"

definition sawAbsent :: "env \<Rightarrow> drive9Credentials \<Rightarrow> string \<Rightarrow> event list \<Rightarrow> bool" where
  "sawAbsent E c p h \<longleftrightarrow> (\<exists>u x. requestsPath E c p [] u \<and> EvHTTP ''HEAD'' u (cred_APIKey c) [] (Response 404 x) \<in> set h)"

fun deletesPath :: "env \<Rightarrow> drive9Credentials \<Rightarrow> string \<Rightarrow> event \<Rightarrow> bool" where
  "deletesPath E c p (EvHTTP m u key body a) \<longleftrightarrow> m = ''DELETE'' \<and> key = cred_APIKey c \<and> requestsPath E c p ''recursive=1'' u"
| "deletesPath E c p e \<longleftrightarrow> False"

text \<open>The deletion was answered: the path is gone.\<close>

definition pathDeleted :: "env \<Rightarrow> drive9Credentials \<Rightarrow> string \<Rightarrow> event list \<Rightarrow> bool" where
  "pathDeleted E c p h \<longleftrightarrow> (\<exists>u body code x. EvHTTP ''DELETE'' u (cred_APIKey c) body (Response code x) \<in> set h
     \<and> requestsPath E c p ''recursive=1'' u \<and> (code = 404 \<or> code < 300))"

section \<open>The requests\<close>

lemma emits_drive9_request:
  "emits (drive9_request E c m p query body) (\<lambda>r n.
     (\<forall>e. r = Inl e \<longrightarrow> status_of e \<noteq> NotFound) \<and>
     (n = [] \<and> isl r \<or> (\<exists>u a. requestsPath E c p query u \<and> n = [EvHTTP m u (cred_APIKey c) body a] \<and>
        (\<forall>code x. r = Inr (code, x) \<longrightarrow> a = Response code x))))"
  unfolding drive9_request_def host_defs
  by (intro emits_wp) (auto simp: requestsPath_def split: httpAnswer.splits)

lemma grpcHTTPError_NotFound: "status_of (grpcHTTPError code op) = NotFound \<longleftrightarrow> code = 404"
  by (auto simp: grpcHTTPError_def)

lemma decodeMarker_NotFound: "decodeMarker E body = Inl e \<Longrightarrow> status_of e \<noteq> NotFound"
  by (auto simp: decodeMarker_def split: option.splits)

abbreviation "noDelete \<equiv> list_all (\<lambda>e. \<not> isDelete e)"

lemma emits_client_readMarker:
  "emits (client_readMarker E c p) (\<lambda>r n. noDelete n \<and> (\<forall>m. r = Inr m \<longrightarrow> sawMarker E c p (Some m) n)
     \<and> (\<forall>e. r = Inl e \<longrightarrow> status_of e = NotFound \<longrightarrow> sawMarker E c p None n))"
  unfolding client_readMarker_def
  by (intro emits_orReturn [OF emits_drive9_request] emits_wp)
    (auto simp: sawMarker_def grpcHTTPError_NotFound decodeMarker_NotFound split: sum.splits)

lemma emits_client_exists:
  "emits (client_exists E c p) (\<lambda>r n. noDelete n \<and> (r = Inr False \<longrightarrow> sawAbsent E c p n))"
  unfolding client_exists_def
  by (intro emits_orReturn [OF emits_drive9_request] emits_wp)
    (auto simp: sawAbsent_def split: if_splits)

lemma emits_client_removeAll:
  "emits (client_removeAll E c p) (\<lambda>r n. list_all (deletesPath E c p) n \<and> (r = None \<longrightarrow> pathDeleted E c p n))"
  unfolding client_removeAll_def
  by (intro emits_orReturn [OF emits_drive9_request] emits_wp)
    (auto simp: pathDeleted_def fail_if_def split: if_splits)

lemma emits_resolveDeleteCredentials: "emits_only (\<lambda>e. \<not> isDelete e) (resolveDeleteCredentials E v)"
  unfolding resolveDeleteCredentials_def resolveSecretRefFromPV_def resolveVolumeContextFromPV_def
    readCredentialsFromSecret_def host_defs
  by (intro emits_intro) simp_all

section \<open>What a deletion removes\<close>

definition metadataPaths :: "string \<Rightarrow> volumeMarker \<Rightarrow> string set" where
  "metadataPaths v marker = {indexPath v, markerPath (vm_RemoteRoot marker)}
     \<union> (if vm_Name marker = [] then {} else {nameIndexPath (vm_Name marker)})"

definition onlyMetadata :: "env \<Rightarrow> drive9Credentials \<Rightarrow> string \<Rightarrow> volumeMarker \<Rightarrow> event list \<Rightarrow> bool" where
  "onlyMetadata E c v marker n \<longleftrightarrow> list_all (\<lambda>e. \<exists>p\<in>metadataPaths v marker. deletesPath E c p e) n"

text \<open>The root is gone, or its marker is gone, or it names this volume.\<close>

definition rootChecked :: "env \<Rightarrow> Config \<Rightarrow> drive9Credentials \<Rightarrow> string \<Rightarrow> volumeMarker \<Rightarrow> event list \<Rightarrow> bool" where
  "rootChecked E cfg c v marker h \<longleftrightarrow>
     sawAbsent E c (vm_RemoteRoot marker) h \<or> sawMarker E c (markerPath (vm_RemoteRoot marker)) None h \<or>
     (\<exists>m. sawMarker E c (markerPath (vm_RemoteRoot marker)) (Some m) h \<and> vm_VolumeID m = v
        \<and> vm_RemoteRoot m = vm_RemoteRoot marker \<and> vm_Driver m = cfg_DriverName cfg \<and> vm_Name m = vm_Name marker)"

definition indexChecked :: "env \<Rightarrow> Config \<Rightarrow> drive9Credentials \<Rightarrow> string \<Rightarrow> volumeMarker \<Rightarrow> event list \<Rightarrow> bool" where
  "indexChecked E cfg c v marker h \<longleftrightarrow> sawMarker E c (indexPath v) (Some marker) h \<and> vm_VolumeID marker = v
     \<and> vm_Driver marker = cfg_DriverName cfg \<and> validateSafeDeleteRoot (vm_RemoteRoot marker) = None"

lemma onlyMetadata_simps [simp]: "onlyMetadata E c v marker []"
  "onlyMetadata E c v marker (n2 @ n1) \<longleftrightarrow> onlyMetadata E c v marker n2 \<and> onlyMetadata E c v marker n1"
  by (simp_all add: onlyMetadata_def)

lemma onlyMetadata_path: "p \<in> metadataPaths v marker \<Longrightarrow> list_all (deletesPath E c p) n \<Longrightarrow> onlyMetadata E c v marker n"
  by (auto simp: onlyMetadata_def list_all_iff)

lemma pathDeleted_append: "pathDeleted E c p h \<Longrightarrow> pathDeleted E c p (n2 @ h @ n1)"
  by (auto simp: pathDeleted_def)

lemma metadataPaths_members: "indexPath v \<in> metadataPaths v marker" "markerPath (vm_RemoteRoot marker) \<in> metadataPaths v marker"
  "vm_Name marker \<noteq> [] \<Longrightarrow> nameIndexPath (vm_Name marker) \<in> metadataPaths v marker"
  by (simp_all add: metadataPaths_def)

lemma emits_removeIndexes:
  "emits (removeIndexes E c v marker) (\<lambda>r n. onlyMetadata E c v marker n \<and> (r = None \<longrightarrow> pathDeleted E c (indexPath v) n))"
proof -
  have name: "emits (if vm_Name marker \<noteq> [] then client_removeAll E c (nameIndexPath (vm_Name marker)) else State_Monad.return None)
      (\<lambda>r n. onlyMetadata E c v marker n)"
    by (intro emits_wp_if emits_return emits_conseq [OF emits_client_removeAll])
      (auto intro: onlyMetadata_path metadataPaths_members)
  show ?thesis
    unfolding removeIndexes_def
    by (intro emits_unlessErr [OF name] emits_conseq [OF emits_client_removeAll])
      (use pathDeleted_append [of E c "indexPath v" _ "[]"] in \<open>auto intro: onlyMetadata_path metadataPaths_members\<close>)
qed

text \<open>Nothing is deleted, or what has been seen before allows it.\<close>

definition detachRun :: "env \<Rightarrow> Config \<Rightarrow> drive9Credentials \<Rightarrow> string \<Rightarrow> volumeMarker \<Rightarrow> error option \<Rightarrow> event list \<Rightarrow> bool" where
  "detachRun E cfg c v marker r n \<longleftrightarrow> (noDelete n \<and> r \<noteq> None) \<or>
     (\<exists>after before'. n = after @ before' \<and> noDelete before' \<and> rootChecked E cfg c v marker before'
        \<and> onlyMetadata E c v marker after \<and> (r = None \<longrightarrow> pathDeleted E c (indexPath v) after))"

lemma detachRunI:
  "noDelete before' \<Longrightarrow> rootChecked E cfg c v marker before' \<Longrightarrow> onlyMetadata E c v marker after \<Longrightarrow>
   (r = None \<longrightarrow> pathDeleted E c (indexPath v) after) \<Longrightarrow> detachRun E cfg c v marker r (after @ before')"
  unfolding detachRun_def by blast

lemma sawMarker_append: "sawMarker E c p found h \<Longrightarrow> sawMarker E c p found (n2 @ h @ n1)"
  by (auto simp: sawMarker_def split: option.splits) blast+

lemma sawMarker_more: "sawMarker E c p found h \<Longrightarrow> sawMarker E c p found (h @ n)"
  using sawMarker_append [of E c p found h "[]" n] by simp

lemma emits_detachVolume:
  assumes "vm_Driver marker = cfg_DriverName cfg"
  shows "emits (detachVolume E cfg c v marker) (detachRun E cfg c v marker)"
proof -
  have indexes: "emits (removeIndexes E c v marker) (\<lambda>r n. detachRun E cfg c v marker r (n @ before'))"
    if "noDelete before'" "rootChecked E cfg c v marker before'" for before'
    using that by (intro emits_conseq [OF emits_removeIndexes] detachRunI) auto
  have all: "emits (unlessErr (removeIndexes E c v marker) Some (do {
         client_removeAll E c (markerPath (vm_RemoteRoot marker));
         State_Monad.return None })) (\<lambda>r n. detachRun E cfg c v marker r (n @ before'))"
    if "noDelete before'" "rootChecked E cfg c v marker before'" for before'
  proof (intro emits_unlessErr [OF emits_removeIndexes] emits_bind_pre [OF emits_client_removeAll] emits_return, goal_cases)
    case (1 e n)
    then show ?case using that by (intro detachRunI) auto
  next
    case (2 n r n2)
    then have "onlyMetadata E c v marker (n2 @ n)" "pathDeleted E c (indexPath v) (n2 @ n)"
      using pathDeleted_append [of E c "indexPath v" n n2 "[]"] by (auto intro: onlyMetadata_path metadataPaths_members)
    then show ?case using that detachRunI [of before' E cfg c v marker "n2 @ n" None] by simp
  qed
  show ?thesis
    unfolding detachVolume_def Let_def
  proof (intro emits_orReturn [OF emits_client_exists] emits_wp_if emits_bind_pre [OF emits_client_readMarker], goal_cases)
    case (1 e n)
    then show ?case by (simp add: detachRun_def)
  next
    case (2 present n)
    then show ?case by (intro indexes) (auto simp: rootChecked_def)
  next
    case (3 present n r n2)
    then have quiet: "noDelete (n2 @ n)" by simp
    show ?case
    proof (cases r)
      case (Inl e)
      then show ?thesis
        using 3 all [of "n2 @ n"] sawMarker_more [of E c _ _ n2 n]
        by (cases "status_of e = NotFound") (auto simp: unlessErr_def rootChecked_def detachRun_def intro!: emits_return)
    next
      case (Inr m)
      then show ?thesis
        using 3 all [of "n2 @ n"] sawMarker_more [of E c _ _ n2 n] assms
        by (auto simp: unlessErr_def rootChecked_def detachRun_def fail_if_def intro!: emits_return)
    qed
  qed
qed

definition deleteRun :: "env \<Rightarrow> Config \<Rightarrow> string \<Rightarrow> error option \<Rightarrow> event list \<Rightarrow> bool" where
  "deleteRun E cfg v r n \<longleftrightarrow>
     (noDelete n \<and> (r = None \<longrightarrow> isWorkspaceRootVolumeID v \<or> (\<exists>c. sawMarker E c (indexPath v) None n))) \<or>
     (\<exists>c marker after before'. n = after @ before' \<and> noDelete before' \<and> indexChecked E cfg c v marker before'
        \<and> rootChecked E cfg c v marker before' \<and> onlyMetadata E c v marker after
        \<and> (r = None \<longrightarrow> pathDeleted E c (indexPath v) after))"

lemma rootChecked_append: "rootChecked E cfg c v marker h \<Longrightarrow> rootChecked E cfg c v marker (h @ n)"
  unfolding rootChecked_def sawAbsent_def using sawMarker_more by fastforce

lemma deleteRun_detach:
  assumes "detachRun E cfg c v marker r n" and "noDelete h" and "indexChecked E cfg c v marker h"
  shows "deleteRun E cfg v r (n @ h)"
  using assms(1) unfolding detachRun_def
proof (elim disjE exE conjE)
  assume "noDelete n" "r \<noteq> None"
  then show ?thesis using assms(2) by (auto simp: deleteRun_def)
next
  fix after before'
  assume n: "n = after @ before'" and q: "noDelete before'" and c: "rootChecked E cfg c v marker before'"
    and a: "onlyMetadata E c v marker after" "r = None \<longrightarrow> pathDeleted E c (indexPath v) after"
  have "indexChecked E cfg c v marker (before' @ h)"
    using assms(3) sawMarker_append [of E c "indexPath v" "Some marker" h before' "[]"] by (simp add: indexChecked_def)
  then have "n @ h = after @ (before' @ h) \<and> noDelete (before' @ h) \<and> indexChecked E cfg c v marker (before' @ h)
      \<and> rootChecked E cfg c v marker (before' @ h) \<and> onlyMetadata E c v marker after
      \<and> (r = None \<longrightarrow> pathDeleted E c (indexPath v) after)"
    using n q a assms(2) rootChecked_append [OF c] by simp
  then show ?thesis unfolding deleteRun_def by blast
qed

lemma emits_DeleteVolume: "emits (DeleteVolume E cfg requestVolumeID) (deleteRun E cfg (TrimSpace requestVolumeID))"
  unfolding DeleteVolume_def Let_def
proof (intro emits_wp_if emits_return emits_orReturn [OF emits_list_all [OF emits_resolveDeleteCredentials]]
    emits_orReturn [OF emits_client_readMarker] emits_ifNil, goal_cases)
  case (4 c n e n2)
  then show ?case using sawMarker_more [of E c _ None n2 n] by (auto simp: deleteRun_def)
next
  case (7 c n marker n2)
  then have "noDelete (n2 @ n)" "indexChecked E cfg c (TrimSpace requestVolumeID) marker (n2 @ n)"
    using sawMarker_more by (auto simp: indexChecked_def)
  from deleteRun_detach [OF _ this] 7 show ?case
    by (intro emits_conseq [OF emits_detachVolume]) auto
qed (auto simp: deleteRun_def)

text \<open>
  C10: Deleting a volume never deletes its data. Every deletion that \<open>DeleteVolume\<close> asks the server for
  names an index file of the volume or the marker of its root, and the first one comes only after the
  index was read and names this volume, this driver and a safe root, and after the root was seen to be
  absent, its marker to be absent, or its marker to name the same volume, driver, root and name. When
  the call succeeds, the index file is gone, or was not there, or the volume is a workspace root, of
  which nothing is deleted.
\<close>

theorem delete_keeps_data:
  assumes "run_state (DeleteVolume E cfg requestVolumeID) tr = (r, n @ tr)" and "v = TrimSpace requestVolumeID"
  shows "(noDelete n \<and> (r = None \<longrightarrow> isWorkspaceRootVolumeID v \<or> (\<exists>c. sawMarker E c (indexPath v) None n))) \<or>
     (\<exists>c marker after before'. n = after @ before' \<and> noDelete before' \<and> indexChecked E cfg c v marker before'
        \<and> rootChecked E cfg c v marker before' \<and> onlyMetadata E c v marker after
        \<and> (r = None \<longrightarrow> pathDeleted E c (indexPath v) after))"
  using emits_ran [OF emits_DeleteVolume assms(1)] unfolding assms(2) deleteRun_def .

text \<open>A volume whose root is gone: the index file is deleted.\<close>

definition exDeleteID :: string where "exDeleteID = ''drive9-0123456789abcdef0123456789abcdef''"

definition exIndexMarker :: volumeMarker where
  "exIndexMarker = \<lparr>vm_Version = 1, vm_Driver = ''csi.drive9.ai'', vm_VolumeID = exDeleteID, vm_Name = [],
     vm_RemoteRoot = ''/k8s/a'', vm_CreatedAt = []\<rparr>"

definition exServer :: url where
  "exServer = \<lparr>url_Scheme = ''https'', url_HasUser = False, url_Host = ''drive9'', url_Path = [], url_RawPath = [],
     url_RawQuery = [], url_Fragment = []\<rparr>"

definition exDeleteHost :: env where
  "exDeleteHost = (calmHost (\<lambda>s. []) (\<lambda>b. None))
     \<lparr>e_ListPVs := \<lambda>tr. Inr [\<lparr>pv_Name = ''pv'', pv_CSI = Some \<lparr>csi_Driver = ''csi.drive9.ai'', csi_VolumeHandle = exDeleteID,
        csi_VolumeAttributes = [(''secretName'', ''s''), (''secretNamespace'', ''ns'')]\<rparr>, pv_AccessModes = []\<rparr>],
      e_GetSecret := \<lambda>tr ns name. Inr [(''server'', ''https://drive9''), (''apiKey'', ''k'')],
      e_ParseURL := \<lambda>s. Some exServer, e_URLString := \<lambda>u. ''https://drive9'',
      e_HTTP := \<lambda>tr m u key body. if m = ''HEAD'' then Response 404 (Inr []) else Response 200 (Inr []),
      e_DecodeMarker := \<lambda>body. Some exIndexMarker\<rparr>"

definition exDeleteConfig :: Config where
  "exDeleteConfig = \<lparr>cfg_Endpoint = [], cfg_NodeID = [], cfg_DriverName = ''csi.drive9.ai'', cfg_Version = [], cfg_StateDir = [],
     cfg_Drive9Binary = [], cfg_RecoverNodeMounts = [], cfg_ServiceMode = []\<rparr>"

lemma exDelete_parts:
  "TrimSpace exDeleteID = exDeleteID" "exDeleteID \<noteq> []" "\<not> isWorkspaceRootVolumeID exDeleteID"
  "validateSafeDeleteRoot ''/k8s/a'' = None"
  "encodeDrive9FSPath ''/k8s/a'' = Inr ''/v1/fs/k8s/a''"
  by code_simp+

lemma exDelete_index: "encodeDrive9FSPath (indexPath exDeleteID) = Inr ''/v1/fs/k8s/.drive9-csi/volumes/drive9-0123456789abcdef0123456789abcdef.json''"
  by code_simp

lemma exDeleteHost_ops:
  "e_ListPVs exDeleteHost h = Inr [\<lparr>pv_Name = ''pv'', pv_CSI = Some \<lparr>csi_Driver = ''csi.drive9.ai'', csi_VolumeHandle = exDeleteID,
     csi_VolumeAttributes = [(''secretName'', ''s''), (''secretNamespace'', ''ns'')]\<rparr>, pv_AccessModes = []\<rparr>]"
  "e_GetSecret exDeleteHost h ns name = Inr [(''server'', ''https://drive9''), (''apiKey'', ''k'')]"
  "e_ParseURL exDeleteHost x = Some exServer"
  "e_HTTP exDeleteHost h m u key body = (if m = ''HEAD'' then Response 404 (Inr []) else Response 200 (Inr []))"
  "e_DecodeMarker exDeleteHost x = Some exIndexMarker"
  by (simp_all add: exDeleteHost_def)

lemma exDelete_run:
  "\<exists>n. run_state (DeleteVolume exDeleteHost exDeleteConfig exDeleteID) [] = (None, n @ []) \<and> \<not> noDelete n"
proof -
  have credentials: "credentialsFromK8sSecret exDeleteHost [(''server'', ''https://drive9''), (''apiKey'', ''k'')] =
      Inr \<lparr>cred_Server = ''https://drive9'', cred_APIKey = ''k''\<rparr>"
    by code_simp
  have trimmed: "TrimSpace ''s'' = ''s''" "TrimSpace ''ns'' = ''ns''" by code_simp+
  have resolved: "run_state (resolveDeleteCredentials exDeleteHost exDeleteID) [] = (Inr \<lparr>cred_Server = ''https://drive9'', cred_APIKey = ''k''\<rparr>,
      [EvGetSecret ''ns'' ''s'' (e_GetSecret exDeleteHost [] ''ns'' ''s''), EvListPVs (e_ListPVs exDeleteHost [])])"
    using credentials trimmed
    by (simp add: resolveDeleteCredentials_def resolveSecretRefFromPV_def resolveVolumeContextFromPV_def readCredentialsFromSecret_def
        host_defs run_simps Let_def exDeleteHost_ops csiHandle_def attrSecretName_def attrSecretNamespace_def mapGet_def)
  show ?thesis
    using exDelete_parts exDelete_index resolved
    by (simp add: DeleteVolume_def Let_def run_simps client_readMarker_def drive9_request_def host_defs
        detachVolume_def client_exists_def removeIndexes_def client_removeAll_def decodeMarker_def exIndexMarker_def
        exDeleteConfig_def exDeleteHost_ops exServer_def fail_if_def)
qed

theorem delete_keeps_data_witness:
  "\<exists>n c marker after before'. run_state (DeleteVolume exDeleteHost exDeleteConfig exDeleteID) [] = (None, n @ [])
     \<and> n = after @ before' \<and> noDelete before' \<and> indexChecked exDeleteHost exDeleteConfig c exDeleteID marker before'
     \<and> onlyMetadata exDeleteHost c exDeleteID marker after \<and> pathDeleted exDeleteHost c (indexPath exDeleteID) after"
proof -
  obtain n where run: "run_state (DeleteVolume exDeleteHost exDeleteConfig exDeleteID) [] = (None, n @ [])" "\<not> noDelete n"
    using exDelete_run by blast
  from delete_keeps_data [OF run(1) exDelete_parts(1) [symmetric]] run show ?thesis by blast
qed

end
