(* ===== verification/UnstageSafety.thy ===== *)
theory UnstageSafety
  imports NodeStage PublishSafety
begin

text \<open>
  What \<open>NodeUnstageVolume\<close> does: it acts only on the recorded mount of the volume at the target, only
  once no publish state consumes it, and it succeeds only when everything of the mount is gone.
\<close>

section \<open>The consumers of a stage\<close>

definition entryFree :: "env \<Rightarrow> string \<Rightarrow> string \<Rightarrow> string \<Rightarrow> dirEntry \<Rightarrow> event list \<Rightarrow> bool" where
  "entryFree E dir v s entry h \<longleftrightarrow> (let p = path_Join [dir, de_name entry] in
     (\<exists>e. EvReadFile p (Inl e) \<in> set h \<and> errors_Is e ErrNotExist) \<or>
     (\<exists>body st. EvReadFile p (Inr body) \<in> set h \<and> decodePublishState E body = Inr st \<and> \<not> consumes v s st))"

text \<open>The state directory was listed, and every publish state in it read: none is of this stage.\<close>

definition noConsumers :: "env \<Rightarrow> string \<Rightarrow> string \<Rightarrow> string \<Rightarrow> event list \<Rightarrow> bool" where
  "noConsumers E dir v s h \<longleftrightarrow>
     (\<exists>e. EvReadDir dir (Inl e) \<in> set h \<and> errors_Is e ErrNotExist) \<or>
     (\<exists>entries. EvReadDir dir (Inr entries) \<in> set h
        \<and> (\<forall>entry\<in>set entries. publishStateEntry entry \<longrightarrow> entryFree E dir v s entry h))"

lemma entryFree_append: "entryFree E dir v s entry h \<Longrightarrow> entryFree E dir v s entry (n2 @ h @ n1)"
  by (auto simp: entryFree_def Let_def)

lemma noConsumers_append: "noConsumers E dir v s h \<Longrightarrow> noConsumers E dir v s (n2 @ h @ n1)"
  unfolding noConsumers_def using entryFree_append by fastforce

lemma noConsumers_listed:
  "\<forall>entry\<in>set entries. publishStateEntry entry \<longrightarrow> entryFree E dir v s entry n \<Longrightarrow>
   noConsumers E dir v s (n @ [EvReadDir dir (Inr entries)])"
  unfolding noConsumers_def
  by (rule disjI2, rule exI [of _ entries]) (use entryFree_append [of E dir v s _ n "[]"] in auto)

lemma noConsumers_missing: "errors_Is e ErrNotExist \<Longrightarrow> noConsumers E dir v s [EvReadDir dir (Inl e)]"
  by (auto simp: noConsumers_def)

lemma emits_scan_free:
  "emits (scanPublishStates E dir v s entries) (\<lambda>r n. list_all hostObservation n
     \<and> (r = Inr [] \<longrightarrow> (\<forall>entry\<in>set entries. publishStateEntry entry \<longrightarrow> entryFree E dir v s entry n)))"
proof (induction entries)
  case (Cons entry entries)
  have more: "entryFree E dir v s x n \<Longrightarrow> entryFree E dir v s x (n @ m)" for x n m
    using entryFree_append [of E dir v s x n "[]" m] by simp
  show ?case
    unfolding scanPublishStates.simps host_defs
    by (intro emits_wp emits_orReturn [OF Cons] emits_conseq [OF Cons])
      (auto simp: entryFree_def Let_def intro: more split: if_splits)
qed (auto intro: emits_return)

lemma emits_noConsumers:
  "emits (hasActivePublishTargets E dir v s) (\<lambda>r n. list_all hostObservation n \<and> (r = Inr [] \<longrightarrow> noConsumers E dir v s n))"
  unfolding hasActivePublishTargets_def host_defs
  by (intro emits_wp emits_conseq [OF emits_scan_free]) (auto intro: noConsumers_listed noConsumers_missing)

section \<open>The stop of the recorded mount\<close>

text \<open>Everything of the mount of \<open>state\<close> was seen gone, and its record was deleted after that.\<close>

definition mountGone :: "env \<Rightarrow> string \<Rightarrow> mountState \<Rightarrow> event list \<Rightarrow> bool" where
  "mountGone E dir state n \<longleftrightarrow> (\<exists>stopping owned. mountIdentity stopping = mountIdentity state
     \<and> (owned = stopping \<or> (\<exists>v. owned = copyVerifiedProcessIdentity stopping v \<and> ownedProcess stopping v n))
     \<and> cleanedUp (\<lambda>s. deleted E (newMountStateStore dir) s None) stopping owned n)"

lemma mountGone_earlier: "mountGone E dir state n \<Longrightarrow> mountGone E dir state (n @ n1)"
  unfolding mountGone_def using cleanedUp_append ownedProcess_append by blast

lemma mountGone_reconciled:
  "node_store.stopReconciled E dir stopping r n \<Longrightarrow> fst r = mountStopCleaned \<Longrightarrow>
   mountIdentity stopping = mountIdentity state \<Longrightarrow> mountGone E dir state n"
  unfolding mountGone_def node_store.stopReconciled_def by blast

lemma emits_stopRecorded:
  "emits (stopRecorded E (mountStateStore E (newMountStateStore dir)) state active starting)
     (\<lambda>r n. fst r = mountStopCleaned \<longrightarrow> mountGone E dir state n)"
proof -
  have stop: "emits (Stop E (mountStateStore E (newMountStateStore dir)) \<lparr>stop_State = state, stop_PublishConsumers = 0, stop_Intent = intent\<rparr>)
      (\<lambda>r n. fst r = mountStopCleaned \<longrightarrow> mountGone E dir state n)" for intent
    by (rule emits_conseq [OF node_store.emits_Stop])
      (auto simp: node_store.stopRun_def stopIntended_def intro: mountGone_earlier mountGone_reconciled)
  have reconcile: "emits (Stop_Reconcile E (mountStateStore E (newMountStateStore dir)) state)
      (\<lambda>r n. fst r = mountStopCleaned \<longrightarrow> mountGone E dir state n)"
    by (rule emits_conseq [OF node_store.emits_Stop_Reconcile]) (auto intro: mountGone_reconciled)
  show ?thesis
    unfolding stopRecorded_def
    by (cases "Phase state") (auto intro: stop reconcile emits_return)
qed

section \<open>Unstaging\<close>

definition recordFound :: "env \<Rightarrow> string \<Rightarrow> string \<Rightarrow> mountState option \<Rightarrow> event list \<Rightarrow> bool" where
  "recordFound E dir v found h \<longleftrightarrow> (\<exists>p. statePath (newMountStateStore dir) v = Inr p \<and> sawState E p found h)"

lemma recordFound_append: "recordFound E dir v found h \<Longrightarrow> recordFound E dir v found (n2 @ h @ n1)"
  unfolding recordFound_def using sawState_append by blast

lemma emits_readMountState:
  "emits (readMountState E d v) (\<lambda>r n. list_all hostObservation n
     \<and> (\<forall>s. r = Inr s \<longrightarrow> VolumeID s = v \<and> recordFound E (cfg_StateDir (d_cfg d)) v (Some s) n)
     \<and> (\<forall>e. r = Inl e \<longrightarrow> errors_Is e ErrNotExist \<longrightarrow> recordFound E (cfg_StateDir (d_cfg d)) v None n))"
  unfolding readMountState_def store_Read_def host_defs
  by (intro emits_wp)
    (auto simp: recordFound_def sawState_def statePath_def plainError_def dest: decodeMountState_plain split: if_splits)

text \<open>What allows a stop: no consumers, and the record of this volume at this target.\<close>

definition unstageAllowed :: "env \<Rightarrow> string \<Rightarrow> string \<Rightarrow> string \<Rightarrow> mountState \<Rightarrow> event list \<Rightarrow> bool" where
  "unstageAllowed E dir v target state h \<longleftrightarrow> noConsumers E dir v target h \<and> recordFound E dir v (Some state) h
     \<and> VolumeID state = v \<and> Clean (StagingTarget state) = Clean target"

definition unstageRun :: "env \<Rightarrow> string \<Rightarrow> string \<Rightarrow> string \<Rightarrow> error option \<Rightarrow> event list \<Rightarrow> bool" where
  "unstageRun E dir v target r n \<longleftrightarrow>
     (list_all hostObservation n \<and> (r = None \<longrightarrow> noConsumers E dir v target n \<and> recordFound E dir v None n
        \<and> EvIsMountPoint target (Inr False) \<in> set n)) \<or>
     (\<exists>after before' state. n = after @ before' \<and> list_all hostObservation before'
        \<and> unstageAllowed E dir v target state before' \<and> (r = None \<longrightarrow> mountGone E dir state after))"

lemma unstageRun_observed: "list_all hostObservation n \<Longrightarrow> r \<noteq> None \<Longrightarrow> unstageRun E dir v target r n"
  by (auto simp: unstageRun_def)

lemma unstageRun_unrecorded:
  assumes "list_all hostObservation n" "noConsumers E dir v target n" "list_all hostObservation n1" "recordFound E dir v None n1"
  shows "unstageRun E dir v target (fail_if mounted e) (n1 @ EvIsMountPoint target (Inr mounted) # n)"
  using assms noConsumers_append [OF assms(2), of "n1 @ [EvIsMountPoint target (Inr mounted)]" "[]"]
    recordFound_append [OF assms(4), of "[]"]
  by (auto simp: unstageRun_def fail_if_def)

lemma emits_unstageRecorded:
  assumes "list_all hostObservation h" and "noConsumers E (cfg_StateDir (d_cfg d)) v target h"
    and "recordFound E (cfg_StateDir (d_cfg d)) v (Some state) h" and "VolumeID state = v"
  shows "emits (unstageRecorded E d state v target) (\<lambda>r n. unstageRun E (cfg_StateDir (d_cfg d)) v target r (n @ h))"
  unfolding unstageRecorded_def stateRepository_def
proof (intro emits_wp_if emits_return emits_ifNil emits_bind_pre [OF emits_stopRecorded] emits_wp_prod, goal_cases)
  case (3 r n result err)
  then have "fail_if (err \<noteq> None \<or> result \<noteq> mountStopCleaned) e = None \<Longrightarrow> mountGone E (cfg_StateDir (d_cfg d)) state n"
    for e :: error by (auto simp: fail_if_def split: if_splits)
  moreover have "unstageAllowed E (cfg_StateDir (d_cfg d)) v target state h"
    using 3 assms by (auto simp: unstageAllowed_def mountStateMatches_def)
  ultimately show ?case using assms(1) unfolding unstageRun_def by blast
qed (use assms in \<open>auto intro: unstageRun_observed\<close>)

lemma emits_NodeUnstageVolume:
  assumes "v = TrimSpace requestVolumeID" and "target = TrimSpace requestTarget"
  shows "emits (NodeUnstageVolume E d requestVolumeID requestTarget) (\<lambda>r n.
    (n = [] \<and> r \<noteq> None) \<or> (\<exists>body. n = EvUnlock (''volume '' @ v) # body @ [EvLock (''volume '' @ v)]
       \<and> unstageRun E (cfg_StateDir (d_cfg d)) v target r body))"
  unfolding NodeUnstageVolume_def lockVolume_def Let_def host_defs assms [symmetric]
proof (intro emits_wp_if emits_return emits_withLock emits_orReturn [OF emits_noConsumers] emits_wp_orReturn
    emits_bind_pre [OF emits_readMountState] emits_wp_sum, goal_cases)
  case (8 active n mounted r n2 state)
  let ?h = "n2 @ [EvIsMountPoint target (Inr mounted)] @ n"
  have "list_all hostObservation ?h" "noConsumers E (cfg_StateDir (d_cfg d)) v target ?h"
    "recordFound E (cfg_StateDir (d_cfg d)) v (Some state) ?h" "VolumeID state = v"
    using 8 noConsumers_append [of E "cfg_StateDir (d_cfg d)" v target n "n2 @ [EvIsMountPoint target (Inr mounted)]" "[]"]
      recordFound_append [of E "cfg_StateDir (d_cfg d)" v "Some state" n2 "[]"] by auto
  from emits_unstageRecorded [OF this] show ?case by (rule emits_conseq) simp
qed (auto intro: unstageRun_observed unstageRun_unrecorded)


text \<open>The mount that is gone, with nothing in the state directory but its record.\<close>

lemma exGone_directory: "e_ReadDir exGone tr p = Inr []"
  by (simp add: exGone_def calmHost_def)

lemma exUnstage_run:
  "\<exists>n. run_state (NodeUnstageVolume exGone exDriver exVolume exTarget) [] = (None, n @ []) \<and> renamed n"
proof -
  have stopped: "renamed (exStopEvents @ tr)" "renamed (e # exStopEvents @ tr)" for e tr
    by (simp_all add: renamed_def exStopEvents_def exWrote_def)
  have trimmed: "TrimSpace exVolume = exVolume" "TrimSpace exTarget = exTarget" "exVolume \<noteq> []" "exTarget \<noteq> []" "IsAbs exTarget"
    by code_simp+
  have allowed: "driver_require exDriver nodeOperationUnstage = None" by code_simp
  have quiet: "\<not> renamed (exFile ''a'' @ [EvIsMountPoint exTarget (Inr False), EvReadDir ''/s'' (Inr []), EvLock (''volume '' @ exVolume)])"
    by (simp add: renamed_def exFile_def)
  have stop: "run_state (stopRecorded exGone exStopStore exActive mountStopIntentUnstage mountStopIntentCancelStart) tr =
      ((mountStopCleaned, None), exStopEvents @ tr)" if "\<not> renamed tr" for tr
    using exGone_stop_from [OF that] by (simp add: stopRecorded_def exStop_def)
  have match: "mountStateMatches exActive exVolume [] exTarget" by (simp add: mountStateMatches_def)
  show ?thesis
    using trimmed allowed match stopped stop [OF quiet] exGone_read [of "[EvIsMountPoint exTarget (Inr False), EvReadDir ''/s'' (Inr []), EvLock (''volume '' @ exVolume)]"]
    by (simp add: NodeUnstageVolume_def lockVolume_def Let_def hasActivePublishTargets_def host_defs run_simps exGone_directory
        readMountState_def renamed_def unstageRecorded_def stateRepository_def exStopStore_def fail_if_def)
qed


end
