(* ===== verification/Spec2Isabelle.thy ===== *)
theory Spec2Isabelle
  imports MountInfo Promotion NodeRecovery Launcher Installer HostLinux Service DeleteSafety UnstageSafety
begin

text \<open>
  The Drive9 CSI driver: \<open>src/internal/driver\<close>, \<open>src/cmd/drive9-csi\<close> and \<open>src/cmd/drive9-csi-launcher\<close>.

  The program. The controller plugin creates and deletes volumes, which are directories of a Drive9 server
  with an ownership marker and two index files. The node plugin stages a volume by starting the Drive9 FUSE
  process as a transient systemd unit of the host, publishes it to pods by bind mounts, and undoes both.
  Each staged volume has one durable record (\<open>mountState\<close>, a JSON file), which is written before the host is
  changed and says in which phase the mount is: starting, active or stopping. Whatever crashes, the record
  and what can be observed (\<open>/proc\<close>, the mount table, systemd, the process-state file and control socket of
  Drive9) decide what happens next; what cannot be attributed to the record is left alone. An init container
  installs the binaries under the names of their digests; a launcher on the host turns two startup files
  into the process; unused binaries are collected.

  How it is modelled. Go's strings and byte slices are char lists, errors are values of \<open>error\<close>, \<open>(T, error)\<close>
  is \<open>error + 'a\<close>, and \<open>error\<close> is \<open>error option\<close>. Stateful code is a program in the state monad whose state is
  the history of its operations, newest first; what an operation answers is a function of the history
  (\<open>env\<close> in \<open>HostRuntime\<close>), so every theorem holds for every behaviour of the host, the Kubernetes API and the
  Drive9 server, and for other goroutines, as far as they show in the answers. Early returns are \<open>orReturn\<close>,
  \<open>unlessErr\<close>, \<open>ifNil\<close> and \<open>ifOk\<close>. Handlers of one volume run under its mutex, which is a pair of events.

  The theories, by file of the repository:
  \<^item> \<open>Prelude\<close>, \<open>GoStrings\<close>, \<open>GoPath\<close>, \<open>Sha256\<close>, \<open>GoTime\<close>, \<open>GoDuration\<close>, \<open>GoJson\<close>: errors, the monad and its logic,
    and what the code uses of \<open>strings\<close>, \<open>path\<close>, \<open>crypto/sha256\<close>, \<open>time\<close> and \<open>encoding/json\<close>.
  \<^item> \<open>Paths\<close> (\<open>path.go\<close>), \<open>MountInfo\<close> (\<open>mountinfo.go\<close>), \<open>MountParams\<close> (\<open>mount_ttl.go\<close>, \<open>mount_perf.go\<close>, \<open>mount_policy.go\<close>,
    \<open>mount_tuning.go\<close>, \<open>mount_gvisor.go\<close>, \<open>mutable_parameters.go\<close>), \<open>MountCommand\<close> (\<open>mount_args.go\<close>), \<open>HostNames\<close> and
    \<open>HostProcess\<close> (\<open>host_process.go\<close>), \<open>MountState\<close> and \<open>StateStore\<close> (\<open>mount_state.go\<close>).
  \<^item> \<open>HostRuntime\<close> is the \<open>hostRuntime\<close> interface as events; \<open>HostLinux\<close> the implementation of production over the
    system calls (\<open>host_runtime.go\<close>, \<open>mount_linux.go\<close>); \<open>Systemd\<close> (\<open>systemd.go\<close>), \<open>RuntimeArtifacts\<close>, \<open>MountStop\<close>
    (\<open>mount_stop.go\<close>), \<open>NodePreflight\<close>, \<open>MountLaunch\<close> and \<open>StartingReconcile\<close> (\<open>mount_lifecycle.go\<close>,
    \<open>mount_reconcile_starting.go\<close>), \<open>ActiveRecovery\<close>, \<open>NoState\<close>, \<open>NodeRecovery\<close>, \<open>BinaryGC\<close>.
  \<^item> \<open>PublishState\<close>, \<open>NodePublish\<close>, \<open>NodeStage\<close>, \<open>Controller\<close>, \<open>Service\<close> (\<open>driver.go\<close>, \<open>node_state_first.go\<close>), \<open>Drive9Client\<close>
    (\<open>drive9_client.go\<close>, \<open>k8s_secret.go\<close>), \<open>Installer\<close> (\<open>install_host_binaries.go\<close>), \<open>Launcher\<close> (the launcher command).
  \<^item> Proofs that span components: \<open>Lifecycles\<close>, \<open>LaunchSafety\<close>, \<open>LaunchRecord\<close>, \<open>Promotion\<close>, \<open>PublishSafety\<close>,
    \<open>UnstageSafety\<close>, \<open>DeleteSafety\<close>, \<open>NodeProperties\<close>.

  The interfaces. \<open>record_lifecycle\<close> and \<open>terminating_lifecycle\<close> state what a guarded write keeps, and are
  interpreted on the mount state and the publish state. \<open>mount_state_repository\<close> is what a stop may assume of
  the store, and is interpreted on the files of \<open>mount_state.go\<close>. \<open>invariant_system\<close> and \<open>bounded_system\<close> are
  interpreted on the goroutines of the shutdown.

  What the groups of lemmas show. The \<open>emits\<close> logic (\<open>Prelude\<close>, \<open>HostRuntime\<close>) gives, for each program, what it
  returns together with the events it adds; \<open>emits_wp\<close> steps through a program, \<open>emits_only\<close> says which kinds of
  events occur, \<open>guarded\<close> that each event is allowed by the earlier ones. \<open>yields\<close>, \<open>does\<close> and \<open>run_simps\<close> run
  programs, for the witnesses. With these: a launch writes the record first, and promotes a mount only when the
  process, the unit and the mount were seen to belong to it; a launch returns by its deadline; a stop signals
  only the owned process and reports success only for what is gone; the state file is replaced atomically and
  its contents follow the life cycle; a bind mount is preceded and followed by its durable publish state;
  unpublishing removes the record last; unstaging needs a stage that nothing consumes; deletion keeps the data;
  the collector keeps every binary that a record or the desired link names; the installer moves the desired
  link last; the launcher executes exactly what a launch has written; the shutdown ends.

  Bounds. \<open>waitReady\<close> takes fuel, and \<open>None\<close> is a run that used it up: \<open>launch_returns\<close> shows that 361 polls and
  two rounds of reconciling are enough when the clock advances by the waited time. The other loops are bounded
  in the code and so in the model (20 looks for a dead process or a collected unit). \<open>writeFull\<close> and the parsers
  recurse on their input.

  What is a parameter: the answers of the environment; the JSON decoders of the records (with strictness where
  the code asks for it), \<open>net/url\<close>, \<open>debug/elf\<close>, \<open>net.Listen\<close> and the gRPC server. A hypothesis states documented
  behaviour only: that the clock is steady, and that \<open>Stop\<close> and \<open>GracefulStop\<close> let the calls of the server return.

  Not modelled. \<open>cmd/drive9-csi/main.go\<close> and \<open>verify_host_binary.go\<close> (flags and construction of clients),
  \<open>hack/check-manifests.go\<close> (a tool over rendered YAML files, not part of the driver), the stubs for other
  platforms, logging, and the texts of error messages where nothing depends on them. Handlers of different
  volumes that interleave are seen only through the answers of the environment.
\<close>

end
